(* ===== verification/Prelude.thy ===== *)
theory Prelude
  imports Main "HOL-Library.Word"
begin

text \<open>
  What every theory of the development shares.

  \<^item> The error values a JavaScript statement can throw and the byte strings the program moves.
  \<^item> A small embedding of JavaScript statements. A statement is a function of the state of the
    object it runs on; it returns the new state, the calls it made to code outside that object, in
    order, and the error it threw, if it threw one. State changes and calls made before a throw
    stay, as they do in JavaScript.
  \<^item> \<open>preserves\<close>: the statement keeps an invariant of the state, whether or not it throws, with
    one rule per statement form, collected in \<open>preserves_rules\<close>.
  \<^item> Runs of a step function over a list of events, and their invariants.
\<close>

type_synonym byte = "8 word"
type_synonym bytes = "byte list"

text \<open>
  Errors. \<open>TypeError\<close> and \<open>JsError\<close> carry the message of the code's own \<^verbatim>\<open>new TypeError(..)\<close>
  and \<^verbatim>\<open>new Error(..)\<close>; \<open>DOMException\<close> is thrown by the platform's base64 functions;
  \<open>External\<close> stands for any error thrown by code that is not under src/ (a decoder, a merge, a
  transport). \<open>OutOfFuel\<close> is no error of the program: it marks a loop that was cut off by its
  fuel, and theorems show that it never comes out.
\<close>

datatype js_error =
    TypeError string
  | JsError string
  | DOMException string
  | External nat
  | OutOfFuel

subsection \<open>Statements\<close>

type_synonym ('s, 'e) outcome = "'s \<times> 'e list \<times> js_error option"
type_synonym ('s, 'e) act = "'s \<Rightarrow> ('s, 'e) outcome"

abbreviation post :: "('s, 'e) outcome \<Rightarrow> 's" where
  "post r \<equiv> fst r"

abbreviation calls :: "('s, 'e) outcome \<Rightarrow> 'e list" where
  "calls r \<equiv> fst (snd r)"

abbreviation thrown :: "('s, 'e) outcome \<Rightarrow> js_error option" where
  "thrown r \<equiv> snd (snd r)"

definition skip :: "('s, 'e) act" where
  "skip s = (s, [], None)"

definition modify :: "('s \<Rightarrow> 's) \<Rightarrow> ('s, 'e) act" where
  "modify f s = (f s, [], None)"

definition call :: "'e \<Rightarrow> ('s, 'e) act" where
  "call e s = (s, [e], None)"

definition throw :: "js_error \<Rightarrow> ('s, 'e) act" where
  "throw x s = (s, [], Some x)"

definition andThen :: "('s, 'e) act \<Rightarrow> ('s, 'e) act \<Rightarrow> ('s, 'e) act" where
  "andThen a b s =
     (case a s of (s1, es1, Some x) \<Rightarrow> (s1, es1, Some x)
      | (s1, es1, None) \<Rightarrow> (case b s1 of (s2, es2, x2) \<Rightarrow> (s2, es1 @ es2, x2)))"

text \<open>A block of statements, run in order until one throws.\<close>

primrec block :: "('s, 'e) act list \<Rightarrow> ('s, 'e) act" where
  "block [] = skip"
| "block (a # as) = andThen a (block as)"

definition ifA :: "('s \<Rightarrow> bool) \<Rightarrow> ('s, 'e) act \<Rightarrow> ('s, 'e) act \<Rightarrow> ('s, 'e) act" where
  "ifA P a b s = (if P s then a s else b s)"

definition whenA :: "('s \<Rightarrow> bool) \<Rightarrow> ('s, 'e) act \<Rightarrow> ('s, 'e) act" where
  "whenA P a = ifA P a skip"

text \<open>\<^verbatim>\<open>for (const x of xs) body(x)\<close>\<close>

primrec forA :: "'x list \<Rightarrow> ('x \<Rightarrow> ('s, 'e) act) \<Rightarrow> ('s, 'e) act" where
  "forA [] f = skip"
| "forA (x # xs) f = andThen (f x) (forA xs f)"

text \<open>\<^verbatim>\<open>try { a } catch (x) { h(x) }\<close>\<close>

definition tryA :: "('s, 'e) act \<Rightarrow> (js_error \<Rightarrow> ('s, 'e) act) \<Rightarrow> ('s, 'e) act" where
  "tryA a h s =
     (case a s of (s1, es1, None) \<Rightarrow> (s1, es1, None)
      | (s1, es1, Some x) \<Rightarrow> (case h x s1 of (s2, es2, x2) \<Rightarrow> (s2, es1 @ es2, x2)))"

text \<open>
  A statement of an object held in a field of a larger one: it runs on the field, and each call it
  makes is handed to the code the larger object plugged in, given as a translation of calls.
\<close>

definition zoom ::
  "('t \<Rightarrow> 's) \<Rightarrow> ('s \<Rightarrow> 't \<Rightarrow> 't) \<Rightarrow> ('t \<Rightarrow> 'e \<Rightarrow> 'f list) \<Rightarrow> ('s, 'e) act \<Rightarrow> ('t, 'f) act" where
  "zoom get put tr a t =
     (case a (get t) of (s1, es, x) \<Rightarrow> (put s1 t, concat (map (tr t) es), x))"

lemmas act_defs =
  skip_def modify_def call_def throw_def andThen_def ifA_def whenA_def tryA_def zoom_def

lemma skip_simps [simp]: "skip s = (s, [], None)"
  by (simp add: skip_def)

lemma modify_simps [simp]: "modify f s = (f s, [], None)"
  by (simp add: modify_def)

lemma call_simps [simp]: "call e s = (s, [e], None)"
  by (simp add: call_def)

lemma throw_simps [simp]: "throw x s = (s, [], Some x)"
  by (simp add: throw_def)

lemma whenA_simps [simp]: "whenA P a s = (if P s then a s else (s, [], None))"
  by (simp add: whenA_def ifA_def)

lemma ifA_simps [simp]: "ifA P a b s = (if P s then a s else b s)"
  by (simp add: ifA_def)

lemma andThen_ok:
  "a s = (s1, es1, None) \<Longrightarrow> andThen a b s = (post (b s1), es1 @ calls (b s1), thrown (b s1))"
  by (simp add: andThen_def split: prod.splits)

lemma andThen_throw: "a s = (s1, es1, Some x) \<Longrightarrow> andThen a b s = (s1, es1, Some x)"
  by (simp add: andThen_def)

lemma andThen_eq:
  "andThen a b s =
     (if thrown (a s) = None
      then (post (b (post (a s))), calls (a s) @ calls (b (post (a s))), thrown (b (post (a s))))
      else a s)"
  by (cases "a s") (auto simp: andThen_def split: prod.splits option.splits)

lemma andThen_skip [simp]: "andThen a skip = a"
  by (rule ext) (simp add: andThen_eq split: prod.splits, metis prod.collapse)

lemma tryA_eq:
  "tryA a h s =
     (case thrown (a s) of None \<Rightarrow> a s
      | Some x \<Rightarrow> (post (h x (post (a s))), calls (a s) @ calls (h x (post (a s))),
                    thrown (h x (post (a s)))))"
  by (cases "a s") (auto simp: tryA_def split: prod.splits option.splits)

lemma block_modify: "post (block (modify f # as) s) = post (block as (f s))"
  by (simp add: andThen_eq)

lemma zoom_eq:
  "zoom get put tr a t =
     (put (post (a (get t))) t, concat (map (tr t) (calls (a (get t)))), thrown (a (get t)))"
  by (cases "a (get t)") (simp add: zoom_def)

subsection \<open>Preservation of invariants\<close>

named_theorems preserves_rules

definition preserves :: "('s \<Rightarrow> bool) \<Rightarrow> ('s, 'e) act \<Rightarrow> bool" where
  "preserves I a \<longleftrightarrow> (\<forall>s. I s \<longrightarrow> I (post (a s)))"

lemma preservesI: "(\<And>s. I s \<Longrightarrow> I (post (a s))) \<Longrightarrow> preserves I a"
  by (simp add: preserves_def)

lemma preservesD: "preserves I a \<Longrightarrow> I s \<Longrightarrow> I (post (a s))"
  by (simp add: preserves_def)

lemma preserves_skip [preserves_rules, simp]: "preserves I skip"
  by (simp add: preserves_def)

lemma preserves_call [preserves_rules, simp]: "preserves I (call e)"
  by (simp add: preserves_def)

lemma preserves_throw [preserves_rules, simp]: "preserves I (throw x)"
  by (simp add: preserves_def)

lemma preserves_modify [preserves_rules]: "(\<And>s. I s \<Longrightarrow> I (f s)) \<Longrightarrow> preserves I (modify f)"
  by (simp add: preserves_def)

lemma preserves_andThen [preserves_rules]:
  "preserves I a \<Longrightarrow> preserves I b \<Longrightarrow> preserves I (andThen a b)"
  by (auto simp: preserves_def andThen_eq)

lemma preserves_block: "(\<And>a. a \<in> set as \<Longrightarrow> preserves I a) \<Longrightarrow> preserves I (block as)"
  by (induction as) (auto intro: preserves_andThen)

lemma preserves_block_Nil [preserves_rules, simp]: "preserves I (block [])"
  by simp

lemma preserves_block_Cons [preserves_rules]:
  "preserves I a \<Longrightarrow> preserves I (block as) \<Longrightarrow> preserves I (block (a # as))"
  by (simp add: preserves_andThen)

lemma preserves_ifA [preserves_rules]:
  "preserves I a \<Longrightarrow> preserves I b \<Longrightarrow> preserves I (ifA P a b)"
  by (simp add: preserves_def)

lemma preserves_whenA [preserves_rules]: "preserves I a \<Longrightarrow> preserves I (whenA P a)"
  by (simp add: preserves_def)

lemma preserves_forA [preserves_rules]:
  "(\<And>x. preserves I (f x)) \<Longrightarrow> preserves I (forA xs f)"
  by (induction xs) (auto intro: preserves_andThen)

lemma preserves_forA_set: "(\<And>x. x \<in> set xs \<Longrightarrow> preserves I (f x)) \<Longrightarrow> preserves I (forA xs f)"
  by (induction xs) (auto intro: preserves_andThen)

lemma preserves_tryA [preserves_rules]:
  "preserves I a \<Longrightarrow> (\<And>x. preserves I (h x)) \<Longrightarrow> preserves I (tryA a h)"
  by (auto simp: preserves_def tryA_eq split: option.splits)

lemma preserves_zoom:
  "(\<And>t. I t \<Longrightarrow> I (put (post (a (get t))) t)) \<Longrightarrow> preserves I (zoom get put tr a)"
  by (simp add: preserves_def zoom_eq)

subsection \<open>Runs of a step function\<close>

primrec run :: "('s \<Rightarrow> 'ev \<Rightarrow> 's) \<Rightarrow> 's \<Rightarrow> 'ev list \<Rightarrow> 's" where
  "run step s [] = s"
| "run step s (e # es) = run step (step s e) es"

lemma run_append: "run step s (xs @ ys) = run step (run step s xs) ys"
  by (induction xs arbitrary: s) auto

lemma run_invariant:
  "(\<And>s e. I s \<Longrightarrow> I (step s e)) \<Longrightarrow> I s \<Longrightarrow> I (run step s es)"
  by (induction es arbitrary: s) auto

subsection \<open>Lists\<close>

lemma last_map_ne: "xs \<noteq> [] \<Longrightarrow> last (map f xs) = f (last xs)"
  by (simp add: last_map)

lemma find_append_Some: "find P xs = Some x \<Longrightarrow> find P (xs @ ys) = Some x"
  by (induction xs) (auto split: if_splits)

lemma sorted_wrt_less_last:
  "sorted_wrt (<) xs \<Longrightarrow> x \<in> set xs \<Longrightarrow> x \<le> last (xs :: 'a :: linorder list)"
  by (induction xs) (auto simp: less_imp_le)

lemma filter_sorted_wrt: "sorted_wrt P xs \<Longrightarrow> sorted_wrt P (filter Q xs)"
  by (induction xs) auto

end
