(* ===== verification/Js_Value.thy ===== *)
theory Js_Value
  imports Complex_Main Prelude
begin

text \<open>
  The JavaScript values the program reads from the wire, and what it uses of the standard library
  on them: \<^verbatim>\<open>Number.isSafeInteger\<close>, \<^verbatim>\<open>Number.isFinite\<close>, \<^verbatim>\<open>??\<close>, truthiness, property
  reads and the increment of a number held in a double.

  A finite double is a rational number; a string is its list of UTF-16 code units.
\<close>

type_synonym jsstring = "16 word list"

datatype jsnum = NaN | PosInf | NegInf | Fin rat

datatype jsval =
    JUndef
  | JNull
  | JBool bool
  | JNum jsnum
  | JStr jsstring
  | JArr "jsval list"
  | JObj "(string \<times> jsval) list"

text \<open>The code units of an ASCII literal.\<close>

definition js :: "string \<Rightarrow> jsstring" where
  "js s = map (\<lambda>c. of_nat (of_char c)) s"

abbreviation JInt :: "int \<Rightarrow> jsval" where
  "JInt n \<equiv> JNum (Fin (of_int n))"

definition is_integer :: "rat \<Rightarrow> bool" where
  "is_integer q \<longleftrightarrow> snd (quotient_of q) = 1"

definition max_safe_integer :: int where
  "max_safe_integer = 2 ^ 53 - 1"

fun isSafeInteger :: "jsval \<Rightarrow> bool" where
  "isSafeInteger (JNum (Fin q)) \<longleftrightarrow> is_integer q \<and> \<bar>q\<bar> \<le> of_int max_safe_integer"
| "isSafeInteger _ \<longleftrightarrow> False"

fun isFinite :: "jsval \<Rightarrow> bool" where
  "isFinite (JNum (Fin q)) \<longleftrightarrow> True"
| "isFinite _ \<longleftrightarrow> False"

text \<open>The rational a finite number holds; only read behind \<^verbatim>\<open>Number.isFinite\<close> and its kin.\<close>

fun num_of :: "jsval \<Rightarrow> rat" where
  "num_of (JNum (Fin q)) = q"
| "num_of _ = 0"

text \<open>\<^verbatim>\<open>a ?? b\<close>\<close>

fun nullish :: "jsval \<Rightarrow> jsval \<Rightarrow> jsval" where
  "nullish JUndef b = b"
| "nullish JNull b = b"
| "nullish a b = a"

fun truthy :: "jsval \<Rightarrow> bool" where
  "truthy JUndef \<longleftrightarrow> False"
| "truthy JNull \<longleftrightarrow> False"
| "truthy (JBool b) \<longleftrightarrow> b"
| "truthy (JNum NaN) \<longleftrightarrow> False"
| "truthy (JNum (Fin q)) \<longleftrightarrow> q \<noteq> 0"
| "truthy (JNum _) \<longleftrightarrow> True"
| "truthy (JStr s) \<longleftrightarrow> s \<noteq> []"
| "truthy (JArr _) \<longleftrightarrow> True"
| "truthy (JObj _) \<longleftrightarrow> True"

text \<open>
  \<^verbatim>\<open>v.name\<close> for the property names the program reads (none is a property of the built-in
  prototypes): undefined and null throw, a missing property is undefined.
\<close>

fun js_get :: "jsval \<Rightarrow> string \<Rightarrow> js_error + jsval" where
  "js_get JUndef k = Inl (TypeError ''cannot read properties of undefined'')"
| "js_get JNull k = Inl (TypeError ''cannot read properties of null'')"
| "js_get (JObj ps) k = Inr (case map_of ps k of None \<Rightarrow> JUndef | Some v \<Rightarrow> v)"
| "js_get _ k = Inr JUndef"

text \<open>\<^verbatim>\<open>a && b\<close> where the right operand may throw.\<close>

definition js_and :: "jsval \<Rightarrow> (js_error + jsval) \<Rightarrow> js_error + jsval" where
  "js_and a b = (if truthy a then b else Inr a)"

text \<open>
  \<^verbatim>\<open>n + 1\<close> for a non-negative integer held in a double: exact up to \<open>2 ^ 53\<close>, where the sum
  rounds back to \<open>2 ^ 53\<close>.
\<close>

definition js_incr :: "int \<Rightarrow> int" where
  "js_incr n = (if n < 2 ^ 53 then n + 1 else n)"

text \<open>\<^verbatim>\<open>s.trim()\<close>: the white space and line terminators of the language at both ends.\<close>

definition js_space :: "16 word \<Rightarrow> bool" where
  "js_space c \<longleftrightarrow>
     c \<in> {9, 10, 11, 12, 13, 32, 160, 5760, 8232, 8233, 8239, 8287, 12288, 65279} \<or> 8192 \<le> c \<and> c \<le> 8202"

definition js_trim :: "jsstring \<Rightarrow> jsstring" where
  "js_trim s = rev (dropWhile js_space (rev (dropWhile js_space s)))"

lemma is_integer_of_int [simp]: "is_integer (of_int n)"
  by (simp add: is_integer_def)

lemma is_integer_literal [simp]: "is_integer 0" "is_integer 1" "is_integer (numeral n)"
  using is_integer_of_int [of 0] is_integer_of_int [of 1] is_integer_of_int [of "numeral n"] by simp_all

lemma is_integer_eq_floor: "is_integer q \<Longrightarrow> of_int \<lfloor>q\<rfloor> = q"
proof -
  assume "is_integer q"
  then obtain a where "quotient_of q = (a, 1)"
    by (metis is_integer_def prod.collapse)
  then have "q = of_int a / of_int 1" by (rule quotient_of_div)
  then show ?thesis by simp
qed

lemma isSafeInteger_JInt [simp]: "isSafeInteger (JInt n) \<longleftrightarrow> \<bar>n\<bar> \<le> max_safe_integer"
proof -
  have "\<bar>of_int n :: rat\<bar> \<le> of_int max_safe_integer \<longleftrightarrow> (of_int \<bar>n\<bar> :: rat) \<le> of_int max_safe_integer"
    by simp
  then show ?thesis by (simp only: isSafeInteger.simps is_integer_of_int of_int_le_iff simp_thms)
qed

lemma isSafeInteger_cases:
  assumes "isSafeInteger v"
  obtains n where "v = JInt n" and "\<bar>n\<bar> \<le> max_safe_integer"
proof -
  from assms obtain q where v: "v = JNum (Fin q)" and q: "is_integer q"
    by (cases v rule: isSafeInteger.cases) auto
  then have "v = JInt \<lfloor>q\<rfloor>" by (simp add: is_integer_eq_floor)
  with assms that show ?thesis by (metis isSafeInteger_JInt)
qed

lemma js_incr_bounds: "1 \<le> n \<Longrightarrow> n \<le> 2 ^ 53 \<Longrightarrow> 1 \<le> js_incr n \<and> js_incr n \<le> 2 ^ 53"
  by (simp add: js_incr_def)

lemma js_incr_less: "n < 2 ^ 53 \<Longrightarrow> n < js_incr n"
  by (simp add: js_incr_def)

lemma js_incr_ge: "n \<le> js_incr n"
  by (simp add: js_incr_def)

end
