(* ===== verification/Reliable_Sync.thy ===== *)
theory Reliable_Sync
  imports Js_Value
begin

text \<open>
  packages/client/src/reliable_sync.ts: the ack-tracked queue of unacknowledged local updates.

  The two injected functions are parameters: \<open>merge\<close> may throw; \<open>sendRaises u i\<close> is the error the
  call \<^verbatim>\<open>send(u, i)\<close> throws, if it throws (each operation calls send at most once, so one answer per
  operation is fully general). \<open>newTimer\<close> is the handle \<^verbatim>\<open>setInterval\<close> returns if it is called. The
  calls an operation makes to the injected functions are its \<open>rs_call\<close> list, in order; a call is
  listed whether or not it throws.
\<close>

type_synonym timer_handle = nat

record pending_update =
  p_seq :: int
  p_update :: bytes

record reliable_sync =
  pending :: "pending_update list"
  nextSeq :: int
  connected :: bool
  timer :: "timer_handle option"
  tailCache :: "bytes option"
  resendInterval :: rat

datatype rs_call =
    Send bytes int
  | SetInterval timer_handle rat
  | ClearInterval timer_handle

record rs_env =
  merge :: "bytes list \<Rightarrow> js_error + bytes"
  sendRaises :: "bytes \<Rightarrow> int \<Rightarrow> js_error option"
  newTimer :: timer_handle

type_synonym rs_act = "(reliable_sync, rs_call) act"

subsection \<open>Construction\<close>

text \<open>The options object; a missing one is the empty object.\<close>

record rs_options =
  opt_send :: bool  \<comment> \<open>\<^verbatim>\<open>typeof send === "function"\<close>\<close>
  opt_merge :: bool
  opt_resendInterval :: jsval

definition default_resendInterval :: rat where
  "default_resendInterval = 1000"

definition no_options :: rs_options where
  "no_options = \<lparr>opt_send = False, opt_merge = False, opt_resendInterval = JUndef\<rparr>"

definition new_ReliableSync :: "rs_options option \<Rightarrow> js_error + reliable_sync" where
  "new_ReliableSync opts =
     (let opt = (case opts of None \<Rightarrow> no_options | Some opt \<Rightarrow> opt);
          interval = nullish (opt_resendInterval opt) (JNum (Fin default_resendInterval))
      in if \<not> opt_send opt
         then Inl (TypeError ''ReliableSync requires a send(update, id) function'')
         else if \<not> opt_merge opt
         then Inl (TypeError ''ReliableSync requires a merge(updates) function'')
         else if \<not> isFinite interval \<or> num_of interval \<le> 0
         then Inl (TypeError ''ReliableSync resendInterval must be a positive number'')
         else Inr \<lparr>pending = [], nextSeq = 1, connected = False, timer = None, tailCache = None,
                   resendInterval = num_of interval\<rparr>)"

subsection \<open>Operations\<close>

definition hasPending :: "reliable_sync \<Rightarrow> bool" where
  "hasPending s \<longleftrightarrow> pending s \<noteq> []"

text \<open>The merged tail, memoized in \<open>tailCache\<close>: the updated object and the bytes, or a throw.\<close>

definition mergedTail :: "rs_env \<Rightarrow> reliable_sync \<Rightarrow> reliable_sync \<times> (js_error + bytes)" where
  "mergedTail E s =
     (case tailCache s of
        Some t \<Rightarrow> (s, Inr t)
      | None \<Rightarrow>
          (let updates = map p_update (pending s)
           in case (if length updates = 1 then Inr (updates ! 0) else merge E updates) of
                Inl x \<Rightarrow> (s, Inl x)
              | Inr t \<Rightarrow> (s\<lparr>tailCache := Some t\<rparr>, Inr t)))"

definition flush :: "rs_env \<Rightarrow> rs_act" where
  "flush E s =
     (if \<not> connected s \<or> pending s = [] then (s, [], None)
      else case mergedTail E s of
             (s', Inl x) \<Rightarrow> (s', [], Some x)
           | (s', Inr t) \<Rightarrow>
               (let i = p_seq (last (pending s')) in (s', [Send t i], sendRaises E t i)))"

definition startTimer :: "rs_env \<Rightarrow> rs_act" where
  "startTimer E s =
     (case timer s of
        Some h \<Rightarrow> (s, [], None)
      | None \<Rightarrow> (s\<lparr>timer := Some (newTimer E)\<rparr>, [SetInterval (newTimer E) (resendInterval s)], None))"

definition stopTimer :: "rs_act" where
  "stopTimer s =
     (case timer s of
        None \<Rightarrow> (s\<lparr>timer := None\<rparr>, [], None)
      | Some h \<Rightarrow> (s\<lparr>timer := None\<rparr>, [ClearInterval h], None))"

definition push_pending :: "bytes \<Rightarrow> reliable_sync \<Rightarrow> reliable_sync" where
  "push_pending u s =
     s\<lparr>pending := pending s @ [\<lparr>p_seq = nextSeq s, p_update = u\<rparr>], nextSeq := js_incr (nextSeq s)\<rparr>"

definition enqueue :: "rs_env \<Rightarrow> bytes \<Rightarrow> rs_act" where
  "enqueue E u =
     block [
       modify (push_pending u),
       modify (\<lambda>s. s\<lparr>tailCache := None\<rparr>),
       whenA connected (startTimer E),
       flush E]"

text \<open>
  An ack is whatever value came over the wire. \<open>ack_invalid\<close> is the disjunction of the two early
  returns.
\<close>

definition ack_invalid :: "jsval \<Rightarrow> reliable_sync \<Rightarrow> bool" where
  "ack_invalid v s \<longleftrightarrow>
     \<not> isSafeInteger v \<or> num_of v < 0
     \<or> (pending s \<noteq> [] \<and> of_int (p_seq (last (pending s))) < num_of v)"

definition onAck :: "jsval \<Rightarrow> rs_act" where
  "onAck v =
     ifA (ack_invalid v) skip
       (block [
          modify (\<lambda>s. s\<lparr>pending := filter (\<lambda>p. num_of v < of_int (p_seq p)) (pending s)\<rparr>),
          modify (\<lambda>s. s\<lparr>tailCache := None\<rparr>),
          whenA (\<lambda>s. pending s = []) stopTimer])"

definition onConnect :: "rs_env \<Rightarrow> rs_act" where
  "onConnect E =
     block [
       modify (\<lambda>s. s\<lparr>connected := True\<rparr>),
       flush E,
       whenA (\<lambda>s. pending s \<noteq> []) (startTimer E)]"

definition onDisconnect :: rs_act where
  "onDisconnect =
     block [
       modify (\<lambda>s. s\<lparr>connected := False\<rparr>),
       stopTimer]"

definition onTick :: "rs_env \<Rightarrow> rs_act" where
  "onTick E = ifA (\<lambda>s. \<not> connected s \<or> pending s = []) skip (flush E)"

definition destroy :: rs_act where
  "destroy =
     block [
       modify (\<lambda>s. s\<lparr>connected := False\<rparr>),
       stopTimer,
       modify (\<lambda>s. s\<lparr>pending := []\<rparr>),
       modify (\<lambda>s. s\<lparr>tailCache := None\<rparr>)]"

subsection \<open>Events and runs\<close>

text \<open>
  What can happen to the object: a local edit, an ack, the transport coming up or going down, a
  timer tick, destruction. Each event carries what the injected functions do during it.
\<close>

datatype rs_input =
    Enqueue bytes
  | Ack jsval
  | Connect
  | Disconnect
  | Tick
  | Destroy

record rs_event =
  ev_input :: rs_input
  ev_raises :: "bytes \<Rightarrow> int \<Rightarrow> js_error option"
  ev_timer :: timer_handle

definition ev_env :: "(bytes list \<Rightarrow> js_error + bytes) \<Rightarrow> rs_event \<Rightarrow> rs_env" where
  "ev_env M e = \<lparr>merge = M, sendRaises = ev_raises e, newTimer = ev_timer e\<rparr>"

fun rs_handle :: "rs_env \<Rightarrow> rs_input \<Rightarrow> rs_act" where
  "rs_handle E (Enqueue u) = enqueue E u"
| "rs_handle E (Ack v) = onAck v"
| "rs_handle E Connect = onConnect E"
| "rs_handle E Disconnect = onDisconnect"
| "rs_handle E Tick = onTick E"
| "rs_handle E Destroy = destroy"

definition rs_step :: "(bytes list \<Rightarrow> js_error + bytes) \<Rightarrow> rs_event \<Rightarrow> rs_act" where
  "rs_step M e = rs_handle (ev_env M e) (ev_input e)"

text \<open>A run collects the calls; a throw ends the event it happens in, not the run.\<close>

primrec rs_run ::
  "(bytes list \<Rightarrow> js_error + bytes) \<Rightarrow> reliable_sync \<Rightarrow> rs_event list \<Rightarrow> reliable_sync \<times> rs_call list"
where
  "rs_run M s [] = (s, [])"
| "rs_run M s (e # es) =
     (let r = rs_step M e s; q = rs_run M (post r) es in (fst q, calls r @ snd q))"

subsection \<open>The reference without the cache\<close>

text \<open>
  The same object with the tail merged anew at every send: what the memoized code must be
  indistinguishable from.
\<close>

definition tail_of :: "(bytes list \<Rightarrow> js_error + bytes) \<Rightarrow> reliable_sync \<Rightarrow> js_error + bytes" where
  "tail_of M s =
     (let updates = map p_update (pending s)
      in if length updates = 1 then Inr (updates ! 0) else M updates)"

definition flush_ref :: "rs_env \<Rightarrow> rs_act" where
  "flush_ref E s =
     (if \<not> connected s \<or> pending s = [] then (s, [], None)
      else case tail_of (merge E) s of
             Inl x \<Rightarrow> (s, [], Some x)
           | Inr t \<Rightarrow> (let i = p_seq (last (pending s)) in (s, [Send t i], sendRaises E t i)))"

fun rs_handle_ref :: "rs_env \<Rightarrow> rs_input \<Rightarrow> rs_act" where
  "rs_handle_ref E (Enqueue u) =
     block [modify (push_pending u), whenA connected (startTimer E), flush_ref E]"
| "rs_handle_ref E (Ack v) =
     ifA (ack_invalid v) skip
       (block [
          modify (\<lambda>s. s\<lparr>pending := filter (\<lambda>p. num_of v < of_int (p_seq p)) (pending s)\<rparr>),
          whenA (\<lambda>s. pending s = []) stopTimer])"
| "rs_handle_ref E Connect =
     block [modify (\<lambda>s. s\<lparr>connected := True\<rparr>), flush_ref E,
            whenA (\<lambda>s. pending s \<noteq> []) (startTimer E)]"
| "rs_handle_ref E Disconnect = block [modify (\<lambda>s. s\<lparr>connected := False\<rparr>), stopTimer]"
| "rs_handle_ref E Tick = flush_ref E"
| "rs_handle_ref E Destroy =
     block [modify (\<lambda>s. s\<lparr>connected := False\<rparr>), stopTimer, modify (\<lambda>s. s\<lparr>pending := []\<rparr>)]"

primrec rs_run_ref ::
  "(bytes list \<Rightarrow> js_error + bytes) \<Rightarrow> reliable_sync \<Rightarrow> rs_event list \<Rightarrow> reliable_sync \<times> rs_call list"
where
  "rs_run_ref M s [] = (s, [])"
| "rs_run_ref M s (e # es) =
     (let r = rs_handle_ref (ev_env M e) (ev_input e) s; q = rs_run_ref M (post r) es
      in (fst q, calls r @ snd q))"

definition forget_cache :: "reliable_sync \<Rightarrow> reliable_sync" where
  "forget_cache s = s\<lparr>tailCache := None\<rparr>"

subsection \<open>The invariant\<close>

text \<open>
  Sequence numbers grow strictly up to \<open>2 ^ 53\<close>, where the counter, a double, stops growing.
\<close>

definition seq_before :: "int \<Rightarrow> int \<Rightarrow> bool" where
  "seq_before a b \<longleftrightarrow> a < b \<or> (a = 2 ^ 53 \<and> b = 2 ^ 53)"

definition seqs_ok :: "reliable_sync \<Rightarrow> bool" where
  "seqs_ok s \<longleftrightarrow>
     sorted_wrt seq_before (map p_seq (pending s))
     \<and> (\<forall>p\<in>set (pending s). 1 \<le> p_seq p \<and> seq_before (p_seq p) (nextSeq s))
     \<and> 1 \<le> nextSeq s \<and> nextSeq s \<le> 2 ^ 53"

definition cache_ok :: "(bytes list \<Rightarrow> js_error + bytes) \<Rightarrow> reliable_sync \<Rightarrow> bool" where
  "cache_ok M s \<longleftrightarrow> (\<forall>t. tailCache s = Some t \<longrightarrow> tail_of M s = Inr t)"

text \<open>A timer runs only while there is something to retransmit and a transport to send it on.\<close>

definition timer_ok :: "reliable_sync \<Rightarrow> bool" where
  "timer_ok s \<longleftrightarrow> (timer s \<noteq> None \<longrightarrow> connected s \<and> pending s \<noteq> [])"

definition rs_inv :: "(bytes list \<Rightarrow> js_error + bytes) \<Rightarrow> reliable_sync \<Rightarrow> bool" where
  "rs_inv M s \<longleftrightarrow> seqs_ok s \<and> cache_ok M s \<and> timer_ok s \<and> 0 < resendInterval s"

text \<open>The converse of \<open>timer_ok\<close>: an unacked tail on a live transport is being retransmitted.\<close>

definition armed :: "reliable_sync \<Rightarrow> bool" where
  "armed s \<longleftrightarrow> (connected s \<and> pending s \<noteq> [] \<longrightarrow> timer s \<noteq> None)"

end
