(* ===== verification/Delivery_Queue.thy ===== *)
theory Delivery_Queue
  imports Prelude
begin

text \<open>
  The interface of an at-least-once delivery queue: what a session relies on, whichever queue it
  drives. The provider keeps a list of unacknowledged entries; a local edit appends one, a
  confirmation removes the entries it covers and nothing else, every other event (transport up or
  down, a timer tick) leaves the list alone. Interpreted on \<open>ReliableSync\<close> alone
  and on the provider that drives it.
\<close>

datatype ('i, 'k, 'o) dq_event = Offer 'i | Confirm 'k | Other 'o

primrec dq_step ::
  "('i \<Rightarrow> 's \<Rightarrow> 's) \<Rightarrow> ('k \<Rightarrow> 's \<Rightarrow> 's) \<Rightarrow> ('o \<Rightarrow> 's \<Rightarrow> 's) \<Rightarrow> 's \<Rightarrow> ('i, 'k, 'o) dq_event \<Rightarrow> 's" where
  "dq_step offer confirm other s (Offer i) = offer i s"
| "dq_step offer confirm other s (Confirm k) = confirm k s"
| "dq_step offer confirm other s (Other o') = other o' s"

locale delivery_queue =
  fixes invar :: "'s \<Rightarrow> bool"
    and unacked :: "'s \<Rightarrow> (int \<times> bytes) list"
    and next_id :: "'s \<Rightarrow> int"
    and payload :: "'i \<Rightarrow> bytes"
    and offer :: "'i \<Rightarrow> 's \<Rightarrow> 's"
    and confirm :: "'k \<Rightarrow> 's \<Rightarrow> 's"
    and covers :: "'k \<Rightarrow> 's \<Rightarrow> int \<Rightarrow> bool"
    and other :: "'o \<Rightarrow> 's \<Rightarrow> 's"
  assumes invar_offer: "invar s \<Longrightarrow> invar (offer i s)"
    and invar_confirm: "invar s \<Longrightarrow> invar (confirm k s)"
    and invar_other: "invar s \<Longrightarrow> invar (other e s)"
    and unacked_offer: "invar s \<Longrightarrow> unacked (offer i s) = unacked s @ [(next_id s, payload i)]"
    and unacked_confirm:
      "invar s \<Longrightarrow> unacked (confirm k s) = filter (\<lambda>(n, u). \<not> covers k s n) (unacked s)"
    and unacked_other: "invar s \<Longrightarrow> unacked (other e s) = unacked s"
begin

abbreviation step where "step \<equiv> dq_step offer confirm other"

lemma invar_step: "invar s \<Longrightarrow> invar (step s e)"
  by (cases e) (auto simp: invar_offer invar_confirm invar_other)

lemma invar_run: "invar s \<Longrightarrow> invar (run step s es)"
  by (rule run_invariant [of invar]) (rule invar_step)

lemma kept_or_confirmed:
  assumes "invar s" and "(n, u) \<in> set (unacked s)"
  shows "(n, u) \<in> set (unacked (run step s es))
    \<or> (\<exists>xs k ys. es = xs @ Confirm k # ys \<and> covers k (run step s xs) n)"
  using assms
proof (induction es arbitrary: s)
  case Nil
  then show ?case by simp
next
  case (Cons e es)
  show ?case
  proof (cases "(n, u) \<in> set (unacked (step s e))")
    case True
    from Cons.IH [OF invar_step [OF Cons.prems(1)] True]
    show ?thesis
    proof (elim disjE exE conjE)
      fix xs k ys
      assume "es = xs @ Confirm k # ys" and "covers k (run step (step s e) xs) n"
      then have "e # es = (e # xs) @ Confirm k # ys \<and> covers k (run step s (e # xs)) n" by simp
      then show ?thesis by blast
    qed simp
  next
    case False
    with Cons.prems obtain k where "e = Confirm k" and "covers k s n"
      by (cases e) (auto simp: unacked_offer unacked_confirm unacked_other)
    then have "e # es = [] @ Confirm k # es \<and> covers k (run step s []) n" by simp
    then show ?thesis by blast
  qed
qed

text \<open>No edit is dropped silently: it stays queued until a confirmation that covers it arrives.\<close>

lemma offered_kept_or_confirmed:
  assumes "invar s" and "es = xs @ Offer i # ys"
  shows "(next_id (run step s xs), payload i) \<in> set (unacked (run step s es))
    \<or> (\<exists>zs k ws. ys = zs @ Confirm k # ws
         \<and> covers k (run step s (xs @ Offer i # zs)) (next_id (run step s xs)))"
proof -
  let ?s = "run step s xs"
  have inv: "invar ?s" using assms(1) by (rule invar_run)
  then have "(next_id ?s, payload i) \<in> set (unacked (offer i ?s))" by (simp add: unacked_offer)
  with invar_offer [OF inv]
  have "(next_id ?s, payload i) \<in> set (unacked (run step (offer i ?s) ys))
    \<or> (\<exists>zs k ws. ys = zs @ Confirm k # ws \<and> covers k (run step (offer i ?s) zs) (next_id ?s))"
    by (rule kept_or_confirmed)
  then show ?thesis using assms(2) by (simp add: run_append)
qed

end

end
