(* ===== verification/Reliable_Sync_Props.thy ===== *)
theory Reliable_Sync_Props
  imports Reliable_Sync Delivery_Queue
begin

text \<open>
  The lemmas about \<open>ReliableSync\<close>: what each statement keeps of the object, the invariant, the
  equivalence with the cache-free reference, the timers, and the queue contract other components
  rely on.
\<close>

subsection \<open>What the helper statements change\<close>

lemma mergedTail_fields [simp]:
  "pending (fst (mergedTail E s)) = pending s"
  "nextSeq (fst (mergedTail E s)) = nextSeq s"
  "connected (fst (mergedTail E s)) = connected s"
  "timer (fst (mergedTail E s)) = timer s"
  "resendInterval (fst (mergedTail E s)) = resendInterval s"
  by (simp_all add: mergedTail_def Let_def split: option.splits sum.splits)

lemma mergedTail_result: "cache_ok (merge E) s \<Longrightarrow> snd (mergedTail E s) = tail_of (merge E) s"
  by (cases "tailCache s")
    (simp_all add: mergedTail_def tail_of_def cache_ok_def Let_def split: sum.splits)

lemma mergedTail_cache_ok: "cache_ok (merge E) s \<Longrightarrow> cache_ok (merge E) (fst (mergedTail E s))"
  by (cases "tailCache s")
    (simp_all add: mergedTail_def tail_of_def cache_ok_def Let_def split: sum.splits)

lemma flush_post:
  "post (flush E s) = (if connected s \<and> pending s \<noteq> [] then fst (mergedTail E s) else s)"
  by (simp add: flush_def Let_def split: prod.splits sum.splits)

lemma flush_fields [simp]:
  "pending (post (flush E s)) = pending s"
  "nextSeq (post (flush E s)) = nextSeq s"
  "connected (post (flush E s)) = connected s"
  "timer (post (flush E s)) = timer s"
  "resendInterval (post (flush E s)) = resendInterval s"
  by (simp_all add: flush_post)

lemma flush_calls:
  "calls (flush E s) =
     (if connected s \<and> pending s \<noteq> []
      then case snd (mergedTail E s) of Inl x \<Rightarrow> [] | Inr t \<Rightarrow> [Send t (p_seq (last (pending s)))]
      else [])"
  by (cases "mergedTail E s")
    (use mergedTail_fields(1) [of E s] in \<open>auto simp: flush_def Let_def split: sum.splits\<close>)

lemma flush_sent:
  assumes "Send t i \<in> set (calls (flush E s))"
  shows "connected s" and "pending s \<noteq> []" and "i = p_seq (last (pending s))"
    and "snd (mergedTail E s) = Inr t"
proof -
  have *: "connected s \<and> pending s \<noteq> [] \<and> Send t i \<in> set (case snd (mergedTail E s) of
      Inl x \<Rightarrow> [] | Inr t \<Rightarrow> [Send t (p_seq (last (pending s)))])"
    using assms by (cases "connected s \<and> pending s \<noteq> []") (simp_all only: flush_calls if_True if_False
      list.set empty_iff simp_thms)
  then show "connected s" and "pending s \<noteq> []" by simp_all
  from * show "i = p_seq (last (pending s))" and "snd (mergedTail E s) = Inr t"
    by (cases "snd (mergedTail E s)"; simp)+
qed

lemma flush_thrown:
  "thrown (flush E s) =
     (if connected s \<and> pending s \<noteq> []
      then case snd (mergedTail E s) of
             Inl x \<Rightarrow> Some x | Inr t \<Rightarrow> sendRaises E t (p_seq (last (pending s)))
      else None)"
  by (cases "mergedTail E s")
    (use mergedTail_fields(1) [of E s] in \<open>auto simp: flush_def Let_def split: sum.splits\<close>)

lemma startTimer_fields [simp]:
  "pending (post (startTimer E s)) = pending s"
  "nextSeq (post (startTimer E s)) = nextSeq s"
  "connected (post (startTimer E s)) = connected s"
  "tailCache (post (startTimer E s)) = tailCache s"
  "resendInterval (post (startTimer E s)) = resendInterval s"
  "thrown (startTimer E s) = None"
  "timer (post (startTimer E s)) = (if timer s = None then Some (newTimer E) else timer s)"
  by (simp_all add: startTimer_def split: option.splits)

lemma stopTimer_fields [simp]:
  "pending (post (stopTimer s)) = pending s"
  "nextSeq (post (stopTimer s)) = nextSeq s"
  "connected (post (stopTimer s)) = connected s"
  "tailCache (post (stopTimer s)) = tailCache s"
  "resendInterval (post (stopTimer s)) = resendInterval s"
  "thrown (stopTimer s) = None"
  "timer (post (stopTimer s)) = None"
  by (simp_all add: stopTimer_def split: option.splits)

lemma push_pending_fields [simp]:
  "pending (push_pending u s) = pending s @ [\<lparr>p_seq = nextSeq s, p_update = u\<rparr>]"
  "nextSeq (push_pending u s) = js_incr (nextSeq s)"
  "connected (push_pending u s) = connected s"
  "timer (push_pending u s) = timer s"
  "tailCache (push_pending u s) = tailCache s"
  "resendInterval (push_pending u s) = resendInterval s"
  by (simp_all add: push_pending_def)

lemmas rs_op_defs = enqueue_def onAck_def onConnect_def onDisconnect_def onTick_def destroy_def

subsection \<open>What the operations change\<close>

lemma enqueue_fields [simp]:
  "pending (post (enqueue E u s)) = pending s @ [\<lparr>p_seq = nextSeq s, p_update = u\<rparr>]"
  "nextSeq (post (enqueue E u s)) = js_incr (nextSeq s)"
  "connected (post (enqueue E u s)) = connected s"
  "resendInterval (post (enqueue E u s)) = resendInterval s"
  "timer (post (enqueue E u s)) = (if connected s \<and> timer s = None then Some (newTimer E) else timer s)"
  by (simp_all add: enqueue_def andThen_eq)

lemma onAck_invalid: "ack_invalid v s \<Longrightarrow> onAck v s = (s, [], None)"
  by (simp add: onAck_def)

lemma onAck_fields [simp]:
  "nextSeq (post (onAck v s)) = nextSeq s"
  "connected (post (onAck v s)) = connected s"
  "resendInterval (post (onAck v s)) = resendInterval s"
  "thrown (onAck v s) = None"
  by (simp_all add: onAck_def andThen_eq)

lemma onAck_pending:
  "pending (post (onAck v s)) =
     (if ack_invalid v s then pending s
      else filter (\<lambda>p. num_of v < of_int (p_seq p)) (pending s))"
  by (simp add: onAck_def andThen_eq)

lemma onConnect_fields [simp]:
  "pending (post (onConnect E s)) = pending s"
  "nextSeq (post (onConnect E s)) = nextSeq s"
  "connected (post (onConnect E s)) = True"
  "resendInterval (post (onConnect E s)) = resendInterval s"
  by (simp_all add: onConnect_def andThen_eq)

lemma onDisconnect_fields [simp]:
  "pending (post (onDisconnect s)) = pending s"
  "nextSeq (post (onDisconnect s)) = nextSeq s"
  "connected (post (onDisconnect s)) = False"
  "resendInterval (post (onDisconnect s)) = resendInterval s"
  "timer (post (onDisconnect s)) = None"
  "tailCache (post (onDisconnect s)) = tailCache s"
  "thrown (onDisconnect s) = None"
  by (simp_all add: onDisconnect_def andThen_eq)

lemma onTick_eq: "onTick E s = flush E s"
  by (simp add: onTick_def flush_def)

lemma destroy_post [simp]:
  "post (destroy s) = s\<lparr>connected := False, timer := None, pending := [], tailCache := None\<rparr>"
  by (cases s) (simp add: destroy_def andThen_eq stopTimer_def split: option.splits)

lemma destroy_thrown [simp]: "thrown (destroy s) = None"
  by (simp add: destroy_def andThen_eq)

subsection \<open>Sequence numbers\<close>

lemma seq_before_le: "seq_before a b \<Longrightarrow> a \<le> b"
  by (auto simp: seq_before_def)

lemma seq_before_trans: "seq_before a b \<Longrightarrow> seq_before b c \<Longrightarrow> seq_before a c"
  by (auto simp: seq_before_def)

lemma seq_before_incr: "n \<le> 2 ^ 53 \<Longrightarrow> seq_before n (js_incr n)"
  by (auto simp: seq_before_def js_incr_def)

lemma seqs_ok_push: "seqs_ok s \<Longrightarrow> seqs_ok (push_pending u s)"
  using seq_before_incr [of "nextSeq s"] js_incr_bounds [of "nextSeq s"]
  by (auto simp: seqs_ok_def sorted_wrt_append intro: seq_before_trans)

lemma seqs_ok_filter:
  "seqs_ok s \<Longrightarrow> pending t = filter P (pending s) \<Longrightarrow> nextSeq t = nextSeq s \<Longrightarrow> seqs_ok t"
  by (auto simp: seqs_ok_def sorted_wrt_map intro: filter_sorted_wrt)

lemma seqs_ok_cong: "seqs_ok s \<Longrightarrow> pending t = pending s \<Longrightarrow> nextSeq t = nextSeq s \<Longrightarrow> seqs_ok t"
  by (simp add: seqs_ok_def)

lemma seqs_ok_last_max:
  assumes "seqs_ok s" and "p \<in> set (pending s)"
  shows "p_seq p \<le> p_seq (last (pending s))"
proof -
  from assms(2) have ne: "pending s \<noteq> []" by auto
  then have p: "pending s = butlast (pending s) @ [last (pending s)]" by simp
  have "sorted_wrt seq_before (map p_seq (butlast (pending s) @ [last (pending s)]))"
    using assms(1) unfolding seqs_ok_def by (simp only: p [symmetric])
  then have "\<forall>q\<in>set (butlast (pending s)). seq_before (p_seq q) (p_seq (last (pending s)))"
    by (auto simp: sorted_wrt_append)
  moreover have "p \<in> set (butlast (pending s)) \<or> p = last (pending s)"
    using assms(2) p by (metis Un_iff empty_iff insert_iff list.set set_append)
  ultimately show ?thesis by (auto dest: seq_before_le)
qed

text \<open>The acknowledgement of a queue's newest entry empties it.\<close>

lemma ack_newest_empties:
  assumes "seqs_ok r" and "pending r \<noteq> []" and "p_seq (last (pending r)) = i" and "i \<le> max_safe_integer"
  shows "pending (post (onAck (JInt i) r)) = [] \<and> timer (post (onAck (JInt i) r)) = None"
proof -
  have "1 \<le> i" using assms(1-3) by (auto simp: seqs_ok_def)
  then have v: "\<not> ack_invalid (JInt i) r" using assms(3,4) by (simp add: ack_invalid_def)
  have "filter (\<lambda>p. i < p_seq p) (pending r) = []"
    using seqs_ok_last_max [OF assms(1)] assms(3) by (simp add: filter_empty_conv not_less)
  with v show ?thesis by (simp add: onAck_def andThen_eq)
qed

subsection \<open>The invariant\<close>

lemma rs_inv_new: "new_ReliableSync opts = Inr s \<Longrightarrow> rs_inv M s"
  by (auto simp: new_ReliableSync_def rs_inv_def seqs_ok_def cache_ok_def timer_ok_def Let_def
      split: if_splits)

lemma cache_ok_flush: "cache_ok (merge E) s \<Longrightarrow> cache_ok (merge E) (post (flush E s))"
  by (simp add: flush_post mergedTail_cache_ok)

lemma cache_ok_None: "tailCache s = None \<Longrightarrow> cache_ok M s"
  by (simp add: cache_ok_def)

lemma cache_ok_cong:
  "cache_ok M s \<Longrightarrow> pending t = pending s \<Longrightarrow> tailCache t = tailCache s \<Longrightarrow> cache_ok M t"
  by (simp add: cache_ok_def tail_of_def)

lemma cache_ok_enqueue: "cache_ok (merge E) (post (enqueue E u s))"
  by (simp add: enqueue_def andThen_eq cache_ok_flush cache_ok_None)

lemma cache_ok_onConnect: "cache_ok (merge E) s \<Longrightarrow> cache_ok (merge E) (post (onConnect E s))"
proof -
  assume ok: "cache_ok (merge E) s"
  then have "cache_ok (merge E) (s\<lparr>connected := True\<rparr>)" by (rule cache_ok_cong) simp_all
  then have "cache_ok (merge E) (post (flush E (s\<lparr>connected := True\<rparr>)))" by (rule cache_ok_flush)
  then have "cache_ok (merge E) (post (startTimer E (post (flush E (s\<lparr>connected := True\<rparr>)))))"
    by (rule cache_ok_cong) simp_all
  with \<open>cache_ok (merge E) (post (flush E _))\<close> show ?thesis
    by (auto simp: onConnect_def andThen_eq)
qed

lemma cache_ok_onAck: "cache_ok M s \<Longrightarrow> cache_ok M (post (onAck v s))"
  by (auto simp: onAck_def andThen_eq intro: cache_ok_None)

lemma timer_ok_onAck: "timer_ok s \<Longrightarrow> timer_ok (post (onAck v s))"
  by (simp add: timer_ok_def onAck_def andThen_eq)

lemma timer_ok_onConnect: "timer_ok s \<Longrightarrow> timer_ok (post (onConnect E s))"
  by (auto simp: timer_ok_def onConnect_def andThen_eq)

lemma merge_ev_env [simp]: "merge (ev_env M e) = M"
  by (simp add: ev_env_def)

lemma rs_handle_inv:
  assumes "rs_inv (merge E) s"
  shows "rs_inv (merge E) (post (rs_handle E i s))"
proof (cases i)
  case (Enqueue u)
  have "seqs_ok (post (enqueue E u s))"
    using seqs_ok_push [of s u] assms by (auto simp: rs_inv_def seqs_ok_def)
  with assms Enqueue show ?thesis by (auto simp: rs_inv_def cache_ok_enqueue timer_ok_def)
next
  case (Ack v)
  have "seqs_ok (post (onAck v s))"
    using assms by (cases "ack_invalid v s") (auto simp: rs_inv_def onAck_invalid onAck_pending
        intro: seqs_ok_filter)
  with assms Ack show ?thesis by (simp add: rs_inv_def cache_ok_onAck timer_ok_onAck)
next
  case Connect
  with assms show ?thesis
    by (auto simp: rs_inv_def cache_ok_onConnect timer_ok_onConnect intro: seqs_ok_cong)
next
  case Disconnect
  with assms show ?thesis
    by (auto simp: rs_inv_def timer_ok_def intro: seqs_ok_cong cache_ok_cong)
next
  case Tick
  with assms show ?thesis
    by (auto simp: rs_inv_def onTick_eq cache_ok_flush timer_ok_def intro: seqs_ok_cong)
next
  case Destroy
  with assms show ?thesis
    by (auto simp: rs_inv_def timer_ok_def cache_ok_def seqs_ok_def)
qed

lemma rs_step_inv: "rs_inv M s \<Longrightarrow> rs_inv M (post (rs_step M e s))"
  using rs_handle_inv [of "ev_env M e" s "ev_input e"] by (simp add: rs_step_def)

lemma rs_run_inv: "rs_inv M s \<Longrightarrow> rs_inv M (fst (rs_run M s es))"
  by (induction es arbitrary: s) (auto simp: Let_def rs_step_inv)

subsection \<open>The memoized tail is the tail merged anew\<close>

lemma forget_simps [simp]:
  "pending (forget_cache s) = pending s"
  "nextSeq (forget_cache s) = nextSeq s"
  "connected (forget_cache s) = connected s"
  "timer (forget_cache s) = timer s"
  "tailCache (forget_cache s) = None"
  "resendInterval (forget_cache s) = resendInterval s"
  "tail_of M (forget_cache s) = tail_of M s"
  by (simp_all add: forget_cache_def tail_of_def)

lemma forget_update [simp]:
  "forget_cache (s\<lparr>pending := ps\<rparr>) = (forget_cache s)\<lparr>pending := ps\<rparr>"
  "forget_cache (s\<lparr>connected := b\<rparr>) = (forget_cache s)\<lparr>connected := b\<rparr>"
  "forget_cache (s\<lparr>tailCache := c\<rparr>) = forget_cache s"
  "forget_cache (push_pending u s) = push_pending u (forget_cache s)"
  "forget_cache (forget_cache s) = forget_cache s"
  by (simp_all add: forget_cache_def push_pending_def)

text \<open>Statement \<open>a\<close> of the code behaves as statement \<open>b\<close> of the reference, given the cache.\<close>

definition simulates :: "rs_env \<Rightarrow> rs_act \<Rightarrow> rs_act \<Rightarrow> bool" where
  "simulates E a b \<longleftrightarrow>
     (\<forall>s. cache_ok (merge E) s \<longrightarrow>
        cache_ok (merge E) (post (a s))
        \<and> forget_cache (post (a s)) = post (b (forget_cache s))
        \<and> calls (a s) = calls (b (forget_cache s))
        \<and> thrown (a s) = thrown (b (forget_cache s)))"

named_theorems simulates_rules

lemma simulates_andThen [simulates_rules]:
  "simulates E a a' \<Longrightarrow> simulates E b b' \<Longrightarrow> simulates E (andThen a b) (andThen a' b')"
  by (auto simp: simulates_def andThen_eq)

lemma simulates_skip [simulates_rules]: "simulates E skip skip"
  by (simp add: simulates_def)

lemma simulates_whenA [simulates_rules]:
  "(\<And>s. P s = Q (forget_cache s)) \<Longrightarrow> simulates E a b \<Longrightarrow> simulates E (whenA P a) (whenA Q b)"
  by (auto simp: simulates_def)

lemma simulates_ifA [simulates_rules]:
  "(\<And>s. P s = Q (forget_cache s)) \<Longrightarrow> simulates E a a' \<Longrightarrow> simulates E b b' \<Longrightarrow>
   simulates E (ifA P a b) (ifA Q a' b')"
  by (auto simp: simulates_def)

lemma forget_mergedTail: "forget_cache (fst (mergedTail E s)) = forget_cache s"
  by (simp add: forget_cache_def mergedTail_def Let_def split: option.splits sum.splits)

lemma flush_ref_post: "post (flush_ref E s) = s"
  by (simp add: flush_ref_def Let_def split: sum.splits)

lemma flush_simulates [simulates_rules]: "simulates E (flush E) (flush_ref E)"
  unfolding simulates_def
  by (auto simp: flush_post flush_ref_post flush_calls flush_thrown flush_ref_def Let_def
      mergedTail_result mergedTail_cache_ok forget_mergedTail split: sum.splits)

lemma startTimer_simulates [simulates_rules]: "simulates E (startTimer E) (startTimer E)"
  by (auto simp: simulates_def startTimer_def forget_cache_def cache_ok_def tail_of_def
      split: option.splits)

lemma stopTimer_simulates [simulates_rules]: "simulates E stopTimer stopTimer"
  by (auto simp: simulates_def stopTimer_def forget_cache_def cache_ok_def tail_of_def
      split: option.splits)

text \<open>A state change that resets the cache, and one that leaves the queue alone.\<close>

lemma simulates_modify_reset:
  "(\<And>s. forget_cache (f s) = g (forget_cache s)) \<Longrightarrow>
   simulates E (andThen (modify f) (andThen (modify (\<lambda>s. s\<lparr>tailCache := None\<rparr>)) skip)) (modify g)"
  by (auto simp: simulates_def andThen_eq cache_ok_None)

lemma simulates_modify:
  "(\<And>s. forget_cache (f s) = g (forget_cache s)) \<Longrightarrow>
   (\<And>s. pending (f s) = pending s \<and> tailCache (f s) = tailCache s) \<Longrightarrow>
   simulates E (modify f) (modify g)"
  by (auto simp: simulates_def intro: cache_ok_cong)

lemma andThen_assoc: "andThen (andThen a b) c = andThen a (andThen b c)"
  by (rule ext) (auto simp: andThen_eq)

lemma ack_invalid_forget [simp]: "ack_invalid v (forget_cache s) = ack_invalid v s"
  by (simp add: ack_invalid_def)

lemma reset_then:
  "(\<And>s. forget_cache (f s) = g (forget_cache s)) \<Longrightarrow> simulates E b b' \<Longrightarrow>
   simulates E (andThen (modify f) (andThen (modify (\<lambda>s. s\<lparr>tailCache := None\<rparr>)) b)) (andThen (modify g) b')"
  using simulates_andThen [OF simulates_modify_reset [of f g E], of b b'] by (simp add: andThen_assoc)

lemma destroy_simulates:
  "simulates E destroy (rs_handle_ref E Destroy)"
  unfolding destroy_def rs_handle_ref.simps block.simps andThen_skip
  by (intro simulates_andThen stopTimer_simulates simulates_modify)
    (auto simp: simulates_def andThen_eq forget_cache_def cache_ok_None)

lemma rs_handle_simulates: "simulates E (rs_handle E i) (rs_handle_ref E i)"
proof (cases i)
  case (Enqueue u)
  then show ?thesis
    by (simp only: rs_handle.simps rs_handle_ref.simps enqueue_def block.simps)
      (intro reset_then simulates_rules; simp)
next
  case (Ack v)
  then show ?thesis
    by (simp only: rs_handle.simps rs_handle_ref.simps onAck_def block.simps)
      (intro simulates_ifA reset_then simulates_rules; simp)
next
  case Connect
  then show ?thesis
    by (simp only: rs_handle.simps rs_handle_ref.simps onConnect_def block.simps)
      (intro simulates_rules simulates_modify; simp)
next
  case Disconnect
  then show ?thesis
    by (simp only: rs_handle.simps rs_handle_ref.simps onDisconnect_def block.simps)
      (intro simulates_rules simulates_modify; simp)
next
  case Tick
  have "onTick E = flush E" by (rule ext) (rule onTick_eq)
  with Tick show ?thesis by (simp add: flush_simulates)
next
  case Destroy
  then show ?thesis using destroy_simulates by simp
qed

lemma rs_run_ref_eq:
  "cache_ok M s \<Longrightarrow>
   rs_run_ref M (forget_cache s) es = (forget_cache (fst (rs_run M s es)), snd (rs_run M s es))"
proof (induction es arbitrary: s)
  case Nil
  then show ?case by simp
next
  case (Cons e es)
  let ?E = "ev_env M e"
  have "simulates ?E (rs_step M e) (rs_handle_ref ?E (ev_input e))"
    unfolding rs_step_def by (rule rs_handle_simulates)
  with Cons.prems
  have "cache_ok M (post (rs_step M e s))"
    and "post (rs_handle_ref ?E (ev_input e) (forget_cache s)) = forget_cache (post (rs_step M e s))"
    and "calls (rs_handle_ref ?E (ev_input e) (forget_cache s)) = calls (rs_step M e s)"
    by (simp_all add: simulates_def)
  with Cons.IH [of "post (rs_step M e s)"] show ?case by (simp add: Let_def)
qed

subsection \<open>Timers\<close>

text \<open>The interval timers the platform keeps running, from the calls made to it.\<close>

fun live_timers :: "timer_handle set \<Rightarrow> rs_call list \<Rightarrow> timer_handle set" where
  "live_timers T [] = T"
| "live_timers T (Send u i # cs) = live_timers T cs"
| "live_timers T (SetInterval h ms # cs) = live_timers (insert h T) cs"
| "live_timers T (ClearInterval h # cs) = live_timers (T - {h}) cs"

lemma live_timers_append: "live_timers T (xs @ ys) = live_timers (live_timers T xs) ys"
  by (induction T xs rule: live_timers.induct) auto

definition tracks_timer :: "rs_act \<Rightarrow> bool" where
  "tracks_timer a \<longleftrightarrow>
     (\<forall>s. live_timers (set_option (timer s)) (calls (a s)) = set_option (timer (post (a s))))"

named_theorems tracks_rules

lemma tracks_andThen [tracks_rules]: "tracks_timer a \<Longrightarrow> tracks_timer b \<Longrightarrow> tracks_timer (andThen a b)"
  by (simp add: tracks_timer_def andThen_eq live_timers_append)

lemma tracks_skip [tracks_rules]: "tracks_timer skip"
  by (simp add: tracks_timer_def)

lemma tracks_whenA [tracks_rules]: "tracks_timer a \<Longrightarrow> tracks_timer (whenA P a)"
  by (simp add: tracks_timer_def)

lemma tracks_ifA [tracks_rules]: "tracks_timer a \<Longrightarrow> tracks_timer b \<Longrightarrow> tracks_timer (ifA P a b)"
  by (simp add: tracks_timer_def)

lemma tracks_modify [tracks_rules]: "(\<And>s. timer (f s) = timer s) \<Longrightarrow> tracks_timer (modify f)"
  by (simp add: tracks_timer_def)

lemma tracks_flush [tracks_rules]: "tracks_timer (flush E)"
  by (simp add: tracks_timer_def flush_calls split: sum.split)

lemma tracks_startTimer [tracks_rules]: "tracks_timer (startTimer E)"
  by (simp add: tracks_timer_def startTimer_def split: option.split)

lemma tracks_stopTimer [tracks_rules]: "tracks_timer stopTimer"
  by (simp add: tracks_timer_def stopTimer_def split: option.split)

lemma tracks_handle: "tracks_timer (rs_handle E i)"
  by (cases i) (simp_all only: rs_handle.simps rs_op_defs block.simps, (intro tracks_rules; simp)+)

lemma tracks_run:
  "live_timers (set_option (timer s)) (snd (rs_run M s es)) = set_option (timer (fst (rs_run M s es)))"
proof (induction es arbitrary: s)
  case (Cons e es)
  have "tracks_timer (rs_step M e)" unfolding rs_step_def by (rule tracks_handle)
  with Cons show ?case by (simp add: Let_def live_timers_append tracks_timer_def)
qed simp

lemma armed_enqueue: "armed (post (enqueue E u s))" if "armed s"
  using that by (simp add: armed_def)

lemma armed_onAck: "armed s \<Longrightarrow> armed (post (onAck v s))"
  by (auto simp: armed_def onAck_def andThen_eq)

lemma armed_onConnect: "thrown (onConnect E s) = None \<Longrightarrow> armed (post (onConnect E s))"
  by (auto simp: armed_def onConnect_def andThen_eq split: if_splits)

lemma armed_handle:
  assumes "armed s" and "i = Connect \<Longrightarrow> thrown (rs_handle E i s) = None"
  shows "armed (post (rs_handle E i s))"
proof (cases i)
  case (Ack v)
  with assms(1) show ?thesis by (simp add: armed_onAck)
next
  case Connect
  with assms(2) show ?thesis by (simp add: armed_onConnect)
qed (use assms(1) in \<open>auto simp: onTick_eq armed_def\<close>)

text \<open>Nothing throws when the merge and the transport do not.\<close>

definition quiet :: "rs_env \<Rightarrow> bool" where
  "quiet E \<longleftrightarrow> (\<forall>us. us \<noteq> [] \<longrightarrow> (\<exists>t. merge E us = Inr t)) \<and> (\<forall>u i. sendRaises E u i = None)"

lemma tail_of_quiet: "quiet E \<Longrightarrow> pending s \<noteq> [] \<Longrightarrow> \<exists>t. tail_of (merge E) s = Inr t"
  by (simp add: quiet_def tail_of_def Let_def)

lemma flush_quiet: "quiet E \<Longrightarrow> cache_ok (merge E) s \<Longrightarrow> thrown (flush E s) = None"
  using tail_of_quiet [of E s]
  by (cases "pending s = []")
    (auto simp: flush_thrown mergedTail_result quiet_def split: sum.split)

lemma onConnect_quiet:
  assumes "quiet E" and "cache_ok (merge E) s"
  shows "thrown (onConnect E s) = None"
proof -
  have "cache_ok (merge E) (s\<lparr>connected := True\<rparr>)" using assms(2) by (rule cache_ok_cong) simp_all
  with assms(1) show ?thesis by (simp add: onConnect_def andThen_eq flush_quiet)
qed

lemma armed_run:
  "rs_inv M s \<Longrightarrow> armed s \<Longrightarrow> \<forall>e\<in>set es. quiet (ev_env M e) \<Longrightarrow> armed (fst (rs_run M s es))"
proof (induction es arbitrary: s)
  case (Cons e es)
  let ?s = "post (rs_step M e s)"
  have "armed ?s"
    using Cons.prems onConnect_quiet [of "ev_env M e" s] unfolding rs_step_def
    by (intro armed_handle) (auto simp: rs_inv_def)
  moreover have "rs_inv M ?s" using Cons.prems(1) by (rule rs_step_inv)
  ultimately show ?case using Cons by (simp add: Let_def)
qed simp

subsection \<open>The queue contract\<close>

definition unacked_of :: "reliable_sync \<Rightarrow> (int \<times> bytes) list" where
  "unacked_of s = map (\<lambda>p. (p_seq p, p_update p)) (pending s)"

definition ack_covers :: "jsval \<Rightarrow> reliable_sync \<Rightarrow> int \<Rightarrow> bool" where
  "ack_covers v s n \<longleftrightarrow> \<not> ack_invalid v s \<and> of_int n \<le> num_of v"

text \<open>The events that neither add nor confirm: connect, disconnect, tick.\<close>

datatype transport_event = TConnect | TDisconnect | TTick

fun transport_input :: "transport_event \<Rightarrow> rs_input" where
  "transport_input TConnect = Connect"
| "transport_input TDisconnect = Disconnect"
| "transport_input TTick = Tick"

definition rs_offer :: "rs_env \<times> bytes \<Rightarrow> reliable_sync \<Rightarrow> reliable_sync" where
  "rs_offer i s = post (enqueue (fst i) (snd i) s)"

definition rs_confirm :: "jsval \<Rightarrow> reliable_sync \<Rightarrow> reliable_sync" where
  "rs_confirm v s = post (onAck v s)"

definition rs_transport :: "rs_env \<times> transport_event \<Rightarrow> reliable_sync \<Rightarrow> reliable_sync" where
  "rs_transport e s = post (rs_handle (fst e) (transport_input (snd e)) s)"

lemma unacked_of_filter:
  "pending t = filter (\<lambda>p. P (p_seq p)) (pending s) \<Longrightarrow>
   unacked_of t = filter (\<lambda>(n, u). P n) (unacked_of s)"
  by (simp add: unacked_of_def filter_map comp_def)

lemma seqs_ok_enqueue: "seqs_ok s \<Longrightarrow> seqs_ok (post (enqueue E u s))"
  by (rule seqs_ok_cong [OF seqs_ok_push [of s u]]) simp_all

lemma seqs_ok_onAck: "seqs_ok s \<Longrightarrow> seqs_ok (post (onAck v s))"
  by (cases "ack_invalid v s")
    (auto simp: onAck_invalid onAck_pending intro: seqs_ok_filter)

lemma seqs_ok_transport: "seqs_ok s \<Longrightarrow> seqs_ok (rs_transport e s)"
  by (cases "snd e") (auto simp: rs_transport_def onTick_eq intro: seqs_ok_cong)

interpretation rsq: delivery_queue seqs_ok unacked_of nextSeq snd rs_offer rs_confirm ack_covers rs_transport
proof (unfold_locales, goal_cases)
  case (1 s i)
  then show ?case by (simp add: rs_offer_def seqs_ok_enqueue)
next
  case (2 s k)
  then show ?case by (simp add: rs_confirm_def seqs_ok_onAck)
next
  case (3 s e)
  then show ?case by (rule seqs_ok_transport)
next
  case (4 s i)
  then show ?case by (simp add: rs_offer_def unacked_of_def)
next
  case (5 s k)
  show ?case
  proof (cases "ack_invalid k s")
    case True
    then show ?thesis by (simp add: rs_confirm_def onAck_invalid ack_covers_def case_prod_beta)
  next
    case False
    then show ?thesis
      by (intro unacked_of_filter) (simp add: rs_confirm_def onAck_pending ack_covers_def not_le)
  qed
next
  case (6 s e)
  then show ?case by (cases "snd e") (simp_all add: rs_transport_def unacked_of_def onTick_eq)
qed

end
