(* ===== verification/Base64.thy ===== *)
theory Base64
  imports Js_Value
begin

text \<open>
  packages/client/src/base64.ts: \<^verbatim>\<open>toBase64\<close> and \<^verbatim>\<open>fromBase64\<close> over the platform's \<^verbatim>\<open>btoa\<close> and
  \<^verbatim>\<open>atob\<close> (the forgiving base64 decode of the WHATWG Infra standard: ASCII whitespace is removed,
  padding is optional, trailing bits are discarded). Strings are lists of UTF-16 code units, so a
  string that is not base64, or not even Latin-1, is an input like any other.
\<close>

subsection \<open>Sextets and characters\<close>

definition b64_code :: "nat \<Rightarrow> nat" where
  "b64_code n =
     (if n < 26 then n + 65 else if n < 52 then n + 71 else if n < 62 then n - 4
      else if n = 62 then 43 else 47)"

definition b64_value :: "nat \<Rightarrow> nat option" where
  "b64_value c =
     (if 65 \<le> c \<and> c \<le> 90 then Some (c - 65)
      else if 97 \<le> c \<and> c \<le> 122 then Some (c - 71)
      else if 48 \<le> c \<and> c \<le> 57 then Some (c + 4)
      else if c = 43 then Some 62
      else if c = 47 then Some 63
      else None)"

definition b64_char :: "nat \<Rightarrow> 16 word" where
  "b64_char n = of_nat (b64_code n)"

abbreviation pad :: "16 word" where
  "pad \<equiv> 61"

text \<open>Bytes as sextets, three bytes to four; a last group of one or two bytes gives two or three.\<close>

fun sextets :: "nat list \<Rightarrow> nat list" where
  "sextets [] = []"
| "sextets [a] = [a div 4, a mod 4 * 16]"
| "sextets [a, b] = [a div 4, a mod 4 * 16 + b div 16, b mod 16 * 4]"
| "sextets (a # b # c # bs) =
     a div 4 # (a mod 4 * 16 + b div 16) # (b mod 16 * 4 + c div 64) # c mod 64 # sextets bs"

text \<open>Sextets back to bytes, four to three; the low bits of a short last group are discarded.\<close>

fun octets :: "nat list \<Rightarrow> nat list" where
  "octets [] = []"
| "octets [p] = []"
| "octets [p, q] = [p * 4 + q div 16]"
| "octets [p, q, r] = [p * 4 + q div 16, q mod 16 * 16 + r div 4]"
| "octets (p # q # r # t # ss) =
     (p * 4 + q div 16) # (q mod 16 * 16 + r div 4) # (r mod 4 * 64 + t) # octets ss"

subsection \<open>btoa and atob\<close>

definition btoa :: "jsstring \<Rightarrow> js_error + jsstring" where
  "btoa s =
     (if \<exists>c\<in>set s. 255 < unat c then Inl (DOMException ''InvalidCharacterError'')
      else Inr (map b64_char (sextets (map unat s)) @ replicate ((3 - length s mod 3) mod 3) pad))"

definition ascii_whitespace :: "16 word \<Rightarrow> bool" where
  "ascii_whitespace c \<longleftrightarrow> c \<in> {9, 10, 12, 13, 32}"

definition drop_pad1 :: "jsstring \<Rightarrow> jsstring" where
  "drop_pad1 s = (if s \<noteq> [] \<and> last s = pad then butlast s else s)"

definition drop_pad :: "jsstring \<Rightarrow> jsstring" where
  "drop_pad s = (if length s mod 4 = 0 then drop_pad1 (drop_pad1 s) else s)"

fun b64_values :: "jsstring \<Rightarrow> nat list option" where
  "b64_values [] = Some []"
| "b64_values (c # cs) =
     (case b64_value (unat c) of None \<Rightarrow> None | Some v \<Rightarrow> map_option ((#) v) (b64_values cs))"

definition atob :: "jsstring \<Rightarrow> js_error + jsstring" where
  "atob s =
     (let d = drop_pad (filter (\<lambda>c. \<not> ascii_whitespace c) s)
      in if length d mod 4 = 1 then Inl (DOMException ''InvalidCharacterError'')
         else case b64_values d of
                None \<Rightarrow> Inl (DOMException ''InvalidCharacterError'')
              | Some vs \<Rightarrow> Inr (map of_nat (octets vs)))"

subsection \<open>toBase64 and fromBase64\<close>

text \<open>\<^verbatim>\<open>Array.from(bytes, b => String.fromCharCode(b)).join("")\<close>\<close>

definition binary_string :: "bytes \<Rightarrow> jsstring" where
  "binary_string bs = map ucast bs"

definition toBase64 :: "bytes \<Rightarrow> js_error + jsstring" where
  "toBase64 bs = btoa (binary_string bs)"

text \<open>\<^verbatim>\<open>Uint8Array.from(atob(str), c => c.charCodeAt(0))\<close>, which keeps the low eight bits.\<close>

definition fromBase64 :: "jsstring \<Rightarrow> js_error + bytes" where
  "fromBase64 s = map_sum id (map ucast) (atob s)"

subsection \<open>The round trip\<close>

lemma b64_value_code: "n < 64 \<Longrightarrow> b64_value (b64_code n) = Some n"
  by (auto simp: b64_value_def b64_code_def)

lemma b64_code_range: "n < 64 \<Longrightarrow> 43 \<le> b64_code n \<and> b64_code n \<le> 122 \<and> b64_code n \<noteq> 61"
  by (auto simp: b64_code_def)

lemma unat_b64_char: "n < 64 \<Longrightarrow> unat (b64_char n) = b64_code n"
  using b64_code_range [of n] by (simp add: b64_char_def unat_of_nat)

lemma b64_char_not_pad: "n < 64 \<Longrightarrow> b64_char n \<noteq> pad"
proof
  assume "n < 64" and "b64_char n = pad"
  then have "b64_code n = 61" using unat_b64_char [of n] by simp
  with b64_code_range [OF \<open>n < 64\<close>] show False by simp
qed

lemma b64_char_not_whitespace: "n < 64 \<Longrightarrow> \<not> ascii_whitespace (b64_char n)"
proof
  assume n: "n < 64" and "ascii_whitespace (b64_char n)"
  then have "unat (b64_char n) \<le> 32" by (auto simp: ascii_whitespace_def)
  with b64_code_range [OF n] show False by (simp add: unat_b64_char [OF n])
qed

lemma pad_not_whitespace: "\<not> ascii_whitespace pad"
  by (simp add: ascii_whitespace_def)

lemma sextets_less: "\<forall>b\<in>set bs. b < 256 \<Longrightarrow> \<forall>v\<in>set (sextets bs). v < 64"
  by (induction bs rule: sextets.induct) auto

lemma octets_sextets: "\<forall>b\<in>set bs. b < 256 \<Longrightarrow> octets (sextets bs) = bs"
  by (induction bs rule: sextets.induct) auto

lemma length_sextets: "length (sextets bs) = (length bs * 4 + 2) div 3"
  by (induction bs rule: sextets.induct) auto

lemma b64_values_chars: "\<forall>v\<in>set vs. v < 64 \<Longrightarrow> b64_values (map b64_char vs) = Some vs"
  by (induction vs) (auto simp: unat_b64_char b64_value_code)

lemma drop_pad1_snoc: "drop_pad1 (s @ [pad]) = s"
  by (simp add: drop_pad1_def)

lemma drop_pad1_id: "pad \<notin> set s \<Longrightarrow> drop_pad1 s = s"
  by (auto simp: drop_pad1_def dest: last_in_set)

lemma drop_pad_padded:
  assumes "pad \<notin> set s" and "length s = (n * 4 + 2) div 3"
  shows "drop_pad (s @ replicate ((3 - n mod 3) mod 3) pad) = s"
proof -
  obtain q r where n: "n = 3 * q + r" and r: "r < 3"
    by (metis mod_less_divisor mult_div_mod_eq zero_less_numeral)
  have len: "length s = 4 * q + (r * 4 + 2) div 3" using assms(2) n by simp
  from r consider "r = 0" | "r = 1" | "r = 2" by linarith
  then show ?thesis
  proof cases
    case 1
    then have "n mod 3 = 0" and "length s mod 4 = 0" using n len by simp_all
    with assms(1) show ?thesis by (simp add: drop_pad_def drop_pad1_id)
  next
    case 2
    then have n3: "n mod 3 = 1" and l: "length s = 4 * q + 2" using n len by simp_all
    have "replicate ((3 - n mod 3) mod 3) pad = [pad] @ [pad]"
      unfolding n3 by (simp add: numeral_2_eq_2)
    moreover have "length (s @ [pad] @ [pad]) mod 4 = 0" using l by simp
    ultimately show ?thesis
      using drop_pad1_snoc [of "s @ [pad]"] by (simp add: drop_pad_def drop_pad1_snoc)
  next
    case 3
    then have n3: "n mod 3 = 2" and l: "length s = 4 * q + 3" using n len by presburger+
    have "length (s @ [pad]) mod 4 = 0" using l by simp
    with assms(1) show ?thesis unfolding n3 by (simp add: drop_pad_def drop_pad1_snoc drop_pad1_id)
  qed
qed

lemma unat_byte_char: "unat (ucast (b :: byte) :: 16 word) = unat b"
proof -
  have "unat b < 2 ^ 16" using unsigned_less [of b, where ?'a = nat] by simp
  then show ?thesis by (simp add: unsigned_ucast_eq take_bit_nat_eq_self)
qed

lemma map_unat_binary_string: "map unat (binary_string bs) = map unat bs"
  by (simp add: binary_string_def unat_byte_char)

lemma unat_byte_less: "unat (b :: byte) < 256"
  using unsigned_less [of b] by simp

lemma unat_byte_le: "\<not> 255 < unat (b :: byte)"
  using unat_byte_less [of b] by simp

lemma toBase64_eq:
  "toBase64 bs =
     Inr (map b64_char (sextets (map unat bs)) @ replicate ((3 - length bs mod 3) mod 3) pad)"
proof -
  have "\<not> (\<exists>c\<in>set (binary_string bs). 255 < unat c)"
    by (auto simp: binary_string_def unat_byte_char unat_byte_le)
  moreover have "length (binary_string bs) = length bs" by (simp add: binary_string_def)
  ultimately show ?thesis by (simp add: toBase64_def btoa_def map_unat_binary_string)
qed

definition b64_of :: "bytes \<Rightarrow> jsstring" where
  "b64_of bs =
     map b64_char (sextets (map unat bs)) @ replicate ((3 - length bs mod 3) mod 3) pad"

lemma toBase64_total [simp]: "toBase64 bs = Inr (b64_of bs)"
  by (simp add: toBase64_eq b64_of_def)

lemma ucast_of_nat_unat: "(ucast (of_nat (unat (b :: byte)) :: 16 word) :: byte) = b"
proof -
  have "(of_nat (unat b) :: 16 word) = ucast b" by simp
  moreover have "(ucast (ucast b :: 16 word) :: byte) = b"
    by (rule bit_word_eqI) (simp add: bit_ucast_iff)
  ultimately show ?thesis by simp
qed

lemma fromBase64_b64_of: "fromBase64 (b64_of bs) = Inr bs"
proof -
  let ?vs = "sextets (map unat bs)"
  let ?p = "replicate ((3 - length bs mod 3) mod 3) pad"
  have lt: "\<forall>v\<in>set ?vs. v < 64" by (rule sextets_less) (auto simp: unat_byte_less)
  have nows: "filter (\<lambda>c. \<not> ascii_whitespace c) (b64_of bs) = b64_of bs"
    using lt by (auto simp: b64_of_def filter_id_conv b64_char_not_whitespace pad_not_whitespace)
  have len: "length ?vs = (length bs * 4 + 2) div 3" by (simp add: length_sextets)
  have "pad \<notin> set (map b64_char ?vs)" using lt b64_char_not_pad by fastforce
  then have drop: "drop_pad (b64_of bs) = map b64_char ?vs"
    unfolding b64_of_def by (rule drop_pad_padded) (simp add: len)
  have "length ?vs mod 4 \<noteq> 1" unfolding len by presburger
  then have "atob (b64_of bs) = Inr (map of_nat (map unat bs))"
    using lt by (simp add: atob_def nows drop b64_values_chars octets_sextets unat_byte_less)
  then show ?thesis
    by (simp add: fromBase64_def ucast_of_nat_unat map_idI del: of_nat_unat)
qed

lemma length_b64_of: "length (b64_of bs) = 4 * ((length bs + 2) div 3)"
proof -
  obtain q r where n: "length bs = 3 * q + r" and r: "r < 3"
    by (metis mod_less_divisor mult_div_mod_eq zero_less_numeral)
  have "length (b64_of bs) = (length bs * 4 + 2) div 3 + (3 - length bs mod 3) mod 3"
    by (simp add: b64_of_def length_sextets)
  also have "\<dots> = 4 * ((length bs + 2) div 3)"
  proof -
    from r consider "r = 0" | "r = 1" | "r = 2" by linarith
    then show ?thesis
    proof cases
      case 1
      then have "length bs mod 3 = 0" and "(length bs * 4 + 2) div 3 = 4 * q"
        and "(length bs + 2) div 3 = q" using n by presburger+
      then show ?thesis by simp
    next
      case 2
      then have "length bs mod 3 = 1" and "(length bs * 4 + 2) div 3 = 4 * q + 2" using n by simp_all
      with 2 n show ?thesis by simp
    next
      case 3
      then have "length bs mod 3 = 2" and "(length bs * 4 + 2) div 3 = 4 * q + 3"
        and "(length bs + 2) div 3 = q + 1" using n by presburger+
      then show ?thesis by simp
    qed
  qed
  finally show ?thesis .
qed

subsection \<open>The codec interface\<close>

text \<open>
  What a transport that carries bytes as strings relies on: what was encoded decodes to itself.
  The provider and the server envelope use it through this interface.
\<close>

locale codec =
  fixes enc :: "'a \<Rightarrow> 'b"
    and dec :: "'b \<Rightarrow> js_error + 'a"
  assumes dec_enc: "dec (enc x) = Inr x"
begin

lemma enc_inject: "enc x = enc y \<longleftrightarrow> x = y"
  by (metis dec_enc sum.inject(2))

lemma map_enc_inject: "map enc xs = map enc ys \<longleftrightarrow> xs = ys"
  by (simp add: inj_on_def enc_inject inj_map_eq_map)

end

interpretation b64: codec b64_of fromBase64
  by unfold_locales (rule fromBase64_b64_of)

text \<open>A character outside the alphabet, the padding and the whitespace makes the decode throw.\<close>

lemma b64_values_None: "c \<in> set s \<Longrightarrow> b64_value (unat c) = None \<Longrightarrow> b64_values s = None"
  by (induction s) (auto split: option.splits)

lemma in_drop_pad1: "c \<in> set s \<Longrightarrow> c \<noteq> pad \<Longrightarrow> c \<in> set (drop_pad1 s)"
  by (cases s rule: rev_cases) (auto simp: drop_pad1_def)

lemma in_drop_pad: "c \<in> set s \<Longrightarrow> c \<noteq> pad \<Longrightarrow> c \<in> set (drop_pad s)"
  by (simp add: drop_pad_def in_drop_pad1)

lemma fromBase64_foreign_char:
  assumes "c \<in> set s" and "b64_value (unat c) = None" and "c \<noteq> pad" and "\<not> ascii_whitespace c"
  shows "\<exists>e. fromBase64 s = Inl e"
proof -
  let ?d = "drop_pad (filter (\<lambda>c. \<not> ascii_whitespace c) s)"
  have "c \<in> set ?d" using assms by (intro in_drop_pad) auto
  then have "b64_values ?d = None" using assms(2) by (rule b64_values_None)
  then show ?thesis by (simp add: fromBase64_def atob_def Let_def)
qed

end
