(* ===== verification/Json.thy ===== *)
theory Json
  imports Js_Value
begin

text \<open>
  \<^verbatim>\<open>JSON.parse\<close> as far as the session uses it: whether the text is JSON (ECMA-404), that is,
  whether the call returns or throws a SyntaxError. The readers return the text left after what
  they read. Nesting is bounded by fuel; \<open>jval_enough\<close> shows that twice the length of the text is
  always enough.
\<close>

fun skip_ws :: "nat list \<Rightarrow> nat list" where
  "skip_ws [] = []"
| "skip_ws (c # cs) = (if c = 9 \<or> c = 10 \<or> c = 13 \<or> c = 32 then skip_ws cs else c # cs)"

definition is_digit :: "nat \<Rightarrow> bool" where
  "is_digit c \<longleftrightarrow> 48 \<le> c \<and> c \<le> 57"

definition is_hex :: "nat \<Rightarrow> bool" where
  "is_hex c \<longleftrightarrow> is_digit c \<or> (65 \<le> c \<and> c \<le> 70) \<or> (97 \<le> c \<and> c \<le> 102)"

text \<open>A string after its opening quote.\<close>

fun jstr :: "nat list \<Rightarrow> nat list option" where
  "jstr [] = None"
| "jstr (c # cs) =
     (if c = 34 then Some cs
      else if c < 32 then None
      else if c = 92
      then (case cs of
              [] \<Rightarrow> None
            | e # r \<Rightarrow>
                if e \<in> {34, 92, 47, 98, 102, 110, 114, 116} then jstr r
                else if e = 117
                then (case r of
                        h1 # h2 # h3 # h4 # r' \<Rightarrow>
                          if is_hex h1 \<and> is_hex h2 \<and> is_hex h3 \<and> is_hex h4 then jstr r' else None
                      | _ \<Rightarrow> None)
                else None)
      else jstr cs)"

definition skip_digits :: "nat list \<Rightarrow> nat list" where
  "skip_digits s = dropWhile is_digit s"

text \<open>At least one digit.\<close>

definition jdigits :: "nat list \<Rightarrow> nat list option" where
  "jdigits s = (case s of [] \<Rightarrow> None | c # cs \<Rightarrow> if is_digit c then Some (skip_digits cs) else None)"

definition jint :: "nat list \<Rightarrow> nat list option" where
  "jint s = (case s of [] \<Rightarrow> None | c # cs \<Rightarrow> if c = 48 then Some cs else jdigits s)"

definition jfrac :: "nat list \<Rightarrow> nat list option" where
  "jfrac s = (case s of [] \<Rightarrow> Some [] | c # cs \<Rightarrow> if c = 46 then jdigits cs else Some s)"

definition jexp :: "nat list \<Rightarrow> nat list option" where
  "jexp s =
     (case s of [] \<Rightarrow> Some []
      | c # cs \<Rightarrow>
          if c = 69 \<or> c = 101
          then (case cs of [] \<Rightarrow> None | d # ds \<Rightarrow> if d = 43 \<or> d = 45 then jdigits ds else jdigits cs)
          else Some s)"

definition jnum :: "nat list \<Rightarrow> nat list option" where
  "jnum s =
     (let t = (case s of [] \<Rightarrow> [] | c # cs \<Rightarrow> if c = 45 then cs else s)
      in case jint t of None \<Rightarrow> None
         | Some r \<Rightarrow> (case jfrac r of None \<Rightarrow> None | Some r' \<Rightarrow> jexp r'))"

fun jlit :: "nat list \<Rightarrow> nat list \<Rightarrow> nat list option" where
  "jlit [] s = Some s"
| "jlit (c # cs) [] = None"
| "jlit (c # cs) (d # ds) = (if c = d then jlit cs ds else None)"

fun jval :: "nat \<Rightarrow> nat list \<Rightarrow> nat list option"
and jelems :: "nat \<Rightarrow> nat list \<Rightarrow> nat list option"
and jmems :: "nat \<Rightarrow> nat list \<Rightarrow> nat list option" where
  "jval 0 s = None"
| "jval (Suc n) s =
     (case skip_ws s of
        [] \<Rightarrow> None
      | c # cs \<Rightarrow>
          if c = 34 then jstr cs
          else if c = 123
          then (case skip_ws cs of
                  [] \<Rightarrow> None | d # r \<Rightarrow> if d = 125 then Some r else jmems n cs)
          else if c = 91
          then (case skip_ws cs of
                  [] \<Rightarrow> None | d # r \<Rightarrow> if d = 93 then Some r else jelems n cs)
          else if c = 116 then jlit [114, 117, 101] cs
          else if c = 102 then jlit [97, 108, 115, 101] cs
          else if c = 110 then jlit [117, 108, 108] cs
          else jnum (c # cs))"
| "jelems 0 s = None"
| "jelems (Suc n) s =
     (case jval n s of None \<Rightarrow> None
      | Some r \<Rightarrow>
          (case skip_ws r of [] \<Rightarrow> None
           | c # r' \<Rightarrow> if c = 44 then jelems n r' else if c = 93 then Some r' else None))"
| "jmems 0 s = None"
| "jmems (Suc n) s =
     (case skip_ws s of [] \<Rightarrow> None
      | c # cs \<Rightarrow>
          if c \<noteq> 34 then None
          else (case jstr cs of None \<Rightarrow> None
                | Some r \<Rightarrow>
                    (case skip_ws r of [] \<Rightarrow> None
                     | d # r' \<Rightarrow>
                         if d \<noteq> 58 then None
                         else (case jval n r' of None \<Rightarrow> None
                               | Some r2 \<Rightarrow>
                                   (case skip_ws r2 of [] \<Rightarrow> None
                                    | e # r3 \<Rightarrow>
                                        if e = 44 then jmems n r3
                                        else if e = 125 then Some r3 else None)))))"

definition json_valid :: "jsstring \<Rightarrow> bool" where
  "json_valid s =
     (case jval (2 * length s + 1) (map unat s) of None \<Rightarrow> False | Some r \<Rightarrow> skip_ws r = [])"

definition json_parse_throws :: "jsstring \<Rightarrow> js_error option" where
  "json_parse_throws s = (if json_valid s then None else Some (JsError ''SyntaxError''))"

subsection \<open>The fuel is enough\<close>

lemma skip_ws_length: "length (skip_ws s) \<le> length s"
  by (induction s) auto

lemma skip_ws_Cons: "skip_ws s = c # cs \<Longrightarrow> length cs < length s"
  using skip_ws_length [of s] by simp

lemma jstr_length: "jstr s = Some r \<Longrightarrow> length r < length s"
proof (induction s arbitrary: r rule: length_induct)
  case (1 s)
  have IH: "length r < length t" if "jstr t = Some r" and "length t < length s" for t r
    using 1 that by blast
  show ?case
    using 1(2) IH
    by (cases s) (auto split: if_splits list.splits intro: less_trans [OF IH] less_SucI)
qed

lemma jdigits_length: "jdigits s = Some r \<Longrightarrow> length r < length s"
  by (auto simp: jdigits_def skip_digits_def length_dropWhile_le le_imp_less_Suc
      split: list.splits if_splits)

lemma jlit_length: "jlit l s = Some r \<Longrightarrow> length r \<le> length s"
  by (induction l s arbitrary: r rule: jlit.induct) (fastforce split: if_splits)+

lemma jint_length: "jint s = Some r \<Longrightarrow> length r < length s"
  by (auto simp: jint_def split: list.splits if_splits dest: jdigits_length)

lemma jfrac_length: "jfrac s = Some r \<Longrightarrow> length r \<le> length s"
  by (fastforce simp: jfrac_def split: list.splits if_splits dest: jdigits_length)

lemma jexp_length: "jexp s = Some r \<Longrightarrow> length r \<le> length s"
  by (fastforce simp: jexp_def split: list.splits if_splits dest: jdigits_length)

lemma jnum_length: "jnum s = Some r \<Longrightarrow> length r < length s"
  by (fastforce simp: jnum_def Let_def split: option.splits list.splits if_splits
      dest: jint_length jfrac_length jexp_length)

lemma jval_length_all:
  "(\<forall>s r. jval n s = Some r \<longrightarrow> length r < length s)
   \<and> (\<forall>s r. jelems n s = Some r \<longrightarrow> length r < length s)
   \<and> (\<forall>s r. jmems n s = Some r \<longrightarrow> length r < length s)"
proof (induction n)
  case (Suc n)
  then have v: "length r < length s" if "jval n s = Some r" for s r using that by blast
  from Suc have e: "length r < length s" if "jelems n s = Some r" for s r using that by blast
  from Suc have m: "length r < length s" if "jmems n s = Some r" for s r using that by blast
  have "length r < length s" if "jval (Suc n) s = Some r" for s r
  proof -
    from that obtain c cs where sk: "skip_ws s = c # cs" by (auto split: list.splits)
    have "length r \<le> length cs"
      using that sk jnum_length [of "c # cs" r] skip_ws_Cons [of cs]
      by (auto split: if_splits list.splits
          dest: jstr_length e m jlit_length intro: less_imp_le)
    with skip_ws_Cons [OF sk] show ?thesis by simp
  qed
  moreover have "length r < length s" if "jelems (Suc n) s = Some r" for s r
    using that by (fastforce split: option.splits list.splits if_splits dest: skip_ws_Cons v e)
  moreover have "length r < length s" if "jmems (Suc n) s = Some r" for s r
    using that
    by (fastforce split: option.splits list.splits if_splits dest: skip_ws_Cons jstr_length v m)
  ultimately show ?case by blast
qed simp

lemmas jval_length = jval_length_all [THEN conjunct1, rule_format]
lemmas jelems_length = jval_length_all [THEN conjunct2, THEN conjunct1, rule_format]
lemmas jmems_length = jval_length_all [THEN conjunct2, THEN conjunct2, rule_format]

text \<open>More fuel never changes a result.\<close>

lemma jval_mono_Suc:
  "(\<forall>s r. jval n s = Some r \<longrightarrow> jval (Suc n) s = Some r)
   \<and> (\<forall>s r. jelems n s = Some r \<longrightarrow> jelems (Suc n) s = Some r)
   \<and> (\<forall>s r. jmems n s = Some r \<longrightarrow> jmems (Suc n) s = Some r)"
proof (induction n)
  case (Suc n)
  then have v: "jval (Suc n) s = Some r" if "jval n s = Some r" for s r using that by blast
  from Suc have e: "jelems (Suc n) s = Some r" if "jelems n s = Some r" for s r using that by blast
  from Suc have m: "jmems (Suc n) s = Some r" if "jmems n s = Some r" for s r using that by blast
  have "jval (Suc (Suc n)) s = Some r" if "jval (Suc n) s = Some r" for s r
    using that
    by (subst jval.simps(2), subst (asm) jval.simps(2))
      (auto simp del: jval.simps jelems.simps jmems.simps split: list.splits if_splits intro: e m)
  moreover have "jelems (Suc (Suc n)) s = Some r" if a: "jelems (Suc n) s = Some r" for s r
  proof -
    from a obtain x where x: "jval n s = Some x" by (auto split: option.splits)
    with a have "(case skip_ws x of [] \<Rightarrow> None
        | c # r' \<Rightarrow> if c = 44 then jelems n r' else if c = 93 then Some r' else None) = Some r"
      by simp
    with v [OF x] show ?thesis
      by (subst jelems.simps(2))
        (auto simp del: jval.simps jelems.simps split: list.splits if_splits intro: e)
  qed
  moreover have "jmems (Suc (Suc n)) s = Some r" if a: "jmems (Suc n) s = Some r" for s r
  proof -
    from a obtain cs q d x where sk: "skip_ws s = 34 # cs" and q: "jstr cs = Some q"
      and d: "skip_ws q = 58 # d" and x: "jval n d = Some x"
      by (auto split: option.splits list.splits if_splits)
    from a sk q d x have "(case skip_ws x of [] \<Rightarrow> None
        | c # r' \<Rightarrow> if c = 44 then jmems n r' else if c = 125 then Some r' else None) = Some r"
      by simp
    with sk q d v [OF x] show ?thesis
      by (subst jmems.simps(2))
        (auto simp del: jval.simps jmems.simps split: list.splits if_splits intro: m)
  qed
  ultimately show ?case by blast
qed simp

lemma jval_mono: "n \<le> m \<Longrightarrow> jval n s = Some r \<Longrightarrow> jval m s = Some r"
  by (induction m rule: dec_induct) (auto simp del: jval.simps dest: jval_mono_Suc [THEN conjunct1, rule_format])

lemma jelems_mono: "n \<le> m \<Longrightarrow> jelems n s = Some r \<Longrightarrow> jelems m s = Some r"
  by (induction m rule: dec_induct)
    (auto simp del: jelems.simps dest: jval_mono_Suc [THEN conjunct2, THEN conjunct1, rule_format])

lemma jmems_mono: "n \<le> m \<Longrightarrow> jmems n s = Some r \<Longrightarrow> jmems m s = Some r"
  by (induction m rule: dec_induct)
    (auto simp del: jmems.simps dest: jval_mono_Suc [THEN conjunct2, THEN conjunct2, rule_format])

text \<open>Whatever any amount of fuel reads, the fuel \<open>json_valid\<close> gives reads too.\<close>

lemma jval_enough_all:
  "(\<forall>s r. jval n s = Some r \<longrightarrow> jval (2 * length s + 1) s = Some r)
   \<and> (\<forall>s r. jelems n s = Some r \<longrightarrow> jelems (2 * length s + 2) s = Some r)
   \<and> (\<forall>s r. jmems n s = Some r \<longrightarrow> jmems (2 * length s + 2) s = Some r)"
proof (induction n)
  case (Suc n)
  then have v: "jval k s = Some r" if "jval n s = Some r" and "2 * length s + 1 \<le> k" for s r k
    using that jval_mono by blast
  from Suc have e: "jelems k s = Some r" if "jelems n s = Some r" and "2 * length s + 2 \<le> k" for s r k
    using that jelems_mono by blast
  from Suc have m: "jmems k s = Some r" if "jmems n s = Some r" and "2 * length s + 2 \<le> k" for s r k
    using that jmems_mono by blast
  have "jval (2 * length s + 1) s = Some r" if a: "jval (Suc n) s = Some r" for s r
  proof -
    from a obtain c cs where sk: "skip_ws s = c # cs" by (auto split: list.splits)
    from skip_ws_Cons [OF sk] have "2 * length cs + 2 \<le> 2 * length s" by simp
    with a sk show ?thesis
      by (simp only: add_Suc_right Suc_eq_plus1 [symmetric] jval.simps(2) add_0_right)
        (auto simp del: jval.simps jelems.simps jmems.simps split: list.splits if_splits intro: e m)
  qed
  moreover have "jelems (2 * length s + 2) s = Some r" if a: "jelems (Suc n) s = Some r" for s r
  proof -
    from a obtain x where x: "jval n s = Some x" by (auto split: option.splits)
    then have x': "jval (Suc (2 * length s)) s = Some x" by (rule v) simp
    have l: "2 * length t + 2 \<le> Suc (2 * length s)" if "skip_ws x = d # t" for d t
      using skip_ws_Cons [OF that] jval_length [OF x] by simp
    from a x have "(case skip_ws x of [] \<Rightarrow> None
        | c # r' \<Rightarrow> if c = 44 then jelems n r' else if c = 93 then Some r' else None) = Some r"
      by simp
    with x' l show ?thesis
      unfolding add_2_eq_Suc'
      by (subst jelems.simps(2))
        (auto simp del: jval.simps jelems.simps split: list.splits if_splits intro: e)
  qed
  moreover have "jmems (2 * length s + 2) s = Some r" if a: "jmems (Suc n) s = Some r" for s r
  proof -
    from a obtain cs q d x where sk: "skip_ws s = 34 # cs" and q: "jstr cs = Some q"
      and d: "skip_ws q = 58 # d" and x: "jval n d = Some x"
      by (auto split: option.splits list.splits if_splits)
    have ld: "length d < length s"
      using skip_ws_Cons [OF sk] jstr_length [OF q] skip_ws_Cons [OF d] by simp
    then have x': "jval (Suc (2 * length s)) d = Some x" by (intro v [OF x]) simp
    have l: "2 * length t + 2 \<le> Suc (2 * length s)" if "skip_ws x = b # t" for b t
      using skip_ws_Cons [OF that] jval_length [OF x] ld by simp
    from a sk q d x have "(case skip_ws x of [] \<Rightarrow> None
        | c # r' \<Rightarrow> if c = 44 then jmems n r' else if c = 125 then Some r' else None) = Some r"
      by simp
    with sk q d x' l show ?thesis
      unfolding add_2_eq_Suc'
      by (subst jmems.simps(2))
        (auto simp del: jval.simps jmems.simps split: list.splits if_splits intro: m)
  qed
  ultimately show ?case by blast
qed simp

lemma jval_enough: "jval n s = Some r \<Longrightarrow> jval (2 * length s + 1) s = Some r"
  using jval_enough_all by blast

end
