(* ===== verification/Reliable_Sync_Theorems.thy ===== *)
theory Reliable_Sync_Theorems
  imports Reliable_Sync_Props Base64 Json
begin

text \<open>
  The properties of the delivery queue, of the base64 helpers and of the JSON check, with the
  concrete runs that show their hypotheses can hold.
\<close>

subsection \<open>A concrete queue\<close>

definition default_options :: rs_options where
  "default_options = \<lparr>opt_send = True, opt_merge = True, opt_resendInterval = JUndef\<rparr>"

definition fresh_queue :: reliable_sync where
  "fresh_queue =
     \<lparr>pending = [], nextSeq = 1, connected = False, timer = None, tailCache = None, resendInterval = 1000\<rparr>"

lemma fresh_queue_new: "new_ReliableSync (Some default_options) = Inr fresh_queue"
  by (simp add: new_ReliableSync_def default_options_def fresh_queue_def default_resendInterval_def)

definition concat_merge :: "bytes list \<Rightarrow> js_error + bytes" where
  "concat_merge us = Inr (concat us)"

definition input :: "rs_input \<Rightarrow> rs_event" where
  "input i = \<lparr>ev_input = i, ev_raises = (\<lambda>_ _. None), ev_timer = 0\<rparr>"

text \<open>Two edits offline, the transport up, a third edit.\<close>

definition three_edits :: "rs_event list" where
  "three_edits = map input [Enqueue [1], Enqueue [2], Connect, Enqueue [3]]"

lemmas run_defs =
  rs_step_def ev_env_def input_def enqueue_def onAck_def onConnect_def onDisconnect_def onTick_def
  destroy_def flush_def startTimer_def stopTimer_def mergedTail_def push_pending_def tail_of_def
  js_incr_def concat_merge_def fresh_queue_def ack_invalid_def andThen_eq Let_def

lemma three_edits_run:
  "fst (rs_run concat_merge fresh_queue three_edits) =
     \<lparr>pending = [\<lparr>p_seq = 1, p_update = [1]\<rparr>, \<lparr>p_seq = 2, p_update = [2]\<rparr>, \<lparr>p_seq = 3, p_update = [3]\<rparr>],
      nextSeq = 4, connected = True, timer = Some 0, tailCache = Some [1, 2, 3], resendInterval = 1000\<rparr>"
  by (simp add: three_edits_def run_defs)


subsection \<open>Properties\<close>

text \<open>
  C7: Memoizing the merged tail cannot be observed. From construction on, whatever edits, acks,
  transport changes, ticks and throwing calls happen, the code makes the same calls in the same
  order as the queue that merges the unacked tail anew at every send, and its state is the same up
  to the cache.
\<close>

theorem memoized_tail_equivalent:
  assumes "new_ReliableSync opts = Inr s"
  shows "snd (rs_run M s es) = snd (rs_run_ref M s es)
    \<and> forget_cache (fst (rs_run M s es)) = fst (rs_run_ref M s es)"
proof -
  have "forget_cache s = s"
    using assms by (auto simp: new_ReliableSync_def forget_cache_def Let_def split: if_splits)
  moreover have "cache_ok M s" using rs_inv_new [OF assms] by (simp add: rs_inv_def)
  ultimately show ?thesis using rs_run_ref_eq [of M s es] by simp
qed

theorem memoized_tail_equivalent_witness:
  "snd (rs_run concat_merge fresh_queue three_edits) = snd (rs_run_ref concat_merge fresh_queue three_edits)"
  using memoized_tail_equivalent [OF fresh_queue_new] by blast

text \<open>
  C11: The invariant of the queue. In every state reached from construction the sequence numbers of
  the unacked updates are positive and in order, strictly increasing as long as the counter has not
  reached \<open>2 ^ 53\<close> (where a double stops counting), the cached tail is the merge of the unacked
  updates, and a retransmit timer runs only over an unacked tail on a live transport.
\<close>

theorem queue_invariant:
  assumes "new_ReliableSync opts = Inr s0" and "s = fst (rs_run M s0 es)"
  shows "rs_inv M s \<and> (nextSeq s < 2 ^ 53 \<longrightarrow> sorted_wrt (<) (map p_seq (pending s) @ [nextSeq s]))"
proof -
  have inv: "rs_inv M s" unfolding assms(2) by (intro rs_run_inv rs_inv_new [OF assms(1)])
  then have ok: "seqs_ok s" by (simp add: rs_inv_def)
  have "sorted_wrt (<) (map p_seq (pending s) @ [nextSeq s])" if "nextSeq s < 2 ^ 53"
  proof -
    have lt: "\<forall>p\<in>set (pending s). p_seq p < nextSeq s"
      using ok that by (auto simp: seqs_ok_def seq_before_def)
    have "sorted_wrt seq_before (map p_seq (pending s))" using ok by (simp add: seqs_ok_def)
    then have "sorted_wrt (<) (map p_seq (pending s))"
      by (rule sorted_wrt_mono_rel [rotated]) (use lt that in \<open>auto simp: seq_before_def\<close>)
    then show ?thesis using lt by (simp add: sorted_wrt_append)
  qed
  with inv show ?thesis by blast
qed

theorem queue_invariant_witness:
  "sorted_wrt (<) (map p_seq (pending (fst (rs_run concat_merge fresh_queue three_edits))) @ [4])"
  using queue_invariant [OF fresh_queue_new refl, of concat_merge three_edits]
  by (simp add: three_edits_run)

text \<open>
  C9: Acks are cumulative. In every reachable state an ack drops exactly the prefix of the queue
  whose sequence numbers it reaches; anything that is not a safe, non-negative integer at most the
  newest sequence number drops nothing.
\<close>

theorem ack_drops_prefix:
  assumes "new_ReliableSync opts = Inr s0" and "s = fst (rs_run M s0 es)"
  shows "unacked_of (post (onAck v s)) =
    (if isSafeInteger v \<and> 0 \<le> num_of v
          \<and> (pending s \<noteq> [] \<longrightarrow> num_of v \<le> of_int (p_seq (last (pending s))))
     then dropWhile (\<lambda>(n, u). of_int n \<le> num_of v) (unacked_of s)
     else unacked_of s)"
proof -
  have "rs_inv M s" unfolding assms(2) by (intro rs_run_inv rs_inv_new [OF assms(1)])
  then have "sorted_wrt seq_before (map p_seq (pending s))" by (simp add: rs_inv_def seqs_ok_def)
  then have "filter (\<lambda>p. num_of v < of_int (p_seq p)) (pending s) =
      dropWhile (\<lambda>p. of_int (p_seq p) \<le> num_of v) (pending s)"
  proof (induction "pending s" arbitrary: s)
    case (Cons p ps)
    have ih: "filter (\<lambda>p. num_of v < of_int (p_seq p)) ps =
        dropWhile (\<lambda>p. of_int (p_seq p) \<le> num_of v) ps"
      using Cons.hyps(1) [of "s\<lparr>pending := ps\<rparr>"] Cons.prems Cons.hyps(2) [symmetric] by simp
    have "\<forall>q\<in>set ps. p_seq p \<le> p_seq q"
      using Cons.prems Cons.hyps(2) [symmetric] by (auto dest: seq_before_le)
    then have "filter (\<lambda>p. num_of v < of_int (p_seq p)) ps = ps" if "num_of v < of_int (p_seq p)"
      using that by (fastforce simp: filter_id_conv intro: less_le_trans)
    with ih Cons.hyps(2) [symmetric] show ?case by (auto simp: not_le)
  qed simp
  then show ?thesis
    by (auto simp: unacked_of_def onAck_pending ack_invalid_def dropWhile_map comp_def not_le not_less)
qed

theorem ack_drops_prefix_witness:
  "unacked_of (post (onAck (JInt 2) (fst (rs_run concat_merge fresh_queue three_edits)))) = [(3, [3])]"
  by (subst ack_drops_prefix [OF fresh_queue_new refl])
    (simp add: three_edits_run unacked_of_def max_safe_integer_def)

text \<open>
  C24: No timer leaks. The interval timers alive after any run from construction, counted from the
  calls to \<^verbatim>\<open>setInterval\<close> and \<^verbatim>\<open>clearInterval\<close>, are the one the queue holds, if any; and it holds one
  only while it is connected and something is unacked, so that disconnecting or destroying leaves
  none.
\<close>

theorem no_timer_leak:
  assumes "new_ReliableSync opts = Inr s"
  shows "live_timers {} (snd (rs_run M s es)) = set_option (timer (fst (rs_run M s es)))
    \<and> (timer (fst (rs_run M s es)) \<noteq> None
        \<longrightarrow> connected (fst (rs_run M s es)) \<and> pending (fst (rs_run M s es)) \<noteq> [])"
proof -
  have "timer s = None" using assms by (auto simp: new_ReliableSync_def Let_def split: if_splits)
  moreover have "rs_inv M (fst (rs_run M s es))" by (intro rs_run_inv rs_inv_new [OF assms])
  ultimately show ?thesis using tracks_run [of s M es] by (simp add: rs_inv_def timer_ok_def)
qed

theorem no_timer_leak_witness:
  "live_timers {} (snd (rs_run concat_merge fresh_queue three_edits)) = {0}"
  using no_timer_leak [OF fresh_queue_new, of concat_merge three_edits] by (simp add: three_edits_run)



text \<open>
  One ack of the last send settles everything. In a reachable, connected state whose newest
  sequence number is a safe integer, the ack of the id a flush was sent under empties the queue and
  stops the timer.
\<close>

theorem ack_of_flush_empties:
  assumes "new_ReliableSync opts = Inr s0" and "s = fst (rs_run M s0 es)"
    and "Send t i \<in> set (calls (flush E s))" and "i \<le> max_safe_integer"
  shows "pending (post (onAck (JInt i) (post (flush E s)))) = []
    \<and> timer (post (onAck (JInt i) (post (flush E s)))) = None"
proof -
  have ok: "seqs_ok s" unfolding assms(2)
    using rs_run_inv [OF rs_inv_new [OF assms(1)]] by (simp add: rs_inv_def)
  have "pending (post (flush E s)) \<noteq> [] \<and> p_seq (last (pending (post (flush E s)))) = i"
    using flush_sent [OF assms(3)] by simp
  moreover have "seqs_ok (post (flush E s))"
    using ok by (simp add: seqs_ok_def)
  ultimately show ?thesis using assms(4) by (intro ack_newest_empties) simp_all
qed

theorem ack_of_flush_empties_witness:
  "pending (post (onAck (JInt 3) (post (flush (ev_env concat_merge (input Tick))
     (fst (rs_run concat_merge fresh_queue three_edits)))))) = []"
  using ack_of_flush_empties [OF fresh_queue_new refl, of "[1, 2, 3]" 3 "ev_env concat_merge (input Tick)"
      concat_merge three_edits]
  by (simp add: three_edits_run flush_def mergedTail_def max_safe_integer_def)

text \<open>
  The limit of the previous properties. When the transport's \<^verbatim>\<open>send\<close> throws out of the replay of
  \<^verbatim>\<open>onConnect\<close>, the statement that resumes the retransmits is skipped: the queue is connected, the
  tail is still unacked, and no timer is running.
\<close>

theorem throwing_replay_not_resumed:
  assumes "pending s \<noteq> []" and "timer s = None" and "thrown (onConnect E s) \<noteq> None"
  shows "connected (post (onConnect E s)) \<and> pending (post (onConnect E s)) = pending s
    \<and> timer (post (onConnect E s)) = None"
  using assms by (auto simp: onConnect_def andThen_eq split: if_splits)

theorem throwing_replay_not_resumed_witness:
  "timer (post (onConnect \<lparr>merge = concat_merge, sendRaises = (\<lambda>_ _. Some (JsError ''closed'')), newTimer = 0\<rparr>
     (fst (rs_run concat_merge fresh_queue [input (Enqueue [1])])))) = None"
  using throwing_replay_not_resumed [of "fst (rs_run concat_merge fresh_queue [input (Enqueue [1])])"
      "\<lparr>merge = concat_merge, sendRaises = (\<lambda>_ _. Some (JsError ''closed'')), newTimer = 0\<rparr>"]
  by (simp add: run_defs)

text \<open>
  Construction succeeds exactly on the options the class documents: both functions given, and a
  resend interval that is absent or a positive finite number; it fails with a TypeError, and a new
  queue is empty, offline and without a timer.
\<close>

theorem construction_checks_options:
  "case new_ReliableSync opts of
     Inl x \<Rightarrow> (\<exists>msg. x = TypeError msg)
       \<and> \<not> (\<exists>opt. opts = Some opt \<and> opt_send opt \<and> opt_merge opt
              \<and> (opt_resendInterval opt \<in> {JUndef, JNull}
                  \<or> (\<exists>q > 0. opt_resendInterval opt = JNum (Fin q))))
   | Inr s \<Rightarrow> (\<exists>opt. opts = Some opt \<and> opt_send opt \<and> opt_merge opt
              \<and> (opt_resendInterval opt \<in> {JUndef, JNull} \<and> resendInterval s = 1000
                  \<or> opt_resendInterval opt = JNum (Fin (resendInterval s))))
       \<and> 0 < resendInterval s \<and> \<not> hasPending s \<and> \<not> connected s \<and> timer s = None"
proof (cases opts)
  case None
  then show ?thesis by (simp add: new_ReliableSync_def no_options_def)
next
  case (Some opt)
  consider "opt_resendInterval opt = JUndef" | "opt_resendInterval opt = JNull"
    | q where "opt_resendInterval opt = JNum (Fin q)"
    | "\<not> isFinite (opt_resendInterval opt)" "opt_resendInterval opt \<notin> {JUndef, JNull}"
    by (cases "opt_resendInterval opt" rule: isFinite.cases) auto
  then show ?thesis
  proof cases
    case 4
    moreover have "nullish v b = v" if "v \<notin> {JUndef, JNull}" for v b using that by (cases v) auto
    ultimately show ?thesis using Some by (auto simp: new_ReliableSync_def Let_def)
  qed (use Some in \<open>auto simp: new_ReliableSync_def Let_def default_resendInterval_def hasPending_def\<close>)
qed

subsection \<open>Encodings\<close>

text \<open>
  \<^verbatim>\<open>toBase64\<close> never throws, its text has four characters for every started group of three bytes,
  and \<^verbatim>\<open>fromBase64\<close> reads the same bytes back.
\<close>

theorem base64_roundtrip:
  "\<exists>t. toBase64 bs = Inr t \<and> fromBase64 t = Inr bs \<and> length t = 4 * ((length bs + 2) div 3)"
  by (simp add: fromBase64_b64_of length_b64_of)

text \<open>
  \<^verbatim>\<open>fromBase64\<close> throws on a text with a character outside the base64 alphabet that is neither
  padding nor ASCII whitespace, so a caller must guard the decode of what a peer sent.
\<close>

theorem base64_rejects_foreign:
  assumes "c \<in> set t" and "b64_value (unat c) = None" and "c \<noteq> pad" and "\<not> ascii_whitespace c"
  shows "\<exists>x. fromBase64 t = Inl x"
  using assms by (rule fromBase64_foreign_char)

theorem base64_rejects_foreign_witness: "\<exists>x. fromBase64 (js ''AA*A'') = Inl x"
  by (rule base64_rejects_foreign [of 42])
    (simp_all add: js_def b64_value_def ascii_whitespace_def)

text \<open>
  The JSON check of an awareness state is fuel-independent: with the fuel it is given it accepts
  exactly the strings that some amount of fuel accepts, so it never rejects a state for its depth or
  length.
\<close>

theorem json_fuel_enough:
  "json_valid s \<longleftrightarrow> (\<exists>n r. jval n (map unat s) = Some r \<and> skip_ws r = [])"
proof
  show "json_valid s \<Longrightarrow> \<exists>n r. jval n (map unat s) = Some r \<and> skip_ws r = []"
    unfolding json_valid_def by (cases "jval (2 * length s + 1) (map unat s)") (auto simp del: jval.simps)
next
  assume "\<exists>n r. jval n (map unat s) = Some r \<and> skip_ws r = []"
  then obtain n r where "jval n (map unat s) = Some r" and "skip_ws r = []" by blast
  with jval_enough [of n "map unat s" r] show "json_valid s" by (simp add: json_valid_def del: jval.simps)
qed

end
