(* ===== verification/Yjs_Api.thy ===== *)
theory Yjs_Api
  imports Js_Value
begin

text \<open>
  The packages the client calls: yjs, y-protocols and lib0. Their code is not part of the
  repository, so each function the client uses is a field of the record \<open>api\<close>, over the
  type \<open>'d\<close> of documents and \<open>'a\<close> of awareness instances; nothing is assumed of them here. A lib0
  decoder is represented by the bytes it has not read, an encoder by the bytes written to it.

  A call that changes a document or an awareness instance returns the new value and the "update"
  events it emits; the code that makes the call dispatches them to its own listeners. What the code
  relies on these functions to do is stated below as named predicates, each a documented behaviour;
  a theorem that needs one has it as a hypothesis.
\<close>

record aw_change =
  added :: "nat list"
  updated :: "nat list"
  removed :: "nat list"

record ('d, 'a) api =
  readVarUint :: "bytes \<Rightarrow> js_error + nat \<times> bytes"
  writeVarUint :: "nat \<Rightarrow> bytes"
  readVarUint8Array :: "bytes \<Rightarrow> js_error + bytes \<times> bytes"
  writeVarUint8Array :: "bytes \<Rightarrow> bytes"
  readVarString :: "bytes \<Rightarrow> js_error + jsstring \<times> bytes"
  mergeUpdates :: "bytes list \<Rightarrow> js_error + bytes"
  newDoc :: 'd
  clientID :: "'d \<Rightarrow> nat"
  applyUpdate :: "'d \<Rightarrow> bytes \<Rightarrow> 'd \<times> bytes list \<times> js_error option"
  readSyncMessage ::
    "bytes \<Rightarrow> 'd \<Rightarrow> 'd \<times> bytes list \<times> (js_error + nat \<times> bytes \<times> bytes)"
  writeSyncStep1 :: "'d \<Rightarrow> bytes"
  writeUpdate :: "bytes \<Rightarrow> bytes"
  messageYjsSyncStep2 :: nat
  getLocalState :: "'a \<Rightarrow> jsval"
  getStates :: "'a \<Rightarrow> nat list"
  setLocalState :: "jsval \<Rightarrow> 'a \<Rightarrow> 'a \<times> aw_change list"
  removeAwarenessStates :: "nat list \<Rightarrow> 'a \<Rightarrow> 'a \<times> aw_change list"
  encodeAwarenessUpdate :: "'a \<Rightarrow> nat list \<Rightarrow> bytes"
  applyAwarenessUpdate :: "bytes \<Rightarrow> 'a \<Rightarrow> 'a \<times> aw_change list \<times> js_error option"

text \<open>
  \<open>readSyncMessage m d\<close> gives the document after the call, the updates it emitted, and the error it
  threw, or the sync type it read, the bytes it left unread and the bytes it wrote to the encoder.
\<close>

subsection \<open>Documented behaviour\<close>

text \<open>lib0: what a writer writes, its reader reads back, leaving what follows.\<close>

definition lib0_roundtrip :: "('d, 'a) api \<Rightarrow> bool" where
  "lib0_roundtrip A \<longleftrightarrow>
     (\<forall>n r. readVarUint A (writeVarUint A n @ r) = Inr (n, r))
     \<and> (\<forall>b r. readVarUint8Array A (writeVarUint8Array A b @ r) = Inr (b, r))"

text \<open>lib0: the frame types, both below 128, are written as one byte.\<close>

definition lib0_small :: "('d, 'a) api \<Rightarrow> bool" where
  "lib0_small A \<longleftrightarrow> (\<forall>n < 128. writeVarUint A n = [of_nat n])"

text \<open>
  y-protocols: reading a message written by \<^verbatim>\<open>writeUpdate\<close> whose update applies to the document
  applies it and answers nothing; its sync type is 2.
\<close>

definition sync_update_law :: "('d, 'a) api \<Rightarrow> bool" where
  "sync_update_law A \<longleftrightarrow>
     (\<forall>u r d d' us. applyUpdate A d u = (d', us, None) \<longrightarrow>
        readSyncMessage A (writeUpdate A u @ r) d = (d', us, Inr (2, r, [])))"

text \<open>
  y-protocols: \<^verbatim>\<open>removeAwarenessStates\<close> drops exactly the clients it is given, and the local state
  is the state of the instance's own client.
\<close>

definition awareness_remove_law :: "('d, 'a) api \<Rightarrow> bool" where
  "awareness_remove_law A \<longleftrightarrow>
     (\<forall>cs a. getStates A (fst (removeAwarenessStates A cs a))
             = filter (\<lambda>c. c \<notin> set cs) (getStates A a))"

text \<open>y-protocols: setting the local state is what reading it gives.\<close>

definition awareness_local_law :: "('d, 'a) api \<Rightarrow> bool" where
  "awareness_local_law A \<longleftrightarrow> (\<forall>v a. getLocalState A (fst (setLocalState A v a)) = v)"

text \<open>
  yjs: \<^verbatim>\<open>mergeUpdates\<close> of well-formed updates (\<open>W\<close>: what documents emit) returns a well-formed update.
\<close>

definition merge_law :: "('d, 'a) api \<Rightarrow> (bytes \<Rightarrow> bool) \<Rightarrow> bool" where
  "merge_law A W \<longleftrightarrow>
     (\<forall>us. us \<noteq> [] \<and> (\<forall>u\<in>set us. W u) \<longrightarrow> (\<exists>t. mergeUpdates A us = Inr t \<and> W t))"

end
