(* ===== verification/Session.thy ===== *)
theory Session
  imports Reliable_Sync_Props Yjs_Api Json
begin

text \<open>
  packages/client/src/y_protocol_session.ts: the sync handshake, the framing and the presence of
  one document on top of \<open>ReliableSync\<close>.

  The document and the awareness instance are values of the session's state. \<open>sess_raises\<close> is the
  error the caller's \<^verbatim>\<open>send\<close> throws on a call, if it throws. The \<^verbatim>\<open>onError\<close> callback is taken to
  return.
\<close>

definition MessageType_Sync :: nat where
  "MessageType_Sync = 0"

definition MessageType_Awareness :: nat where
  "MessageType_Awareness = 1"

text \<open>The transaction origin of an update event: this session, or anything else.\<close>

datatype origin = OSession | OOther nat

record ('d, 'a) session =
  doc :: 'd
  awareness :: "'a option"
  synced :: bool
  delivery :: reliable_sync
  doc_listener :: bool
  aw_listener :: bool

datatype session_call =
    SSend bytes "int option"
  | SError js_error string
  | SSetInterval timer_handle rat
  | SClearInterval timer_handle

record sess_env =
  sess_raises :: "bytes \<Rightarrow> int option \<Rightarrow> js_error option"
  sess_timer :: timer_handle

type_synonym ('d, 'a) sess_act = "(('d, 'a) session, session_call) act"

subsection \<open>Frames\<close>

definition frameSyncStep1 :: "('d, 'a) api \<Rightarrow> 'd \<Rightarrow> bytes" where
  "frameSyncStep1 A d = writeVarUint A MessageType_Sync @ writeSyncStep1 A d"

definition frameUpdate :: "('d, 'a) api \<Rightarrow> bytes \<Rightarrow> bytes" where
  "frameUpdate A u = writeVarUint A MessageType_Sync @ writeUpdate A u"

definition frameAwareness :: "('d, 'a) api \<Rightarrow> 'a \<Rightarrow> nat list \<Rightarrow> bytes" where
  "frameAwareness A a clients =
     writeVarUint A MessageType_Awareness @ writeVarUint8Array A (encodeAwarenessUpdate A a clients)"

subsection \<open>Sending, and running the delivery queue\<close>

definition sess_send :: "sess_env \<Rightarrow> bytes \<Rightarrow> int option \<Rightarrow> ('d, 'a) sess_act" where
  "sess_send E f i s = (s, [SSend f i], sess_raises E f i)"

text \<open>
  The queue's \<^verbatim>\<open>send\<close> is \<^verbatim>\<open>(update, id) => this.#send(this.#frameUpdate(update), id)\<close>; its timer hooks
  are handed through.
\<close>

definition delivery_env :: "('d, 'a) api \<Rightarrow> sess_env \<Rightarrow> rs_env" where
  "delivery_env A E =
     \<lparr>merge = mergeUpdates A,
      sendRaises = (\<lambda>u i. sess_raises E (frameUpdate A u) (Some i)),
      newTimer = sess_timer E\<rparr>"

fun delivery_call :: "('d, 'a) api \<Rightarrow> rs_call \<Rightarrow> session_call list" where
  "delivery_call A (Send u i) = [SSend (frameUpdate A u) (Some i)]"
| "delivery_call A (SetInterval h ms) = [SSetInterval h ms]"
| "delivery_call A (ClearInterval h) = [SClearInterval h]"

definition on_delivery :: "('d, 'a) api \<Rightarrow> rs_act \<Rightarrow> ('d, 'a) sess_act" where
  "on_delivery A a = zoom delivery (\<lambda>r s. s\<lparr>delivery := r\<rparr>) (\<lambda>_. delivery_call A) a"

subsection \<open>Listeners\<close>

definition onDocUpdate :: "('d, 'a) api \<Rightarrow> sess_env \<Rightarrow> bytes \<Rightarrow> origin \<Rightarrow> ('d, 'a) sess_act" where
  "onDocUpdate A E u o' =
     ifA (\<lambda>_. o' = OSession) skip (on_delivery A (enqueue (delivery_env A E) u))"

definition onAwarenessUpdate ::
  "('d, 'a) api \<Rightarrow> sess_env \<Rightarrow> aw_change \<Rightarrow> origin \<Rightarrow> ('d, 'a) sess_act" where
  "onAwarenessUpdate A E ch o' =
     ifA (\<lambda>_. o' = OSession) skip
       (\<lambda>s. case awareness s of
              None \<Rightarrow> throw (TypeError ''awareness is null'') s
            | Some a \<Rightarrow>
                (let changed = added ch @ updated ch @ removed ch
                 in sess_send E (frameAwareness A a changed) None s))"

text \<open>The "update" events of a document or an awareness change reach the listener if it is on.\<close>

definition emit_doc :: "('d, 'a) api \<Rightarrow> sess_env \<Rightarrow> bytes list \<Rightarrow> origin \<Rightarrow> ('d, 'a) sess_act" where
  "emit_doc A E us o' = forA us (\<lambda>u. whenA doc_listener (onDocUpdate A E u o'))"

definition emit_aw :: "('d, 'a) api \<Rightarrow> sess_env \<Rightarrow> aw_change list \<Rightarrow> origin \<Rightarrow> ('d, 'a) sess_act" where
  "emit_aw A E chs o' = forA chs (\<lambda>ch. whenA aw_listener (onAwarenessUpdate A E ch o'))"

text \<open>
  An edit of the document by its other users: the document changes and emits updates under the
  origin of the edit. The same for the awareness instance.
\<close>

definition doc_edit :: "('d, 'a) api \<Rightarrow> sess_env \<Rightarrow> 'd \<Rightarrow> bytes list \<Rightarrow> origin \<Rightarrow> ('d, 'a) sess_act" where
  "doc_edit A E d us o' = block [modify (\<lambda>s. s\<lparr>doc := d\<rparr>), emit_doc A E us o']"

definition aw_set :: "('d, 'a) api \<Rightarrow> sess_env \<Rightarrow> 'a \<times> aw_change list \<Rightarrow> origin \<Rightarrow> ('d, 'a) sess_act" where
  "aw_set A E r o' = block [modify (\<lambda>s. s\<lparr>awareness := Some (fst r)\<rparr>), emit_aw A E (snd r) o']"

text \<open>The origin \<^verbatim>\<open>"local"\<close> of \<^verbatim>\<open>setLocalState\<close>.\<close>

definition local_origin :: origin where
  "local_origin = OOther 0"

subsection \<open>Construction\<close>

record 'a sess_options =
  so_send :: bool  \<comment> \<open>\<^verbatim>\<open>typeof send === "function"\<close>\<close>
  so_awareness :: "'a option"
  so_resendInterval :: jsval

definition new_YProtocolSession ::
  "'d option \<Rightarrow> 'a sess_options option \<Rightarrow> js_error + ('d, 'a) session" where
  "new_YProtocolSession d opts =
     (let opt = (case opts of
                   None \<Rightarrow> \<lparr>so_send = False, so_awareness = None, so_resendInterval = JUndef\<rparr>
                 | Some opt \<Rightarrow> opt)
      in case d of
           None \<Rightarrow> Inl (TypeError ''YProtocolSession requires a Y.Doc'')
         | Some d' \<Rightarrow>
             if \<not> so_send opt
             then Inl (TypeError ''YProtocolSession requires a send(frame, id) function'')
             else case new_ReliableSync
                    (Some \<lparr>opt_send = True, opt_merge = True,
                           opt_resendInterval = so_resendInterval opt\<rparr>) of
                    Inl x \<Rightarrow> Inl x
                  | Inr r \<Rightarrow>
                      Inr \<lparr>doc = d', awareness = so_awareness opt, synced = False, delivery = r,
                           doc_listener = True, aw_listener = so_awareness opt \<noteq> None\<rparr>)"

subsection \<open>Operations\<close>

definition sess_hasPending :: "('d, 'a) session \<Rightarrow> bool" where
  "sess_hasPending s \<longleftrightarrow> hasPending (delivery s)"

definition has_presence :: "('d, 'a) api \<Rightarrow> ('d, 'a) session \<Rightarrow> bool" where
  "has_presence A s \<longleftrightarrow> (case awareness s of None \<Rightarrow> False | Some a \<Rightarrow> getLocalState A a \<noteq> JNull)"

definition send_presence :: "('d, 'a) api \<Rightarrow> sess_env \<Rightarrow> ('d, 'a) sess_act" where
  "send_presence A E s =
     (case awareness s of None \<Rightarrow> skip s
      | Some a \<Rightarrow> sess_send E (frameAwareness A a [clientID A (doc s)]) None s)"

definition sess_onConnect :: "('d, 'a) api \<Rightarrow> sess_env \<Rightarrow> ('d, 'a) sess_act" where
  "sess_onConnect A E =
     block [
       (\<lambda>s. sess_send E (frameSyncStep1 A (doc s)) None s),
       whenA (has_presence A) (send_presence A E),
       on_delivery A (onConnect (delivery_env A E))]"

definition remote_clients :: "('d, 'a) api \<Rightarrow> ('d, 'a) session \<Rightarrow> nat list" where
  "remote_clients A s =
     (case awareness s of None \<Rightarrow> []
      | Some a \<Rightarrow> filter (\<lambda>c. c \<noteq> clientID A (doc s)) (getStates A a))"

definition remove_remote :: "('d, 'a) api \<Rightarrow> sess_env \<Rightarrow> ('d, 'a) sess_act" where
  "remove_remote A E s =
     (case awareness s of None \<Rightarrow> skip s
      | Some a \<Rightarrow>
          (let remote = remote_clients A s
           in if remote = [] then skip s
              else aw_set A E (removeAwarenessStates A remote a) OSession s))"

definition sess_onDisconnect :: "('d, 'a) api \<Rightarrow> sess_env \<Rightarrow> ('d, 'a) sess_act" where
  "sess_onDisconnect A E =
     block [
       modify (\<lambda>s. s\<lparr>synced := False\<rparr>),
       on_delivery A onDisconnect,
       remove_remote A E]"

definition removeLocalAwareness :: "('d, 'a) api \<Rightarrow> sess_env \<Rightarrow> ('d, 'a) sess_act" where
  "removeLocalAwareness A E s =
     (case awareness s of None \<Rightarrow> skip s
      | Some a \<Rightarrow>
          if getLocalState A a \<noteq> JNull then aw_set A E (setLocalState A JNull a) local_origin s
          else skip s)"

definition ack :: "('d, 'a) api \<Rightarrow> jsval \<Rightarrow> ('d, 'a) sess_act" where
  "ack A v = on_delivery A (onAck v)"

definition rethrow :: "js_error option \<Rightarrow> ('s, 'e) act" where
  "rethrow x = (case x of None \<Rightarrow> skip | Some e \<Rightarrow> throw e)"

definition applyRemoteUpdate :: "('d, 'a) api \<Rightarrow> sess_env \<Rightarrow> bytes \<Rightarrow> ('d, 'a) sess_act" where
  "applyRemoteUpdate A E u s =
     (case applyUpdate A (doc s) u of
        (d, us, x) \<Rightarrow> block [doc_edit A E d us OSession, rethrow x] s)"

subsection \<open>Receiving a frame\<close>

text \<open>One awareness entry: client, clock, and a state that must be JSON.\<close>

primrec validate_entries :: "('d, 'a) api \<Rightarrow> nat \<Rightarrow> bytes \<Rightarrow> js_error + bytes" where
  "validate_entries A 0 inner = Inr inner"
| "validate_entries A (Suc n) inner =
     (case readVarUint A inner of Inl x \<Rightarrow> Inl x | Inr (client, r1) \<Rightarrow>
      (case readVarUint A r1 of Inl x \<Rightarrow> Inl x | Inr (clock, r2) \<Rightarrow>
       (case readVarString A r2 of Inl x \<Rightarrow> Inl x | Inr (state, r3) \<Rightarrow>
        (case json_parse_throws state of Some x \<Rightarrow> Inl x
         | None \<Rightarrow> validate_entries A n r3))))"

definition validate_awareness :: "('d, 'a) api \<Rightarrow> bytes \<Rightarrow> js_error + unit" where
  "validate_awareness A payload =
     (case readVarUint A payload of Inl x \<Rightarrow> Inl x | Inr (count, inner) \<Rightarrow>
      (case validate_entries A count inner of Inl x \<Rightarrow> Inl x | Inr left \<Rightarrow>
        if left \<noteq> [] then Inl (JsError ''awareness payload has trailing bytes'') else Inr ()))"

text \<open>Whether bytes are left after the message, the last check of the validation.\<close>

definition check_trailing :: "nat \<Rightarrow> bytes \<Rightarrow> js_error + nat option" where
  "check_trailing ty rest =
     (if rest \<noteq> [] then Inl (JsError ''frame has trailing bytes after a complete message'')
      else Inr (Some ty))"

definition validateFrame :: "('d, 'a) api \<Rightarrow> bytes \<Rightarrow> js_error + nat option" where
  "validateFrame A frame =
     (case readVarUint A frame of Inl x \<Rightarrow> Inl x | Inr (ty, d) \<Rightarrow>
        if ty = MessageType_Sync
        then (case snd (snd (readSyncMessage A d (newDoc A))) of
                Inl x \<Rightarrow> Inl x | Inr (t, rest, reply) \<Rightarrow> check_trailing ty rest)
        else if ty = MessageType_Awareness
        then (case readVarUint8Array A d of Inl x \<Rightarrow> Inl x | Inr (payload, rest) \<Rightarrow>
               (case validate_awareness A payload of Inl x \<Rightarrow> Inl x | Inr _ \<Rightarrow> check_trailing ty rest))
        else Inr None)"

text \<open>The two cases of the switch: what they do to the session, and the bytes they encode.\<close>

definition receive_sync :: "('d, 'a) api \<Rightarrow> sess_env \<Rightarrow> bytes \<Rightarrow> ('d, 'a) sess_act" where
  "receive_sync A E d s =
     (case readSyncMessage A d (doc s) of
        (d', us, r) \<Rightarrow>
          block [
            doc_edit A E d' us OSession,
            (case r of
               Inl x \<Rightarrow> throw x
             | Inr (syncType, rest, reply) \<Rightarrow>
                 whenA (\<lambda>s. \<not> synced s \<and> syncType = messageYjsSyncStep2 A)
                   (modify (\<lambda>s. s\<lparr>synced := True\<rparr>)))] s)"

definition sync_reply :: "('d, 'a) api \<Rightarrow> bytes \<Rightarrow> 'd \<Rightarrow> bytes" where
  "sync_reply A d dc =
     writeVarUint A MessageType_Sync
     @ (case snd (snd (readSyncMessage A d dc)) of Inl x \<Rightarrow> [] | Inr (t, rest, reply) \<Rightarrow> reply)"

definition receive_awareness :: "('d, 'a) api \<Rightarrow> sess_env \<Rightarrow> bytes \<Rightarrow> ('d, 'a) sess_act" where
  "receive_awareness A E d s =
     (case awareness s of None \<Rightarrow> skip s
      | Some a \<Rightarrow>
          (case readVarUint8Array A d of
             Inl x \<Rightarrow> throw x s
           | Inr (payload, rest) \<Rightarrow>
               (case applyAwarenessUpdate A payload a of
                  (a', chs, x) \<Rightarrow> block [aw_set A E (a', chs) OSession, rethrow x] s)))"

definition reply_of :: "bytes \<Rightarrow> bytes option" where
  "reply_of encoder = (if 1 < length encoder then Some encoder else None)"

text \<open>
  The whole call: the session, the calls it made, and the reply frame or null. Everything it runs
  is inside the try; an error ends it with a report to \<^verbatim>\<open>onError\<close> and null.
\<close>

definition receive ::
  "('d, 'a) api \<Rightarrow> sess_env \<Rightarrow> bytes \<Rightarrow> ('d, 'a) session
   \<Rightarrow> ('d, 'a) session \<times> session_call list \<times> bytes option" where
  "receive A E frame s =
     (let failed = (\<lambda>x s cs. (s, cs @ [SError x ''receive''], None)) in
      case validateFrame A frame of
        Inl x \<Rightarrow> failed x s []
      | Inr None \<Rightarrow> (s, [], None)
      | Inr (Some _) \<Rightarrow>
          (case readVarUint A frame of
             Inl x \<Rightarrow> failed x s []
           | Inr (ty, d) \<Rightarrow>
               if ty = MessageType_Sync
               then (case receive_sync A E d s of
                       (s', cs, Some x) \<Rightarrow> failed x s' cs
                     | (s', cs, None) \<Rightarrow> (s', cs, reply_of (sync_reply A d (doc s))))
               else if ty = MessageType_Awareness
               then (case receive_awareness A E d s of
                       (s', cs, Some x) \<Rightarrow> failed x s' cs
                     | (s', cs, None) \<Rightarrow> (s', cs, reply_of []))
               else (s, [], None)))"

definition sess_destroy :: "('d, 'a) api \<Rightarrow> ('d, 'a) sess_act" where
  "sess_destroy A =
     block [
       modify (\<lambda>s. s\<lparr>doc_listener := False\<rparr>),
       whenA (\<lambda>s. awareness s \<noteq> None) (modify (\<lambda>s. s\<lparr>aw_listener := False\<rparr>)),
       on_delivery A destroy]"

end
