(* ===== verification/Session_Props.thy ===== *)
theory Session_Props
  imports Session
begin

text \<open>
  The lemmas about \<open>YProtocolSession\<close>: its own changes are never echoed, what each operation does
  to the session, what a frame must be for it to change anything, and the invariant.
\<close>

subsection \<open>The delivery queue inside the session\<close>

lemma on_delivery_eq:
  "on_delivery A a s =
     (s\<lparr>delivery := post (a (delivery s))\<rparr>,
      concat (map (delivery_call A) (calls (a (delivery s)))),
      thrown (a (delivery s)))"
  by (simp add: on_delivery_def zoom_eq)

lemma delivery_env_simps [simp]:
  "merge (delivery_env A E) = mergeUpdates A"
  "newTimer (delivery_env A E) = sess_timer E"
  "sendRaises (delivery_env A E) u i = sess_raises E (frameUpdate A u) (Some i)"
  by (simp_all add: delivery_env_def)

subsection \<open>Changes made by the session itself reach no listener\<close>

lemma emit_doc_own [simp]: "emit_doc A E us OSession s = (s, [], None)"
  by (induction us arbitrary: s) (simp_all add: emit_doc_def onDocUpdate_def andThen_eq)

lemma emit_aw_own [simp]: "emit_aw A E chs OSession s = (s, [], None)"
  by (induction chs arbitrary: s) (simp_all add: emit_aw_def onAwarenessUpdate_def andThen_eq)

lemma doc_edit_own [simp]: "doc_edit A E d us OSession s = (s\<lparr>doc := d\<rparr>, [], None)"
  by (simp add: doc_edit_def andThen_eq)

lemma aw_set_own [simp]: "aw_set A E r OSession s = (s\<lparr>awareness := Some (fst r)\<rparr>, [], None)"
  by (simp add: aw_set_def andThen_eq)

lemma rethrow_simps [simp]:
  "rethrow None = skip"
  "rethrow (Some x) = throw x"
  by (simp_all add: rethrow_def)

lemma rethrow_eq: "rethrow x s = (s, [], x)"
  by (cases x) simp_all

lemma applyRemoteUpdate_eq:
  "applyRemoteUpdate A E u s =
     (s\<lparr>doc := fst (applyUpdate A (doc s) u)\<rparr>, [], snd (snd (applyUpdate A (doc s) u)))"
  by (cases "applyUpdate A (doc s) u") (simp add: applyRemoteUpdate_def andThen_eq rethrow_eq)

lemma remove_remote_eq:
  "remove_remote A E s =
     (s\<lparr>awareness :=
         (case awareness s of None \<Rightarrow> None
          | Some a \<Rightarrow> Some (if remote_clients A s = [] then a
                          else fst (removeAwarenessStates A (remote_clients A s) a)))\<rparr>, [], None)"
  by (auto simp: remove_remote_def Let_def split: option.splits)

lemma receive_sync_eq:
  "receive_sync A E d s =
     (case readSyncMessage A d (doc s) of
        (d', us, Inl x) \<Rightarrow> (s\<lparr>doc := d'\<rparr>, [], Some x)
      | (d', us, Inr (t, rest, reply)) \<Rightarrow>
          (s\<lparr>doc := d', synced := synced s \<or> t = messageYjsSyncStep2 A\<rparr>, [], None))"
  by (auto simp: receive_sync_def andThen_eq split: prod.splits sum.splits)

lemma receive_awareness_eq:
  "receive_awareness A E d s =
     (case awareness s of None \<Rightarrow> (s, [], None)
      | Some a \<Rightarrow>
          (case readVarUint8Array A d of
             Inl x \<Rightarrow> (s, [], Some x)
           | Inr (payload, rest) \<Rightarrow>
               (s\<lparr>awareness := Some (fst (applyAwarenessUpdate A payload a))\<rparr>, [],
                snd (snd (applyAwarenessUpdate A payload a)))))"
  by (auto simp: receive_awareness_def andThen_eq rethrow_eq split: option.splits sum.splits prod.splits)

subsection \<open>Receiving\<close>

lemma receive_delivery:
  "delivery (fst (receive A E f s)) = delivery s"
  "doc_listener (fst (receive A E f s)) = doc_listener s"
  "aw_listener (fst (receive A E f s)) = aw_listener s"
  by (auto simp: receive_def receive_sync_eq receive_awareness_eq Let_def
      split: sum.splits option.splits prod.splits)

lemma receive_calls:
  "fst (snd (receive A E f s)) = [] \<or> (\<exists>x. fst (snd (receive A E f s)) = [SError x ''receive''])"
  by (auto simp: receive_def receive_sync_eq receive_awareness_eq Let_def
      split: sum.splits option.splits prod.splits)

text \<open>What the validation accepts.\<close>

definition valid_sync :: "('d, 'a) api \<Rightarrow> bytes \<Rightarrow> bytes \<Rightarrow> bool" where
  "valid_sync A f d \<longleftrightarrow>
     readVarUint A f = Inr (MessageType_Sync, d)
     \<and> (\<exists>t reply. snd (snd (readSyncMessage A d (newDoc A))) = Inr (t, [], reply))"

definition valid_awareness :: "('d, 'a) api \<Rightarrow> bytes \<Rightarrow> bytes \<Rightarrow> bytes \<Rightarrow> bool" where
  "valid_awareness A f d payload \<longleftrightarrow>
     readVarUint A f = Inr (MessageType_Awareness, d)
     \<and> readVarUint8Array A d = Inr (payload, [])
     \<and> validate_awareness A payload = Inr ()"

lemma validateFrame_cases:
  obtains (error) x where "validateFrame A f = Inl x"
  | (ignored) "validateFrame A f = Inr None"
  | (sync) d where "validateFrame A f = Inr (Some MessageType_Sync)" and "valid_sync A f d"
  | (aware) d payload where "validateFrame A f = Inr (Some MessageType_Awareness)"
      and "valid_awareness A f d payload"
proof (cases "validateFrame A f")
  case (Inl x)
  with error show ?thesis by blast
next
  case (Inr v)
  show ?thesis
  proof (cases v)
    case None
    with Inr ignored show ?thesis by simp
  next
    case (Some ty)
    with Inr show ?thesis
      using sync aware
      by (auto simp: validateFrame_def valid_sync_def valid_awareness_def check_trailing_def
          split: sum.splits prod.splits if_splits)
  qed
qed

lemma receive_error: "validateFrame A f = Inl x \<Longrightarrow> receive A E f s = (s, [SError x ''receive''], None)"
  by (simp add: receive_def)

lemma receive_ignored: "validateFrame A f = Inr None \<Longrightarrow> receive A E f s = (s, [], None)"
  by (simp add: receive_def)

lemma receive_valid_sync:
  assumes "validateFrame A f = Inr (Some MessageType_Sync)" and "valid_sync A f d"
  shows "receive A E f s =
    (case readSyncMessage A d (doc s) of
       (d', us, Inl x) \<Rightarrow> (s\<lparr>doc := d'\<rparr>, [SError x ''receive''], None)
     | (d', us, Inr (t, rest, reply)) \<Rightarrow>
         (s\<lparr>doc := d', synced := synced s \<or> t = messageYjsSyncStep2 A\<rparr>, [],
          reply_of (writeVarUint A MessageType_Sync @ reply)))"
  using assms
  by (auto simp: receive_def valid_sync_def receive_sync_eq sync_reply_def
      split: prod.splits sum.splits)

lemma receive_valid_awareness:
  assumes "validateFrame A f = Inr (Some MessageType_Awareness)" and "valid_awareness A f d payload"
  shows "receive A E f s =
    (case awareness s of None \<Rightarrow> (s, [], None)
     | Some a \<Rightarrow>
         (case applyAwarenessUpdate A payload a of
            (a', chs, None) \<Rightarrow> (s\<lparr>awareness := Some a'\<rparr>, [], None)
          | (a', chs, Some x) \<Rightarrow> (s\<lparr>awareness := Some a'\<rparr>, [SError x ''receive''], None)))"
  using assms
  by (auto simp: receive_def valid_awareness_def receive_awareness_eq reply_of_def
      MessageType_Sync_def MessageType_Awareness_def split: prod.splits option.splits)

lemma receive_unchanged:
  assumes "fst (receive A E f s) \<noteq> s"
  shows "(\<exists>d. valid_sync A f d \<and> awareness (fst (receive A E f s)) = awareness s)
    \<or> (\<exists>d payload. valid_awareness A f d payload \<and> doc (fst (receive A E f s)) = doc s
         \<and> synced (fst (receive A E f s)) = synced s)"
proof (cases rule: validateFrame_cases [of A f])
  case (error x)
  with assms show ?thesis by (simp add: receive_error)
next
  case ignored
  with assms show ?thesis by (simp add: receive_ignored)
next
  case (sync d)
  then show ?thesis by (auto simp: receive_valid_sync split: prod.splits sum.splits)
next
  case (aware d payload)
  then show ?thesis by (auto simp: receive_valid_awareness split: prod.splits option.splits)
qed

subsection \<open>Frames written by the session\<close>

lemma validate_update_frame:
  assumes "lib0_roundtrip A" and "sync_update_law A" and "snd (snd (applyUpdate A (newDoc A) u)) = None"
  shows "validateFrame A (frameUpdate A u @ junk) = check_trailing MessageType_Sync junk"
    and "valid_sync A (frameUpdate A u) (writeUpdate A u)"
proof -
  have r: "readVarUint A (frameUpdate A u @ junk) = Inr (MessageType_Sync, writeUpdate A u @ junk)"
    for junk using assms(1) by (simp add: frameUpdate_def lib0_roundtrip_def)
  obtain d us where a: "applyUpdate A (newDoc A) u = (d, us, None)"
    using assms(3) by (metis prod.collapse)
  have m: "readSyncMessage A (writeUpdate A u @ junk) (newDoc A) = (d, us, Inr (2, junk, []))" for junk
    using assms(2) a by (simp add: sync_update_law_def)
  show "validateFrame A (frameUpdate A u @ junk) = check_trailing MessageType_Sync junk"
    by (simp add: validateFrame_def r m)
  show "valid_sync A (frameUpdate A u) (writeUpdate A u)"
    using r [of "[]"] m [of "[]"] by (simp add: valid_sync_def)
qed

lemma receive_update_frame:
  assumes "lib0_roundtrip A" and "lib0_small A" and "sync_update_law A"
    and "snd (snd (applyUpdate A (newDoc A) u)) = None"
    and "applyUpdate A (doc s) u = (d', us, None)"
    and "messageYjsSyncStep2 A \<noteq> 2"
  shows "receive A E (frameUpdate A u) s = (s\<lparr>doc := d'\<rparr>, [], None)"
proof -
  from validate_update_frame(1) [OF assms(1,3,4), of "[]"]
  have "validateFrame A (frameUpdate A u) = Inr (Some MessageType_Sync)"
    by (simp add: check_trailing_def)
  moreover have "valid_sync A (frameUpdate A u) (writeUpdate A u)"
    using validate_update_frame [OF assms(1,3,4)] by blast
  moreover have "readSyncMessage A (writeUpdate A u @ []) (doc s) = (d', us, Inr (2, [], []))"
    using assms(3,5) unfolding sync_update_law_def by blast
  moreover have "length (writeVarUint A MessageType_Sync) = 1"
    using assms(2) by (simp add: lib0_small_def MessageType_Sync_def)
  ultimately show ?thesis using assms(6) by (simp add: receive_valid_sync reply_of_def)
qed

lemma receive_padded_frame:
  assumes "lib0_roundtrip A" and "sync_update_law A" and "snd (snd (applyUpdate A (newDoc A) u)) = None"
    and "junk \<noteq> []"
  shows "receive A E (frameUpdate A u @ junk) s =
    (s, [SError (JsError ''frame has trailing bytes after a complete message'') ''receive''], None)"
  using validate_update_frame(1) [OF assms(1-3), of junk] assms(4)
  by (simp add: receive_error check_trailing_def)

subsection \<open>Connecting and disconnecting\<close>

lemma sess_onDisconnect_eq:
  "sess_onDisconnect A E s =
     (s\<lparr>synced := False, delivery := post (onDisconnect (delivery s)),
        awareness := awareness (post (remove_remote A E s))\<rparr>,
      concat (map (delivery_call A) (calls (onDisconnect (delivery s)))), None)"
proof -
  have "remote_clients A (s\<lparr>synced := False, delivery := r\<rparr>) = remote_clients A s" for r
    by (simp add: remote_clients_def split: option.split)
  then show ?thesis
    by (simp add: sess_onDisconnect_def andThen_eq on_delivery_eq remove_remote_eq split: option.split)
qed

fun is_send :: "session_call \<Rightarrow> bool" where
  "is_send (SSend f i) \<longleftrightarrow> True"
| "is_send _ \<longleftrightarrow> False"

lemma onDisconnect_calls: "calls (onDisconnect r) = (case timer r of None \<Rightarrow> [] | Some h \<Rightarrow> [ClearInterval h])"
  by (simp add: onDisconnect_def andThen_eq stopTimer_def split: option.splits)

lemma sess_onDisconnect_silent: "filter is_send (calls (sess_onDisconnect A E s)) = []"
  by (simp add: sess_onDisconnect_eq onDisconnect_calls split: option.splits)

lemma sends_startTimer: "filter is_send (concat (map (delivery_call A) (calls (startTimer E r)))) = []"
  by (simp add: startTimer_def split: option.splits)

lemma sends_flush:
  assumes "cache_ok (merge E) r" and "tail_of (merge E) r = Inr t"
  shows "filter is_send (concat (map (delivery_call A) (calls (flush E r)))) =
    (if connected r \<and> pending r \<noteq> [] then [SSend (frameUpdate A t) (Some (p_seq (last (pending r))))] else [])"
proof -
  have m: "snd (mergedTail E r) = Inr t" using assms by (simp only: mergedTail_result)
  have "calls (flush E r) =
      (if connected r \<and> pending r \<noteq> [] then [Send t (p_seq (last (pending r)))] else [])"
    using m by (simp add: flush_calls)
  then show ?thesis by simp
qed

lemma sends_onConnect:
  assumes "cache_ok (merge E) r" and "tail_of (merge E) r = Inr t" and "thrown (onConnect E r) = None"
  shows "filter is_send (concat (map (delivery_call A) (calls (onConnect E r)))) =
    (if pending r \<noteq> [] then [SSend (frameUpdate A t) (Some (p_seq (last (pending r))))] else [])"
proof -
  let ?r = "r\<lparr>connected := True\<rparr>"
  have ok: "cache_ok (merge E) ?r" using assms(1) by (rule cache_ok_cong) simp_all
  have tl: "tail_of (merge E) ?r = Inr t" using assms(2) by (simp add: tail_of_def)
  have "calls (onConnect E r) =
      calls (flush E ?r) @ (if pending r \<noteq> [] then calls (startTimer E (post (flush E ?r))) else [])"
    using assms(3) by (auto simp: onConnect_def andThen_eq split: if_splits)
  then show ?thesis by (simp add: sends_flush [OF ok tl] sends_startTimer)
qed

lemma sess_onConnect_sends:
  assumes "cache_ok (mergeUpdates A) (delivery s)" and "tail_of (mergeUpdates A) (delivery s) = Inr t"
    and "thrown (sess_onConnect A E s) = None"
  shows "filter is_send (calls (sess_onConnect A E s)) =
    SSend (frameSyncStep1 A (doc s)) None
    # (case awareness s of None \<Rightarrow> []
       | Some a \<Rightarrow> if getLocalState A a \<noteq> JNull
                  then [SSend (frameAwareness A a [clientID A (doc s)]) None] else [])
    @ (if pending (delivery s) \<noteq> []
       then [SSend (frameUpdate A t) (Some (p_seq (last (pending (delivery s)))))] else [])"
proof -
  have d: "on_delivery A (onConnect (delivery_env A E)) s =
      (s\<lparr>delivery := post (onConnect (delivery_env A E) (delivery s))\<rparr>,
       concat (map (delivery_call A) (calls (onConnect (delivery_env A E) (delivery s)))),
       thrown (onConnect (delivery_env A E) (delivery s)))"
    by (rule on_delivery_eq)
  have "thrown (onConnect (delivery_env A E) (delivery s)) = None"
    using assms(3)
    by (auto simp: sess_onConnect_def andThen_eq sess_send_def send_presence_def has_presence_def d
        split: option.splits if_splits)
  with assms sends_onConnect [of "delivery_env A E" "delivery s" t A]
  show ?thesis
    by (auto simp: sess_onConnect_def andThen_eq sess_send_def send_presence_def has_presence_def d
        split: option.splits if_splits)
qed

subsection \<open>Local edits\<close>

lemma enqueue_calls:
  assumes "connected r" and "timer r \<noteq> None"
  shows "calls (enqueue E u r) =
    (case tail_of (merge E) (push_pending u r) of Inl x \<Rightarrow> [] | Inr t \<Rightarrow> [Send t (nextSeq r)])"
proof -
  let ?r = "(push_pending u r)\<lparr>tailCache := None\<rparr>"
  have "cache_ok (merge E) ?r" by (simp add: cache_ok_None)
  moreover have "startTimer E ?r = (?r, [], None)" using assms(2) by (auto simp: startTimer_def)
  moreover have "tail_of (merge E) ?r = tail_of (merge E) (push_pending u r)" by (simp add: tail_of_def)
  ultimately show ?thesis
    using assms(1)
    by (simp add: enqueue_def andThen_eq flush_calls mergedTail_result split: sum.split)
qed

subsection \<open>The invariant of the queue in the session\<close>

definition sess_inv :: "('d, 'a) api \<Rightarrow> ('d, 'a) session \<Rightarrow> bool" where
  "sess_inv A s \<longleftrightarrow> rs_inv (mergeUpdates A) (delivery s)"

lemma sess_inv_on_delivery:
  assumes "\<And>r. rs_inv (mergeUpdates A) r \<Longrightarrow> rs_inv (mergeUpdates A) (post (a r))"
  shows "preserves (sess_inv A) (on_delivery A a)"
  using assms by (simp add: preserves_def on_delivery_eq sess_inv_def)

lemma delivery_handle_inv:
  "rs_inv (mergeUpdates A) r \<Longrightarrow> rs_inv (mergeUpdates A) (post (rs_handle (delivery_env A E) i r))"
  using rs_handle_inv [of "delivery_env A E" r i] by simp

named_theorems sess_preserves

lemma sess_inv_enqueue [sess_preserves]:
  "preserves (sess_inv A) (on_delivery A (enqueue (delivery_env A E) u))"
  by (rule sess_inv_on_delivery) (use delivery_handle_inv [of A _ E "Enqueue u"] in simp)

lemma sess_inv_onConnect_queue [sess_preserves]:
  "preserves (sess_inv A) (on_delivery A (onConnect (delivery_env A E)))"
  by (rule sess_inv_on_delivery) (use delivery_handle_inv [of A _ E Connect] in simp)

lemma sess_inv_onDisconnect_queue [sess_preserves]: "preserves (sess_inv A) (on_delivery A onDisconnect)"
  by (rule sess_inv_on_delivery) (use delivery_handle_inv [of A _ undefined Disconnect] in simp)

lemma sess_inv_destroy_queue [sess_preserves]: "preserves (sess_inv A) (on_delivery A destroy)"
  by (rule sess_inv_on_delivery) (use delivery_handle_inv [of A _ undefined Destroy] in simp)

lemma sess_inv_ack [sess_preserves]: "preserves (sess_inv A) (ack A v)"
  unfolding ack_def
  by (rule sess_inv_on_delivery) (use delivery_handle_inv [of A _ undefined "Ack v"] in simp)

lemma sess_inv_tick [sess_preserves]:
  "preserves (sess_inv A) (on_delivery A (onTick (delivery_env A E)))"
  by (rule sess_inv_on_delivery) (use delivery_handle_inv [of A _ E Tick] in simp)

lemma sess_inv_modify [sess_preserves]:
  "(\<And>s. delivery (f s) = delivery s) \<Longrightarrow> preserves (sess_inv A) (modify f)"
  by (simp add: preserves_def sess_inv_def)

lemma sess_inv_send [sess_preserves]: "preserves (sess_inv A) (sess_send E f i)"
  by (simp add: preserves_def sess_send_def)

lemma sess_inv_emit_doc [sess_preserves]: "preserves (sess_inv A) (emit_doc A E us o')"
  unfolding emit_doc_def onDocUpdate_def by (intro preserves_rules sess_preserves)

lemma sess_inv_aw_handler: "preserves (sess_inv A) (onAwarenessUpdate A E ch o')"
  by (auto simp: preserves_def onAwarenessUpdate_def sess_send_def Let_def split: option.splits)

lemma sess_inv_emit_aw [sess_preserves]: "preserves (sess_inv A) (emit_aw A E chs o')"
  unfolding emit_aw_def by (intro preserves_rules sess_inv_aw_handler)

lemma sess_inv_doc_edit [sess_preserves]: "preserves (sess_inv A) (doc_edit A E d us o')"
  unfolding doc_edit_def by (intro preserves_rules sess_preserves) simp

lemma sess_inv_aw_set [sess_preserves]: "preserves (sess_inv A) (aw_set A E r o')"
  unfolding aw_set_def by (intro preserves_rules sess_preserves) simp

lemma sess_inv_remove_remote [sess_preserves]: "preserves (sess_inv A) (remove_remote A E)"
  by (simp add: preserves_def remove_remote_eq sess_inv_def)

lemma sess_inv_removeLocal [sess_preserves]: "preserves (sess_inv A) (removeLocalAwareness A E)"
  by (auto simp: preserves_def removeLocalAwareness_def split: option.splits
      intro: preservesD [OF sess_inv_aw_set])

lemma sess_inv_onConnect [sess_preserves]: "preserves (sess_inv A) (sess_onConnect A E)"
  unfolding sess_onConnect_def
  by (intro preserves_rules sess_preserves)
    (auto simp: preserves_def sess_send_def send_presence_def split: option.splits)

lemma sess_inv_onDisconnect [sess_preserves]: "preserves (sess_inv A) (sess_onDisconnect A E)"
  unfolding sess_onDisconnect_def by (intro preserves_rules sess_preserves) simp

lemma sess_inv_applyRemote [sess_preserves]: "preserves (sess_inv A) (applyRemoteUpdate A E u)"
  by (simp add: preserves_def applyRemoteUpdate_eq sess_inv_def)

lemma sess_inv_destroy [sess_preserves]: "preserves (sess_inv A) (sess_destroy A)"
  unfolding sess_destroy_def by (intro preserves_rules sess_preserves) simp_all

lemma sess_inv_receive: "sess_inv A s \<Longrightarrow> sess_inv A (fst (receive A E f s))"
  by (simp add: sess_inv_def receive_delivery)

lemma sess_inv_new: "new_YProtocolSession d opts = Inr s \<Longrightarrow> sess_inv A s"
  by (auto simp: new_YProtocolSession_def sess_inv_def Let_def rs_inv_new
      split: option.splits if_splits sum.splits)

subsection \<open>What the listeners do\<close>

lemma emit_aw_post [simp]: "post (emit_aw A E chs o' s) = s"
  by (induction chs arbitrary: s)
    (auto simp: emit_aw_def andThen_eq onAwarenessUpdate_def sess_send_def Let_def split: option.splits)

lemma aw_set_post [simp]: "post (aw_set A E r o' s) = s\<lparr>awareness := Some (fst r)\<rparr>"
  by (simp add: aw_set_def andThen_eq)

definition aw_frame :: "('d, 'a) api \<Rightarrow> 'a \<Rightarrow> aw_change \<Rightarrow> session_call" where
  "aw_frame A a ch = SSend (frameAwareness A a (added ch @ updated ch @ removed ch)) None"

lemma emit_aw_eq:
  assumes "awareness s = Some a" and "\<And>f i. sess_raises E f i = None"
  shows "emit_aw A E chs (OOther n) s =
    (s, if aw_listener s then map (aw_frame A a) chs else [], None)"
  using assms
  by (induction chs)
    (simp_all add: emit_aw_def andThen_eq onAwarenessUpdate_def sess_send_def aw_frame_def)

lemma aw_set_eq:
  assumes "\<And>f i. sess_raises E f i = None"
  shows "aw_set A E r (OOther n) s =
    (s\<lparr>awareness := Some (fst r)\<rparr>,
     if aw_listener s then map (aw_frame A (fst r)) (snd r) else [], None)"
  using assms by (simp add: aw_set_def andThen_eq emit_aw_eq)

lemma removeLocalAwareness_eq:
  assumes "\<And>f i. sess_raises E f i = None"
  shows "removeLocalAwareness A E s =
    (case awareness s of
       None \<Rightarrow> (s, [], None)
     | Some a \<Rightarrow>
         if getLocalState A a = JNull then (s, [], None)
         else (s\<lparr>awareness := Some (fst (setLocalState A JNull a))\<rparr>,
               if aw_listener s
               then map (aw_frame A (fst (setLocalState A JNull a))) (snd (setLocalState A JNull a))
               else [], None))"
  using assms
  by (auto simp: removeLocalAwareness_def local_origin_def aw_set_eq split: option.split)

lemma removeLocalAwareness_post:
  "post (removeLocalAwareness A E s) = s\<lparr>awareness := awareness (post (removeLocalAwareness A E s))\<rparr>"
  by (simp add: removeLocalAwareness_def split: option.split)

text \<open>The part of the session no listener touches.\<close>

definition settled :: "bool \<times> bool \<Rightarrow> ('d, 'a) session \<Rightarrow> bool" where
  "settled v s \<longleftrightarrow> (synced s, connected (delivery s)) = v"

lemma settled_emit_doc: "preserves (settled v) (emit_doc A E us o')"
  unfolding emit_doc_def onDocUpdate_def
  by (intro preserves_rules) (simp add: preserves_def settled_def on_delivery_eq)

lemma settled_doc_edit: "settled v s \<Longrightarrow> settled v (post (doc_edit A E d us o' s))"
  unfolding doc_edit_def
  by (rule preservesD [of "settled v"])
    (intro preserves_rules settled_emit_doc; simp add: settled_def)

lemma emit_doc_awareness: "awareness (post (emit_doc A E us o' s)) = awareness s"
  by (induction us arbitrary: s) (auto simp: emit_doc_def onDocUpdate_def andThen_eq on_delivery_eq)

subsection \<open>The queue of a session whose updates merge\<close>

definition queue_ok :: "('d, 'a) api \<Rightarrow> (bytes \<Rightarrow> bool) \<Rightarrow> ('d, 'a) session \<Rightarrow> bool" where
  "queue_ok A W s \<longleftrightarrow>
     sess_inv A s \<and> armed (delivery s) \<and> (\<forall>p\<in>set (pending (delivery s)). W (p_update p))"

lemma tail_of_wf:
  assumes "merge_law A W" and "\<forall>p\<in>set (pending r). W (p_update p)" and "pending r \<noteq> []"
  obtains t where "tail_of (mergeUpdates A) r = Inr t" and "W t"
proof -
  let ?us = "map p_update (pending r)"
  from assms have "\<exists>t. mergeUpdates A ?us = Inr t \<and> W t" by (simp add: merge_law_def)
  moreover have "W (?us ! 0)" if "length ?us = 1" using assms(2,3) by simp
  ultimately have "\<exists>t. tail_of (mergeUpdates A) r = Inr t \<and> W t"
    by (cases "length ?us = 1") (simp_all add: tail_of_def Let_def)
  with that show ?thesis by blast
qed

lemma onConnect_no_throw:
  assumes "merge_law A W" and "queue_ok A W s" and "\<And>f i. sess_raises E f i = None"
  shows "thrown (onConnect (delivery_env A E) (delivery s)) = None"
proof (cases "pending (delivery s) = []")
  case True
  then show ?thesis by (simp add: onConnect_def andThen_eq flush_thrown)
next
  case False
  let ?r = "(delivery s)\<lparr>connected := True\<rparr>"
  from assms(2) have w: "\<forall>p\<in>set (pending (delivery s)). W (p_update p)" by (simp add: queue_ok_def)
  from tail_of_wf [OF assms(1) w False] obtain t where "tail_of (mergeUpdates A) (delivery s) = Inr t" .
  moreover have "tail_of (mergeUpdates A) ?r = tail_of (mergeUpdates A) (delivery s)"
    by (simp add: tail_of_def)
  moreover have "cache_ok (mergeUpdates A) ?r"
    by (rule cache_ok_cong [of _ "delivery s"])
      (use assms(2) in \<open>simp_all add: queue_ok_def sess_inv_def rs_inv_def\<close>)
  ultimately have "thrown (flush (delivery_env A E) ?r) = None"
    using assms(3) by (simp add: flush_thrown mergedTail_result)
  then show ?thesis by (simp add: onConnect_def andThen_eq)
qed

lemma sess_onConnect_no_throw:
  assumes "merge_law A W" and "queue_ok A W s" and "\<And>f i. sess_raises E f i = None"
  shows "thrown (sess_onConnect A E s) = None"
  using onConnect_no_throw [OF assms] assms(3)
  by (simp add: sess_onConnect_def andThen_eq sess_send_def send_presence_def on_delivery_eq
      split: option.split)

lemma sess_onConnect_post:
  assumes "\<And>f i. sess_raises E f i = None"
  shows "post (sess_onConnect A E s) =
    s\<lparr>delivery := post (onConnect (delivery_env A E) (delivery s))\<rparr>"
  using assms
  by (simp add: sess_onConnect_def andThen_eq sess_send_def send_presence_def on_delivery_eq
      split: option.split)

lemma queue_ok_cong: "queue_ok A W s \<Longrightarrow> delivery t = delivery s \<Longrightarrow> queue_ok A W t"
  by (simp add: queue_ok_def sess_inv_def)

lemma queue_ok_enqueue:
  "queue_ok A W s \<Longrightarrow> W u \<Longrightarrow> queue_ok A W (post (on_delivery A (enqueue (delivery_env A E) u) s))"
  using preservesD [OF sess_inv_enqueue [of A E u], of s]
  by (auto simp: queue_ok_def on_delivery_eq intro: armed_enqueue)

lemma queue_ok_ack: "queue_ok A W s \<Longrightarrow> queue_ok A W (post (ack A v s))"
  using preservesD [OF sess_inv_ack [of A v], of s]
  by (cases "ack_invalid v (delivery s)")
    (auto simp: queue_ok_def ack_def on_delivery_eq onAck_pending onAck_invalid intro: armed_onAck)

lemma queue_ok_tick: "queue_ok A W s \<Longrightarrow> queue_ok A W (post (on_delivery A (onTick (delivery_env A E)) s))"
  using preservesD [OF sess_inv_tick [of A E], of s]
  by (auto simp: queue_ok_def on_delivery_eq onTick_eq armed_def)

lemma queue_ok_emit_doc:
  "\<forall>u\<in>set us. W u \<Longrightarrow> queue_ok A W s \<Longrightarrow> queue_ok A W (post (emit_doc A E us o' s))"
  by (induction us arbitrary: s)
    (simp_all add: emit_doc_def onDocUpdate_def andThen_eq queue_ok_enqueue)

lemma queue_ok_doc_edit:
  "\<forall>u\<in>set us. W u \<Longrightarrow> queue_ok A W s \<Longrightarrow> queue_ok A W (post (doc_edit A E d us o' s))"
  by (simp add: doc_edit_def andThen_eq queue_ok_emit_doc [OF _ queue_ok_cong])

lemma queue_ok_onConnect:
  assumes "merge_law A W" and "queue_ok A W s" and "\<And>f i. sess_raises E f i = None"
  shows "queue_ok A W (post (sess_onConnect A E s))"
proof -
  have "sess_inv A (post (sess_onConnect A E s))"
    using assms(2) preservesD [OF sess_inv_onConnect [of A E], of s] by (simp add: queue_ok_def)
  moreover have "armed (post (onConnect (delivery_env A E) (delivery s)))"
    by (rule armed_onConnect) (rule onConnect_no_throw [OF assms])
  ultimately show ?thesis
    using assms(2) by (simp add: queue_ok_def sess_onConnect_post [OF assms(3)])
qed

lemma queue_ok_onDisconnect: "queue_ok A W s \<Longrightarrow> queue_ok A W (post (sess_onDisconnect A E s))"
  using preservesD [OF sess_inv_onDisconnect [of A E], of s]
  by (auto simp: queue_ok_def sess_onDisconnect_eq armed_def)

lemma queue_ok_destroy: "queue_ok A W s \<Longrightarrow> queue_ok A W (post (sess_destroy A s))"
  using preservesD [OF sess_inv_destroy [of A], of s]
  by (auto simp: queue_ok_def sess_destroy_def andThen_eq on_delivery_eq armed_def)

lemma sess_destroy_fields [simp]:
  "synced (post (sess_destroy A s)) = synced s"
  "connected (delivery (post (sess_destroy A s))) = False"
  "awareness (post (sess_destroy A s)) = awareness s"
  "thrown (sess_destroy A s) = None"
  by (simp_all add: sess_destroy_def andThen_eq on_delivery_eq)

subsection \<open>The frames of reliable sends\<close>

text \<open>A frame sent under an id carries an update: only the queue sends with an id.\<close>

fun call_ok :: "('d, 'a) api \<Rightarrow> session_call \<Rightarrow> bool" where
  "call_ok A (SSend f (Some i)) \<longleftrightarrow> (\<exists>u. f = frameUpdate A u)"
| "call_ok A _ \<longleftrightarrow> True"

definition makes_ok :: "('d, 'a) api \<Rightarrow> ('d, 'a) sess_act \<Rightarrow> bool" where
  "makes_ok A a \<longleftrightarrow> (\<forall>s. \<forall>c\<in>set (calls (a s)). call_ok A c)"

named_theorems makes_ok_rules

lemma makes_ok_skip [makes_ok_rules]: "makes_ok A skip"
  by (simp add: makes_ok_def)

lemma makes_ok_modify [makes_ok_rules]: "makes_ok A (modify f)"
  by (simp add: makes_ok_def)

lemma makes_ok_andThen [makes_ok_rules]: "makes_ok A a \<Longrightarrow> makes_ok A b \<Longrightarrow> makes_ok A (andThen a b)"
  by (auto simp: makes_ok_def andThen_eq)

lemma makes_ok_block [makes_ok_rules]:
  "makes_ok A (block [])"
  "makes_ok A a \<Longrightarrow> makes_ok A (block as) \<Longrightarrow> makes_ok A (block (a # as))"
  by (simp_all add: makes_ok_rules)

lemma makes_ok_ifA [makes_ok_rules]: "makes_ok A a \<Longrightarrow> makes_ok A b \<Longrightarrow> makes_ok A (ifA P a b)"
  by (simp add: makes_ok_def)

lemma makes_ok_whenA [makes_ok_rules]: "makes_ok A a \<Longrightarrow> makes_ok A (whenA P a)"
  by (simp add: makes_ok_def)

lemma makes_ok_forA [makes_ok_rules]: "(\<And>x. makes_ok A (f x)) \<Longrightarrow> makes_ok A (forA xs f)"
  by (induction xs) (simp_all add: makes_ok_rules)

lemma delivery_call_ok: "c \<in> set (delivery_call A e) \<Longrightarrow> call_ok A c"
  by (cases e) auto

lemma makes_ok_on_delivery [makes_ok_rules]: "makes_ok A (on_delivery A a)"
  by (auto simp: makes_ok_def on_delivery_eq intro: delivery_call_ok)

lemma makes_ok_send [makes_ok_rules]:
  "makes_ok A (sess_send E f None)" "makes_ok A (\<lambda>s. sess_send E (g s) None s)"
  by (simp_all add: makes_ok_def sess_send_def)

lemma makes_ok_aw_handler [makes_ok_rules]: "makes_ok A (onAwarenessUpdate A E ch o')"
  by (auto simp: makes_ok_def onAwarenessUpdate_def sess_send_def Let_def split: option.splits)

lemma makes_ok_edits [makes_ok_rules]:
  "makes_ok A (doc_edit A E d us o')"
  "makes_ok A (aw_set A E r o')"
  unfolding doc_edit_def aw_set_def emit_doc_def emit_aw_def onDocUpdate_def
  by (intro makes_ok_rules)+

lemma makes_ok_presence [makes_ok_rules]:
  "makes_ok A (send_presence A E)"
  "makes_ok A (removeLocalAwareness A E)"
  "makes_ok A (remove_remote A E)"
  using makes_ok_edits(2) [of A E]
  by (auto simp: makes_ok_def send_presence_def removeLocalAwareness_def remove_remote_def
      sess_send_def Let_def split: option.splits)

lemma makes_ok_ops [makes_ok_rules]:
  "makes_ok A (sess_onConnect A E)"
  "makes_ok A (sess_onDisconnect A E)"
  "makes_ok A (ack A v)"
  "makes_ok A (sess_destroy A)"
  "makes_ok A (applyRemoteUpdate A E u)"
  unfolding sess_onConnect_def sess_onDisconnect_def ack_def sess_destroy_def
  by (intro makes_ok_rules | simp add: makes_ok_def applyRemoteUpdate_eq)+

lemma makes_ok_receive: "c \<in> set (fst (snd (receive A E f s))) \<Longrightarrow> call_ok A c"
  using receive_calls [of A E f s] by auto

end
