(* ===== verification/Yjs_Instance.thy ===== *)
theory Yjs_Instance
  imports Yjs_Api
begin

text \<open>
  A concrete instance of the interface to yjs, y-protocols and lib0, at which the hypotheses on
  these packages hold together; the witnesses evaluate on it. The encoding of integers is the
  variable-length one of lib0; a document is the list of bytes it was given, an update a list of
  bytes to append (a byte 255 in it makes it malformed), an awareness instance the states of the
  clients, ours under the number 7.
\<close>

fun put_uint :: "nat \<Rightarrow> bytes" where
  "put_uint n = (if n < 128 then [of_nat n] else of_nat (n mod 128 + 128) # put_uint (n div 128))"

declare put_uint.simps [simp del]

fun get_uint :: "bytes \<Rightarrow> js_error + nat \<times> bytes" where
  "get_uint [] = Inl (JsError ''Unexpected end of array'')"
| "get_uint (b # bs) =
     (if unat b < 128 then Inr (unat b, bs)
      else (case get_uint bs of Inl x \<Rightarrow> Inl x | Inr (n, r) \<Rightarrow> Inr (n * 128 + (unat b - 128), r)))"

definition put_array :: "bytes \<Rightarrow> bytes" where
  "put_array b = put_uint (length b) @ b"

definition get_array :: "bytes \<Rightarrow> js_error + bytes \<times> bytes" where
  "get_array bs =
     (case get_uint bs of Inl x \<Rightarrow> Inl x
      | Inr (n, r) \<Rightarrow> if n \<le> length r then Inr (take n r, drop n r)
                    else Inl (JsError ''Unexpected end of array''))"

definition get_string :: "bytes \<Rightarrow> js_error + jsstring \<times> bytes" where
  "get_string bs =
     (case get_array bs of Inl x \<Rightarrow> Inl x | Inr (b, r) \<Rightarrow> Inr (map (\<lambda>w. of_nat (unat w)) b, r))"

lemma get_put_uint: "get_uint (put_uint n @ r) = Inr (n, r)"
proof (induction n rule: put_uint.induct)
  case (1 n)
  show ?case
  proof (cases "n < 128")
    case True
    then have "unat (of_nat n :: byte) = n" by (simp add: unat_of_nat)
    with True show ?thesis by (subst put_uint.simps) simp
  next
    case False
    have b: "unat (of_nat (n mod 128 + 128) :: byte) = n mod 128 + 128"
      unfolding unat_of_nat by (rule mod_less) simp
    have "get_uint (put_uint n @ r) = get_uint (of_nat (n mod 128 + 128) # (put_uint (n div 128) @ r))"
      using False by (subst put_uint.simps) simp
    also have "\<dots> = Inr (n div 128 * 128 + n mod 128, r)"
      using 1 [OF False] by (simp only: get_uint.simps b) simp
    finally show ?thesis by simp
  qed
qed

fun demo_apply :: "bytes \<Rightarrow> bytes \<Rightarrow> bytes \<times> bytes list \<times> js_error option" where
  "demo_apply d u =
     (if 255 \<in> set u then (d, [], Some (JsError ''malformed update'')) else (d @ u, [u], None))"

definition demo_sync :: "bytes \<Rightarrow> bytes \<Rightarrow> bytes \<times> bytes list \<times> (js_error + nat \<times> bytes \<times> bytes)" where
  "demo_sync m d =
     (case get_uint m of Inl x \<Rightarrow> (d, [], Inl x)
      | Inr (t, r) \<Rightarrow>
          (case get_array r of Inl x \<Rightarrow> (d, [], Inl x)
           | Inr (b, r') \<Rightarrow>
               if t = 0 then (d, [], Inr (0, r', put_uint 1 @ put_array d))
               else if t = 1 \<or> t = 2
               then (case demo_apply d b of
                       (d', us, None) \<Rightarrow> (d', us, Inr (t, r', []))
                     | (d', us, Some x) \<Rightarrow> (d', us, Inl x))
               else (d, [], Inl (JsError ''Unknown message type''))))"

type_synonym demo_aw = "(nat \<times> jsval) list"

definition demo_local :: "demo_aw \<Rightarrow> jsval" where
  "demo_local a = (case map_of a 7 of None \<Rightarrow> JNull | Some v \<Rightarrow> v)"

definition demo_setLocal :: "jsval \<Rightarrow> demo_aw \<Rightarrow> demo_aw \<times> aw_change list" where
  "demo_setLocal v a =
     (let others = filter (\<lambda>(c, _). c \<noteq> 7) a
      in if v = JNull
         then (others, [\<lparr>added = [], updated = [], removed = [7]\<rparr>])
         else ((7, v) # others, [\<lparr>added = [], updated = [7], removed = []\<rparr>]))"

definition demo_encode :: "demo_aw \<Rightarrow> nat list \<Rightarrow> bytes" where
  "demo_encode a cs =
     put_uint (length cs)
     @ concat (map (\<lambda>c. put_uint c @ put_uint 1
                 @ put_array (if c \<in> fst ` set a then [123, 125] else [110, 117, 108, 108])) cs)"

text \<open>An update names one client; it is added.\<close>

definition demo_applyAw :: "bytes \<Rightarrow> demo_aw \<Rightarrow> demo_aw \<times> aw_change list \<times> js_error option" where
  "demo_applyAw b a =
     (case get_uint (drop 1 b) of
        Inl x \<Rightarrow> (a, [], Some x)
      | Inr (c, _) \<Rightarrow> (a @ [(c, JObj [])], [\<lparr>added = [c], updated = [], removed = []\<rparr>], None))"

definition demo_api :: "(bytes, demo_aw) api" where
  "demo_api =
     \<lparr>readVarUint = get_uint,
      writeVarUint = put_uint,
      readVarUint8Array = get_array,
      writeVarUint8Array = put_array,
      readVarString = get_string,
      mergeUpdates = (\<lambda>us. Inr (concat us)),
      newDoc = [],
      clientID = (\<lambda>_. 7),
      applyUpdate = demo_apply,
      readSyncMessage = demo_sync,
      writeSyncStep1 = (\<lambda>d. put_uint 0 @ put_array []),
      writeUpdate = (\<lambda>u. put_uint 2 @ put_array u),
      messageYjsSyncStep2 = 1,
      getLocalState = demo_local,
      getStates = map fst,
      setLocalState = demo_setLocal,
      removeAwarenessStates = (\<lambda>cs a. (filter (\<lambda>(c, _). c \<notin> set cs) a,
        [\<lparr>added = [], updated = [], removed = cs\<rparr>])),
      encodeAwarenessUpdate = demo_encode,
      applyAwarenessUpdate = demo_applyAw\<rparr>"

lemma get_put_array: "get_array (put_array b @ r) = Inr (b, r)"
  by (simp add: get_array_def put_array_def get_put_uint)

lemma demo_lib0_roundtrip: "lib0_roundtrip demo_api"
  by (simp add: lib0_roundtrip_def demo_api_def get_put_uint get_put_array)

lemma demo_lib0_small: "lib0_small demo_api"
  by (simp add: lib0_small_def demo_api_def put_uint.simps)

lemma demo_sync_update_law: "sync_update_law demo_api"
  by (simp add: sync_update_law_def demo_api_def demo_sync_def get_put_uint get_put_array)

lemma demo_awareness_remove_law: "awareness_remove_law demo_api"
  by (simp add: awareness_remove_law_def demo_api_def filter_map comp_def case_prod_unfold)

lemma map_of_filter_removed: "map_of (filter (\<lambda>(c, _). c \<noteq> k) a) k = None"
  by (induction a) auto

lemma demo_awareness_local_law: "awareness_local_law demo_api"
  by (auto simp: awareness_local_law_def demo_api_def demo_setLocal_def demo_local_def Let_def
      map_of_filter_removed)

lemma demo_merge_law: "merge_law demo_api (\<lambda>u. 255 \<notin> set u)"
  by (simp add: merge_law_def demo_api_def)

end
