(* ===== verification/Session_Theorems.thy ===== *)
theory Session_Theorems
  imports Session_Props Yjs_Instance
begin

text \<open>
  The properties of \<open>YProtocolSession\<close>, with witnesses on the concrete instance of the packages.
\<close>

subsection \<open>A concrete session\<close>

definition demo_env :: sess_env where
  "demo_env = \<lparr>sess_raises = (\<lambda>_ _. None), sess_timer = 0\<rparr>"

definition demo_session :: "(bytes, demo_aw) session" where
  "demo_session =
     \<lparr>doc = [1], awareness = Some [(7, JObj []), (9, JObj [])], synced = False,
      delivery = \<lparr>pending = [\<lparr>p_seq = 1, p_update = [1]\<rparr>], nextSeq = 2, connected = False,
        timer = None, tailCache = None, resendInterval = 1000\<rparr>,
      doc_listener = True, aw_listener = True\<rparr>"

lemma demo_fields [simp]:
  "doc demo_session = [1]"
  "awareness demo_session = Some [(7, JObj []), (9, JObj [])]"
  "synced demo_session = False"
  "pending (delivery demo_session) = [\<lparr>p_seq = 1, p_update = [1]\<rparr>]"
  "tailCache (delivery demo_session) = None"
  "doc_listener demo_session = True"
  "aw_listener demo_session = True"
  "connected (delivery demo_session) = False"
  "nextSeq (delivery demo_session) = 2"
  "sess_raises demo_env f i = None"
  by (simp_all add: demo_session_def demo_env_def)

lemma demo_api_fields [simp]:
  "newDoc demo_api = []"
  "applyUpdate demo_api = demo_apply"
  "clientID demo_api d = 7"
  "mergeUpdates demo_api us = Inr (concat us)"
  "messageYjsSyncStep2 demo_api = 1"
  "getLocalState demo_api = demo_local"
  "setLocalState demo_api = demo_setLocal"
  "getStates demo_api = map fst"
  by (simp_all add: demo_api_def)

lemma demo_inv: "sess_inv demo_api demo_session"
  by (simp add: sess_inv_def demo_session_def rs_inv_def seqs_ok_def seq_before_def cache_ok_def timer_ok_def)

subsection \<open>Receiving\<close>

text \<open>
  C12: A received frame is never answered by an echo, and only a frame that passed validation changes
  anything. Whatever the bytes, \<^verbatim>\<open>receive\<close> makes no call but at most one error report, leaves the
  delivery queue alone, and either leaves the session as it was, or took a complete sync message and
  left presence alone, or took a complete and well-formed awareness message and left the document
  and the synced flag alone.
\<close>

theorem receive_only_validated:
  "case receive A E f s of (s', cs, reply) \<Rightarrow>
     (cs = [] \<or> (\<exists>x. cs = [SError x ''receive'']))
     \<and> delivery s' = delivery s
     \<and> (s' = s
        \<or> (\<exists>d. valid_sync A f d \<and> awareness s' = awareness s)
        \<or> (\<exists>d payload. valid_awareness A f d payload \<and> doc s' = doc s \<and> synced s' = synced s))"
proof -
  have "fst (receive A E f s) = s
      \<or> (\<exists>d. valid_sync A f d \<and> awareness (fst (receive A E f s)) = awareness s)
      \<or> (\<exists>d payload. valid_awareness A f d payload \<and> doc (fst (receive A E f s)) = doc s
           \<and> synced (fst (receive A E f s)) = synced s)"
    using receive_unchanged [of A E f s] by blast
  with receive_calls [of A E f s] receive_delivery(1) [of A E f s] show ?thesis
    by (simp add: case_prod_beta)
qed

text \<open>
  A document update framed by one session is applied exactly by another. If the update applies
  to the other document and to an empty one, receiving its frame applies it to the document, sends
  nothing, replies nothing, and changes nothing else.
\<close>

theorem update_frame_applied:
  assumes "lib0_roundtrip A" and "lib0_small A" and "sync_update_law A"
    and "snd (snd (applyUpdate A (newDoc A) u)) = None"
    and "applyUpdate A (doc s) u = (d', us, None)"
    and "messageYjsSyncStep2 A \<noteq> 2"
  shows "receive A E (frameUpdate A u) s = (s\<lparr>doc := d'\<rparr>, [], None)"
  using assms by (rule receive_update_frame)

theorem update_frame_applied_witness:
  "receive demo_api demo_env (frameUpdate demo_api [5, 6]) demo_session
   = (demo_session\<lparr>doc := [1, 5, 6]\<rparr>, [], None)"
  by (rule update_frame_applied [OF demo_lib0_roundtrip demo_lib0_small demo_sync_update_law,
        where us = "[[5, 6]]"]) simp_all

text \<open>
  A padded frame is rejected whole. A frame that carries bytes after a complete update message
  changes nothing and is reported, so a peer cannot hide data behind a valid message.
\<close>

theorem padded_frame_rejected:
  assumes "lib0_roundtrip A" and "sync_update_law A" and "snd (snd (applyUpdate A (newDoc A) u)) = None"
    and "junk \<noteq> []"
  shows "receive A E (frameUpdate A u @ junk) s =
    (s, [SError (JsError ''frame has trailing bytes after a complete message'') ''receive''], None)"
  using assms by (rule receive_padded_frame)

theorem padded_frame_rejected_witness:
  "fst (receive demo_api demo_env (frameUpdate demo_api [5] @ [0]) demo_session) = demo_session"
  by (subst padded_frame_rejected [OF demo_lib0_roundtrip demo_sync_update_law]) simp_all

text \<open>
  Presence frames are all or nothing. If any entry of an awareness message is malformed, a
  truncated number or string, a state that is not JSON, or bytes after the last entry, the whole
  message is rejected: no presence changes, and the error is reported.
\<close>

theorem malformed_presence_rejected:
  assumes "lib0_roundtrip A" and "validate_awareness A payload = Inl x"
  shows "receive A E (writeVarUint A MessageType_Awareness @ writeVarUint8Array A payload) s =
    (s, [SError x ''receive''], None)"
proof -
  have "readVarUint A (writeVarUint A MessageType_Awareness @ writeVarUint8Array A payload) =
      Inr (MessageType_Awareness, writeVarUint8Array A payload)"
    using assms(1) by (simp add: lib0_roundtrip_def)
  moreover have "readVarUint8Array A (writeVarUint8Array A payload) = Inr (payload, [])"
    using assms(1) append_Nil2 by (metis lib0_roundtrip_def)
  ultimately show ?thesis
    using assms(2)
    by (intro receive_error)
      (simp add: validateFrame_def MessageType_Sync_def MessageType_Awareness_def)
qed

theorem malformed_presence_rejected_witness:
  "fst (receive demo_api demo_env
     (writeVarUint demo_api MessageType_Awareness @ writeVarUint8Array demo_api [1, 9, 1, 1, 123])
     demo_session) = demo_session"
proof -
  have "json_parse_throws [123] = Some (JsError ''SyntaxError'')"
    by (simp add: json_parse_throws_def json_valid_def numeral_3_eq_3)
  then have "validate_awareness demo_api [1, 9, 1, 1, 123] = Inl (JsError ''SyntaxError'')"
    by (simp add: validate_awareness_def demo_api_def get_string_def get_array_def)
  from malformed_presence_rejected [OF demo_lib0_roundtrip this] show ?thesis by simp
qed

text \<open>
  The session turns synced exactly when a valid SyncStep2 arrives, and no received frame turns
  it back.
\<close>

theorem synced_by_step2:
  "synced (fst (receive A E f s)) \<longleftrightarrow>
     synced s
     \<or> (\<exists>d d' us rest reply. valid_sync A f d
          \<and> readSyncMessage A d (doc s) = (d', us, Inr (messageYjsSyncStep2 A, rest, reply)))"
proof (cases rule: validateFrame_cases [of A f])
  case (error x)
  then have "\<not> valid_sync A f d" for d
    by (auto simp: valid_sync_def validateFrame_def check_trailing_def)
  with error show ?thesis by (simp add: receive_error)
next
  case ignored
  then have "\<not> valid_sync A f d" for d
    by (auto simp: valid_sync_def validateFrame_def check_trailing_def)
  with ignored show ?thesis by (simp add: receive_ignored)
next
  case (sync d)
  have "valid_sync A f d' \<longleftrightarrow> d' = d" for d' using sync(2) by (auto simp: valid_sync_def)
  with sync show ?thesis
    by (auto simp: receive_valid_sync split: prod.splits sum.splits)
next
  case (aware d payload)
  then have "\<not> valid_sync A f d'" for d'
    by (auto simp: valid_sync_def valid_awareness_def MessageType_Sync_def MessageType_Awareness_def)
  with aware show ?thesis
    by (auto simp: receive_valid_awareness split: prod.splits option.splits)
qed

subsection \<open>Connecting and disconnecting\<close>

text \<open>
  C23: What a connection starts with. In a session that keeps its invariant, \<^verbatim>\<open>onConnect\<close> sends, in this
  order: the state vector of the document, our presence if we have any, and the merge of everything
  unacked under the newest sequence number; nothing else is sent.
\<close>

theorem connect_sends_handshake_then_tail:
  assumes "sess_inv A s" and "tail_of (mergeUpdates A) (delivery s) = Inr t"
    and "thrown (sess_onConnect A E s) = None"
  shows "filter is_send (calls (sess_onConnect A E s)) =
    SSend (frameSyncStep1 A (doc s)) None
    # (case awareness s of None \<Rightarrow> []
       | Some a \<Rightarrow> if getLocalState A a \<noteq> JNull
                  then [SSend (frameAwareness A a [clientID A (doc s)]) None] else [])
    @ (if pending (delivery s) \<noteq> []
       then [SSend (frameUpdate A t) (Some (p_seq (last (pending (delivery s)))))] else [])"
  using assms by (intro sess_onConnect_sends) (simp_all add: sess_inv_def rs_inv_def)

theorem connect_sends_handshake_then_tail_witness:
  "filter is_send (calls (sess_onConnect demo_api demo_env demo_session)) =
   [SSend (frameSyncStep1 demo_api [1]) None,
    SSend (frameAwareness demo_api [(7, JObj []), (9, JObj [])] [7]) None,
    SSend (frameUpdate demo_api [1]) (Some 1)]"
proof -
  have "thrown (sess_onConnect demo_api demo_env demo_session) = None"
    by (rule sess_onConnect_no_throw [OF demo_merge_law])
      (use demo_inv in \<open>simp_all add: queue_ok_def armed_def\<close>)
  from connect_sends_handshake_then_tail [OF demo_inv _ this, of "[1]"]
  show ?thesis by (simp add: tail_of_def demo_local_def)
qed

text \<open>
  A lost connection clears the peers and nothing of ours. \<^verbatim>\<open>onDisconnect\<close> sends nothing, cannot
  throw, leaves the document and the unacked updates alone, ends the synced state and the
  retransmits, and leaves in the presence exactly our own client.
\<close>

theorem disconnect_clears_peers:
  assumes "awareness_remove_law A" and "awareness s = Some a"
  shows "case sess_onDisconnect A E s of (s', cs, x) \<Rightarrow>
    x = None \<and> filter is_send cs = [] \<and> doc s' = doc s
    \<and> pending (delivery s') = pending (delivery s) \<and> timer (delivery s') = None
    \<and> \<not> connected (delivery s') \<and> \<not> synced s'
    \<and> (\<exists>a'. awareness s' = Some a' \<and> getStates A a' = filter (\<lambda>c. c = clientID A (doc s)) (getStates A a))"
proof -
  let ?r = "remote_clients A s"
  let ?a = "if ?r = [] then a else fst (removeAwarenessStates A ?r a)"
  have r: "?r = filter (\<lambda>c. c \<noteq> clientID A (doc s)) (getStates A a)"
    using assms(2) by (simp add: remote_clients_def)
  have "getStates A ?a = filter (\<lambda>c. c = clientID A (doc s)) (getStates A a)"
  proof (cases "?r = []")
    case True
    then show ?thesis using r by (simp add: filter_empty_conv filter_id_conv)
  next
    case False
    then have "getStates A ?a = filter (\<lambda>c. c \<notin> set ?r) (getStates A a)"
      using assms(1) by (simp add: awareness_remove_law_def)
    also have "\<dots> = filter (\<lambda>c. c = clientID A (doc s)) (getStates A a)"
      unfolding r by (rule filter_cong) auto
    finally show ?thesis .
  qed
  moreover have "awareness (fst (sess_onDisconnect A E s)) = Some ?a"
    using assms(2) by (simp add: sess_onDisconnect_eq remove_remote_eq)
  ultimately show ?thesis
    using sess_onDisconnect_silent [of A E s]
    by (auto simp: sess_onDisconnect_eq case_prod_beta)
qed

theorem disconnect_clears_peers_witness:
  "\<exists>a'. awareness (fst (sess_onDisconnect demo_api demo_env demo_session)) = Some a' \<and> map fst a' = [7]"
  using disconnect_clears_peers [OF demo_awareness_remove_law, of demo_session "[(7, JObj []), (9, JObj [])]"
      demo_env]
  by (auto simp: case_prod_beta)

subsection \<open>Edits\<close>

text \<open>
  Seeding is not editing. \<^verbatim>\<open>applyRemoteUpdate\<close> applies the update to the document and throws what
  applying it throws; whatever the update, it sends nothing and queues nothing.
\<close>

theorem seeding_is_not_queued:
  "case sess_hasPending s of b \<Rightarrow>
     case applyRemoteUpdate A E u s of (s', cs, x) \<Rightarrow>
       cs = [] \<and> delivery s' = delivery s \<and> sess_hasPending s' = b
       \<and> doc s' = fst (applyUpdate A (doc s) u) \<and> x = snd (snd (applyUpdate A (doc s) u))"
  by (simp add: applyRemoteUpdate_eq sess_hasPending_def)



end
