(* ===== verification/Provider.thy ===== *)
theory Provider
  imports Session_Props Base64
begin

text \<open>
  packages/client/src/actioncable_provider.ts: the transport glue between a cable subscription and
  a \<open>YProtocolSession\<close>.

  The state is the provider's fields; \<open>page_listens\<close> is whether the two page-lifecycle handlers are
  installed (\<^verbatim>\<open>#onUnload\<close> and \<^verbatim>\<open>#onRestore\<close> are set and registered together). A transport call may
  return, throw, or return a promise; a promise that rejects later is an event of its own. The
  callbacks of the consumer, the page events, the resend timer and the edits of the document and
  of the awareness instance are the events of \<open>prov_handle\<close>. The \<^verbatim>\<open>onError\<close> callback is taken to
  return, and no handler is entered while another runs.
\<close>

datatype status = Connecting | Connected | Synced | Disconnected

record subscription =
  sub_id :: nat
  sub_whispers :: bool      \<comment> \<open>\<^verbatim>\<open>typeof sub.whisper === "function"\<close>\<close>
  sub_unsubscribes :: bool  \<comment> \<open>\<^verbatim>\<open>sub.unsubscribe\<close> is present\<close>

type_synonym listener = nat

record ('d, 'a) provider =
  session :: "('d, 'a) session"
  channelName :: jsstring
  channelParams :: "(string \<times> jsval) list"
  prov_sub :: "subscription option"
  prov_connected :: bool
  status :: status
  statusListeners :: "listener list"  \<comment> \<open>a \<^verbatim>\<open>Set\<close>, in insertion order\<close>
  page_listens :: bool
  stashedPresence :: jsval

datatype transport_result = Returned | Threw js_error | Promised

datatype provider_call =
    PSend nat jsval
  | PWhisper nat jsval
  | PCatch                          \<comment> \<open>a rejection handler is attached to the result\<close>
  | PError js_error string
  | PSetInterval timer_handle rat
  | PClearInterval timer_handle
  | PCreate jsval
  | PUnsubscribeSoon nat            \<comment> \<open>\<^verbatim>\<open>queueMicrotask(() => sub.unsubscribe?.())\<close>\<close>
  | PStatus listener status
  | PAddPageListeners
  | PRemovePageListeners

record prov_env =
  transport :: "nat \<Rightarrow> jsval \<Rightarrow> transport_result"
  prov_timer :: timer_handle
  created :: "js_error + subscription"   \<comment> \<open>what \<^verbatim>\<open>subscriptions.create\<close> does\<close>
  listener_raises :: "listener \<Rightarrow> status \<Rightarrow> js_error option"
  has_window :: bool                     \<comment> \<open>\<^verbatim>\<open>typeof window !== "undefined"\<close>\<close>

type_synonym ('d, 'a) prov_act = "(('d, 'a) provider, provider_call) act"

subsection \<open>Envelopes\<close>

definition update_envelope :: "jsstring \<Rightarrow> int option \<Rightarrow> jsval" where
  "update_envelope update i =
     (case i of None \<Rightarrow> JObj [(''update'', JStr update)]
      | Some n \<Rightarrow> JObj [(''update'', JStr update), (''id'', JInt n)])"

definition awareness_envelope :: "jsstring \<Rightarrow> jsval" where
  "awareness_envelope update = JObj [(''awareness'', JStr update)]"

text \<open>\<^verbatim>\<open>frame[0] === MessageType.Awareness\<close>; an empty frame reads undefined.\<close>

definition is_awareness :: "bytes \<Rightarrow> bool" where
  "is_awareness frame \<longleftrightarrow> frame \<noteq> [] \<and> unat (hd frame) = MessageType_Awareness"

subsection \<open>Sending\<close>

definition observe :: "transport_result \<Rightarrow> ('d, 'a) prov_act" where
  "observe r = (case r of Returned \<Rightarrow> skip | Threw x \<Rightarrow> throw x | Promised \<Rightarrow> call PCatch)"

definition prov_send :: "prov_env \<Rightarrow> bytes \<Rightarrow> int option \<Rightarrow> ('d, 'a) prov_act" where
  "prov_send E frame i p =
     (case prov_sub p of
        None \<Rightarrow> skip p
      | Some sub \<Rightarrow>
          (case toBase64 frame of
             Inl x \<Rightarrow> throw x p
           | Inr update \<Rightarrow>
               tryA
                 (ifA (\<lambda>_. is_awareness frame \<and> sub_whispers sub)
                    (block [
                       call (PWhisper (sub_id sub) (awareness_envelope update)),
                       observe (transport E (sub_id sub) (awareness_envelope update))])
                    (block [
                       call (PSend (sub_id sub) (update_envelope update i)),
                       observe (transport E (sub_id sub) (update_envelope update i))]))
                 (\<lambda>x. call (PError x ''send'')) p))"

subsection \<open>Running the session\<close>

text \<open>
  The session's \<^verbatim>\<open>send\<close> is \<^verbatim>\<open>(frame, id) => this.#send(frame, id)\<close>, its \<^verbatim>\<open>onError\<close> the provider's, and its
  timer hooks are the global ones. \<open>prov_send\<close> reads the subscription, which no session operation
  changes, so its answers are those at the start of the operation.
\<close>

definition session_env :: "prov_env \<Rightarrow> ('d, 'a) provider \<Rightarrow> sess_env" where
  "session_env E p =
     \<lparr>sess_raises = (\<lambda>f i. thrown (prov_send E f i p)), sess_timer = prov_timer E\<rparr>"

fun session_calls :: "prov_env \<Rightarrow> ('d, 'a) provider \<Rightarrow> session_call \<Rightarrow> provider_call list" where
  "session_calls E p (SSend f i) = calls (prov_send E f i p)"
| "session_calls E p (SError x c) = [PError x c]"
| "session_calls E p (SSetInterval h ms) = [PSetInterval h ms]"
| "session_calls E p (SClearInterval h) = [PClearInterval h]"

definition on_session ::
  "prov_env \<Rightarrow> (sess_env \<Rightarrow> ('d, 'a) sess_act) \<Rightarrow> ('d, 'a) prov_act" where
  "on_session E a p =
     zoom session (\<lambda>s p. p\<lparr>session := s\<rparr>) (session_calls E) (a (session_env E p)) p"

subsection \<open>What the session offers\<close>

definition prov_synced :: "('d, 'a) provider \<Rightarrow> bool" where
  "prov_synced p = synced (session p)"

definition prov_hasPending :: "('d, 'a) provider \<Rightarrow> bool" where
  "prov_hasPending p = sess_hasPending (session p)"

definition prov_applyRemoteUpdate :: "('d, 'a) api \<Rightarrow> prov_env \<Rightarrow> bytes \<Rightarrow> ('d, 'a) prov_act" where
  [simp]: "prov_applyRemoteUpdate A E u = on_session E (\<lambda>SE. applyRemoteUpdate A SE u)"

subsection \<open>Status\<close>

definition computeStatus :: "('d, 'a) provider \<Rightarrow> status" where
  "computeStatus p =
     (if prov_sub p = None then Disconnected
      else if \<not> prov_connected p then Connecting
      else if synced (session p) then Synced else Connected)"

text \<open>One call of a listener, which may throw.\<close>

definition tell :: "prov_env \<Rightarrow> status \<Rightarrow> listener \<Rightarrow> ('d, 'a) prov_act" where
  "tell E st l p = (p, [PStatus l st], listener_raises E l st)"

definition notify :: "prov_env \<Rightarrow> status \<Rightarrow> ('d, 'a) prov_act" where
  "notify E st p = forA (statusListeners p) (tell E st) p"

definition refreshStatus :: "prov_env \<Rightarrow> ('d, 'a) prov_act" where
  "refreshStatus E p =
     (let next = computeStatus p
      in if next = status p then skip p
         else block [modify (\<lambda>p. p\<lparr>status := next\<rparr>), notify E next] p)"

definition onStatusChange :: "listener \<Rightarrow> ('d, 'a) prov_act" where
  "onStatusChange l =
     modify (\<lambda>p. p\<lparr>statusListeners :=
       (if l \<in> set (statusListeners p) then statusListeners p else statusListeners p @ [l])\<rparr>)"

definition offStatusChange :: "listener \<Rightarrow> ('d, 'a) prov_act" where
  "offStatusChange l = modify (\<lambda>p. p\<lparr>statusListeners := removeAll l (statusListeners p)\<rparr>)"

subsection \<open>Page lifecycle\<close>

definition installUnloadHandler :: "prov_env \<Rightarrow> ('d, 'a) prov_act" where
  "installUnloadHandler E =
     ifA (\<lambda>p. \<not> has_window E \<or> page_listens p) skip
       (block [modify (\<lambda>p. p\<lparr>page_listens := True\<rparr>), call PAddPageListeners])"

definition removeUnloadHandler :: "prov_env \<Rightarrow> ('d, 'a) prov_act" where
  "removeUnloadHandler E =
     ifA (\<lambda>p. \<not> has_window E) skip
       (whenA page_listens
          (block [call PRemovePageListeners, modify (\<lambda>p. p\<lparr>page_listens := False\<rparr>)]))"

text \<open>\<^verbatim>\<open>this.awareness.getLocalState()\<close>: the instance is the one handed to the session.\<close>

definition presence :: "('d, 'a) api \<Rightarrow> ('d, 'a) provider \<Rightarrow> jsval" where
  "presence A p =
     (case awareness (session p) of None \<Rightarrow> JNull | Some a \<Rightarrow> getLocalState A a)"

definition setPresence :: "('d, 'a) api \<Rightarrow> prov_env \<Rightarrow> jsval \<Rightarrow> ('d, 'a) prov_act" where
  "setPresence A E v =
     on_session E (\<lambda>SE s.
       case awareness s of None \<Rightarrow> skip s
       | Some a \<Rightarrow> aw_set A SE (setLocalState A v a) local_origin s)"

definition onUnload :: "('d, 'a) api \<Rightarrow> prov_env \<Rightarrow> ('d, 'a) prov_act" where
  "onUnload A E =
     block [
       modify (\<lambda>p. p\<lparr>stashedPresence := presence A p\<rparr>),
       on_session E (removeLocalAwareness A)]"

definition onRestore :: "('d, 'a) api \<Rightarrow> prov_env \<Rightarrow> bool \<Rightarrow> ('d, 'a) prov_act" where
  "onRestore A E persisted =
     ifA (\<lambda>p. \<not> persisted \<or> \<not> truthy (stashedPresence p)) skip
       (block [
          whenA (\<lambda>p. presence A p = JNull) (\<lambda>p. setPresence A E (stashedPresence p) p),
          modify (\<lambda>p. p\<lparr>stashedPresence := JNull\<rparr>)])"

subsection \<open>Construction and teardown\<close>

text \<open>\<open>newAw d\<close> is what \<^verbatim>\<open>new Awareness(doc)\<close> does; \<open>interval\<close> is \<^verbatim>\<open>opts.resendInterval\<close>.\<close>

definition new_ActionCableProvider ::
  "('d option \<Rightarrow> js_error + 'a) \<Rightarrow> 'd option \<Rightarrow> jsstring \<Rightarrow> (string \<times> jsval) list \<Rightarrow> jsval
   \<Rightarrow> js_error + ('d, 'a) provider" where
  "new_ActionCableProvider newAw d name params interval =
     (case newAw d of
        Inl x \<Rightarrow> Inl x
      | Inr a \<Rightarrow>
          (case new_YProtocolSession d
             (Some \<lparr>so_send = True, so_awareness = Some a, so_resendInterval = interval\<rparr>) of
             Inl x \<Rightarrow> Inl x
           | Inr s \<Rightarrow>
               Inr \<lparr>session = s, channelName = name, channelParams = params, prov_sub = None,
                    prov_connected = False, status = Disconnected, statusListeners = [],
                    page_listens = False, stashedPresence = JNull\<rparr>))"

text \<open>\<^verbatim>\<open>{ channel: this.channelName, ...this.channelParams }\<close>: a later key replaces an earlier one.\<close>

definition js_put :: "(string \<times> jsval) list \<Rightarrow> string \<times> jsval \<Rightarrow> (string \<times> jsval) list" where
  "js_put ps kv =
     (if fst kv \<in> fst ` set ps
      then map (\<lambda>(k, v). if k = fst kv then (k, snd kv) else (k, v)) ps
      else ps @ [kv])"

definition channel_spec :: "('d, 'a) provider \<Rightarrow> jsval" where
  "channel_spec p = JObj (foldl js_put [(''channel'', JStr (channelName p))] (channelParams p))"

definition prov_connect :: "prov_env \<Rightarrow> ('d, 'a) prov_act" where
  "prov_connect E =
     ifA (\<lambda>p. prov_sub p \<noteq> None) skip
       (block [
          (\<lambda>p. call (PCreate (channel_spec p)) p),
          (case created E of
             Inl x \<Rightarrow> throw x
           | Inr sub \<Rightarrow> modify (\<lambda>p. p\<lparr>prov_sub := Some sub\<rparr>)),
          installUnloadHandler E,
          refreshStatus E])"

definition prov_disconnect :: "('d, 'a) api \<Rightarrow> prov_env \<Rightarrow> ('d, 'a) prov_act" where
  "prov_disconnect A E p =
     (case prov_sub p of
        None \<Rightarrow> skip p
      | Some sub \<Rightarrow>
          block [
            on_session E (removeLocalAwareness A),
            on_session E (sess_onDisconnect A),
            modify (\<lambda>p. p\<lparr>prov_connected := False\<rparr>),
            modify (\<lambda>p. p\<lparr>prov_sub := None\<rparr>),
            removeUnloadHandler E,
            call (PUnsubscribeSoon (sub_id sub)),
            refreshStatus E] p)"

text \<open>\<open>destroyAw\<close> is \<^verbatim>\<open>awareness.destroy()\<close>, which clears the local state.\<close>

definition prov_destroy ::
  "('d, 'a) api \<Rightarrow> ('a \<Rightarrow> 'a \<times> aw_change list) \<Rightarrow> prov_env \<Rightarrow> ('d, 'a) prov_act" where
  "prov_destroy A destroyAw E =
     block [
       prov_disconnect A E,
       on_session E (\<lambda>SE. sess_destroy A),
       on_session E (\<lambda>SE s.
         case awareness s of None \<Rightarrow> skip s | Some a \<Rightarrow> aw_set A SE (destroyAw a) local_origin s),
       modify (\<lambda>p. p\<lparr>statusListeners := []\<rparr>)]"

subsection \<open>The subscription's callbacks\<close>

text \<open>\<^verbatim>\<open>session.receive(frame)\<close>, its reply sent back, and the status refreshed.\<close>

definition deliver_frame :: "('d, 'a) api \<Rightarrow> prov_env \<Rightarrow> bytes \<Rightarrow> ('d, 'a) prov_act" where
  "deliver_frame A E frame p =
     (case receive A (session_env E p) frame (session p) of
        (s, cs, reply) \<Rightarrow>
          block [
            (\<lambda>p. (p\<lparr>session := s\<rparr>, concat (map (session_calls E p) cs), None)),
            (case reply of None \<Rightarrow> skip | Some r \<Rightarrow> prov_send E r None),
            refreshStatus E] p)"

text \<open>The three reads of the message, each guarded by \<^verbatim>\<open>message &&\<close>.\<close>

definition msg_ack :: "jsval \<Rightarrow> jsval option" where
  "msg_ack message =
     (if truthy message
      then (case js_get message ''ack'' of
              Inl _ \<Rightarrow> None
            | Inr v \<Rightarrow> if v = JUndef then None else Some v)
      else None)"

definition msg_awareness :: "jsval \<Rightarrow> js_error + jsval" where
  "msg_awareness message = js_and message (js_get message ''awareness'')"

definition msg_payload :: "jsval \<Rightarrow> jsval \<Rightarrow> js_error + jsval" where
  "msg_payload message awarenessPayload =
     js_and message
       (if awarenessPayload \<in> {JUndef, JNull} then js_get message ''update''
        else Inr awarenessPayload)"

definition received :: "('d, 'a) api \<Rightarrow> prov_env \<Rightarrow> jsval \<Rightarrow> ('d, 'a) prov_act" where
  "received A E message p =
     (case msg_ack message of
        Some v \<Rightarrow> on_session E (\<lambda>SE. ack A v) p
      | None \<Rightarrow>
          (case msg_awareness message of Inl x \<Rightarrow> throw x p | Inr awarenessPayload \<Rightarrow>
           (case msg_payload message awarenessPayload of
              Inl x \<Rightarrow> throw x p
            | Inr (JStr payload) \<Rightarrow>
                (case fromBase64 payload of
                   Inl x \<Rightarrow> call (PError x ''received'') p
                 | Inr frame \<Rightarrow>
                     if awarenessPayload \<noteq> JUndef \<and> \<not> is_awareness frame
                     then call (PError (JsError ''awareness envelope carried a non-awareness frame'')
                                  ''received'') p
                     else deliver_frame A E frame p)
            | Inr _ \<Rightarrow> skip p)))"

definition cb_connected :: "('d, 'a) api \<Rightarrow> prov_env \<Rightarrow> ('d, 'a) prov_act" where
  "cb_connected A E =
     block [
       modify (\<lambda>p. p\<lparr>prov_connected := True\<rparr>),
       on_session E (sess_onConnect A),
       refreshStatus E]"

definition cb_disconnected :: "('d, 'a) api \<Rightarrow> prov_env \<Rightarrow> ('d, 'a) prov_act" where
  "cb_disconnected A E =
     block [
       modify (\<lambda>p. p\<lparr>prov_connected := False\<rparr>),
       on_session E (sess_onDisconnect A),
       refreshStatus E]"

definition cb_rejected :: "('d, 'a) api \<Rightarrow> prov_env \<Rightarrow> ('d, 'a) prov_act" where
  "cb_rejected A E =
     block [
       call (PError (JsError ''subscription rejected by the server'') ''rejected''),
       prov_disconnect A E]"

text \<open>The handler \<^verbatim>\<open>#observe\<close> attaches to a promise.\<close>

definition on_rejection :: "js_error \<Rightarrow> ('d, 'a) prov_act" where
  "on_rejection x = call (PError x ''send'')"

subsection \<open>Events\<close>

text \<open>
  \<open>UserEdit\<close> and \<open>UserAwareness\<close> are changes made by other code (the editor, the user, awareness'
  own reaper), under an origin that is not the session.
\<close>

datatype ('d, 'a) prov_event =
    CallConnect
  | CallDisconnect
  | CallDestroy
  | CbReceived jsval
  | CbConnected
  | CbDisconnected
  | CbRejected
  | PageHide
  | PageShow bool
  | PromiseRejected js_error
  | UserEdit 'd "bytes list" nat
  | UserAwareness 'a "aw_change list" nat
  | RemoteSeed bytes
  | ResendTick
  | AddListener listener
  | DropListener listener

fun prov_handle ::
  "('d, 'a) api \<Rightarrow> ('a \<Rightarrow> 'a \<times> aw_change list) \<Rightarrow> prov_env \<Rightarrow> ('d, 'a) prov_event \<Rightarrow> ('d, 'a) prov_act"
where
  "prov_handle A dA E CallConnect = prov_connect E"
| "prov_handle A dA E CallDisconnect = prov_disconnect A E"
| "prov_handle A dA E CallDestroy = prov_destroy A dA E"
| "prov_handle A dA E (CbReceived m) = received A E m"
| "prov_handle A dA E CbConnected = cb_connected A E"
| "prov_handle A dA E CbDisconnected = cb_disconnected A E"
| "prov_handle A dA E CbRejected = cb_rejected A E"
| "prov_handle A dA E PageHide = whenA page_listens (onUnload A E)"
| "prov_handle A dA E (PageShow persisted) = whenA page_listens (onRestore A E persisted)"
| "prov_handle A dA E (PromiseRejected x) = on_rejection x"
| "prov_handle A dA E (UserEdit d us n) = on_session E (\<lambda>SE. doc_edit A SE d us (OOther n))"
| "prov_handle A dA E (UserAwareness a chs n) = on_session E (\<lambda>SE. aw_set A SE (a, chs) (OOther n))"
| "prov_handle A dA E (RemoteSeed u) = prov_applyRemoteUpdate A E u"
| "prov_handle A dA E ResendTick = on_session E (\<lambda>SE. on_delivery A (onTick (delivery_env A SE)))"
| "prov_handle A dA E (AddListener l) = onStatusChange l"
| "prov_handle A dA E (DropListener l) = offStatusChange l"

end
