(* ===== verification/Provider_Props.thy ===== *)
theory Provider_Props
  imports Provider Delivery_Queue
begin

text \<open>
  The lemmas about \<open>ActionCableProvider\<close>: what a send does to the transport, what each handler
  leaves of the session, the invariant of the reachable states, and the delivery contract of the
  whole provider.
\<close>

subsection \<open>Sending\<close>

text \<open>The transport call of a frame, and what it may add: the attached handler, or the report.\<close>

definition cable_call :: "subscription \<Rightarrow> bytes \<Rightarrow> int option \<Rightarrow> provider_call" where
  "cable_call sub frame i =
     (if is_awareness frame \<and> sub_whispers sub
      then PWhisper (sub_id sub) (awareness_envelope (b64_of frame))
      else PSend (sub_id sub) (update_envelope (b64_of frame) i))"

fun call_result :: "prov_env \<Rightarrow> provider_call \<Rightarrow> transport_result" where
  "call_result E (PWhisper n m) = transport E n m"
| "call_result E (PSend n m) = transport E n m"
| "call_result E _ = Returned"

definition send_trace :: "prov_env \<Rightarrow> ('d, 'a) provider \<Rightarrow> bytes \<Rightarrow> int option \<Rightarrow> provider_call list" where
  "send_trace E p frame i =
     (case prov_sub p of None \<Rightarrow> []
      | Some sub \<Rightarrow>
          cable_call sub frame i
          # (case call_result E (cable_call sub frame i) of
               Returned \<Rightarrow> [] | Promised \<Rightarrow> [PCatch] | Threw x \<Rightarrow> [PError x ''send'']))"

lemma ifA_const: "ifA (\<lambda>_. b) a a' = (if b then a else a')"
  by (rule ext) simp

lemma try_observe:
  "tryA (block [call c, observe r]) (\<lambda>x. call (PError x ''send'')) p =
     (p, c # (case r of Returned \<Rightarrow> [] | Promised \<Rightarrow> [PCatch] | Threw x \<Rightarrow> [PError x ''send'']), None)"
  by (cases r) (simp_all add: tryA_eq andThen_eq observe_def)

lemma prov_send_eq: "prov_send E f i p = (p, send_trace E p f i, None)"
proof (cases "prov_sub p")
  case (Some sub)
  then show ?thesis
    by (cases "is_awareness f \<and> sub_whispers sub")
      (simp_all only: prov_send_def send_trace_def cable_call_def toBase64_total option.case sum.case
        ifA_const simp_thms if_True if_False call_result.simps try_observe)
qed (simp add: prov_send_def send_trace_def)

lemma session_env_simps [simp]:
  "sess_raises (session_env E p) f i = None"
  "sess_timer (session_env E p) = prov_timer E"
  by (simp_all add: session_env_def prov_send_eq)

lemma session_calls_send [simp]: "session_calls E p (SSend f i) = send_trace E p f i"
  by (simp add: prov_send_eq)

declare session_calls.simps(1) [simp del]

lemma send_trace_cong: "prov_sub q = prov_sub p \<Longrightarrow> send_trace E q f i = send_trace E p f i"
  by (simp add: send_trace_def)

lemma session_calls_cong:
  "prov_sub q = prov_sub p \<Longrightarrow> session_calls E q c = session_calls E p c"
  by (cases c) (simp_all add: send_trace_def)

lemma on_session_eq:
  "on_session E a p =
     (p\<lparr>session := post (a (session_env E p) (session p))\<rparr>,
      concat (map (session_calls E p) (calls (a (session_env E p) (session p)))),
      thrown (a (session_env E p) (session p)))"
  by (simp add: on_session_def zoom_eq)

lemma session_env_cong: "prov_sub q = prov_sub p \<Longrightarrow> session_env E q = session_env E p"
  by (simp add: session_env_def prov_send_eq)

lemma on_session_fields [simp]:
  "prov_sub (post (on_session E a p)) = prov_sub p"
  "prov_connected (post (on_session E a p)) = prov_connected p"
  "status (post (on_session E a p)) = status p"
  "statusListeners (post (on_session E a p)) = statusListeners p"
  "page_listens (post (on_session E a p)) = page_listens p"
  "stashedPresence (post (on_session E a p)) = stashedPresence p"
  "session (post (on_session E a p)) = post (a (session_env E p) (session p))"
  "thrown (on_session E a p) = thrown (a (session_env E p) (session p))"
  by (simp_all add: on_session_eq)

subsection \<open>Status\<close>

lemma notify_post:
  "post (forA ls (tell E st) p) = p"
  by (induction ls) (simp_all add: andThen_eq tell_def)

lemma refreshStatus_post: "post (refreshStatus E p) = p\<lparr>status := computeStatus p\<rparr>"
  by (simp add: refreshStatus_def Let_def andThen_eq notify_def notify_post)

lemma computeStatus_update [simp]: "computeStatus (p\<lparr>status := st\<rparr>) = computeStatus p"
  by (simp add: computeStatus_def)

lemma notify_thrown:
  "(\<And>l st. listener_raises E l st = None) \<Longrightarrow>
   thrown (forA ls (tell E st) p) = None"
  by (induction ls) (simp_all add: andThen_eq tell_def)

lemma refreshStatus_thrown:
  "(\<And>l st. listener_raises E l st = None) \<Longrightarrow> thrown (refreshStatus E p) = None"
  by (simp add: refreshStatus_def Let_def andThen_eq notify_def notify_thrown)

lemma notify_calls:
  "c \<in> set (calls (forA ls (tell E st) p)) \<Longrightarrow>
   \<exists>l. c = PStatus l st"
  by (induction ls) (auto simp: andThen_eq tell_def split: if_splits)

lemma refreshStatus_calls: "c \<in> set (calls (refreshStatus E p)) \<Longrightarrow> \<exists>l st. c = PStatus l st"
  by (auto simp: refreshStatus_def Let_def andThen_eq notify_def dest: notify_calls split: if_splits)

subsection \<open>The invariant\<close>

text \<open>
  \<open>W\<close> is the well-formed updates, \<open>win\<close> whether the page has a window. The status shown is the
  computed one; the session's queue is connected exactly when the provider is; the page handlers
  are installed exactly while there is a subscription.
\<close>

definition prov_inv :: "('d, 'a) api \<Rightarrow> (bytes \<Rightarrow> bool) \<Rightarrow> bool \<Rightarrow> ('d, 'a) provider \<Rightarrow> bool" where
  "prov_inv A W win p \<longleftrightarrow>
     queue_ok A W (session p) \<and> status p = computeStatus p
     \<and> connected (delivery (session p)) = prov_connected p
     \<and> (prov_sub p = None \<longrightarrow> \<not> prov_connected p)
     \<and> (page_listens p \<longleftrightarrow> win \<and> prov_sub p \<noteq> None)
     \<and> awareness (session p) \<noteq> None"

text \<open>
  What the environment keeps to: the consumer calls a subscription's callbacks only while the
  subscription is held, and the document emits well-formed updates.
\<close>

fun permitted :: "(bytes \<Rightarrow> bool) \<Rightarrow> ('d, 'a) provider \<Rightarrow> ('d, 'a) prov_event \<Rightarrow> bool" where
  "permitted W p (CbReceived m) \<longleftrightarrow> prov_sub p \<noteq> None"
| "permitted W p CbConnected \<longleftrightarrow> prov_sub p \<noteq> None"
| "permitted W p CbDisconnected \<longleftrightarrow> prov_sub p \<noteq> None"
| "permitted W p CbRejected \<longleftrightarrow> prov_sub p \<noteq> None"
| "permitted W p (UserEdit d us n) \<longleftrightarrow> (\<forall>u\<in>set us. W u)"
| "permitted W p _ \<longleftrightarrow> True"

inductive prov_reach ::
  "('d, 'a) api \<Rightarrow> ('a \<Rightarrow> 'a \<times> aw_change list) \<Rightarrow> ('d option \<Rightarrow> js_error + 'a) \<Rightarrow> (bytes \<Rightarrow> bool) \<Rightarrow> bool
   \<Rightarrow> ('d, 'a) provider \<Rightarrow> bool"
  for A dA newAw W win
where
  start: "new_ActionCableProvider newAw d name params interval = Inr p \<Longrightarrow>
    prov_reach A dA newAw W win p"
| step: "prov_reach A dA newAw W win p \<Longrightarrow> permitted W p ev \<Longrightarrow> has_window E = win \<Longrightarrow>
    prov_reach A dA newAw W win (post (prov_handle A dA E ev p))"

lemma prov_inv_new:
  assumes "new_ActionCableProvider newAw d name params interval = Inr p"
  shows "prov_inv A W win p"
  using assms
  by (auto simp: new_ActionCableProvider_def new_YProtocolSession_def new_ReliableSync_def
      prov_inv_def queue_ok_def sess_inv_def rs_inv_def seqs_ok_def cache_ok_def timer_ok_def
      armed_def computeStatus_def Let_def split: sum.splits option.splits if_splits)

lemma computeStatus_session [simp]:
  "synced s = synced (session p) \<Longrightarrow> computeStatus (p\<lparr>session := s\<rparr>) = computeStatus p"
  by (simp add: computeStatus_def)

lemma prov_inv_session:
  assumes "prov_inv A W win p" and "queue_ok A W s" and "settled v (session p)" and "settled v s"
    and "awareness s \<noteq> None"
  shows "prov_inv A W win (p\<lparr>session := s\<rparr>)"
proof -
  have "synced s = synced (session p)" and "connected (delivery s) = connected (delivery (session p))"
    using assms(3,4) unfolding settled_def by force+
  with assms(1,2,5) show ?thesis by (simp add: prov_inv_def)
qed

lemma settled_self: "settled (synced s, connected (delivery s)) s"
  by (simp add: settled_def)

lemma prov_inv_on_session:
  assumes "prov_inv A W win p"
    and "\<And>SE. (\<And>f i. sess_raises SE f i = None) \<Longrightarrow> queue_ok A W (post (a SE (session p)))"
    and "\<And>SE v. settled v (session p) \<Longrightarrow> settled v (post (a SE (session p)))"
    and "\<And>SE. awareness (post (a SE (session p))) \<noteq> None"
  shows "prov_inv A W win (post (on_session E a p))"
proof -
  let ?s = "post (a (session_env E p) (session p))"
  have "queue_ok A W ?s" by (rule assms(2)) simp
  moreover have "settled (synced (session p), connected (delivery (session p))) ?s"
    by (rule assms(3)) (rule settled_self)
  ultimately have "prov_inv A W win (p\<lparr>session := ?s\<rparr>)"
    using assms(1,4) by (intro prov_inv_session [OF _ _ settled_self])
  then show ?thesis by (simp add: on_session_eq)
qed

text \<open>The operations of the session that a handler runs and that leave the connection alone.\<close>

named_theorems quiet_ops

lemma inv_doc_edit [quiet_ops]:
  assumes "prov_inv A W win p" and "\<forall>u\<in>set us. W u"
  shows "prov_inv A W win (post (on_session E (\<lambda>SE. doc_edit A SE d us (OOther n)) p))"
proof (rule prov_inv_on_session [OF assms(1)])
  fix SE :: sess_env
  have "post (doc_edit A SE d us (OOther n) s) =
      post (emit_doc A SE us (OOther n) (s\<lparr>doc := d\<rparr>))" for s
    by (simp add: doc_edit_def andThen_eq)
  then show "awareness (post (doc_edit A SE d us (OOther n) (session p))) \<noteq> None"
    using assms(1) by (simp add: prov_inv_def emit_doc_awareness)
qed (use assms in \<open>auto simp: prov_inv_def intro: queue_ok_doc_edit settled_doc_edit\<close>)

lemma inv_aw_set [quiet_ops]:
  "prov_inv A W win p \<Longrightarrow> prov_inv A W win (post (on_session E (\<lambda>SE. aw_set A SE r (OOther n)) p))"
  by (rule prov_inv_on_session)
    (auto simp: prov_inv_def settled_def intro: queue_ok_cong)

lemma inv_applyRemote [quiet_ops]:
  "prov_inv A W win p \<Longrightarrow> prov_inv A W win (post (on_session E (\<lambda>SE. applyRemoteUpdate A SE u) p))"
  by (rule prov_inv_on_session)
    (auto simp: prov_inv_def settled_def applyRemoteUpdate_eq intro: queue_ok_cong)

lemma inv_tick [quiet_ops]:
  "prov_inv A W win p \<Longrightarrow>
   prov_inv A W win (post (on_session E (\<lambda>SE. on_delivery A (onTick (delivery_env A SE))) p))"
  by (rule prov_inv_on_session)
    (auto simp: prov_inv_def settled_def on_delivery_eq onTick_eq intro: queue_ok_tick
      [unfolded on_delivery_eq onTick_eq, simplified])

lemma inv_ack [quiet_ops]:
  "prov_inv A W win p \<Longrightarrow> prov_inv A W win (post (on_session E (\<lambda>SE. ack A v) p))"
  by (rule prov_inv_on_session)
    (auto simp: prov_inv_def settled_def intro: queue_ok_ack, simp_all add: ack_def on_delivery_eq)

lemma removeLocal_awareness:
  "awareness s \<noteq> None \<Longrightarrow> awareness (post (removeLocalAwareness A E s)) \<noteq> None"
  by (auto simp: removeLocalAwareness_def split: option.split)

lemma removeLocal_delivery:
  "delivery (post (removeLocalAwareness A E s)) = delivery s"
  "synced (post (removeLocalAwareness A E s)) = synced s"
  by (simp_all add: removeLocalAwareness_def split: option.split)

lemma inv_removeLocal [quiet_ops]:
  "prov_inv A W win p \<Longrightarrow> prov_inv A W win (post (on_session E (removeLocalAwareness A) p))"
  by (rule prov_inv_on_session)
    (auto simp: prov_inv_def settled_def removeLocal_delivery removeLocal_awareness intro: queue_ok_cong)

subsection \<open>The handlers keep the invariant\<close>

text \<open>What holds of the provider in the middle of a handler, before the status is refreshed.\<close>

definition unrefreshed :: "('d, 'a) api \<Rightarrow> (bytes \<Rightarrow> bool) \<Rightarrow> bool \<Rightarrow> ('d, 'a) provider \<Rightarrow> bool" where
  "unrefreshed A W win p \<longleftrightarrow> prov_inv A W win (p\<lparr>status := computeStatus p\<rparr>)"

lemma unrefreshed_refresh: "unrefreshed A W win p \<Longrightarrow> prov_inv A W win (post (refreshStatus E p))"
  by (simp add: unrefreshed_def refreshStatus_post)

lemma inv_unrefreshed: "prov_inv A W win p \<Longrightarrow> unrefreshed A W win p"
  by (simp add: unrefreshed_def prov_inv_def)

lemma unrefreshedI:
  assumes "queue_ok A W (session p)"
    and "connected (delivery (session p)) = prov_connected p"
    and "prov_sub p = None \<Longrightarrow> \<not> prov_connected p"
    and "page_listens p \<longleftrightarrow> win \<and> prov_sub p \<noteq> None"
    and "awareness (session p) \<noteq> None"
  shows "unrefreshed A W win p"
  using assms by (simp add: unrefreshed_def prov_inv_def)

lemma inv_connect:
  assumes "prov_inv A W win p" and "has_window E = win"
  shows "prov_inv A W win (post (prov_connect E p))"
proof (cases "prov_sub p")
  case None
  then show ?thesis
  proof (cases "created E")
    case (Inr sub)
    let ?p = "p\<lparr>prov_sub := Some sub\<rparr>"
    have q: "unrefreshed A W win (post (installUnloadHandler E ?p))"
      using assms None
      by (intro unrefreshedI) (auto simp: installUnloadHandler_def prov_inv_def andThen_eq)
    have "post (prov_connect E p) = post (refreshStatus E (post (installUnloadHandler E ?p)))"
      using None Inr by (simp add: prov_connect_def andThen_eq installUnloadHandler_def)
    with unrefreshed_refresh [OF q] show ?thesis by simp
  qed (use assms None in \<open>simp add: prov_connect_def andThen_eq\<close>)
qed (use assms in \<open>simp add: prov_connect_def\<close>)

lemma onDisconnect_no_throw [simp]: "thrown (sess_onDisconnect A E s) = None"
  by (simp add: sess_onDisconnect_eq)

lemma removeLocal_no_throw:
  "(\<And>f i. sess_raises E f i = None) \<Longrightarrow> thrown (removeLocalAwareness A E s) = None"
  by (simp add: removeLocalAwareness_eq split: option.split)

text \<open>Disconnecting, up to its last statement.\<close>

definition torn_down :: "('d, 'a) api \<Rightarrow> prov_env \<Rightarrow> ('d, 'a) provider \<Rightarrow> ('d, 'a) provider" where
  "torn_down A E p =
     (let SE = session_env E p;
          q = p\<lparr>session := post (sess_onDisconnect A SE (post (removeLocalAwareness A SE (session p)))),
                prov_connected := False, prov_sub := None\<rparr>
      in if has_window E \<and> page_listens p then q\<lparr>page_listens := False\<rparr> else q)"

lemma torn_down_fields [simp]:
  "prov_sub (torn_down A E p) = None"
  "prov_connected (torn_down A E p) = False"
  "statusListeners (torn_down A E p) = statusListeners p"
  by (simp_all add: torn_down_def Let_def)

lemma computeStatus_torn_down [simp]: "computeStatus (torn_down A E p) = Disconnected"
  by (simp add: computeStatus_def)

lemma refreshStatus_unheard: "statusListeners p = [] \<Longrightarrow> calls (refreshStatus E p) = []"
  by (simp add: refreshStatus_def Let_def andThen_eq notify_def)

lemma prov_disconnect_eq:
  assumes "prov_sub p = Some sub"
  shows "post (prov_disconnect A E p) = post (refreshStatus E (torn_down A E p))"
    and "thrown (prov_disconnect A E p) = thrown (refreshStatus E (torn_down A E p))"
    and "calls (prov_disconnect A E p) =
      calls (on_session E (removeLocalAwareness A) p)
      @ calls (on_session E (sess_onDisconnect A) (post (on_session E (removeLocalAwareness A) p)))
      @ (if has_window E \<and> page_listens p then [PRemovePageListeners] else [])
      @ [PUnsubscribeSoon (sub_id sub)]
      @ calls (refreshStatus E (torn_down A E p))"
  using assms session_env_cong [of "post (on_session E (removeLocalAwareness A) p)" p E]
  by (simp_all add: prov_disconnect_def andThen_eq removeLocal_no_throw removeUnloadHandler_def
      torn_down_def Let_def on_session_eq [of E _ p] on_session_eq)

lemma unrefreshed_torn_down:
  assumes "prov_inv A W win p" and "has_window E = win"
  shows "unrefreshed A W win (torn_down A E p)"
proof (rule unrefreshedI)
  let ?s = "post (removeLocalAwareness A (session_env E p) (session p))"
  have q: "queue_ok A W ?s" 
    using assms(1) by (auto simp: prov_inv_def removeLocal_delivery intro: queue_ok_cong)
  then show "queue_ok A W (session (torn_down A E p))"
    by (simp add: torn_down_def Let_def queue_ok_onDisconnect)
  have "awareness ?s \<noteq> None"
    using assms(1) by (simp add: prov_inv_def removeLocal_awareness)
  then show "awareness (session (torn_down A E p)) \<noteq> None"
    by (auto simp: torn_down_def Let_def sess_onDisconnect_eq remove_remote_eq)
qed (use assms in \<open>auto simp: torn_down_def Let_def sess_onDisconnect_eq prov_inv_def\<close>)

lemma inv_disconnect:
  assumes "prov_inv A W win p" and "has_window E = win"
  shows "prov_inv A W win (post (prov_disconnect A E p))"
proof (cases "prov_sub p")
  case (Some sub)
  with unrefreshed_refresh [OF unrefreshed_torn_down [OF assms]] show ?thesis
    by (simp add: prov_disconnect_eq(1))
qed (use assms in \<open>simp add: prov_disconnect_def\<close>)

lemma disconnect_offline:
  "prov_inv A W win p \<Longrightarrow> prov_sub (post (prov_disconnect A E p)) = None"
  by (cases "prov_sub p")
    (simp_all add: prov_disconnect_eq(1) refreshStatus_post torn_down_def Let_def, simp add: prov_disconnect_def)

lemma inv_session_destroy:
  assumes "prov_inv A W win p" and "prov_sub p = None"
  shows "prov_inv A W win (post (on_session E (\<lambda>SE. sess_destroy A) p))"
proof (rule prov_inv_on_session [OF assms(1)])
  have off: "\<not> connected (delivery (session p))" using assms by (simp add: prov_inv_def)
  show "settled v (post (sess_destroy A (session p)))" if "settled v (session p)" for v
    using that off by (simp add: settled_def)
qed (use assms(1) in \<open>simp_all add: prov_inv_def queue_ok_destroy\<close>)

lemma inv_aw_destroy:
  "prov_inv A W win p \<Longrightarrow>
   prov_inv A W win (post (on_session E (\<lambda>SE s.
     case awareness s of None \<Rightarrow> skip s | Some a \<Rightarrow> aw_set A SE (dA a) local_origin s) p))"
  by (rule prov_inv_on_session)
    (auto simp: prov_inv_def settled_def intro: queue_ok_cong split: option.split)

lemma prov_inv_fields:
  "prov_inv A W win p \<Longrightarrow> session q = session p \<Longrightarrow> status q = status p \<Longrightarrow>
   prov_connected q = prov_connected p \<Longrightarrow> prov_sub q = prov_sub p \<Longrightarrow>
   page_listens q = page_listens p \<Longrightarrow> prov_inv A W win q"
  by (simp add: prov_inv_def computeStatus_def)

lemma inv_destroy:
  assumes "prov_inv A W win p" and "has_window E = win"
  shows "prov_inv A W win (post (prov_destroy A dA E p))"
proof -
  let ?p = "post (prov_disconnect A E p)"
  let ?q = "post (on_session E (\<lambda>SE. sess_destroy A) ?p)"
  have p: "prov_inv A W win ?p" using assms by (rule inv_disconnect)
  have q: "prov_inv A W win ?q"
    by (rule inv_session_destroy [OF p]) (rule disconnect_offline [OF assms(1)])
  note r = inv_aw_destroy [OF q, of E dA]
  show ?thesis
    using p q r prov_inv_fields [OF r]
    by (simp add: prov_destroy_def andThen_eq del: on_session_fields)
qed

lemma inv_cb_connected:
  assumes "merge_law A W" and "prov_inv A W win p" and "prov_sub p \<noteq> None"
  shows "prov_inv A W win (post (cb_connected A E p))"
proof -
  let ?p = "p\<lparr>prov_connected := True\<rparr>"
  let ?q = "post (on_session E (sess_onConnect A) ?p)"
  have qo: "queue_ok A W (session p)" using assms(2) by (simp add: prov_inv_def)
  have "thrown (on_session E (sess_onConnect A) ?p) = None"
    using sess_onConnect_no_throw [OF assms(1) qo] by simp
  moreover have "unrefreshed A W win ?q"
    using assms(2,3) queue_ok_onConnect [OF assms(1) qo]
    by (intro unrefreshedI) (auto simp: prov_inv_def sess_onConnect_post)
  ultimately show ?thesis
    using unrefreshed_refresh by (simp add: cb_connected_def andThen_eq del: on_session_fields)
qed

lemma inv_cb_disconnected:
  assumes "prov_inv A W win p"
  shows "prov_inv A W win (post (cb_disconnected A E p))"
proof -
  let ?p = "p\<lparr>prov_connected := False\<rparr>"
  let ?q = "post (on_session E (sess_onDisconnect A) ?p)"
  have "queue_ok A W (session p)" using assms by (simp add: prov_inv_def)
  then have "unrefreshed A W win ?q"
    using assms queue_ok_onDisconnect
    by (intro unrefreshedI) (auto simp: prov_inv_def sess_onDisconnect_eq remove_remote_eq)
  then show ?thesis
    using unrefreshed_refresh by (simp add: cb_disconnected_def andThen_eq)
qed

lemma receive_awareness_kept:
  "awareness s \<noteq> None \<Longrightarrow> awareness (fst (receive A E f s)) \<noteq> None"
  by (auto simp: receive_def receive_sync_eq receive_awareness_eq Let_def
      split: sum.splits option.splits prod.splits)

lemma deliver_frame_eq:
  "deliver_frame A E f p =
     (let r = receive A (session_env E p) f (session p); q = p\<lparr>session := fst r\<rparr>
      in (post (refreshStatus E q),
          concat (map (session_calls E p) (fst (snd r)))
          @ (case snd (snd r) of None \<Rightarrow> [] | Some b \<Rightarrow> send_trace E p b None)
          @ calls (refreshStatus E q),
          thrown (refreshStatus E q)))"
  by (cases "receive A (session_env E p) f (session p)")
    (simp add: deliver_frame_def andThen_eq prov_send_eq Let_def
      send_trace_cong [of "p\<lparr>session := s\<rparr>" p for s] split: option.split)

lemma received_update_envelope:
  "received A E (update_envelope (b64_of f) i) p = deliver_frame A E f p"
  by (cases i)
    (simp_all add: received_def msg_ack_def msg_awareness_def msg_payload_def update_envelope_def
      js_and_def fromBase64_b64_of)

lemma received_ack:
  "v \<noteq> JUndef \<Longrightarrow> received A E (JObj [(''ack'', v)]) p = on_session E (\<lambda>SE. ack A v) p"
  by (simp add: received_def msg_ack_def)

lemma received_update_frame:
  assumes "lib0_roundtrip A" and "lib0_small A" and "sync_update_law A"
    and "snd (snd (applyUpdate A (newDoc A) u)) = None"
    and "applyUpdate A (doc (session p)) u = (d', us, None)"
    and "messageYjsSyncStep2 A \<noteq> 2" and "status p = computeStatus p"
  shows "received A E (update_envelope (b64_of (frameUpdate A u)) i) p =
    (p\<lparr>session := (session p)\<lparr>doc := d'\<rparr>\<rparr>, [], None)"
proof -
  have r: "receive A SE (frameUpdate A u) (session p) = ((session p)\<lparr>doc := d'\<rparr>, [], None)" for SE
    using assms(1-6) by (rule receive_update_frame)
  have "refreshStatus E (p\<lparr>session := (session p)\<lparr>doc := d'\<rparr>\<rparr>) =
      (p\<lparr>session := (session p)\<lparr>doc := d'\<rparr>\<rparr>, [], None)"
    using assms(7) by (simp add: refreshStatus_def)
  then show ?thesis by (simp add: received_update_envelope deliver_frame_eq r)
qed

lemma inv_deliver:
  assumes "prov_inv A W win p"
  shows "prov_inv A W win (post (deliver_frame A E f p))"
proof -
  let ?s = "fst (receive A (session_env E p) f (session p))"
  have d: "delivery ?s = delivery (session p)" by (rule receive_delivery)
  have "unrefreshed A W win (p\<lparr>session := ?s\<rparr>)"
    using assms queue_ok_cong [of A W "session p" ?s] d receive_awareness_kept [of "session p"]
    by (intro unrefreshedI) (auto simp: prov_inv_def)
  then show ?thesis by (simp add: deliver_frame_eq Let_def unrefreshed_refresh)
qed

lemma inv_received: "prov_inv A W win p \<Longrightarrow> prov_inv A W win (post (received A E m p))"
  by (auto simp: received_def inv_ack inv_deliver split: option.split sum.split jsval.split)

lemma inv_setPresence: "prov_inv A W win p \<Longrightarrow> prov_inv A W win (post (setPresence A E v p))"
  unfolding setPresence_def
  by (rule prov_inv_on_session)
    (auto simp: prov_inv_def settled_def intro: queue_ok_cong split: option.split)

lemma inv_stash: "prov_inv A W win p \<Longrightarrow> prov_inv A W win (p\<lparr>stashedPresence := v\<rparr>)"
  by (rule prov_inv_fields) simp_all

lemma inv_unload: "prov_inv A W win p \<Longrightarrow> prov_inv A W win (post (onUnload A E p))"
  by (simp add: onUnload_def andThen_eq inv_removeLocal inv_stash del: on_session_fields)

lemma inv_restore: "prov_inv A W win p \<Longrightarrow> prov_inv A W win (post (onRestore A E b p))"
  by (simp add: onRestore_def andThen_eq inv_setPresence inv_stash)

lemma prov_handle_inv:
  assumes "merge_law A W" and "prov_inv A W win p" and "permitted W p ev" and "has_window E = win"
  shows "prov_inv A W win (post (prov_handle A dA E ev p))"
proof (cases ev)
  case CbRejected
  then show ?thesis using assms by (simp add: cb_rejected_def andThen_eq inv_disconnect)
next
  case (AddListener l)
  then show ?thesis using prov_inv_fields [OF assms(2)] by (simp add: onStatusChange_def)
next
  case (DropListener l)
  then show ?thesis using prov_inv_fields [OF assms(2)] by (simp add: offStatusChange_def)
qed (use assms in \<open>simp_all add: quiet_ops inv_connect inv_disconnect inv_destroy inv_received
      inv_cb_connected inv_cb_disconnected inv_unload inv_restore on_rejection_def
      del: on_session_fields\<close>)

lemma prov_reach_inv:
  assumes "merge_law A W" and "prov_reach A dA newAw W win p"
  shows "prov_inv A W win p"
  using assms(2)
  by induction (auto intro: prov_inv_new prov_handle_inv [OF assms(1)])

subsection \<open>Which frame takes which way\<close>

text \<open>
  The transport calls a handler may make while it holds the subscription \<open>so\<close>: on that
  subscription, awareness frames whispered where it can whisper, everything else sent, an id only
  on a document update.
\<close>

fun routed :: "('d, 'a) api \<Rightarrow> subscription option \<Rightarrow> provider_call \<Rightarrow> bool" where
  "routed A so (PSend n m) \<longleftrightarrow>
     (\<exists>sub f i. so = Some sub \<and> n = sub_id sub \<and> m = update_envelope (b64_of f) i
        \<and> \<not> (is_awareness f \<and> sub_whispers sub) \<and> (i \<noteq> None \<longrightarrow> (\<exists>u. f = frameUpdate A u)))"
| "routed A so (PWhisper n m) \<longleftrightarrow>
     (\<exists>sub f. so = Some sub \<and> n = sub_id sub \<and> m = awareness_envelope (b64_of f)
        \<and> is_awareness f \<and> sub_whispers sub)"
| "routed A so _ \<longleftrightarrow> True"

lemma not_awareness_update: "lib0_small A \<Longrightarrow> \<not> is_awareness (frameUpdate A u)"
  by (simp add: is_awareness_def frameUpdate_def lib0_small_def MessageType_Sync_def
      MessageType_Awareness_def)

lemma routed_cable_call:
  assumes "lib0_small A" and "call_ok A (SSend f i)"
  shows "routed A (Some sub) (cable_call sub f i)"
proof (cases "is_awareness f \<and> sub_whispers sub")
  case True
  then show ?thesis by (auto simp: cable_call_def)
next
  case False
  moreover have "i \<noteq> None \<longrightarrow> (\<exists>u. f = frameUpdate A u)" using assms(2) by (cases i) auto
  ultimately have "routed A (Some sub) (PSend (sub_id sub) (update_envelope (b64_of f) i))"
    by (simp only: routed.simps) blast
  with False show ?thesis by (simp only: cable_call_def if_False)
qed

lemma routed_send_trace:
  assumes "lib0_small A" and "call_ok A (SSend f i)" and "c \<in> set (send_trace E p f i)"
  shows "routed A (prov_sub p) c"
proof (cases "prov_sub p")
  case (Some sub)
  then have "c = cable_call sub f i \<or> c = PCatch \<or> (\<exists>x. c = PError x ''send'')"
    using assms(3) by (auto simp: send_trace_def split: transport_result.splits)
  with Some routed_cable_call [OF assms(1,2)] show ?thesis by auto
qed (use assms(3) in \<open>simp add: send_trace_def\<close>)

lemma routed_session_calls:
  assumes "lib0_small A" and "call_ok A e" and "c \<in> set (session_calls E p e)"
  shows "routed A (prov_sub p) c"
  using assms routed_send_trace [OF assms(1)] by (cases e) auto

text \<open>While it runs, an action keeps the subscription or lets it go.\<close>

definition holds :: "subscription \<Rightarrow> ('d, 'a) provider \<Rightarrow> bool" where
  "holds sub p \<longleftrightarrow> prov_sub p = Some sub \<or> prov_sub p = None"

definition routes :: "('d, 'a) api \<Rightarrow> subscription \<Rightarrow> ('d, 'a) prov_act \<Rightarrow> bool" where
  "routes A sub a \<longleftrightarrow>
     (\<forall>p. holds sub p \<longrightarrow>
        (\<forall>c\<in>set (calls (a p)). routed A (Some sub) c) \<and> holds sub (post (a p)))"

named_theorems routes_rules

lemma routed_None: "routed A None c \<Longrightarrow> routed A so c"
  by (cases c) auto

lemma routed_holds: "routed A (prov_sub p) c \<Longrightarrow> holds sub p \<Longrightarrow> routed A (Some sub) c"
  by (auto simp: holds_def intro: routed_None)

lemma routes_andThen [routes_rules]: "routes A sub a \<Longrightarrow> routes A sub b \<Longrightarrow> routes A sub (andThen a b)"
  by (auto simp: routes_def andThen_eq)

lemma routes_skip [routes_rules]: "routes A sub skip"
  by (simp add: routes_def)

lemma routes_block [routes_rules]:
  "routes A sub (block [])"
  "routes A sub a \<Longrightarrow> routes A sub (block as) \<Longrightarrow> routes A sub (block (a # as))"
  by (simp_all add: routes_rules)

lemma routes_ifA [routes_rules]: "routes A sub a \<Longrightarrow> routes A sub b \<Longrightarrow> routes A sub (ifA P a b)"
  by (simp add: routes_def)

lemma routes_whenA [routes_rules]: "routes A sub a \<Longrightarrow> routes A sub (whenA P a)"
  by (simp add: routes_def)

lemma routes_modify [routes_rules]:
  "(\<And>p. prov_sub (f p) = prov_sub p \<or> prov_sub (f p) = None) \<Longrightarrow> routes A sub (modify f)"
  by (simp add: routes_def holds_def) metis

lemma routes_call [routes_rules]: "routed A (Some sub) c \<Longrightarrow> routes A sub (call c)"
  by (simp add: routes_def)

lemma routes_refresh [routes_rules]: "routes A sub (refreshStatus E)"
  by (auto simp: routes_def holds_def refreshStatus_post dest: refreshStatus_calls)

lemma routes_on_session [routes_rules]:
  assumes "lib0_small A" and "\<And>SE. makes_ok A (a SE)"
  shows "routes A sub (on_session E a)"
proof -
  have "routed A (Some sub) c"
    if "holds sub p" and "e \<in> set (calls (a (session_env E p) (session p)))"
      and "c \<in> set (session_calls E p e)" for p e c
  proof -
    from assms(2) that(2) have "call_ok A e" by (auto simp: makes_ok_def)
    from routed_session_calls [OF assms(1) this that(3)] that(1) show ?thesis by (rule routed_holds)
  qed
  then show ?thesis by (auto simp: routes_def on_session_eq holds_def)
qed

lemma routes_disconnect [routes_rules]:
  assumes "lib0_small A"
  shows "routes A sub (prov_disconnect A E)"
proof -
  have "routes A sub (block [
      on_session E (removeLocalAwareness A), on_session E (sess_onDisconnect A),
      modify (\<lambda>p. p\<lparr>prov_connected := False\<rparr>), modify (\<lambda>p. p\<lparr>prov_sub := None\<rparr>),
      removeUnloadHandler E, call (PUnsubscribeSoon n), refreshStatus E])" for n
    unfolding removeUnloadHandler_def
    by (intro routes_rules makes_ok_rules assms; simp)
  then show ?thesis
    by (auto simp: routes_def prov_disconnect_def split: option.split)
qed

lemma routes_deliver [routes_rules]:
  assumes "lib0_small A"
  shows "routes A sub (deliver_frame A E f)"
proof -
  have "routed A (Some sub) c" if "holds sub p"
    and "c \<in> set (concat (map (session_calls E p) (fst (snd (receive A SE f (session p))))))" for p SE c
  proof -
    from that(2) obtain e where "e \<in> set (fst (snd (receive A SE f (session p))))"
      and c: "c \<in> set (session_calls E p e)" by auto
    then have "routed A (prov_sub p) c"
      by (intro routed_session_calls [OF assms _ c]) (rule makes_ok_receive)
    then show ?thesis using that(1) by (rule routed_holds)
  qed
  moreover have "routed A (Some sub) c" if "holds sub p" and "c \<in> set (send_trace E p b None)" for p b c
    using routed_holds [OF routed_send_trace [OF assms _ that(2)] that(1)] by simp
  moreover have "routed A (Some sub) c" if "c \<in> set (calls (refreshStatus E p))" for p c
    using refreshStatus_calls [OF that] by auto
  moreover have "holds sub (post (deliver_frame A E f p))" if "holds sub p" for p
    using that by (simp add: deliver_frame_eq Let_def refreshStatus_post holds_def)
  ultimately show ?thesis
    unfolding routes_def deliver_frame_eq Let_def
    by (auto split: option.splits) blast+
qed

lemma routes_received [routes_rules]:
  assumes "lib0_small A"
  shows "routes A sub (received A E m)"
proof -
  have "routes A sub (\<lambda>p. received A E m p)"
    using routes_deliver [OF assms] routes_on_session [OF assms makes_ok_ops(3)]
    by (fastforce simp: received_def routes_def split: option.split sum.split jsval.split)
  then show ?thesis by simp
qed

lemma routes_page [routes_rules]:
  assumes "lib0_small A"
  shows "routes A sub (onUnload A E)" and "routes A sub (onRestore A E b)"
proof -
  show "routes A sub (onUnload A E)"
    unfolding onUnload_def by (intro routes_rules makes_ok_rules assms) simp
  have "makes_ok A (\<lambda>s. case awareness s of None \<Rightarrow> skip s
      | Some a \<Rightarrow> aw_set A SE (setLocalState A v a) local_origin s)" for SE v
    using makes_ok_edits(2) [of A SE] by (auto simp: makes_ok_def split: option.splits)
  then have "routes A sub (setPresence A E v)" for v
    unfolding setPresence_def using assms by (intro routes_rules)
  then have "routes A sub (\<lambda>p. setPresence A E (stashedPresence p) p)"
    by (simp add: routes_def)
  then show "routes A sub (onRestore A E b)"
    unfolding onRestore_def by (intro routes_rules) simp_all
qed

lemma routes_destroy [routes_rules]:
  assumes "lib0_small A"
  shows "routes A sub (prov_destroy A dA E)"
proof -
  have "makes_ok A (\<lambda>s. case awareness s of None \<Rightarrow> skip s
      | Some a \<Rightarrow> aw_set A SE (dA a) local_origin s)" for SE
    using makes_ok_edits(2) [of A SE] by (auto simp: makes_ok_def split: option.splits)
  then show ?thesis
    unfolding prov_destroy_def by (intro routes_rules makes_ok_rules assms) simp_all
qed

lemma connect_calls:
  "c \<in> set (calls (prov_connect E p)) \<Longrightarrow>
   (\<exists>spec. c = PCreate spec) \<or> c = PAddPageListeners \<or> (\<exists>l st. c = PStatus l st)"
  by (auto simp: prov_connect_def andThen_eq installUnloadHandler_def dest: refreshStatus_calls
      split: sum.splits if_splits)

lemma routes_handle:
  assumes "lib0_small A" and "ev \<noteq> CallConnect"
  shows "routes A sub (prov_handle A dA E ev)"
proof (cases ev)
  case CbConnected
  then show ?thesis unfolding prov_handle.simps cb_connected_def CbConnected
    by (intro routes_rules makes_ok_rules assms) simp_all
next
  case CbDisconnected
  then show ?thesis unfolding prov_handle.simps cb_disconnected_def CbDisconnected
    by (intro routes_rules makes_ok_rules assms) simp_all
next
  case CbRejected
  then show ?thesis unfolding prov_handle.simps cb_rejected_def CbRejected
    by (intro routes_rules makes_ok_rules assms) simp_all
next
  case (PromiseRejected x)
  then show ?thesis unfolding prov_handle.simps on_rejection_def PromiseRejected
    by (intro routes_rules) simp
next
  case (AddListener l)
  then show ?thesis unfolding prov_handle.simps onStatusChange_def AddListener
    by (intro routes_rules) simp
next
  case (DropListener l)
  then show ?thesis unfolding prov_handle.simps offStatusChange_def DropListener
    by (intro routes_rules) simp
next
  case CallConnect
  with assms(2) show ?thesis by simp
qed (use assms(1) in \<open>simp_all add: routes_rules makes_ok_rules\<close>)

lemma prov_handle_routed:
  assumes "lib0_small A" and "c \<in> set (calls (prov_handle A dA E ev p))"
  shows "routed A (prov_sub p) c"
proof (cases "ev = CallConnect")
  case True
  with assms(2) connect_calls [of c E p] show ?thesis by auto
next
  case False
  show ?thesis
  proof (cases "prov_sub p")
    case (Some sub)
    with routes_handle [OF assms(1) False, of sub dA E] assms(2) show ?thesis
      by (auto simp: routes_def holds_def)
  next
    case None
    have "routed A (Some sub) c" for sub
      using routes_handle [OF assms(1) False, of sub dA E] assms(2) None
      by (auto simp: routes_def holds_def)
    from this [of "\<lparr>sub_id = 0, sub_whispers = False, sub_unsubscribes = False\<rparr>"]
      this [of "\<lparr>sub_id = 1, sub_whispers = False, sub_unsubscribes = False\<rparr>"]
    show ?thesis by (cases c) auto
  qed
qed

subsection \<open>The provider as a delivery queue\<close>

definition queue_is ::
  "pending_update list \<times> int \<times> bool \<Rightarrow> ('d, 'a) session \<Rightarrow> bool" where
  "queue_is v s \<longleftrightarrow> (pending (delivery s), nextSeq (delivery s), doc_listener s) = v"

definition prov_queue_is ::
  "pending_update list \<times> int \<times> bool \<Rightarrow> ('d, 'a) provider \<Rightarrow> bool" where
  "prov_queue_is v p \<longleftrightarrow> queue_is v (session p)"

named_theorems queue_is_rules

lemma queue_is_awareness [simp]: "queue_is v (s\<lparr>awareness := x\<rparr>) = queue_is v s"
  by (simp add: queue_is_def)

lemma queue_is_onConnect [queue_is_rules]: "queue_is v s \<Longrightarrow> queue_is v (post (sess_onConnect A E s))"
  by (auto simp: queue_is_def sess_onConnect_def andThen_eq sess_send_def send_presence_def
      on_delivery_eq split: option.split)

lemma queue_is_ops [queue_is_rules]:
  "queue_is v s \<Longrightarrow> queue_is v (post (sess_onDisconnect A E s))"
  "queue_is v s \<Longrightarrow> queue_is v (post (aw_set A E r o' s))"
  "queue_is v s \<Longrightarrow> queue_is v (post (applyRemoteUpdate A E u s))"
  "queue_is v s \<Longrightarrow> queue_is v (post (on_delivery A (onTick (delivery_env A E)) s))"
  "queue_is v s \<Longrightarrow> queue_is v (post (doc_edit A E d [] o' s))"
  "queue_is v s \<Longrightarrow> queue_is v (fst (receive A E f s))"
  by (simp_all add: queue_is_def sess_onDisconnect_eq applyRemoteUpdate_eq on_delivery_eq onTick_eq
      receive_delivery doc_edit_def andThen_eq emit_doc_def)

lemma queue_is_removeLocal [queue_is_rules]:
  "queue_is v s \<Longrightarrow> queue_is v (post (removeLocalAwareness A E s))"
  by (auto simp: removeLocalAwareness_def queue_is_rules split: option.split)

lemma keeps_on_session [queue_is_rules]:
  "(\<And>SE s. queue_is v s \<Longrightarrow> queue_is v (post (a SE s))) \<Longrightarrow>
   preserves (prov_queue_is v) (on_session E a)"
  by (simp add: preserves_def prov_queue_is_def)

lemma keeps_fields [queue_is_rules]:
  "(\<And>p. session (f p) = session p) \<Longrightarrow> preserves (prov_queue_is v) (modify f)"
  by (simp add: preserves_def prov_queue_is_def)

lemma keeps_refresh [queue_is_rules]: "preserves (prov_queue_is v) (refreshStatus E)"
  by (simp add: preserves_def prov_queue_is_def refreshStatus_post)

lemma keeps_connect [queue_is_rules]: "preserves (prov_queue_is v) (prov_connect E)"
proof -
  have "preserves (prov_queue_is v) (case created E of Inl x \<Rightarrow> throw x
      | Inr sub \<Rightarrow> modify (\<lambda>p. p\<lparr>prov_sub := Some sub\<rparr>))"
    by (cases "created E") (simp_all add: queue_is_rules)
  moreover have "preserves (prov_queue_is v) (\<lambda>p. call (PCreate (channel_spec p)) p)"
    by (simp add: preserves_def)
  ultimately show ?thesis
    unfolding prov_connect_def installUnloadHandler_def
    by (intro preserves_rules queue_is_rules) simp_all
qed

lemma keeps_disconnect [queue_is_rules]:
  fixes A :: "('d, 'a) api"
  shows "preserves (prov_queue_is v) (prov_disconnect A E)"
proof (rule preservesI)
  fix p :: "('d, 'a) provider"
  assume "prov_queue_is v p"
  then show "prov_queue_is v (post (prov_disconnect A E p))"
    by (cases "prov_sub p")
      (auto simp: prov_queue_is_def prov_disconnect_eq(1) refreshStatus_post torn_down_def Let_def
        queue_is_rules, simp add: prov_disconnect_def)
qed

lemma keeps_setPresence [queue_is_rules]: "preserves (prov_queue_is v) (setPresence A E x)"
  unfolding setPresence_def
  by (rule keeps_on_session) (auto simp: queue_is_rules split: option.split)

text \<open>The events that neither make an edit nor deliver a message, and do not end the session.\<close>

fun bystander :: "('d, 'a) prov_event \<Rightarrow> bool" where
  "bystander CallDestroy \<longleftrightarrow> False"
| "bystander (CbReceived m) \<longleftrightarrow> False"
| "bystander (UserEdit d us n) \<longleftrightarrow> us = []"
| "bystander _ \<longleftrightarrow> True"

lemma keeps_bystander:
  assumes "bystander ev"
  shows "preserves (prov_queue_is v) (prov_handle A dA E ev)"
proof (cases ev)
  case (PageShow b)
  have "preserves (prov_queue_is v) (\<lambda>p. setPresence A E (stashedPresence p) p)"
    using keeps_setPresence [of v A E] by (simp add: preserves_def)
  then show ?thesis unfolding prov_handle.simps onRestore_def PageShow
    by (intro preserves_rules queue_is_rules) simp_all
qed (use assms in \<open>simp_all only: prov_handle.simps bystander.simps cb_connected_def
      cb_disconnected_def cb_rejected_def onUnload_def on_rejection_def onStatusChange_def
      offStatusChange_def prov_applyRemoteUpdate_def, (intro preserves_rules queue_is_rules; simp add: queue_is_rules)+\<close>)

lemma received_queue:
  "delivery (session (post (received A E m p))) =
     (case msg_ack m of None \<Rightarrow> delivery (session p) | Some v \<Rightarrow> post (onAck v (delivery (session p))))"
  "doc_listener (session (post (received A E m p))) = doc_listener (session p)"
  by (simp_all add: received_def ack_def on_delivery_eq deliver_frame_eq Let_def refreshStatus_post
      receive_delivery split: option.split sum.split jsval.split)

definition prov_unacked :: "('d, 'a) provider \<Rightarrow> (int \<times> bytes) list" where
  "prov_unacked p = unacked_of (delivery (session p))"

definition prov_next :: "('d, 'a) provider \<Rightarrow> int" where
  "prov_next p = nextSeq (delivery (session p))"

definition prov_listening :: "('d, 'a) provider \<Rightarrow> bool" where
  "prov_listening p \<longleftrightarrow> seqs_ok (delivery (session p)) \<and> doc_listener (session p)"

type_synonym 'd edit = "prov_env \<times> 'd \<times> bytes \<times> nat"

fun edit_bytes :: "'d edit \<Rightarrow> bytes" where
  "edit_bytes (E, d, u, n) = u"

fun prov_offer :: "('d, 'a) api \<Rightarrow> 'd edit \<Rightarrow> ('d, 'a) provider \<Rightarrow> ('d, 'a) provider" where
  "prov_offer A (E, d, u, n) p = post (on_session E (\<lambda>SE. doc_edit A SE d [u] (OOther n)) p)"

fun prov_confirm :: "('d, 'a) api \<Rightarrow> prov_env \<times> jsval \<Rightarrow> ('d, 'a) provider \<Rightarrow> ('d, 'a) provider" where
  "prov_confirm A (E, m) p = post (received A E m p)"

text \<open>A message covers an entry when it is an acknowledgement the queue accepts, at or above it.\<close>

fun msg_covers :: "prov_env \<times> jsval \<Rightarrow> ('d, 'a) provider \<Rightarrow> int \<Rightarrow> bool" where
  "msg_covers (E, m) p n \<longleftrightarrow>
     (case msg_ack m of None \<Rightarrow> False | Some v \<Rightarrow> ack_covers v (delivery (session p)) n)"

fun prov_other ::
  "('d, 'a) api \<Rightarrow> ('a \<Rightarrow> 'a \<times> aw_change list) \<Rightarrow> prov_env \<times> ('d, 'a) prov_event
   \<Rightarrow> ('d, 'a) provider \<Rightarrow> ('d, 'a) provider"
where
  "prov_other A dA (E, ev) p = (if bystander ev then post (prov_handle A dA E ev p) else p)"

lemma prov_offer_queue:
  assumes "doc_listener (session p)"
  shows "delivery (session (prov_offer A (E, d, u, n) p)) =
      post (enqueue (delivery_env A (session_env E p)) u (delivery (session p)))"
    and "doc_listener (session (prov_offer A (E, d, u, n) p)) = True"
  using assms by (simp_all add: doc_edit_def andThen_eq emit_doc_def onDocUpdate_def on_delivery_eq)

lemma prov_queue_unchanged:
  assumes "\<And>v. prov_queue_is v p \<Longrightarrow> prov_queue_is v q"
  shows "prov_unacked q = prov_unacked p" and "prov_listening p \<Longrightarrow> prov_listening q"
    and "prov_next q = prov_next p"
  using assms [of "(pending (delivery (session p)), nextSeq (delivery (session p)), doc_listener (session p))"]
  by (auto simp: prov_queue_is_def queue_is_def prov_unacked_def unacked_of_def prov_listening_def
      prov_next_def intro: seqs_ok_cong)

lemma prov_confirm_unacked:
  assumes "prov_listening p"
  shows "prov_unacked (prov_confirm A k p) = filter (\<lambda>(n, u). \<not> msg_covers k p n) (prov_unacked p)"
proof (cases k)
  case (Pair E m)
  show ?thesis
  proof (cases "msg_ack m")
    case None
    then show ?thesis using Pair by (simp add: prov_unacked_def received_queue case_prod_beta)
  next
    case (Some v)
    have "unacked_of (rs_confirm v (delivery (session p))) =
        filter (\<lambda>(n, u). \<not> ack_covers v (delivery (session p)) n) (unacked_of (delivery (session p)))"
      by (rule rsq.unacked_confirm) (use assms in \<open>simp add: prov_listening_def\<close>)
    then show ?thesis using Pair Some by (simp add: prov_unacked_def received_queue rs_confirm_def)
  qed
qed

lemma prov_confirm_listening: "prov_listening p \<Longrightarrow> prov_listening (prov_confirm A k p)"
  by (cases k) (auto simp: prov_listening_def received_queue seqs_ok_onAck split: option.split)

lemma prov_other_queue:
  "prov_queue_is v p \<Longrightarrow> prov_queue_is v (prov_other A dA e p)"
  by (cases e) (auto dest: preservesD [OF keeps_bystander])

interpretation provq: delivery_queue prov_listening prov_unacked prov_next edit_bytes
  "prov_offer A" "prov_confirm A" msg_covers "prov_other A dA" for A dA
proof (unfold_locales, goal_cases)
  case (1 p i)
  then show ?case
    by (cases i) (auto simp: prov_listening_def prov_offer_queue seqs_ok_enqueue simp del: prov_offer.simps)
next
  case (2 p k)
  then show ?case by (rule prov_confirm_listening)
next
  case (3 p e)
  show ?case by (rule prov_queue_unchanged(2) [OF prov_other_queue 3])
next
  case (4 p i)
  then show ?case
    by (cases i) (simp add: prov_listening_def prov_unacked_def prov_offer_queue unacked_of_def
        prov_next_def del: prov_offer.simps)
next
  case (5 p k)
  then show ?case by (rule prov_confirm_unacked)
next
  case (6 p e)
  show ?case by (rule prov_queue_unchanged(1) [OF prov_other_queue])
qed

text \<open>Runs of the provider's own events, and the same runs seen by the queue.\<close>

type_synonym ('d, 'a) prov_input = "prov_env \<times> ('d, 'a) prov_event"

definition prov_run ::
  "('d, 'a) api \<Rightarrow> ('a \<Rightarrow> 'a \<times> aw_change list) \<Rightarrow> ('d, 'a) provider \<Rightarrow> ('d, 'a) prov_input list
   \<Rightarrow> ('d, 'a) provider" where
  "prov_run A dA = run (\<lambda>p (E, ev). post (prov_handle A dA E ev p))"

text \<open>A transaction of the document emits at most one update; the session is not destroyed.\<close>

fun ordinary :: "('d, 'a) prov_event \<Rightarrow> bool" where
  "ordinary CallDestroy \<longleftrightarrow> False"
| "ordinary (UserEdit d us n) \<longleftrightarrow> length us \<le> 1"
| "ordinary _ \<longleftrightarrow> True"

fun queue_event ::
  "('d, 'a) prov_input \<Rightarrow> ('d edit, prov_env \<times> jsval, ('d, 'a) prov_input) dq_event" where
  "queue_event (E, CbReceived m) = Confirm (E, m)"
| "queue_event (E, UserEdit d (u # us) n) = Offer (E, d, u, n)"
| "queue_event (E, ev) = Other (E, ev)"

lemma queue_event_step:
  "ordinary ev \<Longrightarrow>
   dq_step (prov_offer A) (prov_confirm A) (prov_other A dA) p (queue_event (E, ev)) =
   post (prov_handle A dA E ev p)"
proof (cases ev)
  case (UserEdit d us n)
  moreover assume "ordinary ev"
  ultimately show ?thesis by (cases us) simp_all
qed simp_all

lemma queue_event_run:
  "\<forall>(E, ev)\<in>set es. ordinary ev \<Longrightarrow>
   run (dq_step (prov_offer A) (prov_confirm A) (prov_other A dA)) p (map queue_event es) =
   prov_run A dA p es"
  by (induction es arbitrary: p) (auto simp: prov_run_def queue_event_step split: prod.splits)

lemma queue_event_Confirm: "queue_event e = Confirm k \<Longrightarrow> \<exists>E m. e = (E, CbReceived m) \<and> k = (E, m)"
  by (cases e rule: queue_event.cases) auto

lemma provider_edit_kept:
  assumes "prov_listening p" and "\<forall>(E, ev)\<in>set es. ordinary ev"
    and "es = xs @ (E, UserEdit d [u] n) # ys"
  shows "(prov_next (prov_run A dA p xs), u) \<in> set (prov_unacked (prov_run A dA p es))
    \<or> (\<exists>zs E' m ws v. ys = zs @ (E', CbReceived m) # ws \<and> msg_ack m = Some v
        \<and> ack_covers v (delivery (session (prov_run A dA p (xs @ (E, UserEdit d [u] n) # zs))))
            (prov_next (prov_run A dA p xs)))"
proof -
  let ?i = "(E, d, u, n)" and ?q = "queue_event :: ('a, 'b) prov_input \<Rightarrow> _"
  have split: "map ?q es = map ?q xs @ Offer ?i # map ?q ys" using assms(3) by simp
  have runs: "run (dq_step (prov_offer A) (prov_confirm A) (prov_other A dA)) p (map ?q as) =
      prov_run A dA p as" if "set as \<subseteq> set es" for as
    by (rule queue_event_run) (use that assms(2) in blast)
  from provq.offered_kept_or_confirmed [OF assms(1) split, of A dA]
  consider "(prov_next (prov_run A dA p xs), u) \<in> set (prov_unacked (prov_run A dA p es))"
    | zs k ws where "map ?q ys = zs @ Confirm k # ws"
      and "msg_covers k (run (dq_step (prov_offer A) (prov_confirm A) (prov_other A dA)) p
             (map ?q xs @ Offer ?i # zs)) (prov_next (prov_run A dA p xs))"
    using runs [of xs] runs [of es] assms(3) by (auto simp: subset_iff)
  then show ?thesis
  proof cases
    case (2 zs k ws)
    from 2(1) obtain zs' e ws' where ys: "ys = zs' @ e # ws'" and zs: "zs = map ?q zs'"
      and e: "?q e = Confirm k"
      by (auto simp: map_eq_append_conv map_eq_Cons_conv Cons_eq_map_conv append_eq_map_conv)
    from queue_event_Confirm [OF e] obtain E' m where em: "e = (E', CbReceived m)" "k = (E', m)" by auto
    have "map ?q xs @ Offer ?i # zs = map ?q (xs @ (E, UserEdit d [u] n) # zs')" using zs by simp
    moreover have "set (xs @ (E, UserEdit d [u] n) # zs') \<subseteq> set es" using assms(3) ys by auto
    ultimately have "msg_covers k (prov_run A dA p (xs @ (E, UserEdit d [u] n) # zs'))
        (prov_next (prov_run A dA p xs))"
      using 2(2) runs by metis
    then show ?thesis using ys em by (auto split: option.splits)
  qed blast
qed

end
