(* ===== verification/Provider_Theorems.thy ===== *)
theory Provider_Theorems
  imports Provider_Props Session_Theorems
begin

text \<open>
  The properties of \<open>ActionCableProvider\<close>, with witnesses on a concrete provider.
\<close>

subsection \<open>A concrete provider\<close>

definition cable :: subscription where
  "cable = \<lparr>sub_id = 4, sub_whispers = True, sub_unsubscribes = True\<rparr>"

definition demo_prov_env :: prov_env where
  "demo_prov_env =
     \<lparr>transport = (\<lambda>_ _. Returned), prov_timer = 0, created = Inr cable,
      listener_raises = (\<lambda>_ _. None), has_window = True\<rparr>"

definition demo_newAw :: "bytes option \<Rightarrow> js_error + demo_aw" where
  "demo_newAw d = Inr [(7, JObj [])]"

definition demo_destroyAw :: "demo_aw \<Rightarrow> demo_aw \<times> aw_change list" where
  "demo_destroyAw a = (filter (\<lambda>(c, _). c \<noteq> 7) a, [])"

definition fresh_provider :: "(bytes, demo_aw) provider" where
  "fresh_provider =
     \<lparr>session = \<lparr>doc = [], awareness = Some [(7, JObj [])], synced = False,
        delivery = \<lparr>pending = [], nextSeq = 1, connected = False, timer = None, tailCache = None,
          resendInterval = 1000\<rparr>, doc_listener = True, aw_listener = True\<rparr>,
      channelName = js ''Docs'', channelParams = [], prov_sub = None, prov_connected = False,
      status = Disconnected, statusListeners = [], page_listens = False, stashedPresence = JNull\<rparr>"

lemma fresh_provider_new:
  "new_ActionCableProvider demo_newAw (Some []) (js ''Docs'') [] JUndef = Inr fresh_provider"
  by (simp add: new_ActionCableProvider_def demo_newAw_def new_YProtocolSession_def
      new_ReliableSync_def default_resendInterval_def fresh_provider_def)

text \<open>The provider once \<^verbatim>\<open>connect()\<close> has been called, before the transport is up.\<close>

definition waiting_provider :: "(bytes, demo_aw) provider" where
  "waiting_provider =
     fresh_provider\<lparr>prov_sub := Some cable, status := Connecting, page_listens := True\<rparr>"

lemma waiting_provider_connect:
  "post (prov_handle demo_api demo_destroyAw demo_prov_env CallConnect fresh_provider) = waiting_provider"
  by (simp add: prov_connect_def andThen_eq installUnloadHandler_def refreshStatus_post
      computeStatus_def fresh_provider_def demo_prov_env_def waiting_provider_def)

abbreviation demo_ok :: "bytes \<Rightarrow> bool" where
  "demo_ok \<equiv> (\<lambda>u. 255 \<notin> set u)"

lemma waiting_provider_reach:
  "prov_reach demo_api demo_destroyAw demo_newAw demo_ok True waiting_provider"
  using prov_reach.step [OF prov_reach.start [OF fresh_provider_new], of demo_ok CallConnect
      demo_prov_env True demo_api demo_destroyAw] waiting_provider_connect
  by (simp add: demo_prov_env_def)

lemma waiting_fields [simp]:
  "prov_sub waiting_provider = Some cable"
  "status waiting_provider = Connecting"
  "page_listens waiting_provider = True"
  "prov_connected waiting_provider = False"
  "session waiting_provider = session fresh_provider"
  "awareness (session fresh_provider) = Some [(7, JObj [])]"
  "doc (session fresh_provider) = []"
  "aw_listener (session fresh_provider) = True"
  "doc_listener (session fresh_provider) = True"
  "pending (delivery (session fresh_provider)) = []"
  "timer (delivery (session fresh_provider)) = None"
  by (simp_all add: waiting_provider_def fresh_provider_def)

subsection \<open>No edit is lost\<close>

text \<open>
  C1: The provider never drops an edit. Take any run of a provider from its construction: user
  edits, messages, transport callbacks, page events, ticks and API calls in any order, transport
  calls and status listeners throwing or rejecting as they like, everything but \<^verbatim>\<open>destroy()\<close>. An edit
  made anywhere in the run is still queued at its end under the sequence number it was given, or a
  later message carried an acknowledgement that the queue accepted and that covers this number.
\<close>

theorem no_edit_dropped:
  assumes "new_ActionCableProvider newAw d0 name params interval = Inr p"
    and "\<forall>(E, ev)\<in>set es. ordinary ev"
    and "es = xs @ (E, UserEdit d [u] n) # ys"
  shows "(prov_next (prov_run A dA p xs), u) \<in> set (prov_unacked (prov_run A dA p es))
    \<or> (\<exists>zs E' m ws v. ys = zs @ (E', CbReceived m) # ws \<and> msg_ack m = Some v
        \<and> ack_covers v (delivery (session (prov_run A dA p (xs @ (E, UserEdit d [u] n) # zs))))
            (prov_next (prov_run A dA p xs)))"
proof (rule provider_edit_kept [OF _ assms(2,3)])
  show "prov_listening p"
    using assms(1)
    by (auto simp: new_ActionCableProvider_def new_YProtocolSession_def new_ReliableSync_def
        prov_listening_def seqs_ok_def Let_def split: sum.splits option.splits if_splits)
qed

theorem no_edit_dropped_witness:
  "(1, [5]) \<in> set (prov_unacked (prov_run demo_api demo_destroyAw fresh_provider
     [(demo_prov_env, CallConnect), (demo_prov_env, UserEdit [5] [[5]] 1), (demo_prov_env, CbDisconnected)]))"
proof -
  have "prov_next (prov_run demo_api demo_destroyAw fresh_provider [(demo_prov_env, CallConnect)]) = 1"
    using waiting_provider_connect
    by (simp add: prov_run_def prov_next_def fresh_provider_def waiting_provider_def)
  with no_edit_dropped [OF fresh_provider_new, where xs = "[(demo_prov_env, CallConnect)]"
      and ys = "[(demo_prov_env, CbDisconnected)]" and E = demo_prov_env and d = "[5]" and u = "[5]"
      and n = 1 and A = demo_api and dA = demo_destroyAw]
  show ?thesis by (auto simp: append_eq_Cons_conv Cons_eq_append_conv)
qed

subsection \<open>The state a user sees\<close>

text \<open>
  C8: The shown status is the true one. In every state the provider can reach, as long as the
  document's updates merge, the status equals what its subscription, its transport and its session
  make of it; the delivery queue is connected exactly when the provider is, never without a
  subscription; and the page-lifecycle handlers are installed exactly while there is a subscription
  and a window. Listeners and transport calls that throw do not break this.
\<close>

theorem status_is_true:
  assumes "merge_law A W" and "prov_reach A dA newAw W win p"
  shows "status p = (case prov_sub p of None \<Rightarrow> Disconnected
      | Some _ \<Rightarrow> if \<not> prov_connected p then Connecting
                 else if synced (session p) then Synced else Connected)
    \<and> connected (delivery (session p)) = prov_connected p
    \<and> \<not> (prov_sub p = None \<and> prov_connected p)
    \<and> (page_listens p \<longleftrightarrow> win \<and> prov_sub p \<noteq> None)"
  using prov_reach_inv [OF assms]
  by (auto simp: prov_inv_def computeStatus_def split: option.split)

theorem status_is_true_witness: "status waiting_provider = Connecting"
  using status_is_true [OF demo_merge_law waiting_provider_reach] by simp

subsection \<open>What goes over the cable\<close>

text \<open>
  C10: Every frame takes its way. Whatever happens to a provider in whatever state, each transport
  call it makes is on the subscription it holds, carries base64 of a frame, is whispered only if it
  is an awareness frame and the transport whispers, is never sent the slow way if it could be
  whispered, and carries an id only on a document update. Without a subscription there is none.
\<close>

theorem frames_are_routed:
  assumes "lib0_small A" and "c \<in> set (calls (prov_handle A dA E ev p))"
  shows "case c of
      PSend n m \<Rightarrow> (\<exists>sub f i. prov_sub p = Some sub \<and> n = sub_id sub \<and> m = update_envelope (b64_of f) i
        \<and> (is_awareness f \<and> sub_whispers sub) = False \<and> (i = None \<or> (\<exists>u. f = frameUpdate A u)))
    | PWhisper n m \<Rightarrow> (\<exists>sub f. prov_sub p = Some sub \<and> n = sub_id sub
        \<and> m = awareness_envelope (b64_of f) \<and> is_awareness f \<and> sub_whispers sub)
    | _ \<Rightarrow> True"
  using prov_handle_routed [OF assms] by (cases c) fastforce+

theorem frames_are_routed_witness:
  "\<exists>f. awareness_envelope (b64_of (frameAwareness demo_api [] [7])) = awareness_envelope (b64_of f)
     \<and> is_awareness f"
proof -
  have "is_awareness (frameAwareness demo_api [] [7])"
    by (simp add: is_awareness_def frameAwareness_def demo_api_def MessageType_Awareness_def put_uint.simps)
  then have "PWhisper 4 (awareness_envelope (b64_of (frameAwareness demo_api [] [7])))
      \<in> set (calls (prov_handle demo_api demo_destroyAw demo_prov_env PageHide waiting_provider))"
    by (simp add: onUnload_def andThen_eq on_session_eq removeLocalAwareness_eq demo_local_def
        demo_setLocal_def aw_frame_def send_trace_def cable_call_def cable_def)
  from frames_are_routed [OF demo_lib0_small this] show ?thesis by auto
qed

text \<open>
  What one provider sends, another applies. If an update applies to a provider's document (and
  to an empty one), receiving its broadcast envelope, the base64 of the framed update, applies it
  exactly and does nothing else: no call, no throw.
\<close>

theorem broadcast_update_applied:
  assumes "lib0_roundtrip A" and "lib0_small A" and "sync_update_law A"
    and "snd (snd (applyUpdate A (newDoc A) u)) = None"
    and "applyUpdate A (doc (session p)) u = (d', us, None)"
    and "messageYjsSyncStep2 A \<noteq> 2" and "status p = computeStatus p"
  shows "received A E (update_envelope (b64_of (frameUpdate A u)) None) p =
    (p\<lparr>session := (session p)\<lparr>doc := d'\<rparr>\<rparr>, [], None)"
  using assms by (rule received_update_frame)

theorem broadcast_update_applied_witness:
  "doc (session (post (received demo_api demo_prov_env
     (update_envelope (b64_of (frameUpdate demo_api [5])) None) waiting_provider))) = [5]"
  by (subst broadcast_update_applied [OF demo_lib0_roundtrip demo_lib0_small demo_sync_update_law,
        where us = "[[5]]" and d' = "[5]"]) (simp_all add: computeStatus_def)

text \<open>
  C16: No message breaks the callback. Whatever value the cable delivers, an object, a string, null,
  a number, malformed base64, a frame of the wrong kind, \<^verbatim>\<open>received\<close> does not throw as long as the
  status listeners do not; and it leaves the provider as it was unless the message carried an
  acknowledgement, or a string that decodes to a frame which an \<^verbatim>\<open>awareness\<close> field may carry.
\<close>

theorem received_is_total:
  assumes "\<And>l st. listener_raises E l st = None"
  shows "thrown (received A E m p) = None
    \<and> (post (received A E m p) = p
       \<or> (\<exists>v. msg_ack m = Some v)
       \<or> (\<exists>aw t f. msg_awareness m = Inr aw \<and> msg_payload m aw = Inr (JStr t) \<and> fromBase64 t = Inr f
            \<and> (aw = JUndef \<or> is_awareness f)))"
proof (cases "msg_ack m")
  case (Some v)
  then show ?thesis by (simp add: received_def ack_def on_delivery_eq)
next
  case None
  have aw: "\<exists>aw. msg_awareness m = Inr aw"
    by (cases m) (auto simp: msg_awareness_def js_and_def)
  then obtain aw where aw: "msg_awareness m = Inr aw" by blast
  have "\<exists>v. msg_payload m aw = Inr v"
    by (cases m) (auto simp: msg_payload_def js_and_def)
  then obtain v where v: "msg_payload m aw = Inr v" by blast
  show ?thesis
  proof (cases v)
    case (JStr t)
    then show ?thesis
      using None aw v refreshStatus_thrown [OF assms]
      by (cases "fromBase64 t") (auto simp: received_def deliver_frame_eq Let_def)
  qed (use None aw v in \<open>simp_all add: received_def\<close>)
qed

theorem received_is_total_witness:
  "thrown (received demo_api demo_prov_env (JObj [(''awareness'', JNull)]) waiting_provider) = None"
  using received_is_total [of demo_prov_env demo_api "JObj [(''awareness'', JNull)]" waiting_provider]
  by (simp add: demo_prov_env_def)

subsection \<open>Leaving and coming back\<close>

text \<open>
  C22: Peers hear of a departure before the channel goes down. Disconnecting a provider with presence
  makes exactly these calls in this order: the presence removal over the transport, the end of the
  retransmit timer, the end of the page handlers, the unsubscription, and last the status listeners;
  afterwards there is no subscription and the status is disconnected.
\<close>

theorem removal_precedes_unsubscribe:
  assumes "prov_sub p = Some sub" and "awareness (session p) = Some a" and "getLocalState A a \<noteq> JNull"
    and "aw_listener (session p)" and "setLocalState A JNull a = (a', chs)"
  shows "calls (prov_disconnect A E p) =
      concat (map (\<lambda>ch. send_trace E p (frameAwareness A a' (added ch @ updated ch @ removed ch)) None) chs)
      @ (case timer (delivery (session p)) of None \<Rightarrow> [] | Some h \<Rightarrow> [PClearInterval h])
      @ (if has_window E \<and> page_listens p then [PRemovePageListeners] else [])
      @ [PUnsubscribeSoon (sub_id sub)]
      @ calls (refreshStatus E (torn_down A E p))
    \<and> prov_sub (post (prov_disconnect A E p)) = None
    \<and> status (post (prov_disconnect A E p)) = Disconnected"
proof -
  let ?q = "post (on_session E (removeLocalAwareness A) p)"
  have r1: "calls (on_session E (removeLocalAwareness A) p) =
      concat (map (\<lambda>ch. send_trace E p (frameAwareness A a' (added ch @ updated ch @ removed ch)) None) chs)"
    using assms by (simp add: on_session_eq removeLocalAwareness_eq aw_frame_def comp_def)
  have "delivery (session ?q) = delivery (session p)" by (simp add: removeLocal_delivery)
  then have r2: "calls (on_session E (sess_onDisconnect A) ?q) =
      (case timer (delivery (session p)) of None \<Rightarrow> [] | Some h \<Rightarrow> [PClearInterval h])"
    by (simp add: on_session_eq [of E "sess_onDisconnect A"] sess_onDisconnect_eq onDisconnect_calls
        split: option.split)
  have "calls (prov_disconnect A E p) =
      concat (map (\<lambda>ch. send_trace E p (frameAwareness A a' (added ch @ updated ch @ removed ch)) None) chs)
      @ (case timer (delivery (session p)) of None \<Rightarrow> [] | Some h \<Rightarrow> [PClearInterval h])
      @ (if has_window E \<and> page_listens p then [PRemovePageListeners] else [])
      @ [PUnsubscribeSoon (sub_id sub)]
      @ calls (refreshStatus E (torn_down A E p))"
    by (simp only: prov_disconnect_eq(3) [OF assms(1)] r1 r2)
  then show ?thesis
    using assms(1) by (simp add: prov_disconnect_eq(1) refreshStatus_post)
qed

theorem removal_precedes_unsubscribe_witness:
  "calls (prov_disconnect demo_api demo_prov_env waiting_provider) =
   [PWhisper 4 (awareness_envelope (b64_of (frameAwareness demo_api [] [7]))),
    PRemovePageListeners, PUnsubscribeSoon 4]"
proof -
  have "is_awareness (frameAwareness demo_api [] [7])"
    by (simp add: is_awareness_def frameAwareness_def demo_api_def MessageType_Awareness_def put_uint.simps)
  moreover have "statusListeners waiting_provider = []"
    by (simp add: waiting_provider_def fresh_provider_def)
  ultimately show ?thesis
    using removal_precedes_unsubscribe [of waiting_provider cable "[(7, JObj [])]" demo_api "[]"
        "[\<lparr>added = [], updated = [], removed = [7]\<rparr>]" demo_prov_env]
    by (simp add: demo_local_def demo_setLocal_def send_trace_def cable_call_def refreshStatus_unheard)
      (simp add: cable_def demo_prov_env_def)
qed

text \<open>
  C26: A page that comes back from the back-forward cache comes back with its presence. Hiding the
  page removes our presence; showing it again, persisted, restores exactly the presence it had, and
  forgets the stash.
\<close>

theorem presence_survives_bfcache:
  assumes "awareness_local_law A" and "page_listens p" and "awareness (session p) = Some a"
    and "presence A p = JNull \<or> truthy (presence A p)"
    and "hidden = post (prov_handle A dA E PageHide p)"
    and "shown = post (prov_handle A dA E' (PageShow True) hidden)"
  shows "presence A hidden = JNull \<and> presence A shown = presence A p \<and> stashedPresence shown = JNull"
proof -
  have h: "hidden = post (on_session E (removeLocalAwareness A) (p\<lparr>stashedPresence := presence A p\<rparr>))"
    using assms(2,5) by (simp add: onUnload_def andThen_eq del: on_session_fields)
  have hs: "stashedPresence hidden = presence A p" and hp: "page_listens hidden"
    using assms(2) by (simp_all add: h)
  obtain a' where ha: "awareness (session hidden) = Some a'" and null: "getLocalState A a' = JNull"
    using assms(1,3)
    by (cases "getLocalState A a = JNull") (auto simp: h removeLocalAwareness_eq awareness_local_law_def)
  have hidden: "presence A hidden = JNull" using ha null by (simp add: presence_def)
  have "presence A shown = presence A p" and "stashedPresence shown = JNull"
    using assms(1,4) ha hidden hs hp
    by (auto simp: assms(6) onRestore_def andThen_eq setPresence_def presence_def local_origin_def
        aw_set_eq awareness_local_law_def)
  with hidden show ?thesis by blast
qed

theorem presence_survives_bfcache_witness:
  "presence demo_api (post (prov_handle demo_api demo_destroyAw demo_prov_env (PageShow True)
     (post (prov_handle demo_api demo_destroyAw demo_prov_env PageHide waiting_provider)))) = JObj []"
  using presence_survives_bfcache [OF demo_awareness_local_law _ _ _ refl refl, of waiting_provider
      "[(7, JObj [])]" demo_destroyAw demo_prov_env demo_prov_env]
  by (simp add: presence_def demo_local_def del: prov_handle.simps)

text \<open>
  A refused subscription costs no edit. When the server rejects it, the provider reports the
  rejection first, lets the subscription go and shows disconnected; every unacked edit stays queued,
  and edits made from then on join them without being sent.
\<close>

theorem rejection_keeps_edits:
  assumes "prov_sub p = Some sub"
  shows "case cb_rejected A E p of (q, cs, x) \<Rightarrow>
    cs \<noteq> [] \<and> hd cs = PError (JsError ''subscription rejected by the server'') ''rejected''
    \<and> PUnsubscribeSoon (sub_id sub) \<in> set cs
    \<and> prov_sub q = None \<and> status q = Disconnected \<and> prov_unacked q = prov_unacked p
    \<and> prov_next q = prov_next p"
proof -
  have "prov_queue_is v (post (prov_disconnect A E p))" if "prov_queue_is v p" for v
    using keeps_disconnect that by (rule preservesD)
  from prov_queue_unchanged [OF this]
  have "prov_unacked (post (prov_disconnect A E p)) = prov_unacked p"
    and "prov_next (post (prov_disconnect A E p)) = prov_next p" by blast+
  then show ?thesis
    using assms
    by (simp add: cb_rejected_def andThen_eq prov_disconnect_eq(3) case_prod_beta)
      (simp add: prov_disconnect_eq(1) refreshStatus_post torn_down_def Let_def computeStatus_def)
qed

theorem rejection_keeps_edits_witness:
  "status (post (cb_rejected demo_api demo_prov_env waiting_provider)) = Disconnected"
  using rejection_keeps_edits [of waiting_provider cable demo_api demo_prov_env]
  by (simp add: case_prod_beta)

text \<open>
  The transport coming up replays what was edited while it was down. In every reachable state
  with a subscription and unacked edits, the \<^verbatim>\<open>connected\<close> callback sends the merge of all of them, framed
  as an update, tagged with the newest sequence number.
\<close>

theorem reconnect_replays_tail:
  assumes "merge_law A W" and "prov_reach A dA newAw W win p" and "prov_sub p = Some sub"
    and "prov_unacked p \<noteq> []"
  shows "\<exists>t. tail_of (mergeUpdates A) (delivery (session p)) = Inr t \<and> W t
    \<and> cable_call sub (frameUpdate A t) (Some (fst (last (prov_unacked p))))
        \<in> set (calls (cb_connected A E p))"
proof -
  let ?s = "session p" and ?p = "p\<lparr>prov_connected := True\<rparr>"
  have qo: "queue_ok A W ?s" using prov_reach_inv [OF assms(1,2)] by (simp add: prov_inv_def)
  have ne: "pending (delivery ?s) \<noteq> []" using assms(4) by (simp add: prov_unacked_def unacked_of_def)
  from qo have wf: "\<forall>x\<in>set (pending (delivery ?s)). W (p_update x)" by (simp add: queue_ok_def)
  from tail_of_wf [OF assms(1) wf ne] obtain t
    where t: "tail_of (mergeUpdates A) (delivery ?s) = Inr t" and "W t" .
  let ?i = "p_seq (last (pending (delivery ?s)))" and ?E = "session_env E ?p"
  have nt: "thrown (sess_onConnect A ?E ?s) = None"
    using sess_onConnect_no_throw [OF assms(1) qo] by simp
  have "SSend (frameUpdate A t) (Some ?i) \<in> set (filter is_send (calls (sess_onConnect A ?E ?s)))"
    using qo ne by (subst sess_onConnect_sends [OF _ t nt]) (simp_all add: queue_ok_def sess_inv_def rs_inv_def)
  then have "SSend (frameUpdate A t) (Some ?i) \<in> set (calls (sess_onConnect A ?E ?s))" by simp
  moreover have "cable_call sub (frameUpdate A t) (Some ?i)
      \<in> set (session_calls E ?p (SSend (frameUpdate A t) (Some ?i)))"
    using assms(3) by (simp add: send_trace_def)
  ultimately have "cable_call sub (frameUpdate A t) (Some ?i) \<in> set (calls (on_session E (sess_onConnect A) ?p))"
    by (auto simp: on_session_eq simp del: session_calls_send)
  then have "cable_call sub (frameUpdate A t) (Some ?i) \<in> set (calls (cb_connected A E p))"
    by (simp add: cb_connected_def andThen_eq)
  moreover have "fst (last (prov_unacked p)) = ?i"
    using ne by (simp add: prov_unacked_def unacked_of_def last_map)
  ultimately show ?thesis using t \<open>W t\<close> by auto
qed

theorem reconnect_replays_tail_witness:
  "PSend 4 (update_envelope (b64_of (frameUpdate demo_api [5])) (Some 1))
   \<in> set (calls (cb_connected demo_api demo_prov_env
       (post (prov_handle demo_api demo_destroyAw demo_prov_env (UserEdit [5] [[5]] 1) waiting_provider))))"
proof -
  let ?p = "post (prov_handle demo_api demo_destroyAw demo_prov_env (UserEdit [5] [[5]] 1) waiting_provider)"
  have "prov_reach demo_api demo_destroyAw demo_newAw demo_ok True ?p"
    by (rule prov_reach.step [OF waiting_provider_reach]) (simp_all add: demo_prov_env_def)
  moreover have sub: "prov_sub ?p = Some cable" by simp
  moreover have q: "pending (delivery (session ?p)) = [\<lparr>p_seq = 1, p_update = [5]\<rparr>]"
    by (simp add: doc_edit_def andThen_eq emit_doc_def onDocUpdate_def on_delivery_eq fresh_provider_def)
  moreover from q have "prov_unacked ?p = [(1, [5])]" by (simp add: prov_unacked_def unacked_of_def)
  ultimately have "cable_call cable (frameUpdate demo_api [5]) (Some 1)
      \<in> set (calls (cb_connected demo_api demo_prov_env ?p))"
    using reconnect_replays_tail [OF demo_merge_law, of demo_destroyAw demo_newAw True ?p cable demo_prov_env]
    by (auto simp: tail_of_def)
  moreover have "\<not> is_awareness (frameUpdate demo_api [5])"
    by (rule not_awareness_update [OF demo_lib0_small])
  ultimately show ?thesis by (simp add: cable_call_def cable_def)
qed

end
