(* ===== verification/Native_Protocol.thy ===== *)
theory Native_Protocol
  imports Prelude
begin

text \<open>
  ext/yrby/src/protocol.rs and the document methods of ext/yrby/src/lib.rs the channel calls: the
  classification of frames, and the two questions the server asks about an update, whether it
  integrates and whether it carries anything new.

  The yrs crate is not part of the repository; what the code uses of it is the record \<open>yrs\<close> over the
  types \<open>'d\<close> of documents, \<open>'u\<close> of decoded updates and \<open>'v\<close> of state vectors. Errors are strings, as
  in the code. A transaction is a value: a document is read, or replaced by its new value.
\<close>

type_synonym y_error = string

datatype 'v y_message =
    SyncStep1 'v
  | SyncStep2 bytes
  | SyncUpdate bytes
  | AwarenessMsg
  | AwarenessQuery
  | OtherMsg

text \<open>
  \<open>y_read\<close> is \<^verbatim>\<open>Message::decode\<close>: one message, and the bytes it left; \<open>y_messages\<close> is the \<^verbatim>\<open>MessageReader\<close>
  of a buffer run to its end or to its first error.
\<close>

record ('d, 'u, 'v) yrs =
  y_read :: "bytes \<Rightarrow> y_error + 'v y_message \<times> bytes"
  y_messages :: "bytes \<Rightarrow> y_error + 'v y_message list"
  y_new :: 'd
  y_decode_update :: "bytes \<Rightarrow> y_error + 'u"
  y_apply :: "'u \<Rightarrow> 'd \<Rightarrow> y_error + 'd"
  y_merge :: "bytes list \<Rightarrow> y_error + bytes"
  y_state_vector :: "'d \<Rightarrow> 'v"
  y_ge :: "'v \<Rightarrow> 'v \<Rightarrow> bool"
  y_empty_sv :: 'v
  u_state_vector :: "'u \<Rightarrow> 'v"
  u_lower :: "'u \<Rightarrow> 'v"
  u_has_deletes :: "'u \<Rightarrow> bool"
  y_encode :: "'d \<Rightarrow> 'v \<Rightarrow> bytes"
  y_pending_update :: "'d \<Rightarrow> bool"
  y_pending_ds :: "'d \<Rightarrow> bool"
  y_prune :: "'d \<Rightarrow> 'd"
  y_write :: "'v y_message \<Rightarrow> bytes"

text \<open>\<^verbatim>\<open>?\<close> on a result.\<close>

definition try_bind :: "(y_error + 'x) \<Rightarrow> ('x \<Rightarrow> y_error + 'y) \<Rightarrow> y_error + 'y" where
  "try_bind r f = (case r of Inl x \<Rightarrow> Inl x | Inr v \<Rightarrow> f v)"

lemma try_bind_simps [simp]:
  "try_bind (Inl x) f = Inl x"
  "try_bind (Inr v) f = f v"
  by (simp_all add: try_bind_def)

lemma try_bind_Inr: "try_bind r f = Inr y \<longleftrightarrow> (\<exists>v. r = Inr v \<and> f v = Inr y)"
  by (cases r) auto

subsection \<open>protocol.rs\<close>

definition classify_message :: "('d, 'u, 'v) yrs \<Rightarrow> bytes \<Rightarrow> nat" where
  "classify_message Y bs =
     (case y_read Y bs of
        Inl _ \<Rightarrow> 0
      | Inr (msg, rest) \<Rightarrow>
          if rest \<noteq> [] then 0
          else (case msg of
                  SyncStep1 _ \<Rightarrow> 1 | SyncStep2 _ \<Rightarrow> 2 | SyncUpdate _ \<Rightarrow> 2
                | AwarenessMsg \<Rightarrow> 3 | AwarenessQuery \<Rightarrow> 4 | OtherMsg \<Rightarrow> 0))"

fun doc_payload :: "'v y_message \<Rightarrow> bytes option" where
  "doc_payload (SyncUpdate u) = Some u"
| "doc_payload (SyncStep2 u) = Some u"
| "doc_payload _ = None"

definition merge_payloads :: "('d, 'u, 'v) yrs \<Rightarrow> bytes list \<Rightarrow> y_error + bytes option" where
  "merge_payloads Y us =
     (case us of [] \<Rightarrow> Inr None
      | [u] \<Rightarrow> Inr (Some u)
      | _ \<Rightarrow> try_bind (y_merge Y us) (\<lambda>m. Inr (Some m)))"

definition is_noop :: "('d, 'u, 'v) yrs \<Rightarrow> 'u \<Rightarrow> bool" where
  "is_noop Y u \<longleftrightarrow>
     u_state_vector Y u = y_empty_sv Y \<and> \<not> u_has_deletes Y u \<and> u_lower Y u = y_empty_sv Y"

definition merged_doc_update :: "('d, 'u, 'v) yrs \<Rightarrow> bytes \<Rightarrow> y_error + bytes option" where
  "merged_doc_update Y bs =
     try_bind (y_messages Y bs) (\<lambda>ms.
       try_bind (merge_payloads Y (List.map_filter doc_payload ms)) (\<lambda>merged.
         case merged of None \<Rightarrow> Inr None
         | Some m \<Rightarrow>
             try_bind (y_decode_update Y m) (\<lambda>u. Inr (if is_noop Y u then None else Some m))))"

definition has_pending :: "('d, 'u, 'v) yrs \<Rightarrow> 'd \<Rightarrow> bool" where
  "has_pending Y d \<longleftrightarrow> y_pending_update Y d \<or> y_pending_ds Y d"

definition integrated_update :: "('d, 'u, 'v) yrs \<Rightarrow> 'd \<Rightarrow> 'v \<Rightarrow> y_error + bytes" where
  "integrated_update Y d sv =
     (if \<not> y_pending_update Y d \<and> \<not> y_pending_ds Y d then Inr (y_encode Y d sv)
      else (let full = y_encode Y d (y_empty_sv Y)
            in try_bind (y_decode_update Y full) (\<lambda>u.
                 try_bind (y_apply Y u (y_new Y)) (\<lambda>c. Inr (y_encode Y (y_prune Y c) sv)))))"

definition update_is_ready :: "('d, 'u, 'v) yrs \<Rightarrow> 'd \<Rightarrow> bytes \<Rightarrow> y_error + bool" where
  "update_is_ready Y d bs =
     try_bind (y_decode_update Y bs) (\<lambda>u.
       if \<not> y_ge Y (y_state_vector Y d) (u_lower Y u) then Inr False
       else try_bind (integrated_update Y d (y_empty_sv Y)) (\<lambda>seed.
              try_bind (y_decode_update Y seed) (\<lambda>s.
                try_bind (y_apply Y s (y_new Y)) (\<lambda>probe.
                  try_bind (y_apply Y u probe) (\<lambda>probe'.
                    Inr (\<not> has_pending Y probe'))))))"

definition update_advances_doc :: "('d, 'u, 'v) yrs \<Rightarrow> 'd \<Rightarrow> bytes \<Rightarrow> y_error + bool" where
  "update_advances_doc Y d bs =
     try_bind (y_decode_update Y bs) (\<lambda>u.
       if \<not> u_has_deletes Y u \<and> \<not> y_ge Y (y_state_vector Y d) (u_state_vector Y u) then Inr True
       else try_bind (y_decode_update Y (y_encode Y d (y_empty_sv Y))) (\<lambda>current.
              try_bind (y_apply Y current (y_new Y)) (\<lambda>probe.
                try_bind (y_apply Y u probe) (\<lambda>probe'.
                  if u_has_deletes Y u
                  then Inr (y_encode Y probe (y_empty_sv Y) \<noteq> y_encode Y probe' (y_empty_sv Y))
                  else if y_state_vector Y probe \<noteq> y_state_vector Y probe' then Inr True
                  else Inr (has_pending Y probe' \<noteq> has_pending Y probe)))))"

subsection \<open>lib.rs\<close>

definition doc_apply_update :: "('d, 'u, 'v) yrs \<Rightarrow> bytes \<Rightarrow> 'd \<Rightarrow> y_error + 'd" where
  "doc_apply_update Y bs d = try_bind (y_decode_update Y bs) (\<lambda>u. y_apply Y u d)"

definition sync_step1 :: "('d, 'u, 'v) yrs \<Rightarrow> 'd \<Rightarrow> bytes" where
  "sync_step1 Y d = y_write Y (SyncStep1 (y_state_vector Y d))"

text \<open>\<^verbatim>\<open>Message::decode_v1\<close> reads one message and ignores what follows.\<close>

definition handle_sync_message ::
  "('d, 'u, 'v) yrs \<Rightarrow> bytes \<Rightarrow> 'd \<Rightarrow> y_error + (nat \<times> nat \<times> bytes) \<times> 'd" where
  "handle_sync_message Y bs d =
     try_bind (y_read Y bs) (\<lambda>(msg, _).
       case msg of
         SyncStep1 sv \<Rightarrow>
           try_bind (integrated_update Y d sv) (\<lambda>u. Inr ((0, 0, y_write Y (SyncStep2 u)), d))
       | SyncStep2 u \<Rightarrow> try_bind (doc_apply_update Y u d) (\<lambda>d'. Inr ((0, 1, []), d'))
       | SyncUpdate u \<Rightarrow> try_bind (doc_apply_update Y u d) (\<lambda>d'. Inr ((0, 2, []), d'))
       | AwarenessMsg \<Rightarrow> Inr ((1, 0, []), d)
       | AwarenessQuery \<Rightarrow> Inl ''unsupported message type''
       | OtherMsg \<Rightarrow> Inl ''unsupported message type'')"

subsection \<open>Lemmas\<close>

text \<open>A frame of kind 2 is one sync message with an update, and its payload is what is recorded.\<close>

lemma classify_update:
  assumes "classify_message Y bs = 2"
  obtains u where "y_read Y bs = Inr (SyncUpdate u, []) \<or> y_read Y bs = Inr (SyncStep2 u, [])"
proof (cases "y_read Y bs")
  case (Inr mr)
  then obtain msg rest where mr: "y_read Y bs = Inr (msg, rest)" by (cases mr) auto
  with assms have "rest = []" by (auto simp: classify_message_def split: if_splits)
  with mr assms that show ?thesis
    by (cases msg) (auto simp: classify_message_def)
qed (use assms in \<open>simp add: classify_message_def\<close>)

text \<open>yrs: a buffer that is one message and nothing else reads as the list of that message.\<close>

definition reader_law :: "('d, 'u, 'v) yrs \<Rightarrow> bool" where
  "reader_law Y \<longleftrightarrow> (\<forall>bs m. y_read Y bs = Inr (m, []) \<longrightarrow> y_messages Y bs = Inr [m])"

lemma merged_doc_update_single:
  assumes "reader_law Y" and "y_read Y bs = Inr (SyncUpdate u, []) \<or> y_read Y bs = Inr (SyncStep2 u, [])"
  shows "merged_doc_update Y bs =
    try_bind (y_decode_update Y u) (\<lambda>d. Inr (if is_noop Y d then None else Some u))"
proof -
  have "y_messages Y bs = Inr [SyncUpdate u] \<or> y_messages Y bs = Inr [SyncStep2 u]"
    using assms unfolding reader_law_def by blast
  then show ?thesis
    by (auto simp: merged_doc_update_def merge_payloads_def List.map_filter_def)
qed

end
