(* ===== verification/Server_Channel.thy ===== *)
theory Server_Channel
  imports Native_Protocol Base64
begin

text \<open>
  lib/y/action_cable/sync.rb: the channel concern a client's frames reach.

  The channel keeps one instance variable, the document key; everything else it does is calls, which
  are returned in order: transmissions to the sending connection, broadcasts to a stream, the
  recorder hook, log lines. The two hooks of the application are parameters that may raise; a Ruby
  exception is a value, and ends the action at the call that raised.
\<close>

datatype rb_error = YError string | HookError nat

text \<open>The values a decoded JSON message is made of; a string is its bytes.\<close>

datatype rb_value =
    RNil
  | RInt int
  | RStr bytes
  | RHash "(string \<times> rb_value) list"
  | ROther nat

datatype server_call =
    StreamFrom bytes bool
  | Transmit rb_value
  | Broadcast bytes rb_value
  | OnChange bytes bytes
  | LogDrop string rb_value

record channel_class =
  max_frame_bytes :: "nat option"
  has_on_load :: bool
  has_on_change :: bool
  whispers :: bool  \<comment> \<open>\<^verbatim>\<open>respond_to?(:whispers_to)\<close>\<close>

record hooks =
  on_load :: "bytes \<Rightarrow> rb_error + bytes option"
  on_change :: "bytes \<Rightarrow> bytes \<Rightarrow> rb_error option"

datatype handled = Recorded | Gap | Applied | Noop

subsection \<open>Actions that may raise\<close>

type_synonym 'r action = "server_call list \<times> (rb_error + 'r)"

definition ret :: "'r \<Rightarrow> 'r action" where
  "ret v = ([], Inr v)"

definition raise :: "rb_error \<Rightarrow> 'r action" where
  "raise x = ([], Inl x)"

definition emit :: "server_call \<Rightarrow> unit action" where
  "emit c = ([c], Inr ())"

definition bind :: "'x action \<Rightarrow> ('x \<Rightarrow> 'y action) \<Rightarrow> 'y action" where
  "bind m f =
     (case snd m of Inl x \<Rightarrow> (fst m, Inl x)
      | Inr v \<Rightarrow> (fst m @ fst (f v), snd (f v)))"

abbreviation seq :: "unit action \<Rightarrow> 'y action \<Rightarrow> 'y action" where
  "seq m n \<equiv> bind m (\<lambda>_. n)"

text \<open>A native call raises \<^verbatim>\<open>Y::Error\<close> with its message.\<close>

definition native :: "(y_error + 'r) \<Rightarrow> 'r action" where
  "native r = (case r of Inl e \<Rightarrow> raise (YError e) | Inr v \<Rightarrow> ret v)"

lemma bind_simps [simp]:
  "bind (ret v) f = f v"
  "bind (raise x) f = raise x"
  by (simp_all add: bind_def ret_def raise_def)

lemma bind_emit [simp]: "bind (emit c) f = (c # fst (f ()), snd (f ()))"
  by (simp add: bind_def emit_def)

lemma bind_pair [simp]:
  "bind (cs, Inr v) f = (cs @ fst (f v), snd (f v))"
  "bind (cs, Inl x) g = (cs, Inl x)"
  by (simp_all add: bind_def)

lemma native_simps [simp]:
  "native (Inl e) = raise (YError e)"
  "native (Inr v) = ret v"
  by (simp_all add: native_def)

subsection \<open>Base64 as Ruby reads it\<close>

text \<open>
  \<^verbatim>\<open>Base64.strict_decode64\<close>: no whitespace, padding required, and no stray bits in the last group;
  None is the ArgumentError. \<^verbatim>\<open>strict_encode64\<close> writes the characters \<open>toBase64\<close> writes.
\<close>

definition b64_byte :: "byte \<Rightarrow> nat option" where
  "b64_byte b = b64_value (unat b)"

fun strict_decode64 :: "bytes \<Rightarrow> bytes option" where
  "strict_decode64 [] = Some []"
| "strict_decode64 [a, b, c, d] =
     (case (b64_byte a, b64_byte b) of
        (Some x, Some y) \<Rightarrow>
          if c = 61 \<and> d = 61
          then (if y mod 16 \<noteq> 0 then None else Some [of_nat (x * 4 + y div 16)])
          else (case b64_byte c of None \<Rightarrow> None
                | Some z \<Rightarrow>
                    if d = 61
                    then (if z mod 4 \<noteq> 0 then None
                          else Some [of_nat (x * 4 + y div 16), of_nat (y mod 16 * 16 + z div 4)])
                    else (case b64_byte d of None \<Rightarrow> None
                          | Some w \<Rightarrow> Some [of_nat (x * 4 + y div 16), of_nat (y mod 16 * 16 + z div 4),
                                          of_nat (z mod 4 * 64 + w)]))
      | _ \<Rightarrow> None)"
| "strict_decode64 (a # b # c # d # s) =
     (case (b64_byte a, b64_byte b, b64_byte c, b64_byte d) of
        (Some x, Some y, Some z, Some w) \<Rightarrow>
          map_option (\<lambda>r. of_nat (x * 4 + y div 16) # of_nat (y mod 16 * 16 + z div 4)
                          # of_nat (z mod 4 * 64 + w) # r) (strict_decode64 s)
      | _ \<Rightarrow> None)"
| "strict_decode64 _ = None"

definition ascii_bytes :: "jsstring \<Rightarrow> bytes" where
  "ascii_bytes s = map (\<lambda>c. of_nat (unat c)) s"

definition strict_encode64 :: "bytes \<Rightarrow> bytes" where
  "strict_encode64 bs = ascii_bytes (b64_of bs)"

subsection \<open>The channel\<close>

definition envelope :: "bytes \<Rightarrow> rb_value" where
  "envelope encoded = RHash [(''update'', RStr encoded)]"

definition rb_ascii :: "string \<Rightarrow> bytes" where
  "rb_ascii s = map (\<lambda>c. of_nat (of_char c)) s"

definition stream_name :: "bytes option \<Rightarrow> bytes" where
  "stream_name key = rb_ascii ''yrby:'' @ (case key of None \<Rightarrow> [] | Some k \<Rightarrow> k)"

definition awareness_stream_name :: "bytes option \<Rightarrow> bytes" where
  "awareness_stream_name key = stream_name key @ rb_ascii '':awareness''"

definition sync_transmit :: "bytes \<Rightarrow> unit action" where
  "sync_transmit bs = emit (Transmit (envelope (strict_encode64 bs)))"

definition sync_distribute :: "bytes option \<Rightarrow> bytes \<Rightarrow> unit action" where
  "sync_distribute key encoded = emit (Broadcast (stream_name key) (envelope encoded))"

definition validate_required_hooks :: "channel_class \<Rightarrow> unit action" where
  "validate_required_hooks K =
     (if has_on_load K \<and> has_on_change K then ret ()
      else raise (YError ''Y::ActionCable::Sync requires its hooks''))"

definition validate_key :: "bytes option \<Rightarrow> unit action" where
  "validate_key key =
     (if key = None \<or> key = Some [] then raise (YError ''Y::ActionCable::Sync has no document key'')
      else ret ())"

text \<open>The hooks receive the key as it is, which has been checked to be there.\<close>

definition load_doc :: "('d, 'u, 'v) yrs \<Rightarrow> hooks \<Rightarrow> bytes option \<Rightarrow> 'd action" where
  "load_doc Y H key =
     (case on_load H (case key of None \<Rightarrow> [] | Some k \<Rightarrow> k) of
        Inl x \<Rightarrow> raise x
      | Inr None \<Rightarrow> ret (y_new Y)
      | Inr (Some state) \<Rightarrow> native (doc_apply_update Y state (y_new Y)))"

definition record_change :: "hooks \<Rightarrow> bytes option \<Rightarrow> bytes \<Rightarrow> unit action" where
  "record_change H key update =
     (let k = (case key of None \<Rightarrow> [] | Some k \<Rightarrow> k)
      in seq (emit (OnChange k update))
           (case on_change H k update of None \<Rightarrow> ret () | Some x \<Rightarrow> raise x))"

definition request_resync :: "('d, 'u, 'v) yrs \<Rightarrow> 'd \<Rightarrow> unit action" where
  "request_resync Y d = sync_transmit (sync_step1 Y d)"

text \<open>The branch of a document update, from the document rebuilt from the store.\<close>

definition handle_update ::
  "('d, 'u, 'v) yrs \<Rightarrow> hooks \<Rightarrow> bytes option \<Rightarrow> bytes \<Rightarrow> bytes \<Rightarrow> 'd \<Rightarrow> handled action" where
  "handle_update Y H key encoded update d =
     bind (native (update_is_ready Y d update)) (\<lambda>ready.
       if \<not> ready then seq (request_resync Y d) (ret Gap)
       else bind (native (update_advances_doc Y d update)) (\<lambda>advances.
         if \<not> advances then seq (sync_distribute key encoded) (ret Applied)
         else seq (record_change H key update) (seq (sync_distribute key encoded) (ret Recorded))))"

definition handle_frame ::
  "('d, 'u, 'v) yrs \<Rightarrow> channel_class \<Rightarrow> hooks \<Rightarrow> bytes option \<Rightarrow> bytes \<Rightarrow> bytes \<Rightarrow> handled action" where
  "handle_frame Y K H key encoded bs =
     seq (validate_required_hooks K) (seq (validate_key key)
       (let kind = classify_message Y bs in
        if kind = 1
        then bind (load_doc Y H key) (\<lambda>d.
               bind (native (handle_sync_message Y bs d)) (\<lambda>((_, _, reply), _).
                 seq (sync_transmit reply) (ret Noop)))
        else if kind = 2
        then bind (native (merged_doc_update Y bs)) (\<lambda>update.
               case update of None \<Rightarrow> ret Noop
               | Some u \<Rightarrow> bind (load_doc Y H key) (handle_update Y H key encoded u))
        else if kind = 3 then seq (sync_distribute key encoded) (ret Noop)
        else ret Noop))"

definition send_ack :: "rb_value \<Rightarrow> handled \<Rightarrow> unit action" where
  "send_ack i o' =
     (if i = RNil then ret ()
      else if o' \<noteq> Recorded \<and> o' \<noteq> Applied then ret ()
      else emit (Transmit (RHash [(''ack'', i)])))"

text \<open>\<^verbatim>\<open>data["name"]\<close> of a Hash; a missing key is nil.\<close>

definition rb_get :: "(string \<times> rb_value) list \<Rightarrow> string \<Rightarrow> rb_value" where
  "rb_get h k = (case map_of h k of None \<Rightarrow> RNil | Some v \<Rightarrow> v)"

definition encoded_cap :: "nat \<Rightarrow> nat" where
  "encoded_cap cap = cap * 4 div 3 + 4"

text \<open>The whole action: the instance variable after it, and what it did.\<close>

definition sync_receive ::
  "('d, 'u, 'v) yrs \<Rightarrow> channel_class \<Rightarrow> hooks \<Rightarrow> bytes option \<Rightarrow> rb_value \<Rightarrow> bytes option
   \<Rightarrow> bytes option \<times> unit action" where
  "sync_receive Y K H ivar data key =
     (let k = (case key of None \<Rightarrow> ivar | Some _ \<Rightarrow> key)
      in (k,
          (case data of
             RHash h \<Rightarrow>
               (case rb_get h ''update'' of
                  RStr encoded \<Rightarrow>
                    (let i = rb_get h ''id''
                     in if (case max_frame_bytes K of None \<Rightarrow> False
                            | Some cap \<Rightarrow> encoded_cap cap < length encoded)
                        then emit (LogDrop ''warn'' i)
                        else (case strict_decode64 encoded of
                                None \<Rightarrow> emit (LogDrop ''debug'' i)
                              | Some bs \<Rightarrow>
                                  if (case max_frame_bytes K of None \<Rightarrow> False
                                      | Some cap \<Rightarrow> cap < length bs)
                                  then emit (LogDrop ''warn'' i)
                                  else bind (handle_frame Y K H k encoded bs) (send_ack i)))
                | _ \<Rightarrow> ret ())
           | _ \<Rightarrow> ret ())))"

definition sync_subscribed ::
  "('d, 'u, 'v) yrs \<Rightarrow> channel_class \<Rightarrow> hooks \<Rightarrow> bytes \<Rightarrow> bytes option \<times> unit action" where
  "sync_subscribed Y K H key =
     (Some key,
      seq (validate_required_hooks K)
        (seq (emit (StreamFrom (stream_name (Some key)) False))
          (seq (if whispers K then emit (StreamFrom (awareness_stream_name (Some key)) True) else ret ())
            (bind (load_doc Y H (Some key)) (\<lambda>d. sync_transmit (sync_step1 Y d))))))"

end
