(* ===== verification/Server_Props.thy ===== *)
theory Server_Props
  imports Server_Channel
begin

text \<open>
  The lemmas about the server: base64 as Ruby reads it is canonical, what a frame makes the channel
  do, and what the two questions about an update mean under the laws of yrs.
\<close>

subsection \<open>Base64\<close>

lemma b64_value_Some:
  assumes "b64_value n = Some v"
  shows "v < 64 \<and> n = b64_code v"
  using assms by (auto simp: b64_value_def b64_code_def split: if_splits)

lemma b64_byte_code: "n < 64 \<Longrightarrow> b64_byte (of_nat (b64_code n)) = Some n"
  using b64_code_range [of n] by (simp add: b64_byte_def unat_of_nat b64_value_code)

lemma b64_byte_Some:
  assumes "b64_byte b = Some v"
  shows "v < 64 \<and> b = of_nat (b64_code v)"
proof -
  have "v < 64" and "unat b = b64_code v"
    using b64_value_Some [of "unat b" v] assms by (simp_all add: b64_byte_def)
  moreover have "b = of_nat (unat b)" by simp
  ultimately show ?thesis by metis
qed

lemma b64_byte_pad: "b64_byte 61 = None"
  by (simp add: b64_byte_def b64_value_def)

lemma ascii_b64_char: "n < 64 \<Longrightarrow> (of_nat (unat (b64_char n)) :: byte) = of_nat (b64_code n)"
  by (simp only: unat_b64_char)

text \<open>Encoding in groups of three bytes.\<close>

definition code_byte :: "nat \<Rightarrow> byte" where
  "code_byte n = of_nat (b64_code n)"

lemma strict_encode64_eq:
  "strict_encode64 bs =
     map code_byte (sextets (map unat bs)) @ replicate ((3 - length bs mod 3) mod 3) 61"
proof -
  have "\<forall>v\<in>set (sextets (map unat bs)). v < 64"
    by (rule sextets_less) (auto simp: unat_byte_less)
  then show ?thesis
    by (simp add: strict_encode64_def ascii_bytes_def b64_of_def code_byte_def ascii_b64_char
        del: of_nat_unat)
qed

lemma strict_encode64_simps:
  "strict_encode64 [] = []"
  "strict_encode64 [a] = [code_byte (unat a div 4), code_byte (unat a mod 4 * 16), 61, 61]"
  "strict_encode64 [a, b] =
     [code_byte (unat a div 4), code_byte (unat a mod 4 * 16 + unat b div 16),
      code_byte (unat b mod 16 * 4), 61]"
  "strict_encode64 (a # b # c # r) =
     code_byte (unat a div 4) # code_byte (unat a mod 4 * 16 + unat b div 16)
     # code_byte (unat b mod 16 * 4 + unat c div 64) # code_byte (unat c mod 64) # strict_encode64 r"
proof -
  have "Suc (Suc (Suc n)) mod 3 = n mod 3" for n :: nat by presburger
  then show "strict_encode64 (a # b # c # r) =
     code_byte (unat a div 4) # code_byte (unat a mod 4 * 16 + unat b div 16)
     # code_byte (unat b mod 16 * 4 + unat c div 64) # code_byte (unat c mod 64) # strict_encode64 r"
    by (simp add: strict_encode64_eq)
qed (simp_all add: strict_encode64_eq numeral_2_eq_2)

lemma b64_byte_code_byte [simp]: "n < 64 \<Longrightarrow> b64_byte (code_byte n) = Some n"
  by (simp add: code_byte_def b64_byte_code)

lemma b64_byte_code_byte_of: "b64_byte b = Some v \<Longrightarrow> v < 64 \<and> b = code_byte v"
  by (simp add: code_byte_def b64_byte_Some)

lemma code_byte_not_pad: "n < 64 \<Longrightarrow> code_byte n \<noteq> 61"
  by (metis b64_byte_code_byte b64_byte_pad option.distinct(1))

lemma of_nat_unat_byte: "of_nat (unat (b :: byte)) = b"
  by simp

text \<open>Four sextets and three bytes, one way and the other.\<close>

lemma bytes_of_sextets:
  fixes a b c :: byte
  shows "of_nat (unat a div 4 * 4 + (unat a mod 4 * 16 + unat b div 16) div 16) = a"
    and "of_nat ((unat a mod 4 * 16 + unat b div 16) mod 16 * 16
            + (unat b mod 16 * 4 + unat c div 64) div 4) = b"
    and "of_nat ((unat b mod 16 * 4 + unat c div 64) mod 4 * 64 + unat c mod 64) = c"
    and "of_nat (unat a div 4 * 4 + unat a mod 4 * 16 div 16) = a"
    and "of_nat ((unat a mod 4 * 16 + unat b div 16) mod 16 * 16 + unat b mod 16 * 4 div 4) = b"
proof -
  have less: "unat a < 256" "unat b < 256" "unat c < 256" by (simp_all add: unat_byte_less)
  have 3: "octets (sextets [unat a, unat b, unat c]) = [unat a, unat b, unat c]"
    by (rule octets_sextets) (use less in simp)
  have 2: "octets (sextets [unat a, unat b]) = [unat a, unat b]"
    by (rule octets_sextets) (use less in simp)
  have 1: "octets (sextets [unat a]) = [unat a]"
    by (rule octets_sextets) (use less in simp)
  show "of_nat (unat a div 4 * 4 + (unat a mod 4 * 16 + unat b div 16) div 16) = a"
    and "of_nat ((unat a mod 4 * 16 + unat b div 16) mod 16 * 16
            + (unat b mod 16 * 4 + unat c div 64) div 4) = b"
    and "of_nat ((unat b mod 16 * 4 + unat c div 64) mod 4 * 64 + unat c mod 64) = c"
    using 3 by (simp_all only: sextets.simps octets.simps list.inject of_nat_unat_byte)
  show "of_nat (unat a div 4 * 4 + unat a mod 4 * 16 div 16) = a"
    using 1 by (simp only: sextets.simps octets.simps list.inject of_nat_unat_byte)
  show "of_nat ((unat a mod 4 * 16 + unat b div 16) mod 16 * 16 + unat b mod 16 * 4 div 4) = b"
    using 2 by (simp only: sextets.simps octets.simps list.inject of_nat_unat_byte)
qed

lemma unat_of_nat_byte: "n < 256 \<Longrightarrow> unat (of_nat n :: byte) = n"
  by (simp add: unat_of_nat)

lemma sextets_of_bytes:
  fixes x y z w :: nat
  assumes "x < 64" and "y < 64" and "z < 64" and "w < 64"
  shows "(x * 4 + y div 16) div 4 = x"
    and "(x * 4 + y div 16) mod 4 * 16 + (y mod 16 * 16 + z div 4) div 16 = y"
    and "(y mod 16 * 16 + z div 4) mod 16 * 4 + (z mod 4 * 64 + w) div 64 = z"
    and "(z mod 4 * 64 + w) mod 64 = w"
    and "(x * 4 + y div 16) mod 4 * 16 = y - y mod 16"
    and "(y mod 16 * 16 + z div 4) mod 16 * 4 = z - z mod 4"
    and "x * 4 + y div 16 < 256" and "y mod 16 * 16 + z div 4 < 256" and "z mod 4 * 64 + w < 256"
proof -
  have y: "y div 16 < 4" "y mod 16 < 16" and z: "z div 4 < 16" "z mod 4 < 4"
    using assms by auto
  show "(x * 4 + y div 16) div 4 = x" using y by simp
  have "(x * 4 + y div 16) mod 4 = y div 16" using y by simp
  moreover have "(y mod 16 * 16 + z div 4) div 16 = y mod 16" using z by simp
  ultimately show "(x * 4 + y div 16) mod 4 * 16 + (y mod 16 * 16 + z div 4) div 16 = y"
    and "(x * 4 + y div 16) mod 4 * 16 = y - y mod 16"
    by (simp_all add: minus_mod_eq_div_mult)
  have "(y mod 16 * 16 + z div 4) mod 16 = z div 4" using z by simp
  moreover have "(z mod 4 * 64 + w) div 64 = z mod 4" using assms by simp
  ultimately show "(y mod 16 * 16 + z div 4) mod 16 * 4 + (z mod 4 * 64 + w) div 64 = z"
    and "(y mod 16 * 16 + z div 4) mod 16 * 4 = z - z mod 4"
    by (simp_all add: minus_mod_eq_div_mult)
  show "(z mod 4 * 64 + w) mod 64 = w" using assms by simp
  show "x * 4 + y div 16 < 256" "y mod 16 * 16 + z div 4 < 256" "z mod 4 * 64 + w < 256"
    using assms y z by linarith+
qed

lemma strict_decode64_group:
  "strict_decode64 (a # b # c # d # e # s) =
     (case (b64_byte a, b64_byte b, b64_byte c, b64_byte d) of
        (Some x, Some y, Some z, Some w) \<Rightarrow>
          map_option (\<lambda>r. of_nat (x * 4 + y div 16) # of_nat (y mod 16 * 16 + z div 4)
                          # of_nat (z mod 4 * 64 + w) # r) (strict_decode64 (e # s))
      | _ \<Rightarrow> None)"
  by simp

text \<open>What the channel relays is what a client decodes: a strict encoding reads back.\<close>

lemma groups_induct [case_names Nil one two more]:
  assumes "P []" and "\<And>a. P [a]" and "\<And>a b. P [a, b]"
    and "\<And>a b c r. P r \<Longrightarrow> P (a # b # c # r)"
  shows "P (bs :: 'x list)"
proof (induction "length bs" arbitrary: bs rule: less_induct)
  case less
  consider "bs = []" | a where "bs = [a]" | a b where "bs = [a, b]" | a b c r where "bs = a # b # c # r"
    by (metis list.exhaust)
  then show ?case using less assms by cases auto
qed

lemma strict_encode64_Nil_iff: "strict_encode64 bs = [] \<longleftrightarrow> bs = []"
  by (induction bs rule: groups_induct) (simp_all add: strict_encode64_simps)

lemma sextet_bounds:
  fixes a b :: byte
  shows "unat a div 4 < 64" and "unat a mod 4 * 16 + unat b div 16 < 64" and "unat a mod 4 * 16 < 64"
    and "unat b mod 16 * 4 + unat a div 64 < 64" and "unat a mod 64 < 64" and "unat b mod 16 * 4 < 64"
  using unat_byte_less [of a] unat_byte_less [of b] by auto

lemma strict_decode64_quads:
  assumes "x < 64" and "y < 64"
  shows "y mod 16 = 0 \<Longrightarrow>
      strict_decode64 [code_byte x, code_byte y, 61, 61] = Some [of_nat (x * 4 + y div 16)]"
    and "z < 64 \<Longrightarrow> z mod 4 = 0 \<Longrightarrow>
      strict_decode64 [code_byte x, code_byte y, code_byte z, 61] =
        Some [of_nat (x * 4 + y div 16), of_nat (y mod 16 * 16 + z div 4)]"
    and "z < 64 \<Longrightarrow> w < 64 \<Longrightarrow>
      strict_decode64 (code_byte x # code_byte y # code_byte z # code_byte w # s) =
        map_option (\<lambda>r. of_nat (x * 4 + y div 16) # of_nat (y mod 16 * 16 + z div 4)
                          # of_nat (z mod 4 * 64 + w) # r) (strict_decode64 s)"
  using assms by (cases s; simp add: code_byte_not_pad)+

lemma strict_decode_encode: "strict_decode64 (strict_encode64 bs) = Some bs"
proof (induction bs rule: groups_induct)
  case (one a)
  have "unat a mod 4 * 16 mod 16 = 0" by simp
  then show ?case
    by (simp only: strict_encode64_simps strict_decode64_quads(1) sextet_bounds bytes_of_sextets)
next
  case (two a b)
  have "unat b mod 16 * 4 mod 4 = 0" by simp
  then show ?case
    by (simp only: strict_encode64_simps strict_decode64_quads(2) sextet_bounds bytes_of_sextets)
next
  case (more a b c r)
  then show ?case
    by (simp only: strict_encode64_simps strict_decode64_quads(3) sextet_bounds bytes_of_sextets
        option.map)
qed (simp add: strict_encode64_simps)

text \<open>And only a strict encoding reads at all: the encoding of what was read is what was read from.\<close>

lemma option4_cases:
  assumes "(case (p, q, r, s) of (Some x, Some y, Some z, Some w) \<Rightarrow> F x y z w | _ \<Rightarrow> None) = Some v"
  obtains x y z w where "p = Some x" "q = Some y" "r = Some z" "s = Some w" "F x y z w = Some v"
  using assms by (auto split: option.splits)

lemma strict_encode64_group_of_sextets:
  assumes "x < 64" and "y < 64" and "z < 64" and "w < 64"
  shows "strict_encode64 (of_nat (x * 4 + y div 16) # of_nat (y mod 16 * 16 + z div 4)
           # of_nat (z mod 4 * 64 + w) # r) =
         code_byte x # code_byte y # code_byte z # code_byte w # strict_encode64 r"
  by (simp only: strict_encode64_simps unat_of_nat_byte sextets_of_bytes(1-4,7-9) [OF assms])

lemma strict_encode64_one_of_sextets:
  assumes "x < 64" and "y < 64" and "16 dvd y"
  shows "strict_encode64 [of_nat (x * 4 + y div 16)] = [code_byte x, code_byte y, 61, 61]"
  using sextets_of_bytes(1,5,7) [OF assms(1,2), of 0 0] assms(3)
  by (simp only: strict_encode64_simps unat_of_nat_byte) simp

lemma strict_encode64_two_of_sextets:
  assumes "x < 64" and "y < 64" and "z < 64" and "4 dvd z"
  shows "strict_encode64 [of_nat (x * 4 + y div 16), of_nat (y mod 16 * 16 + z div 4)] =
         [code_byte x, code_byte y, code_byte z, 61]"
  using sextets_of_bytes(1,2,6,7,8) [OF assms(1-3), of 0] assms(4)
  by (simp only: strict_encode64_simps unat_of_nat_byte) simp

lemma strict_encode_decode: "strict_decode64 e = Some bs \<Longrightarrow> e = strict_encode64 bs"
proof (induction e arbitrary: bs rule: strict_decode64.induct)
  case (2 a b c d)
  then show ?case
    by (auto split: option.splits if_splits dest!: b64_byte_code_byte_of
        simp: strict_encode64_one_of_sextets strict_encode64_two_of_sextets
          strict_encode64_group_of_sextets strict_encode64_simps(1) simp del: of_nat_add of_nat_mult)
next
  case (3 a b c d e s)
  then obtain x y z w where "b64_byte a = Some x" "b64_byte b = Some y" "b64_byte c = Some z"
    "b64_byte d = Some w" and r: "map_option (\<lambda>r. of_nat (x * 4 + y div 16)
       # of_nat (y mod 16 * 16 + z div 4) # of_nat (z mod 4 * 64 + w) # r) (strict_decode64 (e # s)) = Some bs"
    unfolding strict_decode64_group by (elim option4_cases)
  moreover obtain r' where "strict_decode64 (e # s) = Some r'" using r by blast
  ultimately show ?case using 3
    by (auto dest!: b64_byte_code_byte_of simp: strict_encode64_group_of_sextets
        simp del: of_nat_add of_nat_mult strict_decode64.simps)
qed (simp_all add: strict_encode64_simps)

lemma length_strict_encode64: "length (strict_encode64 bs) = 4 * ((length bs + 2) div 3)"
  by (simp add: strict_encode64_def ascii_bytes_def length_b64_of)

lemma b64_of_ascii: "map (\<lambda>b. of_nat (unat b)) (ascii_bytes (b64_of bs)) = b64_of bs"
proof -
  have small: "unat (b64_char v) < 256" if "v < 64" for v
    using unat_b64_char [OF that] b64_code_range [OF that] by simp
  have same: "of_nat (unat (of_nat (unat c) :: byte)) = (c :: 16 word)" if "unat c < 256" for c
  proof -
    have "unat (of_nat (unat c) :: byte) = unat c" by (rule unat_of_nat_byte [OF that])
    then show ?thesis by (metis of_nat_unat ucast_id)
  qed
  have "\<forall>v\<in>set (sextets (map unat bs)). v < 64"
    by (rule sextets_less) (auto simp: unat_byte_less)
  then have "\<forall>c\<in>set (b64_of bs). unat c < 256" by (auto simp: b64_of_def small)
  then show ?thesis unfolding ascii_bytes_def map_map by (intro map_idI) (simp add: same del: of_nat_unat)
qed

end
