(* ===== verification/Audit_Log.thy ===== *)
theory Audit_Log
  imports Server_Props
begin

text \<open>
  examples/actioncable-demo/app/lib/audit_log.rb: the append-only store behind the channel's hooks.
  The state is the content of the document's file. \<open>fault\<close> is what the fault injection raises,
  before anything is written. A document the replay builds is a value, so an entry that fails to
  apply leaves it as it was.
\<close>

definition rb_space :: "byte \<Rightarrow> bool" where
  "rb_space b \<longleftrightarrow> b \<in> {0, 9, 10, 11, 12, 13, 32}"

definition rb_strip :: "bytes \<Rightarrow> bytes" where
  "rb_strip l = rev (dropWhile rb_space (rev (dropWhile rb_space l)))"

fun file_lines :: "bytes \<Rightarrow> bytes list" where
  "file_lines [] = []"
| "file_lines (b # bs) =
     (if b = 10 then [] # file_lines bs
      else (case file_lines bs of [] \<Rightarrow> [[b]] | l # ls \<Rightarrow> (b # l) # ls))"

definition audit_line :: "bytes \<Rightarrow> bytes" where
  "audit_line update = strict_encode64 update @ [10]"

definition audit_record :: "rb_error option \<Rightarrow> bytes \<Rightarrow> bytes \<Rightarrow> rb_error option \<times> bytes" where
  "audit_record fault update file =
     (case fault of Some x \<Rightarrow> (Some x, file) | None \<Rightarrow> (None, file @ audit_line update))"

text \<open>One line of the replay: the document and the number of entries applied.\<close>

definition replay_line :: "('d, 'u, 'v) yrs \<Rightarrow> bytes \<Rightarrow> 'd \<times> nat \<Rightarrow> 'd \<times> nat" where
  "replay_line Y line s =
     (let l = rb_strip line
      in if l = [] then s
         else case strict_decode64 l of None \<Rightarrow> s
              | Some update \<Rightarrow>
                  (case doc_apply_update Y update (fst s) of Inl _ \<Rightarrow> s
                   | Inr d \<Rightarrow> (d, snd s + 1)))"

definition replay_lines :: "('d, 'u, 'v) yrs \<Rightarrow> bytes list \<Rightarrow> 'd \<times> nat" where
  "replay_lines Y ls = fold (replay_line Y) ls (y_new Y, 0)"

definition audit_replay :: "('d, 'u, 'v) yrs \<Rightarrow> bytes \<Rightarrow> bytes option" where
  "audit_replay Y file =
     (let (d, applied) = replay_lines Y (file_lines file)
      in if applied = 0 then None else Some (y_encode Y d (y_empty_sv Y)))"

text \<open>The hooks of document_channel.rb over a file: what loading reads, and what recording raises.\<close>

definition audit_hooks :: "('d, 'u, 'v) yrs \<Rightarrow> rb_error option \<Rightarrow> bytes \<Rightarrow> hooks" where
  "audit_hooks Y fault file =
     \<lparr>on_load = (\<lambda>_. Inr (audit_replay Y file)),
      on_change = (\<lambda>_ u. fst (audit_record fault u file))\<rparr>"

subsection \<open>What yrs promises\<close>

text \<open>
  The documented behaviour of yrs the channel relies on. \<open>D\<close> are the documents the library builds,
  \<open>dc\<close> the operations a document has integrated (insertions and deletions), \<open>uc\<close> the operations an
  update carries. In order: a new document is empty; applying keeps documents well formed; an update
  that applies without parking brings its operations in and loses none; a full encoding decodes,
  carries what the document has and rebuilds it; an update that applies without parking also does so
  on a document that has at least as much; an update without deletions that leaves the state vector
  as it was changes nothing; and an empty update carries nothing.
\<close>

definition yrs_laws ::
  "('d, 'u, 'v) yrs \<Rightarrow> ('d \<Rightarrow> bool) \<Rightarrow> ('d \<Rightarrow> 'o set) \<Rightarrow> ('u \<Rightarrow> 'o set) \<Rightarrow> bool" where
  "yrs_laws Y D dc uc \<longleftrightarrow>
     (D (y_new Y) \<and> dc (y_new Y) = {} \<and> \<not> has_pending Y (y_new Y))
     \<and> (\<forall>u d d'. D d \<and> y_apply Y u d = Inr d' \<longrightarrow> D d')
     \<and> (\<forall>u d d'. D d \<and> y_apply Y u d = Inr d' \<and> \<not> has_pending Y d \<and> \<not> has_pending Y d' \<longrightarrow>
          dc d \<union> uc u \<subseteq> dc d')
     \<and> (\<forall>d. D d \<and> \<not> has_pending Y d \<longrightarrow>
          (\<exists>u e. y_decode_update Y (y_encode Y d (y_empty_sv Y)) = Inr u
             \<and> y_apply Y u (y_new Y) = Inr e \<and> \<not> has_pending Y e \<and> dc e = dc d))
     \<and> (\<forall>u d d' e. D d \<and> D e \<and> \<not> has_pending Y d \<and> \<not> has_pending Y e \<and> dc d \<subseteq> dc e
          \<and> y_apply Y u d = Inr d' \<and> \<not> has_pending Y d' \<longrightarrow>
          (\<exists>e'. y_apply Y u e = Inr e' \<and> \<not> has_pending Y e'))
     \<and> (\<forall>u d d'. D d \<and> \<not> has_pending Y d \<and> y_apply Y u d = Inr d' \<and> \<not> has_pending Y d'
          \<and> \<not> u_has_deletes Y u \<and> y_state_vector Y d = y_state_vector Y d' \<longrightarrow> dc d' = dc d)
     \<and> (\<forall>u. y_decode_update Y [] = Inr u \<longrightarrow> uc u = {})"

definition bytes_content :: "('d, 'u, 'v) yrs \<Rightarrow> ('u \<Rightarrow> 'o set) \<Rightarrow> bytes \<Rightarrow> 'o set" where
  "bytes_content Y uc b = (case y_decode_update Y b of Inl _ \<Rightarrow> {} | Inr u \<Rightarrow> uc u)"

definition good_doc :: "('d, 'u, 'v) yrs \<Rightarrow> ('d \<Rightarrow> bool) \<Rightarrow> 'd \<Rightarrow> bool" where
  "good_doc Y D d \<longleftrightarrow> D d \<and> \<not> has_pending Y d"

lemma laws_new: "yrs_laws Y D dc uc \<Longrightarrow> good_doc Y D (y_new Y) \<and> dc (y_new Y) = {}"
  unfolding yrs_laws_def good_doc_def by (elim conjE) (intro conjI)

lemma laws_D:
  assumes "yrs_laws Y D dc uc" and "D d" and "y_apply Y u d = Inr d'"
  shows "D d'"
proof -
  have "\<forall>u d d'. D d \<and> y_apply Y u d = Inr d' \<longrightarrow> D d'"
    using assms(1) unfolding yrs_laws_def by (elim conjE) assumption
  with assms(2-) show ?thesis by blast
qed

lemma laws_apply:
  assumes "yrs_laws Y D dc uc" and "good_doc Y D d" and "y_apply Y u d = Inr d'" and "\<not> has_pending Y d'"
  shows "good_doc Y D d'" and "dc d \<subseteq> dc d'" and "uc u \<subseteq> dc d'"
proof -
  have "D d'" using assms laws_D unfolding good_doc_def by metis
  then show "good_doc Y D d'" using assms(4) by (simp add: good_doc_def)
  have "dc d \<union> uc u \<subseteq> dc d'" using assms unfolding yrs_laws_def good_doc_def by blast
  then show "dc d \<subseteq> dc d'" and "uc u \<subseteq> dc d'" by auto
qed

lemma laws_encode:
  assumes "yrs_laws Y D dc uc" and "good_doc Y D d"
  obtains u e where "y_decode_update Y (y_encode Y d (y_empty_sv Y)) = Inr u"
    and "y_apply Y u (y_new Y) = Inr e" and "good_doc Y D e" and "dc e = dc d"
proof -
  have "\<exists>u e. y_decode_update Y (y_encode Y d (y_empty_sv Y)) = Inr u
      \<and> y_apply Y u (y_new Y) = Inr e \<and> \<not> has_pending Y e \<and> dc e = dc d"
    using assms unfolding yrs_laws_def good_doc_def by blast
  then obtain u e where e: "y_decode_update Y (y_encode Y d (y_empty_sv Y)) = Inr u"
    "y_apply Y u (y_new Y) = Inr e" "\<not> has_pending Y e" "dc e = dc d" by blast
  moreover have "good_doc Y D e" using e laws_new [OF assms(1)] assms(1) laws_apply(1) by metis
  ultimately show thesis using that by blast
qed

lemma laws_ready:
  assumes "yrs_laws Y D dc uc" and "good_doc Y D d" and "good_doc Y D e" and "dc d \<subseteq> dc e"
    and "y_apply Y u d = Inr d'" and "\<not> has_pending Y d'"
  shows "\<exists>e'. y_apply Y u e = Inr e' \<and> \<not> has_pending Y e'"
proof -
  have "\<forall>u d d' e. D d \<and> D e \<and> \<not> has_pending Y d \<and> \<not> has_pending Y e \<and> dc d \<subseteq> dc e
      \<and> y_apply Y u d = Inr d' \<and> \<not> has_pending Y d' \<longrightarrow>
      (\<exists>e'. y_apply Y u e = Inr e' \<and> \<not> has_pending Y e')"
    using assms(1) unfolding yrs_laws_def by (elim conjE) assumption
  with assms(2-) show ?thesis unfolding good_doc_def by blast
qed

lemma laws_unchanged:
  assumes "yrs_laws Y D dc uc" and "good_doc Y D d" and "y_apply Y u d = Inr d'" and "\<not> has_pending Y d'"
    and "\<not> u_has_deletes Y u" and "y_state_vector Y d = y_state_vector Y d'"
  shows "dc d' = dc d"
proof -
  have "\<forall>u d d'. D d \<and> \<not> has_pending Y d \<and> y_apply Y u d = Inr d' \<and> \<not> has_pending Y d'
      \<and> \<not> u_has_deletes Y u \<and> y_state_vector Y d = y_state_vector Y d' \<longrightarrow> dc d' = dc d"
    using assms(1) unfolding yrs_laws_def by (elim conjE) assumption
  with assms(2-) show ?thesis unfolding good_doc_def by simp
qed

lemma laws_empty: "yrs_laws Y D dc uc \<Longrightarrow> bytes_content Y uc [] = {}"
  by (auto simp: yrs_laws_def bytes_content_def split: sum.splits)

subsection \<open>The two questions about an update\<close>

lemma good_not_pending:
  assumes "good_doc Y D d"
  shows "integrated_update Y d sv = Inr (y_encode Y d sv)"
  using assms by (simp add: good_doc_def has_pending_def integrated_update_def)

text \<open>A ready update applies to any document that has what this one has, without parking.\<close>

lemma ready_applies:
  assumes L: "yrs_laws Y D dc uc" and d: "good_doc Y D d"
    and ready: "update_is_ready Y d bs = Inr True"
    and e: "good_doc Y D e" "dc d \<subseteq> dc e"
  shows "\<exists>u e'. y_decode_update Y bs = Inr u \<and> doc_apply_update Y bs e = Inr e' \<and> good_doc Y D e'
    \<and> dc e \<subseteq> dc e' \<and> uc u \<subseteq> dc e'"
proof -
  obtain s p where s: "y_decode_update Y (y_encode Y d (y_empty_sv Y)) = Inr s"
    and p: "y_apply Y s (y_new Y) = Inr p" "good_doc Y D p" "dc p = dc d"
    using laws_encode [OF L d] by metis
  obtain u p' where u: "y_decode_update Y bs = Inr u" and p': "y_apply Y u p = Inr p'" "\<not> has_pending Y p'"
    using ready s p
    by (auto simp: update_is_ready_def try_bind_Inr good_not_pending [OF d] split: if_splits)
  obtain e' where e': "y_apply Y u e = Inr e'" "\<not> has_pending Y e'"
    using laws_ready [OF L p(2) e(1) _ p'] e(2) p(3) by auto
  show ?thesis using laws_apply [OF L e(1) e'] e' u by (auto simp: doc_apply_update_def)
qed

text \<open>An update that is ready and does not advance the document is in it already.\<close>

lemma not_advancing_contained:
  assumes L: "yrs_laws Y D dc uc" and d: "good_doc Y D d"
    and ready: "update_is_ready Y d bs = Inr True"
    and same: "update_advances_doc Y d bs = Inr False"
  shows "bytes_content Y uc bs \<subseteq> dc d"
proof -
  obtain s p where s: "y_decode_update Y (y_encode Y d (y_empty_sv Y)) = Inr s"
    and p: "y_apply Y s (y_new Y) = Inr p" "good_doc Y D p" "dc p = dc d"
    using laws_encode [OF L d] by metis
  obtain u p' where u: "y_decode_update Y bs = Inr u" and p': "y_apply Y u p = Inr p'" "\<not> has_pending Y p'"
    using ready s p
    by (auto simp: update_is_ready_def try_bind_Inr good_not_pending [OF d] split: if_splits)
  note app = laws_apply [OF L p(2) p']
  have "dc p' = dc p"
  proof (cases "u_has_deletes Y u")
    case True
    then have "y_encode Y p (y_empty_sv Y) = y_encode Y p' (y_empty_sv Y)"
      using same u s p p' by (auto simp: update_advances_doc_def)
    then show ?thesis using laws_encode [OF L p(2)] laws_encode [OF L app(1)]
      by (metis sum.inject(2))
  next
    case False
    then have "y_state_vector Y p = y_state_vector Y p'"
      using same u s p p' by (auto simp: update_advances_doc_def split: if_splits)
    then show ?thesis using laws_unchanged [OF L p(2) p' False] by simp
  qed
  then show ?thesis using app(3) u p(3) by (simp add: bytes_content_def)
qed

subsection \<open>Lines\<close>

lemma code_byte_not_space: "n < 64 \<Longrightarrow> \<not> rb_space (code_byte n)"
proof
  assume n: "n < 64" and s: "rb_space (code_byte n)"
  have "unat (code_byte n) = b64_code n"
    using b64_code_range [OF n] by (simp add: code_byte_def unat_of_nat)
  moreover have "unat (code_byte n) \<le> 32" using s by (auto simp: rb_space_def)
  ultimately show False using b64_code_range [OF n] by simp
qed

lemma strict_encode64_no_space: "\<forall>b\<in>set (strict_encode64 bs). \<not> rb_space b"
proof -
  have "\<forall>v\<in>set (sextets (map unat bs)). v < 64"
    by (rule sextets_less) (auto simp: unat_byte_less)
  then show ?thesis
    by (auto simp: strict_encode64_eq code_byte_not_space) (simp add: rb_space_def)
qed

lemma dropWhile_none: "\<forall>b\<in>set l. \<not> P b \<Longrightarrow> dropWhile P l = l"
  by (cases l) auto

lemma rb_strip_encode: "rb_strip (strict_encode64 bs) = strict_encode64 bs"
  using strict_encode64_no_space [of bs] by (simp add: rb_strip_def dropWhile_none)

lemma file_lines_line: "10 \<notin> set l \<Longrightarrow> file_lines (l @ 10 # bs) = l # file_lines bs"
  by (induction l) auto

lemma file_lines_record:
  "file_lines (concat (map audit_line us)) = map strict_encode64 us"
proof (induction us)
  case (Cons u us)
  have "10 \<notin> set (strict_encode64 u)" using strict_encode64_no_space [of u] by (auto simp: rb_space_def)
  with Cons show ?case by (simp add: audit_line_def file_lines_line)
qed simp

text \<open>The file of an audit log: the lines of the updates recorded, in order.\<close>

definition file_of :: "bytes list \<Rightarrow> bytes" where
  "file_of us = concat (map audit_line us)"

lemma replay_line_encode:
  "replay_line Y (strict_encode64 u) s =
     (if u = [] then s
      else case doc_apply_update Y u (fst s) of Inl _ \<Rightarrow> s | Inr d \<Rightarrow> (d, snd s + 1))"
  by (simp add: replay_line_def Let_def rb_strip_encode strict_decode_encode strict_encode64_Nil_iff)

definition replayed :: "('d, 'u, 'v) yrs \<Rightarrow> bytes list \<Rightarrow> 'd \<times> nat" where
  "replayed Y us = replay_lines Y (map strict_encode64 us)"

lemma replayed_snoc: "replayed Y (us @ [u]) = replay_line Y (strict_encode64 u) (replayed Y us)"
  by (simp add: replayed_def replay_lines_def)

lemma replayed_Nil: "replayed Y [] = (y_new Y, 0)"
  by (simp add: replayed_def replay_lines_def)

lemma replayed_zero: "snd (replayed Y us) = 0 \<Longrightarrow> fst (replayed Y us) = y_new Y"
proof (induction us rule: rev_induct)
  case (snoc u us)
  then show ?case
    by (auto simp: replayed_snoc replay_line_encode split: if_splits sum.splits)
qed (simp add: replayed_Nil)

lemma audit_replay_file:
  "audit_replay Y (file_of us) =
     (if snd (replayed Y us) = 0 then None else Some (y_encode Y (fst (replayed Y us)) (y_empty_sv Y)))"
  by (simp add: audit_replay_def file_of_def file_lines_record replayed_def case_prod_unfold)

text \<open>Every prefix of the log replays without parking, and the content only grows.\<close>

definition log_ok ::
  "('d, 'u, 'v) yrs \<Rightarrow> ('d \<Rightarrow> bool) \<Rightarrow> ('d \<Rightarrow> 'o set) \<Rightarrow> bytes list \<Rightarrow> bool" where
  "log_ok Y D dc us \<longleftrightarrow>
     (\<forall>n\<le>length us. good_doc Y D (fst (replayed Y (take n us)))
        \<and> dc (fst (replayed Y (take n us))) \<subseteq> dc (fst (replayed Y us)))"

lemma log_ok_Nil: "yrs_laws Y D dc uc \<Longrightarrow> log_ok Y D dc []"
  by (simp add: log_ok_def replayed_Nil laws_new)

text \<open>The document the channel loads from any prefix of the log.\<close>

lemma load_doc_audit:
  assumes L: "yrs_laws Y D dc uc" and ok: "log_ok Y D dc us" and n: "n \<le> length us"
  shows "\<exists>d. load_doc Y (audit_hooks Y f (file_of (take n us))) key = ret d \<and> good_doc Y D d
    \<and> dc d = dc (fst (replayed Y (take n us)))"
proof -
  let ?r = "replayed Y (take n us)"
  have good: "good_doc Y D (fst ?r)" using ok n by (simp add: log_ok_def)
  show ?thesis
  proof (cases "snd ?r = 0")
    case True
    then show ?thesis using replayed_zero [OF True] laws_new [OF L]
      by (auto simp: load_doc_def audit_hooks_def audit_replay_file)
  next
    case False
    obtain u e where "y_decode_update Y (y_encode Y (fst ?r) (y_empty_sv Y)) = Inr u"
      "y_apply Y u (y_new Y) = Inr e" "good_doc Y D e" "dc e = dc (fst ?r)"
      using laws_encode [OF L good] by metis
    moreover from this have "doc_apply_update Y (y_encode Y (fst ?r) (y_empty_sv Y)) (y_new Y) = Inr e"
      by (simp add: doc_apply_update_def)
    ultimately show ?thesis using False
      by (intro exI [of _ e]) (simp add: load_doc_def audit_hooks_def audit_replay_file)
  qed
qed

lemma log_ok_snoc:
  assumes L: "yrs_laws Y D dc uc" and ok: "log_ok Y D dc us" and n: "n \<le> length us"
    and d: "good_doc Y D d" "dc d = dc (fst (replayed Y (take n us)))"
    and ready: "update_is_ready Y d u = Inr True"
  shows "log_ok Y D dc (us @ [u])"
    and "bytes_content Y uc u \<subseteq> dc (fst (replayed Y (us @ [u])))"
    and "dc (fst (replayed Y us)) \<subseteq> dc (fst (replayed Y (us @ [u])))"
proof -
  let ?e = "fst (replayed Y us)"
  have e: "good_doc Y D ?e" using ok unfolding log_ok_def by (metis order_refl take_all)
  have sub: "dc d \<subseteq> dc ?e" using ok n d(2) by (simp add: log_ok_def)
  obtain w e' where w: "y_decode_update Y u = Inr w" "doc_apply_update Y u ?e = Inr e'"
    "good_doc Y D e'" "dc ?e \<subseteq> dc e'" "uc w \<subseteq> dc e'"
    using ready_applies [OF L d(1) ready e sub] by blast
  have step: "good_doc Y D (fst (replayed Y (us @ [u])))"
    "dc ?e \<subseteq> dc (fst (replayed Y (us @ [u])))"
    using w e by (auto simp: replayed_snoc replay_line_encode)
  have "bytes_content Y uc u = {}" if "u = []" using laws_empty [OF L] that by simp
  then show "bytes_content Y uc u \<subseteq> dc (fst (replayed Y (us @ [u])))"
    using w by (auto simp: replayed_snoc replay_line_encode bytes_content_def)
  show "dc ?e \<subseteq> dc (fst (replayed Y (us @ [u])))" by (rule step)
  show "log_ok Y D dc (us @ [u])"
    using ok step unfolding log_ok_def by (auto simp: le_Suc_eq)
qed

end
