(* ===== verification/Server_Cases.thy ===== *)
theory Server_Cases
  imports Audit_Log
begin

text \<open>
  What one received message can make the channel do: which calls follow which path through
  \<^verbatim>\<open>sync_receive\<close> and \<^verbatim>\<open>sync_handle_frame\<close>.
\<close>

lemma bind_ret_cases:
  "bind m f = (case m of (cs, Inl x) \<Rightarrow> (cs, Inl x) | (cs, Inr v) \<Rightarrow> (cs @ fst (f v), snd (f v)))"
  by (cases m) (auto simp: bind_def split: sum.splits)

lemma native_cases: obtains x where "native r = raise x" | v where "r = Inr v" and "native r = ret v"
  by (cases r) auto

lemma fst_ret [simp]: "fst (ret v) = []" "fst (raise x) = []" "fst (emit c) = [c]"
  by (simp_all add: ret_def raise_def emit_def)

lemma snd_ret [simp]: "snd (ret v) = Inr v" "snd (raise x) = Inl x" "snd (emit c) = Inr ()"
  by (simp_all add: ret_def raise_def emit_def)

text \<open>The calls of each path of the document branch.\<close>

lemma handle_update_cases:
  obtains (failed) x where "handle_update Y H key enc u d = raise x"
  | (gap) "update_is_ready Y d u = Inr False"
      "handle_update Y H key enc u d = ([Transmit (envelope (strict_encode64 (sync_step1 Y d)))], Inr Gap)"
  | (retry) "update_is_ready Y d u = Inr True" "update_advances_doc Y d u = Inr False"
      "handle_update Y H key enc u d = ([Broadcast (stream_name key) (envelope enc)], Inr Applied)"
  | (refused) x where "update_is_ready Y d u = Inr True" "update_advances_doc Y d u = Inr True"
      "on_change H (case key of None \<Rightarrow> [] | Some k \<Rightarrow> k) u = Some x"
      "handle_update Y H key enc u d = ([OnChange (case key of None \<Rightarrow> [] | Some k \<Rightarrow> k) u], Inl x)"
  | (recorded) "update_is_ready Y d u = Inr True" "update_advances_doc Y d u = Inr True"
      "on_change H (case key of None \<Rightarrow> [] | Some k \<Rightarrow> k) u = None"
      "handle_update Y H key enc u d =
         ([OnChange (case key of None \<Rightarrow> [] | Some k \<Rightarrow> k) u,
           Broadcast (stream_name key) (envelope enc)], Inr Recorded)"
proof (cases "update_is_ready Y d u")
  case (Inl x)
  then show thesis using failed by (simp add: handle_update_def)
next
  case ready: (Inr b)
  show thesis
  proof (cases b)
    case False
    then show thesis using ready gap
      by (simp add: handle_update_def request_resync_def sync_transmit_def)
  next
    case b: True
    show thesis
    proof (cases "update_advances_doc Y d u")
      case (Inl x)
      then show thesis using ready b failed by (simp add: handle_update_def)
    next
      case adv: (Inr c)
      show thesis
      proof (cases c)
        case False
        then show thesis using ready b adv retry by (simp add: handle_update_def sync_distribute_def)
      next
        case True
        show thesis
        proof (cases "on_change H (case key of None \<Rightarrow> [] | Some k \<Rightarrow> k) u")
          case None
          then show thesis using ready b adv True recorded
            by (simp add: handle_update_def record_change_def sync_distribute_def)
        next
          case (Some x)
          then show thesis using ready b adv True refused
            by (simp add: handle_update_def record_change_def)
        qed
      qed
    qed
  qed
qed

text \<open>Calls that neither store, nor relay, nor acknowledge.\<close>

definition is_ack :: "server_call \<Rightarrow> bool" where
  "is_ack c \<longleftrightarrow> (\<exists>i. c = Transmit (RHash [(''ack'', i)]))"

definition idle_calls :: "server_call list \<Rightarrow> bool" where
  "idle_calls cs \<longleftrightarrow> (\<forall>c\<in>set cs. \<not> is_ack c \<and> (\<forall>s v. c \<noteq> Broadcast s v) \<and> (\<forall>k u. c \<noteq> OnChange k u))"

lemma idle_simps [simp]:
  "idle_calls []"
  "idle_calls (LogDrop l i # cs) = idle_calls cs"
  "idle_calls (Transmit (envelope e) # cs) = idle_calls cs"
  by (auto simp: idle_calls_def is_ack_def envelope_def)

lemma load_doc_cases:
  obtains x where "load_doc Y H key = raise x" | d where "load_doc Y H key = ret d"
proof (cases "on_load H (case key of None \<Rightarrow> [] | Some k \<Rightarrow> k)")
  case (Inl x)
  then show thesis using that(1) by (simp add: load_doc_def)
next
  case (Inr r)
  show thesis
  proof (cases r)
    case None
    then show thesis using Inr that(2) by (simp add: load_doc_def)
  next
    case (Some state)
    then show thesis using Inr that
      by (cases rule: native_cases [of "doc_apply_update Y state (y_new Y)"]) (simp_all add: load_doc_def)
  qed
qed

lemma handle_frame_cases:
  obtains (idle) "idle_calls (fst (handle_frame Y K H key enc bs))"
      "\<And>v. snd (handle_frame Y K H key enc bs) = Inr v \<Longrightarrow> v = Noop"
  | (aware) "classify_message Y bs = 3"
      "handle_frame Y K H key enc bs = ([Broadcast (stream_name key) (envelope enc)], Inr Noop)"
  | (update) u d where "classify_message Y bs = 2" "merged_doc_update Y bs = Inr (Some u)"
      "load_doc Y H key = ret d" "handle_frame Y K H key enc bs = handle_update Y H key enc u d"
      "key \<noteq> None" "has_on_load K" "has_on_change K"
proof (cases "has_on_load K \<and> has_on_change K \<and> key \<noteq> None \<and> key \<noteq> Some []")
  case False
  then have "\<exists>x. handle_frame Y K H key enc bs = raise x"
    by (auto simp: handle_frame_def validate_required_hooks_def validate_key_def)
  then show thesis using idle by auto
next
  case ok: True
  then have eq: "handle_frame Y K H key enc bs =
    (let kind = classify_message Y bs in
        if kind = 1
        then bind (load_doc Y H key) (\<lambda>d.
               bind (native (handle_sync_message Y bs d)) (\<lambda>((_, _, reply), _).
                 seq (sync_transmit reply) (ret Noop)))
        else if kind = 2
        then bind (native (merged_doc_update Y bs)) (\<lambda>update.
               case update of None \<Rightarrow> ret Noop
               | Some u \<Rightarrow> bind (load_doc Y H key) (handle_update Y H key enc u))
        else if kind = 3 then seq (sync_distribute key enc) (ret Noop)
        else ret Noop)"
    by (auto simp: handle_frame_def validate_required_hooks_def validate_key_def)
  consider "classify_message Y bs = 1" | "classify_message Y bs = 2" | "classify_message Y bs = 3"
    | "classify_message Y bs \<notin> {1, 2, 3}" by auto
  then show thesis
  proof cases
    case 1
    show thesis
    proof (cases rule: load_doc_cases [of Y H key])
      case (1 x)
      then show thesis using idle eq \<open>classify_message Y bs = 1\<close> by simp
    next
      case (2 d)
      show thesis
      proof (cases rule: native_cases [of "handle_sync_message Y bs d"])
        case (1 x)
        then show thesis using idle eq \<open>classify_message Y bs = 1\<close> 2 by simp
      next
        case (2 v)
        then show thesis using idle eq \<open>classify_message Y bs = 1\<close> \<open>load_doc Y H key = ret d\<close>
          by (simp add: case_prod_unfold sync_transmit_def)
      qed
    qed
  next
    case 2
    show thesis
    proof (cases rule: native_cases [of "merged_doc_update Y bs"])
      case (1 x)
      then show thesis using idle eq 2 by simp
    next
      case m: (2 v)
      show thesis
      proof (cases v)
        case None
        then show thesis using idle eq 2 m by simp
      next
        case (Some u)
        show thesis
        proof (cases rule: load_doc_cases [of Y H key])
          case (1 x)
          then show thesis using idle eq 2 m Some by simp
        next
          case (2 d)
          then show thesis using update [of u d] ok eq \<open>classify_message Y bs = 2\<close> m Some by simp
        qed
      qed
    qed
  next
    case 3
    then show thesis using aware eq by (simp add: sync_distribute_def)
  next
    case 4
    then show thesis using idle eq by simp
  qed
qed

lemma send_ack_simps:
  "fst (send_ack i o') = (if i \<noteq> RNil \<and> (o' = Recorded \<or> o' = Applied) then [Transmit (RHash [(''ack'', i)])] else [])"
  "snd (send_ack i o') = Inr ()"
  by (auto simp: send_ack_def)

text \<open>The whole message.\<close>

lemma sync_receive_cases:
  fixes Y :: "('d, 'u, 'v) yrs"
  defines "k \<equiv> (\<lambda>iv key :: bytes option. case key of None \<Rightarrow> iv | Some _ \<Rightarrow> key)"
  obtains (idle) "idle_calls (fst (snd (sync_receive Y K H iv data key)))"
  | (frame) h enc bs where "data = RHash h" "rb_get h ''update'' = RStr enc"
      "strict_decode64 enc = Some bs"
      "snd (sync_receive Y K H iv data key) =
         bind (handle_frame Y K H (k iv key) enc bs) (send_ack (rb_get h ''id''))"
proof (cases data)
  case (RHash h)
  show thesis
  proof (cases "rb_get h ''update''")
    case (RStr enc)
    show thesis
    proof (cases "strict_decode64 enc")
      case None
      then show thesis using RHash RStr idle by (simp add: sync_receive_def Let_def)
    next
      case (Some bs)
      show thesis
      proof (cases "(case max_frame_bytes K of None \<Rightarrow> False
                     | Some cap \<Rightarrow> encoded_cap cap < length enc)
                  \<or> (case max_frame_bytes K of None \<Rightarrow> False | Some cap \<Rightarrow> cap < length bs)")
        case True
        then show thesis using RHash RStr Some idle by (auto simp: sync_receive_def Let_def)
      next
        case False
        then show thesis using RHash RStr Some frame [of h enc bs]
          by (simp add: sync_receive_def Let_def k_def)
      qed
    qed
  qed (use RHash idle in \<open>simp_all add: sync_receive_def Let_def\<close>)
qed (use idle in \<open>simp_all add: sync_receive_def Let_def\<close>)

subsection \<open>Frames within the cap, on a configured channel\<close>

definition fits :: "channel_class \<Rightarrow> bytes \<Rightarrow> bool" where
  "fits K f \<longleftrightarrow> (case max_frame_bytes K of None \<Rightarrow> True | Some cap \<Rightarrow> length f \<le> cap)"

definition configured :: "channel_class \<Rightarrow> bytes \<Rightarrow> bool" where
  "configured K key \<longleftrightarrow> has_on_load K \<and> has_on_change K \<and> key \<noteq> []"

lemma sync_receive_frame:
  assumes "fits K f" and "rb_get h ''update'' = RStr (strict_encode64 f)"
  shows "snd (sync_receive Y K H iv (RHash h) (Some key)) =
    bind (handle_frame Y K H (Some key) (strict_encode64 f) f) (send_ack (rb_get h ''id''))"
proof -
  have "\<not> (case max_frame_bytes K of None \<Rightarrow> False
      | Some cap \<Rightarrow> encoded_cap cap < length (strict_encode64 f))"
    "\<not> (case max_frame_bytes K of None \<Rightarrow> False | Some cap \<Rightarrow> cap < length f)"
    using assms(1) by (auto simp: fits_def length_strict_encode64 encoded_cap_def split: option.splits)
  with assms(2) show ?thesis
    by (simp add: sync_receive_def Let_def strict_decode_encode split del: option.split)
qed

lemma handle_frame_update:
  assumes "configured K key" and "reader_law Y"
    and "y_read Y f = Inr (SyncUpdate u, []) \<or> y_read Y f = Inr (SyncStep2 u, [])"
    and "y_decode_update Y u = Inr v" and "\<not> is_noop Y v" and "load_doc Y H (Some key) = ret d"
  shows "handle_frame Y K H (Some key) enc f = handle_update Y H (Some key) enc u d"
proof -
  have "classify_message Y f = 2" using assms(3) by (auto simp: classify_message_def)
  moreover have "merged_doc_update Y f = Inr (Some u)"
    using merged_doc_update_single [OF assms(2,3)] assms(4,5) by simp
  ultimately show ?thesis using assms(1,6)
    by (simp add: handle_frame_def validate_required_hooks_def validate_key_def configured_def)
qed

lemma handle_frame_step1:
  assumes "configured K key" and "y_read Y f = Inr (SyncStep1 sv, [])"
    and "load_doc Y H (Some key) = ret d" and "integrated_update Y d sv = Inr u"
  shows "handle_frame Y K H (Some key) enc f =
    ([Transmit (envelope (strict_encode64 (y_write Y (SyncStep2 u))))], Inr Noop)"
  using assms
  by (simp add: handle_frame_def validate_required_hooks_def validate_key_def configured_def
      classify_message_def handle_sync_message_def sync_transmit_def emit_def ret_def)

lemma handle_update_accepts:
  assumes "update_is_ready Y d u = Inr True" and "update_advances_doc Y d u = Inr True"
    and "on_change H key u = None"
  shows "handle_update Y H (Some key) enc u d =
    ([OnChange key u, Broadcast (stream_name (Some key)) (envelope enc)], Inr Recorded)"
  using assms by (simp add: handle_update_def record_change_def sync_distribute_def ret_def emit_def)

end
