(* ===== verification/Delivery.thy ===== *)
theory Delivery
  imports Server_Cases Session Reliable_Sync_Props
begin

text \<open>
  The two ends together: one client's delivery queue, a network that may lose, repeat and reorder
  messages, and the server processes over one audit log.

  Any message the queue ever sent may arrive, any number of times, and so may any message of another
  client; each is handled by the channel's code on a document loaded from some prefix of the log (the
  processes share nothing else, so a load may be stale by the time the update is recorded). An
  acknowledgement the server transmitted may arrive any number of times.
\<close>

record world =
  cl :: reliable_sync
  wire :: "(bytes \<times> int) list"
  acks :: "int list"
  log :: "bytes list"
  casts :: "bytes list"
  made :: "(int \<times> bytes) list"

text \<open>The envelope of an update frame, as the channel's action receives it.\<close>

definition frame_data :: "bytes \<Rightarrow> int \<Rightarrow> rb_value" where
  "frame_data f i = RHash [(''update'', RStr (strict_encode64 f)), (''id'', RInt i)]"

definition wire_data :: "('d, 'a) api \<Rightarrow> bytes \<Rightarrow> int \<Rightarrow> rb_value" where
  "wire_data A t i = frame_data (frameUpdate A t) i"

definition sent :: "rs_call list \<Rightarrow> (bytes \<times> int) list" where
  "sent cs = List.map_filter (\<lambda>c. case c of Send t i \<Rightarrow> Some (t, i) | _ \<Rightarrow> None) cs"

definition acked_ids :: "server_call list \<Rightarrow> int list" where
  "acked_ids cs =
     List.map_filter (\<lambda>c. case c of
        Transmit (RHash [(k, RInt i)]) \<Rightarrow> if k = ''ack'' then Some i else None | _ \<Rightarrow> None) cs"

definition relayed :: "server_call list \<Rightarrow> bytes list" where
  "relayed cs =
     List.map_filter (\<lambda>c. case c of
        Broadcast _ (RHash [(k, RStr e)]) \<Rightarrow> if k = ''update'' then Some e else None | _ \<Rightarrow> None) cs"

text \<open>What the recorder stored: the change handed to it, unless it raised.\<close>

definition stored :: "rb_error option \<Rightarrow> server_call list \<Rightarrow> bytes list" where
  "stored fault cs =
     (if fault = None then List.map_filter (\<lambda>c. case c of OnChange _ u \<Rightarrow> Some u | _ \<Rightarrow> None) cs else [])"

definition serve ::
  "('d, 'u, 'v) yrs \<Rightarrow> channel_class \<Rightarrow> bytes \<Rightarrow> rb_error option \<Rightarrow> bytes list \<Rightarrow> rb_value
   \<Rightarrow> server_call list" where
  "serve Y K key fault seen data =
     fst (snd (sync_receive Y K (audit_hooks Y fault (file_of seen)) None data (Some key)))"

definition client_step :: "(bytes list \<Rightarrow> js_error + bytes) \<Rightarrow> rs_event \<Rightarrow> world \<Rightarrow> world" where
  "client_step M e w =
     (let r = rs_step M e (cl w)
      in w\<lparr>cl := post r, wire := wire w @ sent (calls r),
           made := made w @ (case ev_input e of Enqueue u \<Rightarrow> [(nextSeq (cl w), u)] | _ \<Rightarrow> [])\<rparr>)"

definition server_step ::
  "('d, 'u, 'v) yrs \<Rightarrow> channel_class \<Rightarrow> bytes \<Rightarrow> rb_error option \<Rightarrow> nat \<Rightarrow> rb_value \<Rightarrow> world \<Rightarrow> world" where
  "server_step Y K key fault n data w =
     (let cs = serve Y K key fault (take n (log w)) data
      in w\<lparr>log := log w @ stored fault cs, casts := casts w @ relayed cs\<rparr>)"

definition own_step ::
  "('d, 'u, 'v) yrs \<Rightarrow> channel_class \<Rightarrow> bytes \<Rightarrow> rb_error option \<Rightarrow> nat \<Rightarrow> rb_value \<Rightarrow> world \<Rightarrow> world" where
  "own_step Y K key fault n data w =
     (server_step Y K key fault n data w)
       \<lparr>acks := acks w @ acked_ids (serve Y K key fault (take n (log w)) data)\<rparr>"

inductive reachable ::
  "('d, 'a) api \<Rightarrow> ('e, 'u, 'v) yrs \<Rightarrow> channel_class \<Rightarrow> bytes \<Rightarrow> world \<Rightarrow> bool"
  for A :: "('d, 'a) api" and Y :: "('e, 'u, 'v) yrs" and K :: channel_class and key :: bytes
where
  start: "new_ReliableSync opts = Inr s \<Longrightarrow>
    reachable A Y K key \<lparr>cl = s, wire = [], acks = [], log = [], casts = [], made = []\<rparr>"
| client: "reachable A Y K key w \<Longrightarrow> ev_input e \<noteq> Destroy \<Longrightarrow> (\<And>v. ev_input e \<noteq> Ack v) \<Longrightarrow>
    reachable A Y K key (client_step (mergeUpdates A) e w)"
| arrives: "reachable A Y K key w \<Longrightarrow> (t, i) \<in> set (wire w) \<Longrightarrow> n \<le> length (log w) \<Longrightarrow>
    reachable A Y K key (own_step Y K key fault n (wire_data A t i) w)"
| foreign: "reachable A Y K key w \<Longrightarrow> n \<le> length (log w) \<Longrightarrow>
    reachable A Y K key (server_step Y K key fault n data w)"
| ack_arrives: "reachable A Y K key w \<Longrightarrow> i \<in> set (acks w) \<Longrightarrow> ev_input e = Ack (JInt i) \<Longrightarrow>
    reachable A Y K key (client_step (mergeUpdates A) e w)"

subsection \<open>What the theorems assume\<close>

text \<open>yrs reads the frame the client's packages write, and a client's merge carries what it merges.\<close>

definition frames_agree :: "('d, 'a) api \<Rightarrow> ('e, 'u, 'v) yrs \<Rightarrow> bool" where
  "frames_agree A Y \<longleftrightarrow> (\<forall>t. y_read Y (frameUpdate A t) = Inr (SyncUpdate t, []))"

definition merge_agrees :: "('d, 'a) api \<Rightarrow> ('e, 'u, 'v) yrs \<Rightarrow> ('u \<Rightarrow> 'o set) \<Rightarrow> bool" where
  "merge_agrees A Y uc \<longleftrightarrow>
     (\<forall>us t v. mergeUpdates A us = Inr t \<and> y_decode_update Y t = Inr v \<longrightarrow>
        (\<forall>x\<in>set us. bytes_content Y uc x \<subseteq> uc v))"

text \<open>The operations in the document the store rebuilds.\<close>

definition durable :: "('d, 'u, 'v) yrs \<Rightarrow> ('d \<Rightarrow> 'o set) \<Rightarrow> world \<Rightarrow> 'o set" where
  "durable Y dc w = dc (fst (replayed Y (log w)))"

subsection \<open>The server's share\<close>

lemma stored_simps [simp]:
  "stored f [] = []"
  "stored f (Broadcast s v # cs) = stored f cs"
  "stored f (OnChange k u # cs) = (if f = None then u # stored f cs else stored f cs)"
  "stored f (Transmit v # cs) = stored f cs"
  by (simp_all add: stored_def List.map_filter_simps)

lemma relayed_simps [simp]:
  "relayed [] = []"
  "relayed (Broadcast s (envelope e) # cs) = e # relayed cs"
  "relayed (OnChange k u # cs) = relayed cs"
  "relayed (Transmit v # cs) = relayed cs"
  by (simp_all add: relayed_def List.map_filter_simps envelope_def)

lemma acked_simps [simp]:
  "acked_ids [] = []"
  "acked_ids (Broadcast s v # cs) = acked_ids cs"
  "acked_ids (OnChange k u # cs) = acked_ids cs"
  "acked_ids (Transmit (envelope e) # cs) = acked_ids cs"
  "acked_ids (Transmit (RHash [(''ack'', RInt i)]) # cs) = i # acked_ids cs"
  by (simp_all add: acked_ids_def List.map_filter_simps envelope_def)

lemma idle_effects:
  assumes "idle_calls cs"
  shows "stored f cs = []" and "relayed cs = []" and "acked_ids cs = []"
  using assms
  by (induction cs)
    (auto simp: idle_calls_def is_ack_def stored_def relayed_def acked_ids_def List.map_filter_simps
      split: server_call.splits rb_value.splits list.splits)

lemma audit_hooks_on_change [simp]: "on_change (audit_hooks Y f file) k u = f"
  by (cases f) (simp_all add: audit_hooks_def audit_record_def)

text \<open>Whatever message is handled on whatever prefix, the log stays good and covers what is relayed.\<close>

definition relay_covered :: "('d, 'u, 'v) yrs \<Rightarrow> ('u \<Rightarrow> 'o set) \<Rightarrow> 'o set \<Rightarrow> bytes \<Rightarrow> bool" where
  "relay_covered Y uc S e \<longleftrightarrow>
     (\<forall>f u. strict_decode64 e = Some f
        \<and> (y_read Y f = Inr (SyncUpdate u, []) \<or> y_read Y f = Inr (SyncStep2 u, []))
        \<longrightarrow> bytes_content Y uc u \<subseteq> S)"

lemma merged_payload:
  assumes "reader_law Y" and "y_read Y bs = Inr (SyncUpdate w, []) \<or> y_read Y bs = Inr (SyncStep2 w, [])"
    and "merged_doc_update Y bs = Inr (Some u)"
  shows "u = w" and "\<exists>x. y_decode_update Y u = Inr x"
  using merged_doc_update_single [OF assms(1,2)] assms(3)
  by (cases "y_decode_update Y w"; auto split: if_splits)+

lemma serve_effect:
  fixes K :: channel_class and key :: bytes and fault :: "rb_error option" and data :: rb_value
  assumes L: "yrs_laws Y D dc uc" and R: "reader_law Y" and ok: "log_ok Y D dc us" and n: "n \<le> length us"
  defines "cs \<equiv> serve Y K key fault (take n us) data"
  shows "log_ok Y D dc (us @ stored fault cs)"
    and "dc (fst (replayed Y us)) \<subseteq> dc (fst (replayed Y (us @ stored fault cs)))"
    and "e \<in> set (relayed cs) \<Longrightarrow> relay_covered Y uc (dc (fst (replayed Y (us @ stored fault cs)))) e"
    and "data = frame_data f i \<Longrightarrow> y_read Y f = Inr (SyncUpdate t, []) \<Longrightarrow> j \<in> set (acked_ids cs) \<Longrightarrow>
      j = i \<and> (\<exists>v. y_decode_update Y t = Inr v)
      \<and> bytes_content Y uc t \<subseteq> dc (fst (replayed Y (us @ stored fault cs)))"
proof -
  let ?H = "audit_hooks Y fault (file_of (take n us))"
  let ?goal = "log_ok Y D dc (us @ stored fault cs)
    \<and> dc (fst (replayed Y us)) \<subseteq> dc (fst (replayed Y (us @ stored fault cs)))
    \<and> (\<forall>e\<in>set (relayed cs). relay_covered Y uc (dc (fst (replayed Y (us @ stored fault cs)))) e)
    \<and> (\<forall>f t i j. data = frame_data f i \<longrightarrow> y_read Y f = Inr (SyncUpdate t, []) \<longrightarrow> j \<in> set (acked_ids cs) \<longrightarrow>
      j = i \<and> (\<exists>v. y_decode_update Y t = Inr v)
      \<and> bytes_content Y uc t \<subseteq> dc (fst (replayed Y (us @ stored fault cs))))"
  have quiet: ?goal if "stored fault cs = []" "relayed cs = []" "acked_ids cs = []"
    using that ok by simp
  have ?goal
  proof (cases rule: sync_receive_cases [of Y K ?H None data "Some key"])
    case idle
    then have "idle_calls cs" by (simp add: cs_def serve_def)
    then show ?thesis using quiet idle_effects by blast
  next
    case (frame h enc bs)
    then have cs: "cs = fst (bind (handle_frame Y K ?H (Some key) enc bs) (send_ack (rb_get h ''id'')))"
      by (simp add: cs_def serve_def)
    show ?thesis
    proof (cases rule: handle_frame_cases [of Y K ?H "Some key" enc bs])
      case idle
      have "idle_calls cs"
      proof (cases "snd (handle_frame Y K ?H (Some key) enc bs)")
        case (Inl x)
        then show ?thesis using idle by (simp add: cs bind_def)
      next
        case (Inr v)
        with idle(2) have "v = Noop" by simp
        then show ?thesis using Inr idle(1) by (simp add: cs bind_def send_ack_simps)
      qed
      then show ?thesis using quiet idle_effects by blast
    next
      case aware
      then have "cs = [Broadcast (stream_name (Some key)) (envelope enc)]"
        by (simp add: cs send_ack_simps)
      moreover have "\<not> (y_read Y bs = Inr (SyncUpdate u, []) \<or> y_read Y bs = Inr (SyncStep2 u, []))" for u
        using aware(1) by (auto simp: classify_message_def)
      ultimately show ?thesis using frame(3) ok by (simp add: relay_covered_def)
    next
      case (update u d)
      obtain d' where d': "load_doc Y ?H (Some key) = ret d'" "good_doc Y D d'"
        "dc d' = dc (fst (replayed Y (take n us)))"
        using load_doc_audit [OF L ok n] by blast
      with update have d: "good_doc Y D d" "dc d = dc (fst (replayed Y (take n us)))"
        by (simp_all add: ret_def)
      obtain w where w: "y_read Y bs = Inr (SyncUpdate w, []) \<or> y_read Y bs = Inr (SyncStep2 w, [])"
        using classify_update [OF update(1)] by blast
      note u = merged_payload [OF R w update(2)]
      have cover: "relay_covered Y uc S enc" if "bytes_content Y uc u \<subseteq> S" for S
        using w frame(3) that u(1) by (auto simp: relay_covered_def)
      have own: "t = u \<and> rb_get h ''id'' = RInt i"
        if "data = frame_data f i" and "y_read Y f = Inr (SyncUpdate t, [])" for f t i
      proof -
        have "h = [(''update'', RStr (strict_encode64 f)), (''id'', RInt i)]"
          using frame(1) that(1) by (simp add: frame_data_def)
        with frame(2,3) have "bs = f" and i: "rb_get h ''id'' = RInt i"
          by (auto simp: rb_get_def strict_decode_encode)
        then show ?thesis using w u(1) that(2) by auto
      qed
      have own': "j = i \<and> (\<exists>v. y_decode_update Y t = Inr v) \<and> bytes_content Y uc t \<subseteq> S"
        if "data = frame_data f i" and "y_read Y f = Inr (SyncUpdate t, [])" and "bytes_content Y uc u \<subseteq> S"
          and "j \<in> set (acked_ids (fst (send_ack (rb_get h ''id'') out)))" for f t i j S out
        using own [OF that(1,2)] that(3,4) u(2) by (auto simp: send_ack_simps split: if_splits)
      have sends: "stored f (fst (send_ack i out)) = []" "relayed (fst (send_ack i out)) = []"
        for f i out by (simp_all add: send_ack_simps relayed_def List.map_filter_simps)
      show ?thesis
      proof (cases rule: handle_update_cases [of Y ?H "Some key" enc u d])
        case (failed x)
        then show ?thesis using quiet by (simp add: cs update)
      next
        case gap
        then show ?thesis using quiet by (simp add: cs update send_ack_simps)
      next
        case retry
        have in_log: "bytes_content Y uc u \<subseteq> dc (fst (replayed Y us))"
          using not_advancing_contained [OF L d(1) retry(1,2)] d(2) ok n unfolding log_ok_def by blast
        have "cs = Broadcast (stream_name (Some key)) (envelope enc)
            # fst (send_ack (rb_get h ''id'') Applied)"
          using retry by (simp add: cs update)
        then show ?thesis using in_log ok cover own' by (simp add: sends)
      next
        case (refused x)
        have "cs = [OnChange key u]" using refused(4) by (simp add: cs update)
        moreover have "fault \<noteq> None" using refused(3) by simp
        ultimately have "stored fault cs = []" "relayed cs = []" "acked_ids cs = []" by simp_all
        then show ?thesis by (rule quiet)
      next
        case recorded
        note snoc = log_ok_snoc [OF L ok n d recorded(1)]
        have "fault = None" using recorded(3) by simp
        moreover have "cs = OnChange key u # Broadcast (stream_name (Some key)) (envelope enc)
            # fst (send_ack (rb_get h ''id'') Recorded)"
          using recorded(4) by (simp add: cs update)
        ultimately show ?thesis using snoc cover own' by (simp add: sends)
      qed
    qed
  qed
  then show "log_ok Y D dc (us @ stored fault cs)"
    and "dc (fst (replayed Y us)) \<subseteq> dc (fst (replayed Y (us @ stored fault cs)))"
    and "e \<in> set (relayed cs) \<Longrightarrow> relay_covered Y uc (dc (fst (replayed Y (us @ stored fault cs)))) e"
    and "data = frame_data f i \<Longrightarrow> y_read Y f = Inr (SyncUpdate t, []) \<Longrightarrow> j \<in> set (acked_ids cs) \<Longrightarrow>
      j = i \<and> (\<exists>v. y_decode_update Y t = Inr v)
      \<and> bytes_content Y uc t \<subseteq> dc (fst (replayed Y (us @ stored fault cs)))"
    by (blast, blast, blast, blast)
qed

subsection \<open>The client's share\<close>

lemma flush_ref_sent:
  assumes "Send t i \<in> set (calls (flush_ref E s))"
  shows "pending s \<noteq> [] \<and> i = p_seq (last (pending s)) \<and> tail_of (merge E) s = Inr t"
  using assms by (auto simp: flush_ref_def Let_def split: if_splits sum.splits)

lemma timer_not_sent:
  "Send t i \<notin> set (calls (startTimer E s))" "Send t i \<notin> set (calls (stopTimer s))"
  by (auto simp: startTimer_def stopTimer_def split: option.splits)

lemma startTimer_tail: "tail_of M (post (startTimer E s)) = tail_of M s"
  by (simp add: tail_of_def)

lemma rs_handle_ref_sent:
  assumes "Send t i \<in> set (calls (rs_handle_ref E x s))"
  defines "s' \<equiv> post (rs_handle_ref E x s)"
  shows "pending s' \<noteq> [] \<and> i = p_seq (last (pending s')) \<and> tail_of (merge E) s' = Inr t"
  using assms(1) unfolding s'_def
  by (cases x)
    (auto simp: andThen_eq flush_ref_post timer_not_sent startTimer_tail dest: flush_ref_sent
      split: if_splits)

text \<open>Whatever is sent is the whole queue, tagged with its newest number.\<close>

lemma rs_step_sent:
  assumes inv: "rs_inv M s" and "Send t i \<in> set (calls (rs_step M e s))"
  defines "s' \<equiv> post (rs_step M e s)"
  shows "pending s' \<noteq> [] \<and> i = p_seq (last (pending s')) \<and> tail_of M s' = Inr t"
proof -
  let ?E = "ev_env M e"
  have sim: "forget_cache s' = post (rs_handle_ref ?E (ev_input e) (forget_cache s))"
    "calls (rs_step M e s) = calls (rs_handle_ref ?E (ev_input e) (forget_cache s))"
    using rs_handle_simulates [of ?E "ev_input e"] inv
    by (simp_all add: simulates_def s'_def rs_step_def rs_inv_def)
  have "Send t i \<in> set (calls (rs_handle_ref ?E (ev_input e) (forget_cache s)))"
    using assms(2) sim(2) by simp
  from rs_handle_ref_sent [OF this] show ?thesis
    by (simp add: sim(1) [symmetric])
qed

lemma in_sent: "(t, i) \<in> set (sent cs) \<longleftrightarrow> Send t i \<in> set cs"
  by (induction cs) (auto simp: sent_def List.map_filter_simps split: rs_call.splits)

lemma tail_content:
  assumes "merge_agrees A Y uc" and "tail_of (mergeUpdates A) s = Inr t" and "p \<in> set (pending s)"
    and "y_decode_update Y t = Inr v"
  shows "bytes_content Y uc (p_update p) \<subseteq> bytes_content Y uc t"
proof (cases "length (pending s) = 1")
  case True
  then obtain q where "pending s = [q]" by (cases "pending s") auto
  with assms(2,3) show ?thesis by (simp add: tail_of_def Let_def)
next
  case False
  with assms(2) have "mergeUpdates A (map p_update (pending s)) = Inr t" by (simp add: tail_of_def Let_def)
  with assms(1,3,4) show ?thesis unfolding merge_agrees_def bytes_content_def by force
qed

subsection \<open>The invariant\<close>

definition covered :: "('d, 'u, 'v) yrs \<Rightarrow> ('d \<Rightarrow> 'o set) \<Rightarrow> ('u \<Rightarrow> 'o set) \<Rightarrow> world \<Rightarrow> bytes \<Rightarrow> bool" where
  "covered Y dc uc w u \<longleftrightarrow> bytes_content Y uc u \<subseteq> durable Y dc w"

definition edits_kept :: "('d, 'u, 'v) yrs \<Rightarrow> ('d \<Rightarrow> 'o set) \<Rightarrow> ('u \<Rightarrow> 'o set) \<Rightarrow> world \<Rightarrow> bool" where
  "edits_kept Y dc uc w \<longleftrightarrow>
     (\<forall>(j, u)\<in>set (made w). seq_before j (nextSeq (cl w))
        \<and> (\<lparr>p_seq = j, p_update = u\<rparr> \<in> set (pending (cl w)) \<or> covered Y dc uc w u))"

definition wire_kept :: "('d, 'u, 'v) yrs \<Rightarrow> ('d \<Rightarrow> 'o set) \<Rightarrow> ('u \<Rightarrow> 'o set) \<Rightarrow> world \<Rightarrow> bool" where
  "wire_kept Y dc uc w \<longleftrightarrow>
     (\<forall>(t, i)\<in>set (wire w). i < 2 ^ 53 \<longrightarrow> i < nextSeq (cl w)
        \<and> (\<forall>v. y_decode_update Y t = Inr v \<longrightarrow>
             (\<forall>(j, u)\<in>set (made w). j \<le> i \<longrightarrow>
                bytes_content Y uc u \<subseteq> bytes_content Y uc t \<or> covered Y dc uc w u)))"

definition acks_kept :: "('d, 'u, 'v) yrs \<Rightarrow> ('d \<Rightarrow> 'o set) \<Rightarrow> ('u \<Rightarrow> 'o set) \<Rightarrow> world \<Rightarrow> bool" where
  "acks_kept Y dc uc w \<longleftrightarrow>
     (\<forall>i\<in>set (acks w). i < 2 ^ 53 \<longrightarrow> i < nextSeq (cl w)
        \<and> (\<forall>(j, u)\<in>set (made w). j \<le> i \<longrightarrow> covered Y dc uc w u))"

definition world_inv ::
  "('d, 'a) api \<Rightarrow> ('e, 'u, 'v) yrs \<Rightarrow> ('e \<Rightarrow> bool) \<Rightarrow> ('e \<Rightarrow> 'o set) \<Rightarrow> ('u \<Rightarrow> 'o set) \<Rightarrow> world \<Rightarrow> bool" where
  "world_inv A Y D dc uc w \<longleftrightarrow>
     log_ok Y D dc (log w) \<and> rs_inv (mergeUpdates A) (cl w)
     \<and> edits_kept Y dc uc w \<and> wire_kept Y dc uc w \<and> acks_kept Y dc uc w
     \<and> (\<forall>e\<in>set (casts w). relay_covered Y uc (durable Y dc w) e)"

text \<open>More in the log never uncovers anything.\<close>

lemma kept_mono:
  assumes "durable Y dc w \<subseteq> durable Y dc w'" and "cl w' = cl w" and "made w' = made w"
  shows "edits_kept Y dc uc w \<Longrightarrow> edits_kept Y dc uc w'"
    and "wire w' = wire w \<Longrightarrow> wire_kept Y dc uc w \<Longrightarrow> wire_kept Y dc uc w'"
    and "acks w' = acks w \<Longrightarrow> acks_kept Y dc uc w \<Longrightarrow> acks_kept Y dc uc w'"
  using assms unfolding edits_kept_def wire_kept_def acks_kept_def covered_def
  by (fastforce, fastforce, fastforce)

lemma relay_covered_mono: "S \<subseteq> T \<Longrightarrow> relay_covered Y uc S e \<Longrightarrow> relay_covered Y uc T e"
  unfolding relay_covered_def by blast

lemma server_step_inv:
  fixes K :: channel_class and key :: bytes and fault :: "rb_error option" and data :: rb_value
  assumes L: "yrs_laws Y D dc uc" and R: "reader_law Y" and n: "n \<le> length (log w)"
    and inv: "world_inv A Y D dc uc w"
  defines "w' \<equiv> server_step Y K key fault n data w"
  shows "world_inv A Y D dc uc w'" and "durable Y dc w \<subseteq> durable Y dc w'"
proof -
  let ?cs = "serve Y K key fault (take n (log w)) data"
  have ok: "log_ok Y D dc (log w)" using inv by (simp add: world_inv_def)
  note eff = serve_effect [OF L R ok n, where K = K and key = key and fault = fault and data = data]
  have w': "log w' = log w @ stored fault ?cs" "casts w' = casts w @ relayed ?cs" "cl w' = cl w"
    "made w' = made w" "wire w' = wire w" "acks w' = acks w"
    by (simp_all add: w'_def server_step_def Let_def)
  show grow: "durable Y dc w \<subseteq> durable Y dc w'"
    using eff(2) by (simp add: durable_def w')
  have "relay_covered Y uc (durable Y dc w') e" if "e \<in> set (casts w')" for e
  proof (cases "e \<in> set (casts w)")
    case True
    then show ?thesis using inv grow relay_covered_mono unfolding world_inv_def by blast
  next
    case False
    then show ?thesis using eff(3) that by (simp add: w' durable_def)
  qed
  then show "world_inv A Y D dc uc w'"
    using inv kept_mono [OF grow w'(3,4), of uc] w' eff(1) by (simp add: world_inv_def)
qed

lemma own_step_inv:
  assumes L: "yrs_laws Y D dc uc" and R: "reader_law Y" and F: "frames_agree A Y"
    and n: "n \<le> length (log w)" and inv: "world_inv A Y D dc uc w" and ti: "(t, i) \<in> set (wire w)"
  shows "world_inv A Y D dc uc (own_step Y K key fault n (wire_data A t i) w)"
proof -
  let ?data = "wire_data A t i"
  let ?cs = "serve Y K key fault (take n (log w)) ?data"
  let ?w = "server_step Y K key fault n ?data w"
  let ?w' = "own_step Y K key fault n ?data w"
  have ok: "log_ok Y D dc (log w)" using inv by (simp add: world_inv_def)
  note srv = server_step_inv [OF L R n inv, where K = K and key = key and fault = fault and data = ?data]
  have w': "log ?w' = log ?w" "casts ?w' = casts ?w" "cl ?w' = cl ?w" "made ?w' = made ?w"
    "wire ?w' = wire ?w" "acks ?w' = acks ?w @ acked_ids ?cs" "cl ?w = cl w" "made ?w = made w"
    "log ?w = log w @ stored fault ?cs" "wire ?w = wire w"
    by (simp_all add: own_step_def server_step_def Let_def)
  have acked: "j < nextSeq (cl ?w') \<and> (\<forall>(k, u)\<in>set (made ?w'). k \<le> j \<longrightarrow> covered Y dc uc ?w' u)"
    if "j \<in> set (acked_ids ?cs)" and less: "j < 2 ^ 53" for j
  proof -
    have "y_read Y (frameUpdate A t) = Inr (SyncUpdate t, [])" using F by (simp add: frames_agree_def)
    from serve_effect(4) [OF L R ok n wire_data_def this that(1)] obtain v where j: "j = i"
      and v: "y_decode_update Y t = Inr v" and sub: "bytes_content Y uc t \<subseteq> durable Y dc ?w'"
      by (auto simp: durable_def w')
    have "wire_kept Y dc uc ?w" using srv(1) by (simp add: world_inv_def)
    then have "i < nextSeq (cl ?w)
      \<and> (\<forall>(k, u)\<in>set (made ?w). k \<le> i \<longrightarrow> bytes_content Y uc u \<subseteq> bytes_content Y uc t \<or> covered Y dc uc ?w u)"
      using ti v less j unfolding wire_kept_def by (fastforce simp: w')
    then show ?thesis using sub by (fastforce simp: w' j covered_def durable_def)
  qed
  have same: "durable Y dc ?w' = durable Y dc ?w" by (simp add: durable_def w')
  then have "covered Y dc uc ?w' = covered Y dc uc ?w" by (simp add: fun_eq_iff covered_def)
  then have "edits_kept Y dc uc ?w'" "wire_kept Y dc uc ?w'" "acks_kept Y dc uc ?w'"
    using srv(1) acked unfolding world_inv_def edits_kept_def wire_kept_def acks_kept_def
    by (simp_all only: w'(1-5) w'(6)) auto
  then show ?thesis using srv(1) same by (simp add: world_inv_def w')
qed

subsection \<open>The client's steps\<close>

lemma rs_step_queue:
  assumes "ev_input e \<noteq> Destroy" and "\<And>v. ev_input e \<noteq> Ack v"
  shows "pending (post (rs_step M e s)) =
      pending s @ (case ev_input e of Enqueue u \<Rightarrow> [\<lparr>p_seq = nextSeq s, p_update = u\<rparr>] | _ \<Rightarrow> [])"
    and "nextSeq (post (rs_step M e s)) =
      (case ev_input e of Enqueue u \<Rightarrow> js_incr (nextSeq s) | _ \<Rightarrow> nextSeq s)"
  using assms by (cases "ev_input e"; simp add: rs_step_def onTick_eq)+

lemma nextSeq_grows:
  assumes "ev_input e \<noteq> Destroy" and "\<And>v. ev_input e \<noteq> Ack v"
  shows "nextSeq s \<le> nextSeq (post (rs_step M e s))"
  using rs_step_queue(2) [OF assms, of M s] by (auto simp: js_incr_ge split: rs_input.splits)

text \<open>The number of a new edit is above every number the wire or an acknowledgement carries.\<close>

lemma client_step_inv:
  assumes merge: "merge_agrees A Y uc" and inv: "world_inv A Y D dc uc w"
    and e: "ev_input e \<noteq> Destroy" "\<And>v. ev_input e \<noteq> Ack v"
  shows "world_inv A Y D dc uc (client_step (mergeUpdates A) e w)"
proof -
  let ?M = "mergeUpdates A"
  let ?w = "client_step ?M e w"
  let ?r = "rs_step ?M e (cl w)"
  let ?new = "case ev_input e of Enqueue u \<Rightarrow> [(nextSeq (cl w), u)] | _ \<Rightarrow> []"
  have w': "cl ?w = post ?r" "wire ?w = wire w @ sent (calls ?r)" "acks ?w = acks w" "log ?w = log w"
    "casts ?w = casts w" "made ?w = made w @ ?new"
    by (simp_all add: client_step_def Let_def)
  have parts: "log_ok Y D dc (log w)" "rs_inv ?M (cl w)" "edits_kept Y dc uc w" "wire_kept Y dc uc w"
    "acks_kept Y dc uc w" "\<forall>e\<in>set (casts w). relay_covered Y uc (durable Y dc w) e"
    using inv by (simp_all add: world_inv_def)
  have same: "durable Y dc ?w = durable Y dc w" by (simp add: durable_def w')
  have cov: "covered Y dc uc ?w u = covered Y dc uc w u" for u by (simp add: covered_def same)
  have rs: "rs_inv ?M (cl ?w)" using rs_step_inv [OF parts(2)] by (simp add: w')
  have seqs: "seqs_ok (cl ?w)" "seqs_ok (cl w)" using rs parts(2) by (simp_all add: rs_inv_def)
  note queue = rs_step_queue [OF e, of ?M "cl w"]
  have grow: "nextSeq (cl w) \<le> nextSeq (cl ?w)" using nextSeq_grows [OF e] by (simp add: w')
  have new: "j = nextSeq (cl w) \<and> seq_before j (nextSeq (cl ?w))
      \<and> \<lparr>p_seq = j, p_update = u\<rparr> \<in> set (pending (cl ?w))" if "(j, u) \<in> set ?new" for j u
    using that queue seqs(2) seq_before_incr [of "nextSeq (cl w)"]
    by (auto simp: w' seqs_ok_def split: rs_input.splits)
  have edits: "edits_kept Y dc uc ?w"
    unfolding edits_kept_def
  proof (intro ballI, clarify)
    fix j u assume ju: "(j, u) \<in> set (made ?w)"
    show "seq_before j (nextSeq (cl ?w))
      \<and> (\<lparr>p_seq = j, p_update = u\<rparr> \<in> set (pending (cl ?w)) \<or> covered Y dc uc ?w u)"
    proof (cases "(j, u) \<in> set (made w)")
      case True
      then have "seq_before j (nextSeq (cl w))"
        and "\<lparr>p_seq = j, p_update = u\<rparr> \<in> set (pending (cl w)) \<or> covered Y dc uc w u"
        using parts(3) by (auto simp: edits_kept_def)
      moreover have "seq_before j (nextSeq (cl ?w))" if "seq_before j (nextSeq (cl w))"
        using that grow seqs(1) by (auto simp: seq_before_def seqs_ok_def)
      ultimately show ?thesis using queue(1) by (auto simp: cov w')
    next
      case False
      with ju have "(j, u) \<in> set ?new" using w'(6) by auto
      then show ?thesis using new by blast
    qed
  qed
  have old: "\<not> nextSeq (cl w) \<le> i" if "i < nextSeq (cl w)" for i using that by simp
  have wires: "wire_kept Y dc uc ?w"
    unfolding wire_kept_def
  proof (intro ballI, clarify)
    fix t i
    assume ti: "(t, i) \<in> set (wire ?w)" and less: "i < 2 ^ 53"
    show "i < nextSeq (cl ?w) \<and> (\<forall>v. y_decode_update Y t = Inr v \<longrightarrow>
        (\<forall>(j, u)\<in>set (made ?w). j \<le> i \<longrightarrow>
           bytes_content Y uc u \<subseteq> bytes_content Y uc t \<or> covered Y dc uc ?w u))"
    proof (cases "(t, i) \<in> set (wire w)")
      case True
      then have i: "i < nextSeq (cl w)"
        and "\<forall>v. y_decode_update Y t = Inr v \<longrightarrow> (\<forall>(j, u)\<in>set (made w). j \<le> i \<longrightarrow>
           bytes_content Y uc u \<subseteq> bytes_content Y uc t \<or> covered Y dc uc w u)"
        using bspec [OF parts(4) [unfolded wire_kept_def] True] less by simp_all
      moreover have "\<not> j \<le> i" if "(j, u) \<in> set ?new" for j u
        using new [OF that] i by simp
      ultimately show ?thesis using grow by (auto simp: w'(6) cov)
    next
      case False
      then have "Send t i \<in> set (calls ?r)" using ti by (simp add: w'(2) in_sent)
      from rs_step_sent [OF parts(2) this] have ne: "pending (cl ?w) \<noteq> []"
        and i: "i = p_seq (last (pending (cl ?w)))" and t: "tail_of ?M (cl ?w) = Inr t"
        by (simp_all add: w'(1))
      have "seq_before i (nextSeq (cl ?w))" using seqs(1) ne i by (auto simp: seqs_ok_def)
      then have "i < nextSeq (cl ?w)" using less by (auto simp: seq_before_def)
      moreover have "bytes_content Y uc u \<subseteq> bytes_content Y uc t \<or> covered Y dc uc ?w u"
        if "(j, u) \<in> set (made ?w)" and "y_decode_update Y t = Inr v" for j u v
        using edits that tail_content [OF merge t _ that(2)] unfolding edits_kept_def by fastforce
      ultimately show ?thesis by blast
    qed
  qed
  have "acks_kept Y dc uc ?w"
    unfolding acks_kept_def
  proof (intro ballI impI)
    fix i assume "i \<in> set (acks ?w)" and less: "i < 2 ^ 53"
    then have i: "i < nextSeq (cl w)" and "\<forall>(j, u)\<in>set (made w). j \<le> i \<longrightarrow> covered Y dc uc w u"
      using parts(5) by (auto simp: acks_kept_def w')
    moreover have "\<not> j \<le> i" if "(j, u) \<in> set ?new" for j u using new [OF that] i by simp
    ultimately show "i < nextSeq (cl ?w) \<and> (\<forall>(j, u)\<in>set (made ?w). j \<le> i \<longrightarrow> covered Y dc uc ?w u)"
      using grow by (auto simp: w'(6) cov)
  qed
  then show ?thesis using parts rs edits wires same by (simp add: world_inv_def w')
qed

lemma ack_step_inv:
  assumes inv: "world_inv A Y D dc uc w" and i: "i \<in> set (acks w)" and e: "ev_input e = Ack (JInt i)"
  shows "world_inv A Y D dc uc (client_step (mergeUpdates A) e w)"
proof -
  let ?M = "mergeUpdates A"
  let ?w = "client_step ?M e w"
  have step: "rs_step ?M e (cl w) = onAck (JInt i) (cl w)" by (simp add: rs_step_def e)
  have nosend: "sent (calls (onAck (JInt i) (cl w))) = []"
    by (auto simp: onAck_def andThen_eq stopTimer_def sent_def List.map_filter_simps split: option.splits)
  have w': "cl ?w = post (onAck (JInt i) (cl w))" "wire ?w = wire w" "acks ?w = acks w" "log ?w = log w"
    "casts ?w = casts w" "made ?w = made w"
    by (simp_all add: client_step_def Let_def step e nosend)
  have parts: "log_ok Y D dc (log w)" "rs_inv ?M (cl w)" "edits_kept Y dc uc w" "wire_kept Y dc uc w"
    "acks_kept Y dc uc w" "\<forall>e\<in>set (casts w). relay_covered Y uc (durable Y dc w) e"
    using inv by (simp_all add: world_inv_def)
  have same: "durable Y dc ?w = durable Y dc w" by (simp add: durable_def w')
  have cov: "covered Y dc uc ?w u = covered Y dc uc w u" for u by (simp add: covered_def same)
  have rs: "rs_inv ?M (cl ?w)" using rs_step_inv [OF parts(2), of e] by (simp add: w' step)
  have "edits_kept Y dc uc ?w"
    unfolding edits_kept_def
  proof (intro ballI, clarify)
    fix j u assume "(j, u) \<in> set (made ?w)"
    then have ju: "(j, u) \<in> set (made w)" by (simp add: w')
    then have j: "seq_before j (nextSeq (cl w))"
      and kept: "\<lparr>p_seq = j, p_update = u\<rparr> \<in> set (pending (cl w)) \<or> covered Y dc uc w u"
      using parts(3) by (auto simp: edits_kept_def)
    have "covered Y dc uc w u" if "\<not> ack_invalid (JInt i) (cl w)" and "j \<le> i"
    proof -
      have "i < 2 ^ 53" using that(1) by (auto simp: ack_invalid_def max_safe_integer_def)
      then show ?thesis using parts(5) i ju that(2) unfolding acks_kept_def by fastforce
    qed
    then show "seq_before j (nextSeq (cl ?w))
      \<and> (\<lparr>p_seq = j, p_update = u\<rparr> \<in> set (pending (cl ?w)) \<or> covered Y dc uc ?w u)"
      using j kept by (cases "j \<le> i") (auto simp: w'(1) cov onAck_pending)
  qed
  moreover have "wire_kept Y dc uc ?w" "acks_kept Y dc uc ?w"
    using parts(4,5) by (simp_all add: wire_kept_def acks_kept_def w' cov)
  ultimately show ?thesis using parts rs same by (simp add: world_inv_def w')
qed

lemma reachable_inv:
  assumes "reachable A Y K key w" and L: "yrs_laws Y D dc uc" and R: "reader_law Y"
    and F: "frames_agree A Y" and merge: "merge_agrees A Y uc"
  shows "world_inv A Y D dc uc w"
  using assms(1)
proof induction
  case (start opts s)
  then show ?case using rs_inv_new [OF start] log_ok_Nil [OF L]
    by (simp add: world_inv_def edits_kept_def wire_kept_def acks_kept_def)
next
  case (client w e)
  then show ?case by (intro client_step_inv [OF merge])
next
  case (arrives w t i n fault)
  then show ?case by (intro own_step_inv [OF L R F])
next
  case (foreign w n fault data)
  then show ?case by (intro server_step_inv(1) [OF L R])
next
  case (ack_arrives w i e)
  then show ?case by (intro ack_step_inv)
qed

end
