(* ===== verification/Native_Instance.thy ===== *)
theory Native_Instance
  imports Native_Protocol Yjs_Instance
begin

text \<open>
  A concrete instance of the interface to the yrs crate, at which its hypotheses hold together. An
  operation is a byte: its high four bits name the client, its low four bits are its clock, and it
  needs every operation of its client with a smaller clock. An update is a list of operations (the
  byte 255 makes it malformed); a document is the operations it integrated and the ones it parks.
\<close>

type_synonym toy_doc = "bytes \<times> bytes"

definition toy_needs :: "byte \<Rightarrow> bytes" where
  "toy_needs b = map (\<lambda>k. b - of_nat (Suc k)) [0..<unat b mod 16]"

definition toy_sort :: "bytes \<Rightarrow> bytes" where
  "toy_sort bs = remdups (sort bs)"

definition toy_settle :: "bytes \<Rightarrow> toy_doc" where
  "toy_settle bs =
     (let all = toy_sort bs
      in (filter (\<lambda>b. set (toy_needs b) \<subseteq> set bs) all, filter (\<lambda>b. \<not> set (toy_needs b) \<subseteq> set bs) all))"

definition toy_decode :: "bytes \<Rightarrow> y_error + bytes" where
  "toy_decode bs = (if 255 \<in> set bs then Inl ''malformed update'' else Inr bs)"

definition toy_apply :: "bytes \<Rightarrow> toy_doc \<Rightarrow> y_error + toy_doc" where
  "toy_apply u d =
     (if 255 \<in> set u then Inl ''invalid update'' else Inr (toy_settle (fst d @ snd d @ u)))"

definition toy_lower :: "bytes \<Rightarrow> bytes" where
  "toy_lower u = filter (\<lambda>b. b \<notin> set u) (concat (map toy_needs u))"

definition toy_read :: "bytes \<Rightarrow> y_error + bytes y_message \<times> bytes" where
  "toy_read bs =
     (case get_uint bs of
        Inl _ \<Rightarrow> Inl ''unexpected end of buffer''
      | Inr (k, r) \<Rightarrow>
          if k = 0
          then (case get_uint r of
                  Inl _ \<Rightarrow> Inl ''unexpected end of buffer''
                | Inr (t, r') \<Rightarrow>
                    (case get_array r' of
                       Inl _ \<Rightarrow> Inl ''unexpected end of buffer''
                     | Inr (b, q) \<Rightarrow>
                         if t = 0 then Inr (SyncStep1 b, q) else if t = 1 then Inr (SyncStep2 b, q)
                         else if t = 2 then Inr (SyncUpdate b, q) else Inl ''unexpected value''))
          else if k = 1
          then (case get_array r of
                  Inl _ \<Rightarrow> Inl ''unexpected end of buffer'' | Inr (_, q) \<Rightarrow> Inr (AwarenessMsg, q))
          else if k = 3 then Inr (AwarenessQuery, r)
          else Inr (OtherMsg, []))"

text \<open>The reader run to the end of the buffer; every message takes at least one byte.\<close>

fun toy_messages :: "nat \<Rightarrow> bytes \<Rightarrow> y_error + bytes y_message list" where
  "toy_messages n [] = Inr []"
| "toy_messages 0 bs = Inl ''unexpected end of buffer''"
| "toy_messages (Suc n) bs =
     (case toy_read bs of Inl x \<Rightarrow> Inl x
      | Inr (m, r) \<Rightarrow> map_sum id ((#) m) (toy_messages n r))"

fun toy_write :: "bytes y_message \<Rightarrow> bytes" where
  "toy_write (SyncStep1 v) = [0, 0] @ put_array v"
| "toy_write (SyncStep2 u) = [0, 1] @ put_array u"
| "toy_write (SyncUpdate u) = [0, 2] @ put_array u"
| "toy_write AwarenessMsg = [1, 0]"
| "toy_write AwarenessQuery = [3]"
| "toy_write OtherMsg = [2]"

definition toy_yrs :: "(toy_doc, bytes, bytes) yrs" where
  "toy_yrs =
     \<lparr>y_read = toy_read,
      y_messages = (\<lambda>bs. toy_messages (length bs) bs),
      y_new = ([], []),
      y_decode_update = toy_decode,
      y_apply = toy_apply,
      y_merge = (\<lambda>us. Inr (toy_sort (concat us))),
      y_state_vector = fst,
      y_ge = (\<lambda>a b. set b \<subseteq> set a),
      y_empty_sv = [],
      u_state_vector = (\<lambda>u. fst (toy_settle u)),
      u_lower = toy_lower,
      u_has_deletes = (\<lambda>_. False),
      y_encode = (\<lambda>d v. filter (\<lambda>b. b \<notin> set v) (toy_sort (fst d @ snd d))),
      y_pending_update = (\<lambda>d. snd d \<noteq> []),
      y_pending_ds = (\<lambda>_. False),
      y_prune = (\<lambda>d. (fst d, [])),
      y_write = toy_write\<rparr>"

lemma toy_fields [simp]:
  "y_read toy_yrs = toy_read"
  "y_messages toy_yrs = (\<lambda>bs. toy_messages (length bs) bs)"
  "y_new toy_yrs = ([], [])"
  "y_decode_update toy_yrs = toy_decode"
  "y_apply toy_yrs = toy_apply"
  "y_merge toy_yrs = (\<lambda>us. Inr (toy_sort (concat us)))"
  "y_state_vector toy_yrs = fst"
  "y_ge toy_yrs = (\<lambda>a b. set b \<subseteq> set a)"
  "y_empty_sv toy_yrs = []"
  "u_state_vector toy_yrs = (\<lambda>u. fst (toy_settle u))"
  "u_lower toy_yrs = toy_lower"
  "u_has_deletes toy_yrs = (\<lambda>_. False)"
  "y_encode toy_yrs = (\<lambda>d v. filter (\<lambda>b. b \<notin> set v) (toy_sort (fst d @ snd d)))"
  "y_pending_update toy_yrs = (\<lambda>d. snd d \<noteq> [])"
  "y_pending_ds toy_yrs = (\<lambda>_. False)"
  "y_prune toy_yrs = (\<lambda>d. (fst d, []))"
  "y_write toy_yrs = toy_write"
  by (simp_all add: toy_yrs_def)

lemma toy_reader_law: "reader_law toy_yrs"
proof -
  have "toy_messages (length bs) bs = Inr [m]" if "toy_read bs = Inr (m, [])" for bs m
    using that by (cases bs) (auto simp: toy_read_def)
  then show ?thesis by (simp add: reader_law_def)
qed

text \<open>
  An update frame whose update is ready and new, one that leaves a gap, and a retry, against the
  document that holds the first operation of the first client.
\<close>

lemma toy_examples:
  "classify_message toy_yrs [0, 2, 1, 17] = 2"
  "merged_doc_update toy_yrs [0, 2, 1, 17] = Inr (Some [17])"
  "update_is_ready toy_yrs ([16], []) [17] = Inr True"
  "update_is_ready toy_yrs ([16], []) [18] = Inr False"
  "update_advances_doc toy_yrs ([16], []) [17] = Inr True"
  "update_advances_doc toy_yrs ([16], []) [16] = Inr False"
  "update_is_ready toy_yrs ([16], []) [16] = Inr True"
  by code_simp+

end
