(* ===== verification/Delivery_Instance.thy ===== *)
theory Delivery_Instance
  imports Delivery Native_Instance
begin

text \<open>
  The laws assumed of yrs and of the client's packages hold together at the concrete instances.
\<close>

definition toy_ok :: "toy_doc \<Rightarrow> bool" where
  "toy_ok d \<longleftrightarrow> toy_settle (fst d @ snd d) = d \<and> 255 \<notin> set (fst d @ snd d)"

definition toy_content :: "toy_doc \<Rightarrow> byte set" where
  "toy_content d = set (fst d)"

lemma toy_sort_set: "set (toy_sort bs) = set bs"
  by (simp add: toy_sort_def)

lemma toy_sort_cong: "set xs = set ys \<Longrightarrow> toy_sort xs = toy_sort ys"
  unfolding toy_sort_def by (rule sorted_distinct_set_unique) (simp_all add: sorted_remdups)

lemma toy_settle_cong: "set xs = set ys \<Longrightarrow> toy_settle xs = toy_settle ys"
  using toy_sort_cong [of xs ys] by (simp add: toy_settle_def)

lemma toy_settle_set: "set (fst (toy_settle bs)) \<union> set (snd (toy_settle bs)) = set bs"
  by (auto simp: toy_settle_def Let_def toy_sort_set)

lemma toy_settle_ok: "255 \<notin> set bs \<Longrightarrow> toy_ok (toy_settle bs)"
  using toy_settle_set [of bs] toy_settle_cong [of "fst (toy_settle bs) @ snd (toy_settle bs)" bs]
  by (auto simp: toy_ok_def)

lemma toy_pending [simp]: "has_pending toy_yrs d \<longleftrightarrow> snd d \<noteq> []"
  by (simp add: has_pending_def)

lemma toy_settled_iff: "snd (toy_settle bs) = [] \<longleftrightarrow> (\<forall>b\<in>set bs. set (toy_needs b) \<subseteq> set bs)"
  by (auto simp: toy_settle_def Let_def toy_sort_set filter_empty_conv)

lemma toy_ok_closed: "toy_ok d \<Longrightarrow> snd d = [] \<Longrightarrow> \<forall>b\<in>set (fst d). set (toy_needs b) \<subseteq> set (fst d)"
  using toy_settled_iff [of "fst d"] by (simp add: toy_ok_def)

lemma toy_yrs_laws: "yrs_laws toy_yrs toy_ok toy_content set"
  unfolding yrs_laws_def
proof (intro conjI allI impI; (elim conjE)?)
  show "toy_ok (y_new toy_yrs)" by (simp add: toy_ok_def toy_settle_def toy_sort_def)
  show "toy_content (y_new toy_yrs) = {}" by (simp add: toy_content_def)
  show "\<not> has_pending toy_yrs (y_new toy_yrs)" by simp
next
  fix u d d' assume "toy_ok d" and "y_apply toy_yrs u d = Inr d'"
  then show "toy_ok d'"
    by (auto simp: toy_apply_def toy_ok_def [of d] intro: toy_settle_ok split: if_splits)
next
  fix u d d' assume d: "toy_ok d" "y_apply toy_yrs u d = Inr d'" "\<not> has_pending toy_yrs d"
    "\<not> has_pending toy_yrs d'"
  then show "toy_content d \<union> set u \<subseteq> toy_content d'"
    using toy_settle_set [of "fst d @ snd d @ u"]
    by (auto simp: toy_apply_def toy_content_def split: if_splits)
next
  fix d assume d: "toy_ok d" "\<not> has_pending toy_yrs d"
  let ?u = "toy_sort (fst d)"
  have s: "toy_settle ?u = d"
    using d toy_settle_cong [of ?u "fst d"] by (simp add: toy_ok_def toy_sort_set)
  have "255 \<notin> set ?u" using d by (simp add: toy_ok_def toy_sort_set)
  then have "y_decode_update toy_yrs (y_encode toy_yrs d (y_empty_sv toy_yrs)) = Inr ?u
      \<and> y_apply toy_yrs ?u (y_new toy_yrs) = Inr d"
    using d s by (simp add: toy_decode_def toy_apply_def)
  then show "\<exists>u e. y_decode_update toy_yrs (y_encode toy_yrs d (y_empty_sv toy_yrs)) = Inr u
      \<and> y_apply toy_yrs u (y_new toy_yrs) = Inr e \<and> \<not> has_pending toy_yrs e \<and> toy_content e = toy_content d"
    using d by blast
next
  fix u d d' e
  assume d: "toy_ok d" "toy_ok e" "\<not> has_pending toy_yrs d" "\<not> has_pending toy_yrs e"
    "toy_content d \<subseteq> toy_content e" "y_apply toy_yrs u d = Inr d'" "\<not> has_pending toy_yrs d'"
  then have u: "255 \<notin> set u" and "\<forall>b\<in>set u. set (toy_needs b) \<subseteq> set (fst d) \<union> set u"
    using toy_settled_iff [of "fst d @ u"] by (auto simp: toy_apply_def split: if_splits)
  then have "\<forall>b\<in>set (fst e @ u). set (toy_needs b) \<subseteq> set (fst e @ u)"
    using d toy_ok_closed [of e] unfolding toy_content_def by fastforce
  then show "\<exists>e'. y_apply toy_yrs u e = Inr e' \<and> \<not> has_pending toy_yrs e'"
    using u d toy_settled_iff [of "fst e @ u"] by (simp add: toy_apply_def)
next
  fix u d d'
  assume "y_state_vector toy_yrs d = y_state_vector toy_yrs d'"
  then show "toy_content d' = toy_content d" by (simp add: toy_content_def)
next
  fix u assume "y_decode_update toy_yrs [] = Inr u"
  then show "set u = {}" by (simp add: toy_decode_def)
qed

lemma toy_frames_agree: "frames_agree demo_api toy_yrs"
proof -
  have "get_uint (0 # r) = Inr (0, r)" "get_uint (2 # r) = Inr (2, r)" for r by simp_all
  moreover have "frameUpdate demo_api t = 0 # 2 # put_array t" for t
    by (simp add: frameUpdate_def demo_api_def MessageType_Sync_def put_uint.simps)
  moreover have "get_array (put_array t) = Inr (t, [])" for t using get_put_array [of t "[]"] by simp
  ultimately show ?thesis by (simp add: frames_agree_def toy_read_def)
qed

lemma toy_merge_agrees: "merge_agrees demo_api toy_yrs set"
  by (auto simp: merge_agrees_def demo_api_def bytes_content_def toy_decode_def split: if_splits sum.splits)

end
