(* ===== verification/Server_Theorems.thy ===== *)
theory Server_Theorems
  imports Delivery_Instance
begin

text \<open>
  The properties of the server and of delivery end to end, each with a witness at the concrete
  instances of \<open>Delivery_Instance\<close>.
\<close>

subsection \<open>Helper lemmas\<close>

lemma strict_decode64_length: "strict_decode64 e = Some bs \<Longrightarrow> length e mod 4 = 0"
  using strict_encode_decode [of e bs] length_strict_encode64 [of bs] by simp

lemma open_frame:
  assumes "handle_frame Y K H k enc bs = (cs, r)"
  shows "fst (bind (handle_frame Y K H k enc bs) f) = (case r of Inl x \<Rightarrow> cs | Inr v \<Rightarrow> cs @ fst (f v))"
  using assms by (simp add: bind_def split: sum.splits)

lemma ack_of_send: "c \<in> set (fst (send_ack i v)) \<Longrightarrow> c = Transmit (RHash [(''ack'', i)]) \<and> v \<in> {Recorded, Applied}"
  by (auto simp: send_ack_simps split: if_splits)

lemma idle_no_ack: "idle_calls cs \<Longrightarrow> c \<in> set cs \<Longrightarrow> \<not> is_ack c"
  by (simp add: idle_calls_def)

text \<open>The channel of the demo, and a run against it.\<close>

definition open_class :: channel_class where
  "open_class = \<lparr>max_frame_bytes = Some 64, has_on_load = True, has_on_change = True, whispers = False\<rparr>"

definition demo_event :: "rs_input \<Rightarrow> rs_event" where
  "demo_event i = \<lparr>ev_input = i, ev_raises = (\<lambda>_ _. None), ev_timer = 1\<rparr>"

lemma demo_event_input [simp]: "ev_input (demo_event i) = i"
  by (simp add: demo_event_def)

definition fresh_client :: reliable_sync where
  "fresh_client = \<lparr>pending = [], nextSeq = 1, connected = False, timer = None, tailCache = None,
     resendInterval = 1000\<rparr>"

definition fresh_world :: world where
  "fresh_world = \<lparr>cl = fresh_client, wire = [], acks = [], log = [], casts = [], made = []\<rparr>"

text \<open>The client connects and edits; its update reaches the server twice; an edit follows unsent.\<close>

definition sent_world :: world where
  "sent_world =
     client_step (mergeUpdates demo_api) (demo_event (Enqueue [16]))
       (client_step (mergeUpdates demo_api) (demo_event Connect) fresh_world)"

definition stored_world :: world where
  "stored_world = own_step toy_yrs open_class [107] None 0 (wire_data demo_api [16] 1) sent_world"

definition acked_world :: world where
  "acked_world = client_step (mergeUpdates demo_api) (demo_event (Ack (JInt 1))) stored_world"

lemma fresh_reachable: "reachable demo_api toy_yrs open_class [107] fresh_world"
  unfolding fresh_world_def
  by (rule reachable.start [where opts = "Some \<lparr>opt_send = True, opt_merge = True, opt_resendInterval = JUndef\<rparr>"])
    (simp add: new_ReliableSync_def fresh_client_def default_resendInterval_def)

lemma sent_reachable: "reachable demo_api toy_yrs open_class [107] sent_world"
  unfolding sent_world_def
  by (intro reachable.client fresh_reachable) (simp_all add: demo_event_def)

definition tagged_client :: reliable_sync where
  "tagged_client = \<lparr>pending = [\<lparr>p_seq = 1, p_update = [16]\<rparr>], nextSeq = 2, connected = True,
     timer = Some 1, tailCache = Some [16], resendInterval = 1000\<rparr>"

lemma sent_world_is:
  "sent_world = \<lparr>cl = tagged_client, wire = [([16], 1)], acks = [], log = [], casts = [],
     made = [(1, [16])]\<rparr>"
  by code_simp

lemma sent_world_eq:
  "wire sent_world = [([16], 1)]" "log sent_world = []" "made sent_world = [(1, [16])]"
  by (simp_all add: sent_world_is)

lemma stored_reachable: "reachable demo_api toy_yrs open_class [107] stored_world"
  unfolding stored_world_def
  by (rule reachable.arrives [OF sent_reachable]) (simp_all add: sent_world_eq)

lemma stored_world_is:
  "stored_world = \<lparr>cl = tagged_client, wire = [([16], 1)], acks = [1], log = [[16]],
     casts = [strict_encode64 [0, 2, 1, 16]], made = [(1, [16])]\<rparr>"
  unfolding stored_world_def sent_world_is by code_simp

lemma stored_world_eq:
  "acks stored_world = [1]" "log stored_world = [[16]]" "made stored_world = [(1, [16])]"
  "casts stored_world = [strict_encode64 [0, 2, 1, 16]]" "nextSeq (cl stored_world) = 2"
  by (simp_all add: stored_world_is tagged_client_def)

lemma acked_reachable: "reachable demo_api toy_yrs open_class [107] acked_world"
  unfolding acked_world_def
  by (rule reachable.ack_arrives [OF stored_reachable]) (simp_all add: stored_world_eq demo_event_def)

lemma acked_world_eq:
  "made acked_world = [(1, [16])]" "pending (cl acked_world) = []" "log acked_world = [[16]]"
proof -
  have "ack_invalid (JInt 1) tagged_client = False" by code_simp
  then show "made acked_world = [(1, [16])]" "pending (cl acked_world) = []" "log acked_world = [[16]]"
    by (simp_all add: acked_world_def stored_world_is client_step_def Let_def rs_step_def demo_event_def
        onAck_pending tagged_client_def)
qed

subsection \<open>Delivery end to end\<close>

text \<open>
  C2: No acknowledged edit is ever lost: whatever the network drops, repeats or reorders, whatever
  store failures and stale loads happen, and whatever other clients send, an edit made at the client
  is still in its queue or its operations are in the document that the next load of the channel
  rebuilds from the log.
\<close>

theorem no_edit_lost:
  assumes L: "yrs_laws Y D dc uc" and R: "reader_law Y" and F: "frames_agree A Y"
    and M: "merge_agrees A Y uc" and w: "reachable A Y K key w" and "(j, u) \<in> set (made w)"
  shows "\<exists>d. load_doc Y (audit_hooks Y f (file_of (log w))) k = ret d
    \<and> (\<lparr>p_seq = j, p_update = u\<rparr> \<in> set (pending (cl w)) \<or> bytes_content Y uc u \<subseteq> dc d)"
proof -
  have inv: "world_inv A Y D dc uc w" by (rule reachable_inv [OF w L R F M])
  then have "log_ok Y D dc (log w)" and kept: "edits_kept Y dc uc w" by (simp_all add: world_inv_def)
  from load_doc_audit [OF L this(1) order_refl, of f k] obtain d
    where "load_doc Y (audit_hooks Y f (file_of (log w))) k = ret d"
      and "dc d = durable Y dc w" by (auto simp: durable_def)
  moreover have "\<lparr>p_seq = j, p_update = u\<rparr> \<in> set (pending (cl w)) \<or> covered Y dc uc w u"
    using kept assms(6) by (auto simp: edits_kept_def)
  ultimately show ?thesis by (auto simp: covered_def)
qed

theorem no_edit_lost_witness:
  "pending (cl acked_world) = []
   \<and> (\<exists>d. load_doc toy_yrs (audit_hooks toy_yrs None (file_of (log acked_world))) (Some [107]) = ret d
        \<and> bytes_content toy_yrs set [16] \<subseteq> toy_content d)"
proof -
  have "(1, [16]) \<in> set (made acked_world)" by (simp add: acked_world_eq)
  from no_edit_lost [OF toy_yrs_laws toy_reader_law toy_frames_agree toy_merge_agrees acked_reachable this,
      of None "Some [107]"]
  show ?thesis by (simp add: acked_world_eq)
qed

text \<open>
  C3: No one sees a change before it is stored: whenever an update frame has been broadcast, under
  any interleaving of any messages of any clients with failing stores and stale loads, its
  operations are in the document the log replays to.
\<close>

theorem nothing_relayed_before_stored:
  assumes "yrs_laws Y D dc uc" and "reader_law Y" and "frames_agree A Y" and "merge_agrees A Y uc"
    and "reachable A Y K key w" and "e \<in> set (casts w)" and "strict_decode64 e = Some f"
    and "y_read Y f = Inr (SyncUpdate u, []) \<or> y_read Y f = Inr (SyncStep2 u, [])"
  shows "bytes_content Y uc u \<subseteq> dc (fst (replayed Y (log w)))"
  using reachable_inv [OF assms(5,1-4)] assms(6-8)
  unfolding world_inv_def relay_covered_def durable_def by blast

theorem nothing_relayed_before_stored_witness:
  "casts stored_world = [strict_encode64 [0, 2, 1, 16]]
   \<and> bytes_content toy_yrs set [16] \<subseteq> toy_content (fst (replayed toy_yrs (log stored_world)))"
proof -
  have "strict_decode64 (strict_encode64 [0, 2, 1, 16]) = Some [0, 2, 1, 16]"
    by (rule strict_decode_encode)
  moreover have "y_read toy_yrs [0, 2, 1, 16] = Inr (SyncUpdate [16], [])" by code_simp
  ultimately show ?thesis
    using nothing_relayed_before_stored [OF toy_yrs_laws toy_reader_law toy_frames_agree
        toy_merge_agrees stored_reachable, of "strict_encode64 [0, 2, 1, 16]" "[0, 2, 1, 16]" "[16]"]
    by (simp add: stored_world_eq)
qed

text \<open>
  C4: An acknowledgement the server transmitted is true: its number was sent, and every edit with a
  number up to it is in the log, so the client may drop them all.
\<close>

theorem ack_covers_stored_edits:
  assumes "yrs_laws Y D dc uc" and "reader_law Y" and "frames_agree A Y" and "merge_agrees A Y uc"
    and "reachable A Y K key w" and "i \<in> set (acks w)" and "i \<le> max_safe_integer"
    and "(j, u) \<in> set (made w)" and "j \<le> i"
  shows "i < nextSeq (cl w) \<and> bytes_content Y uc u \<subseteq> dc (fst (replayed Y (log w)))"
proof -
  have "acks_kept Y dc uc w" using reachable_inv [OF assms(5,1-4)] by (simp add: world_inv_def)
  moreover have "i < 2 ^ 53" using assms(7) by (simp add: max_safe_integer_def)
  ultimately show ?thesis using assms(6,8,9) unfolding acks_kept_def covered_def durable_def by fastforce
qed

theorem ack_covers_stored_edits_witness:
  "1 < nextSeq (cl stored_world)
   \<and> bytes_content toy_yrs set [16] \<subseteq> toy_content (fst (replayed toy_yrs (log stored_world)))"
  using ack_covers_stored_edits [OF toy_yrs_laws toy_reader_law toy_frames_agree toy_merge_agrees
      stored_reachable, of 1 1 "[16]"]
  by (simp add: stored_world_eq max_safe_integer_def)




subsection \<open>One message\<close>

text \<open>
  C5: An acknowledgement follows the store: whatever message arrives, if the channel acknowledges
  it then the message carried a valid update that was ready, and the calls are, in order, the
  recorder (which did not raise), the broadcast and the acknowledgement, or, for an update the
  document already has, the broadcast and the acknowledgement.
\<close>

theorem ack_follows_store:
  assumes "c \<in> set (fst (snd (sync_receive Y K H iv data key)))" and "is_ack c"
  shows "\<exists>h enc bs u d k pre. data = RHash h \<and> strict_decode64 enc = Some bs
    \<and> c = Transmit (RHash [(''ack'', rb_get h ''id'')])
    \<and> merged_doc_update Y bs = Inr (Some u) \<and> load_doc Y H k = ret d
    \<and> update_is_ready Y d u = Inr True
    \<and> fst (snd (sync_receive Y K H iv data key)) = pre @ [Broadcast (stream_name k) (envelope enc), c]
    \<and> ((\<exists>x. pre = [OnChange x u] \<and> on_change H x u = None)
       \<or> (pre = [] \<and> update_advances_doc Y d u = Inr False))"
proof (cases rule: sync_receive_cases [of Y K H iv data key])
  case idle
  then show ?thesis using idle_no_ack [OF idle assms(1)] assms(2) by simp
next
  case (frame h enc bs)
  let ?k = "case key of None \<Rightarrow> iv | Some _ \<Rightarrow> key"
  let ?f = "handle_frame Y K H ?k enc bs"
  let ?calls = "fst (snd (sync_receive Y K H iv data key))"
  have calls: "?calls = fst (bind ?f (send_ack (rb_get h ''id'')))" using frame(4) by simp
  show ?thesis
  proof (cases rule: handle_frame_cases [of Y K H ?k enc bs])
    case idle
    have "\<not> is_ack c"
    proof (cases "snd ?f")
      case (Inl x)
      then show ?thesis using assms(1) calls idle_no_ack [OF idle(1)] by (simp add: bind_def)
    next
      case (Inr v)
      with idle(2) have "v = Noop" by simp
      then show ?thesis using Inr assms(1) calls idle_no_ack [OF idle(1)] by (simp add: bind_def send_ack_simps)
    qed
    then show ?thesis using assms(2) by simp
  next
    case aware
    then show ?thesis using assms calls by (simp add: send_ack_simps is_ack_def)
  next
    case (update u d)
    show ?thesis
    proof (cases rule: handle_update_cases [of Y H ?k enc u d])
      case (failed x)
      then show ?thesis using assms calls by (simp add: update)
    next
      case gap
      then show ?thesis using assms calls by (simp add: update send_ack_simps is_ack_def envelope_def)
    next
      case retry
      then have eq: "?calls = Broadcast (stream_name ?k) (envelope enc) # fst (send_ack (rb_get h ''id'') Applied)"
        using calls by (simp add: update)
      then have "c \<in> set (fst (send_ack (rb_get h ''id'') Applied))"
        using assms by (auto simp: is_ack_def)
      from ack_of_send [OF this] eq have "c = Transmit (RHash [(''ack'', rb_get h ''id'')])"
        "?calls = [Broadcast (stream_name ?k) (envelope enc), c]"
        using \<open>c \<in> set (fst (send_ack _ Applied))\<close> by (auto simp: send_ack_simps split: if_splits)
      then show ?thesis using frame update retry by (intro exI conjI disjI2) simp_all
    next
      case (refused x)
      then show ?thesis using assms calls by (simp add: update is_ack_def)
    next
      case recorded
      let ?x = "case ?k of None \<Rightarrow> [] | Some k \<Rightarrow> k"
      have eq: "?calls = OnChange ?x u # Broadcast (stream_name ?k) (envelope enc)
          # fst (send_ack (rb_get h ''id'') Recorded)"
        using calls recorded(4) by (simp add: update)
      then have in_send: "c \<in> set (fst (send_ack (rb_get h ''id'') Recorded))"
        using assms by (auto simp: is_ack_def)
      from ack_of_send [OF this] eq have "c = Transmit (RHash [(''ack'', rb_get h ''id'')])"
        "?calls = [OnChange ?x u] @ [Broadcast (stream_name ?k) (envelope enc), c]"
        using in_send by (auto simp: send_ack_simps split: if_splits)
      then show ?thesis using frame update recorded by (intro exI conjI disjI1) simp_all
    qed
  qed
qed

definition retry_message :: rb_value where
  "retry_message = frame_data [0, 2, 1, 16] 5"

theorem ack_follows_store_witness:
  "\<exists>u d. load_doc toy_yrs (audit_hooks toy_yrs None (file_of [[16]])) (Some [107]) = ret d
     \<and> update_is_ready toy_yrs d u = Inr True \<and> update_advances_doc toy_yrs d u = Inr False"
proof -
  let ?H = "audit_hooks toy_yrs None (file_of [[16]])"
  have calls: "fst (snd (sync_receive toy_yrs open_class ?H None retry_message (Some [107]))) =
      [Broadcast (stream_name (Some [107])) (envelope (strict_encode64 [0, 2, 1, 16])),
       Transmit (RHash [(''ack'', RInt 5)])]"
    by code_simp
  have "is_ack (Transmit (RHash [(''ack'', RInt 5)]))" by (simp add: is_ack_def)
  moreover have "Transmit (RHash [(''ack'', RInt 5)]) \<in> set (fst (snd (sync_receive toy_yrs open_class
      ?H None retry_message (Some [107]))))" by (simp add: calls)
  ultimately obtain u d k pre where "load_doc toy_yrs ?H k = ret d" "update_is_ready toy_yrs d u = Inr True"
    and pre: "(\<exists>x. pre = [OnChange x u] \<and> on_change ?H x u = None)
       \<or> (pre = [] \<and> update_advances_doc toy_yrs d u = Inr False)"
    and "fst (snd (sync_receive toy_yrs open_class ?H None retry_message (Some [107]))) =
      pre @ [Broadcast (stream_name k) (envelope (strict_encode64 [0, 2, 1, 16])),
             Transmit (RHash [(''ack'', RInt 5)])]"
    using ack_follows_store [of "Transmit (RHash [(''ack'', RInt 5)])" toy_yrs open_class ?H None
        retry_message "Some [107]"] by (auto simp: calls)
  moreover from this(4) have "pre = []" by (simp add: calls)
  moreover have "load_doc toy_yrs ?H k = load_doc toy_yrs ?H (Some [107])"
    by (simp add: load_doc_def audit_hooks_def)
  ultimately show ?thesis by (simp del: split_paired_Ex) blast
qed

text \<open>
  C18: Fail closed: a channel class without a loader or without a recorder, or an action without a
  document key, never records, relays or acknowledges anything, whatever arrives.
\<close>

theorem unconfigured_channel_refuses:
  assumes "\<not> has_on_load K \<or> \<not> has_on_change K \<or> (case key of None \<Rightarrow> iv | Some _ \<Rightarrow> key) \<in> {None, Some []}"
  shows "idle_calls (fst (snd (sync_receive Y K H iv data key)))"
proof (cases rule: sync_receive_cases [of Y K H iv data key])
  case (frame h enc bs)
  have "\<exists>x. handle_frame Y K H (case key of None \<Rightarrow> iv | Some _ \<Rightarrow> key) enc bs = raise x"
    using assms by (auto simp: handle_frame_def validate_required_hooks_def validate_key_def)
  then show ?thesis using frame(4) by auto
qed

theorem unconfigured_channel_refuses_witness:
  "idle_calls (fst (snd (sync_receive toy_yrs open_class (audit_hooks toy_yrs None []) None retry_message None)))"
  by (rule unconfigured_channel_refuses) simp

text \<open>
  C19: The size cap is exact although it is checked before decoding: a strictly encoded frame is
  dropped, with a log line and without any other call, exactly if it has more bytes than the cap.
\<close>

theorem frame_cap_exact:
  assumes "max_frame_bytes K = Some cap"
  shows "fst (snd (sync_receive Y K H iv (frame_data f i) key)) =
    (if cap < length f then [LogDrop ''warn'' (RInt i)]
     else fst (bind (handle_frame Y K H (case key of None \<Rightarrow> iv | Some _ \<Rightarrow> key) (strict_encode64 f) f)
            (send_ack (RInt i))))"
proof -
  have "length f \<le> cap \<Longrightarrow> \<not> encoded_cap cap < length (strict_encode64 f)"
    by (simp add: length_strict_encode64 encoded_cap_def)
  then show ?thesis using assms
    by (auto simp: sync_receive_def frame_data_def rb_get_def Let_def strict_decode_encode)
qed

theorem frame_cap_exact_witness:
  "fst (snd (sync_receive toy_yrs open_class (audit_hooks toy_yrs None []) None
     (frame_data (replicate 65 0) 3) (Some [107]))) = [LogDrop ''warn'' (RInt 3)]"
  by (subst frame_cap_exact [where cap = 64]) (simp_all add: open_class_def)

text \<open>
  C20: The two ends agree on the envelope: a text the server decodes strictly is the one strict
  encoding of its bytes, and the client's lenient \<^verbatim>\<open>fromBase64\<close> reads the same bytes from it, so a
  relayed frame is the frame the server validated.
\<close>

theorem relay_decodes_at_client:
  assumes "strict_decode64 e = Some f"
  shows "e = strict_encode64 f \<and> fromBase64 (map (\<lambda>b. of_nat (unat b)) e) = Inr f"
proof -
  have e: "e = strict_encode64 f" using assms by (rule strict_encode_decode)
  have "map (\<lambda>b. of_nat (unat b)) e = b64_of f" unfolding e strict_encode64_def by (rule b64_of_ascii)
  then show ?thesis using e fromBase64_b64_of [of f] by simp
qed

theorem relay_decodes_at_client_witness:
  "fromBase64 (map (\<lambda>b. of_nat (unat b)) (rb_ascii ''AAIBEA=='')) = Inr [0, 2, 1, 16]"
proof -
  have "strict_decode64 (rb_ascii ''AAIBEA=='') = Some [0, 2, 1, 16]" by code_simp
  from relay_decodes_at_client [OF this] show ?thesis by (rule conjunct2)
qed

subsection \<open>The audit log\<close>

lemma file_lines_append: "file_lines (concat (map audit_line us) @ l @ 10 # bs) =
    map strict_encode64 us @ file_lines (l @ 10 # bs)"
proof (induction us)
  case (Cons u us)
  have "10 \<notin> set (strict_encode64 u)" using strict_encode64_no_space [of u] by (auto simp: rb_space_def)
  with Cons show ?case by (simp add: audit_line_def file_lines_line)
qed simp

lemma rb_strip_none: "\<forall>b\<in>set l. \<not> rb_space b \<Longrightarrow> rb_strip l = l"
  by (simp add: rb_strip_def dropWhile_none)

text \<open>
  C33: A torn line swallows the change recorded after it: if an append was cut short of a multiple of
  four characters, the next change is stored behind it on the same line, \<^verbatim>\<open>record\<close> returns as if it
  were durable, and the replay skips it.
\<close>

theorem torn_line_swallows_next:
  assumes torn: "k < length (strict_encode64 v)" "k mod 4 \<noteq> 0"
  shows "fst (audit_record None u (file_of us @ take k (strict_encode64 v))) = None
    \<and> audit_replay Y (snd (audit_record None u (file_of us @ take k (strict_encode64 v))))
      = audit_replay Y (file_of us)"
proof -
  let ?file = "file_of us @ take k (strict_encode64 v)"
  let ?l = "take k (strict_encode64 v) @ strict_encode64 u"
  have nospace: "\<forall>b\<in>set ?l. \<not> rb_space b"
    using strict_encode64_no_space [of v] strict_encode64_no_space [of u] by (auto dest: in_set_takeD)
  have "10 \<notin> set ?l" using nospace by (auto simp: rb_space_def)
  then have lines: "file_lines (snd (audit_record None u ?file)) = map strict_encode64 us @ [?l]"
    using file_lines_append [of us ?l "[]"] file_lines_line [of ?l "[]"]
    by (simp add: file_of_def audit_record_def audit_line_def)
  have "length ?l mod 4 \<noteq> 0" using torn by (simp add: length_strict_encode64 min_def)
  then have "strict_decode64 ?l = None" using strict_decode64_length [of ?l] by (cases "strict_decode64 ?l") auto
  then have "replay_line Y ?l s = s" for s
    using rb_strip_none [OF nospace] by (simp add: replay_line_def Let_def)
  then have "replay_lines Y (map strict_encode64 us @ [?l]) = replay_lines Y (map strict_encode64 us)"
    by (simp add: replay_lines_def)
  then show ?thesis
    by (simp add: audit_replay_def lines) (simp add: audit_record_def file_of_def file_lines_record)
qed

theorem torn_line_swallows_next_witness:
  "audit_replay toy_yrs (snd (audit_record None [17] (file_of [[16]] @ take 2 (strict_encode64 [17]))))
     = Some [16]
   \<and> audit_replay toy_yrs (snd (audit_record None [17] (file_of [[16]]))) = Some [16, 17]"
proof -
  have "length (strict_encode64 [17]) = 4" by (simp add: length_strict_encode64)
  then have "audit_replay toy_yrs (snd (audit_record None [17] (file_of [[16]] @ take 2 (strict_encode64 [17]))))
      = audit_replay toy_yrs (file_of [[16]])"
    using torn_line_swallows_next [of 2 "[17]" "[17]" "[[16]]" toy_yrs] by simp
  moreover have "audit_replay toy_yrs (file_of [[16]]) = Some [16]" by code_simp
  moreover have "audit_replay toy_yrs (snd (audit_record None [17] (file_of [[16]]))) = Some [16, 17]"
    by code_simp
  ultimately show ?thesis by simp
qed

text \<open>
  A document that already parks an update hides the next one: an update without deletions that
  also parks is reported as not advancing the document, although it carries operations the document
  lacks, because the probe had pending content before it was applied.
\<close>

theorem parked_update_goes_unnoticed:
  assumes "y_decode_update Y bs = Inr u" and "\<not> u_has_deletes Y u"
    and "y_ge Y (y_state_vector Y d) (u_state_vector Y u)"
    and "y_decode_update Y (y_encode Y d (y_empty_sv Y)) = Inr s" and "y_apply Y s (y_new Y) = Inr p"
    and "has_pending Y p" and "y_apply Y u p = Inr p'" and "has_pending Y p'"
    and "y_state_vector Y p = y_state_vector Y p'"
  shows "update_advances_doc Y d bs = Inr False"
  using assms by (simp add: update_advances_doc_def)

theorem parked_update_goes_unnoticed_witness:
  "update_advances_doc toy_yrs ([16], [18]) [20] = Inr False
   \<and> y_apply toy_yrs [20] ([16], [18]) = Inr ([16], [18, 20])"
proof -
  have "y_apply toy_yrs [16, 18] (y_new toy_yrs) = Inr ([16], [18])"
    "y_apply toy_yrs [20] ([16], [18]) = Inr ([16], [18, 20])"
    "y_encode toy_yrs ([16], [18]) (y_empty_sv toy_yrs) = [16, 18]"
    "u_state_vector toy_yrs [20] = []"
    by code_simp+
  then show ?thesis
    by (intro conjI parked_update_goes_unnoticed [where u = "[20]" and s = "[16, 18]" and p = "([16], [18])"
          and p' = "([16], [18, 20])"]) (simp_all add: toy_decode_def del: toy_fields(2,5))
qed

end
