(* ===== verification/Round_Trip.thy ===== *)
theory Round_Trip
  imports Provider_Theorems Server_Theorems
begin

text \<open>
  Both ends with everything between them: a provider, the cable, the channel, and another provider.
  The handlers of Provider and Server_Channel are run on each other's messages.
\<close>

subsection \<open>The cable\<close>

text \<open>
  A message crosses the cable as JSON: JavaScript writes it and Ruby reads it, or the other way
  round. The envelopes are flat objects of ASCII strings and integers, which arrive as they are;
  the value of any other field is left open.
\<close>

fun up_value :: "jsval \<Rightarrow> rb_value" where
  "up_value (JStr s) = RStr (ascii_bytes s)"
| "up_value (JNum (Fin q)) = (if is_integer q then RInt \<lfloor>q\<rfloor> else ROther 0)"
| "up_value JNull = RNil"
| "up_value _ = ROther 0"

fun cable_up :: "jsval \<Rightarrow> rb_value" where
  "cable_up (JObj h) = RHash (map (map_prod id up_value) h)"
| "cable_up v = up_value v"

fun down_value :: "rb_value \<Rightarrow> jsval" where
  "down_value (RStr s) = JStr (map (\<lambda>b. of_nat (unat b)) s)"
| "down_value (RInt i) = JInt i"
| "down_value _ = JNull"

fun cable_down :: "rb_value \<Rightarrow> jsval" where
  "cable_down (RHash h) = JObj (map (map_prod id down_value) h)"
| "cable_down v = down_value v"

lemma up_tagged: "cable_up (update_envelope (b64_of f) (Some i)) = frame_data f i"
  by (simp add: update_envelope_def frame_data_def strict_encode64_def is_integer_def)

lemma up_plain: "cable_up (update_envelope (b64_of f) None) = envelope (strict_encode64 f)"
  by (simp add: update_envelope_def envelope_def strict_encode64_def)

lemma down_envelope: "cable_down (envelope (strict_encode64 f)) = update_envelope (b64_of f) None"
  using b64_of_ascii [of f] by (simp add: update_envelope_def envelope_def strict_encode64_def)

lemma down_ack: "cable_down (RHash [(''ack'', RInt i)]) = JObj [(''ack'', JInt i)]"
  by simp

subsection \<open>What a connected provider sends\<close>

lemma sent_frame:
  assumes "prov_sub p = Some sub" and "\<not> is_awareness f"
  shows "PSend (sub_id sub) (update_envelope (b64_of f) i) \<in> set (send_trace E p f i)"
  using assms by (simp add: send_trace_def cable_call_def)

lemma sync_frame_not_awareness:
  "lib0_small A \<Longrightarrow> \<not> is_awareness (writeVarUint A MessageType_Sync @ r)"
  by (simp add: is_awareness_def lib0_small_def MessageType_Sync_def MessageType_Awareness_def)

lemma enqueue_sends:
  assumes "connected r" and "tail_of (merge E) (push_pending u r) = Inr t"
  shows "Send t (nextSeq r) \<in> set (calls (enqueue E u r))"
proof -
  let ?r = "(push_pending u r)\<lparr>tailCache := None\<rparr>"
  let ?s = "post (startTimer E ?r)"
  have "cache_ok (merge E) ?s" by (simp add: cache_ok_def startTimer_def split: option.split)
  moreover have "tail_of (merge E) ?s = Inr t" using assms(2) by (simp add: tail_of_def)
  ultimately have "snd (mergedTail E ?s) = Inr t" by (simp add: mergedTail_result)
  then show ?thesis using assms(1) by (simp add: enqueue_def andThen_eq flush_calls)
qed

text \<open>A user's edit, seen from the cable and from the queue.\<close>

lemma user_edit_sends:
  assumes "lib0_small A" and "prov_sub p = Some sub" and "doc_listener (session p)"
    and "connected (delivery (session p))"
    and "tail_of (mergeUpdates A) (push_pending u (delivery (session p))) = Inr t"
  shows "PSend (sub_id sub) (update_envelope (b64_of (frameUpdate A t)) (Some (nextSeq (delivery (session p)))))
    \<in> set (calls (prov_handle A dA E (UserEdit d [u] n) p))"
proof -
  let ?r = "delivery (session p)" and ?SE = "session_env E p"
  have "SSend (frameUpdate A t) (Some (nextSeq ?r))
      \<in> set (calls (doc_edit A ?SE d [u] (OOther n) (session p)))"
    using assms(3,4) enqueue_sends [of ?r "delivery_env A ?SE" u t] assms(5)
    by (force simp: doc_edit_def emit_doc_def onDocUpdate_def andThen_eq on_delivery_eq)
  then show ?thesis
    using sent_frame [OF assms(2), of "frameUpdate A t" "Some (nextSeq ?r)" E]
      sync_frame_not_awareness [OF assms(1), of "writeUpdate A t"]
    by (force simp: on_session_eq frameUpdate_def)
qed

lemma user_edit_queue:
  assumes "doc_listener (session p)"
  shows "delivery (session (post (prov_handle A dA E (UserEdit d [u] n) p))) =
    post (enqueue (delivery_env A (session_env E p)) u (delivery (session p)))"
  using assms
  by (simp add: doc_edit_def emit_doc_def onDocUpdate_def andThen_eq on_delivery_eq)

subsection \<open>From an edit to its peers and back\<close>

text \<open>
  C6: An edit goes all the way round. A connected provider's edit, merged with whatever is still
  unacknowledged, leaves as one tagged envelope; a channel whose document takes the update records
  it, broadcasts it and acknowledges it, in this order; the broadcast, received by another provider,
  applies exactly this update there and causes no traffic; the acknowledgement, received back,
  leaves nothing unacknowledged and no timer running.
\<close>

theorem edit_reaches_peer:
  assumes laws: "lib0_roundtrip A" "lib0_small A" "sync_update_law A" "messageYjsSyncStep2 A \<noteq> 2"
      "merge_law A W" "reader_law Y" "frames_agree A Y"
    and p: "prov_reach A dA newAw W win p" "prov_connected p" "prov_sub p = Some sub"
      "doc_listener (session p)" "nextSeq (delivery (session p)) < 2 ^ 53" "W u" "has_window E = win"
    and t: "tail_of (mergeUpdates A) (push_pending u (delivery (session p))) = Inr t"
    and channel: "configured K key" "fits K (frameUpdate A t)" "y_decode_update Y t = Inr v" "\<not> is_noop Y v"
      "load_doc Y H (Some key) = ret sd" "update_is_ready Y sd t = Inr True"
      "update_advances_doc Y sd t = Inr True" "on_change H key t = None"
    and q: "status q = computeStatus q" "snd (snd (applyUpdate A (newDoc A) t)) = None"
      "applyUpdate A (doc (session q)) t = (d', us, None)"
  shows "\<exists>m e a. PSend (sub_id sub) m \<in> set (calls (prov_handle A dA E (UserEdit d [u] n) p))
    \<and> fst (snd (sync_receive Y K H iv (cable_up m) (Some key))) =
        [OnChange key t, Broadcast (stream_name (Some key)) e, Transmit a]
    \<and> received A F (cable_down e) q = (q\<lparr>session := (session q)\<lparr>doc := d'\<rparr>\<rparr>, [], None)
    \<and> (let r = delivery (session (post (received A E (cable_down a)
                 (post (prov_handle A dA E (UserEdit d [u] n) p)))))
       in pending r = [] \<and> timer r = None)"
proof -
  let ?r = "delivery (session p)" and ?f = "frameUpdate A t"
  let ?i = "nextSeq ?r" and ?p = "post (prov_handle A dA E (UserEdit d [u] n) p)"
  have inv: "prov_inv A W win p" by (rule prov_reach_inv [OF laws(5) p(1)])
  then have "connected ?r" using p(2) by (simp add: prov_inv_def)
  from user_edit_sends [OF laws(2) p(3,4) this t]
  have sent: "PSend (sub_id sub) (update_envelope (b64_of ?f) (Some ?i))
      \<in> set (calls (prov_handle A dA E (UserEdit d [u] n) p))" .
  have "handle_frame Y K H (Some key) (strict_encode64 ?f) ?f =
      ([OnChange key t, Broadcast (stream_name (Some key)) (envelope (strict_encode64 ?f))], Inr Recorded)"
    using handle_frame_update [OF channel(1) laws(6) _ channel(3,4,5)] laws(7)
      handle_update_accepts [OF channel(6,7,8)]
    by (simp add: frames_agree_def)
  then have served: "fst (snd (sync_receive Y K H iv (cable_up (update_envelope (b64_of ?f) (Some ?i))) (Some key))) =
      [OnChange key t, Broadcast (stream_name (Some key)) (envelope (strict_encode64 ?f)),
       Transmit (RHash [(''ack'', RInt ?i)])]"
    using channel(2)
    by (simp add: up_tagged frame_data_def sync_receive_frame rb_get_def send_ack_simps)
  have peer: "received A F (cable_down (envelope (strict_encode64 ?f))) q =
      (q\<lparr>session := (session q)\<lparr>doc := d'\<rparr>\<rparr>, [], None)"
    unfolding down_envelope by (rule received_update_frame [OF laws(1-3) q(2,3) laws(4) q(1)])
  have "prov_reach A dA newAw W win ?p" by (rule prov_reach.step [OF p(1) _ p(7)]) (use p in simp)
  from prov_reach_inv [OF laws(5) this] have ok: "seqs_ok (delivery (session ?p))"
    by (simp add: prov_inv_def queue_ok_def sess_inv_def rs_inv_def del: prov_handle.simps)
  have last: "pending (delivery (session ?p)) \<noteq> [] \<and> p_seq (last (pending (delivery (session ?p)))) = ?i"
    unfolding user_edit_queue [OF p(4)] by simp
  from ack_newest_empties [OF ok] last p(5)
  have "let r = delivery (session (post (received A E (cable_down (RHash [(''ack'', RInt ?i)])) ?p)))
      in pending r = [] \<and> timer r = None"
    by (simp add: down_ack received_ack on_session_eq ack_def on_delivery_eq max_safe_integer_def
        del: prov_handle.simps)
  with sent served peer show ?thesis by blast
qed

text \<open>A provider whose subscription the server confirmed.\<close>

definition connected_provider :: "(bytes, demo_aw) provider" where
  "connected_provider = post (prov_handle demo_api demo_destroyAw demo_prov_env CbConnected waiting_provider)"

lemma connected_provider_reach:
  "prov_reach demo_api demo_destroyAw demo_newAw demo_ok True connected_provider"
  unfolding connected_provider_def
  by (rule prov_reach.step [OF waiting_provider_reach]) (simp_all add: demo_prov_env_def)

lemma connected_provider_is:
  "connected_provider = waiting_provider
     \<lparr>prov_connected := True, status := Connected,
      session := (session fresh_provider)\<lparr>delivery := (delivery (session fresh_provider))\<lparr>connected := True\<rparr>\<rparr>\<rparr>"
  by (simp add: connected_provider_def cb_connected_def andThen_eq on_session_eq refreshStatus_post
      sess_onConnect_post onConnect_def flush_def computeStatus_def)
    (simp add: fresh_provider_def sess_onConnect_def andThen_eq sess_send_def send_presence_def
      on_delivery_eq onConnect_def flush_def)

lemma connected_fields [simp]:
  "prov_connected connected_provider"
  "prov_sub connected_provider = Some cable"
  "doc_listener (session connected_provider)"
  "doc (session connected_provider) = []"
  "synced (session connected_provider) = False"
  "pending (delivery (session connected_provider)) = []"
  "nextSeq (delivery (session connected_provider)) = 1"
  by (simp_all add: connected_provider_is) (simp_all add: fresh_provider_def)

lemma waiting_status: "status waiting_provider = computeStatus waiting_provider"
  by (simp add: computeStatus_def)

theorem edit_reaches_peer_witness:
  "\<exists>m e a. fst (snd (sync_receive toy_yrs open_class (audit_hooks toy_yrs None []) None (cable_up m) (Some [107]))) =
        [OnChange [107] [16], Broadcast (stream_name (Some [107])) e, Transmit a]
    \<and> doc (session (post (received demo_api demo_prov_env (cable_down e) waiting_provider))) = [16]"
proof -
  let ?H = "audit_hooks toy_yrs None []"
  have "load_doc toy_yrs ?H (Some [107]) = ret ([], [])" by code_simp
  moreover have "update_is_ready toy_yrs ([], []) [16] = Inr True" by code_simp
  moreover have "update_advances_doc toy_yrs ([], []) [16] = Inr True" by code_simp
  moreover have "\<not> is_noop toy_yrs [16]" by code_simp
  moreover have "fits open_class (frameUpdate demo_api [16])" by code_simp
  moreover have "on_change ?H [107] [16] = None" by code_simp
  moreover have "y_decode_update toy_yrs [16] = Inr [16]" by code_simp
  moreover have "configured open_class [107]" by (simp add: configured_def open_class_def)
  moreover have "tail_of (mergeUpdates demo_api)
      (push_pending [16] (delivery (session connected_provider))) = Inr [16]"
    by (simp add: tail_of_def)
  moreover have "applyUpdate demo_api (doc (session waiting_provider)) [16] = ([16], [[16]], None)"
    "snd (snd (applyUpdate demo_api (newDoc demo_api) [16])) = None"
    "messageYjsSyncStep2 demo_api \<noteq> 2"
    by simp_all
  moreover have "has_window demo_prov_env" by (simp add: demo_prov_env_def)
  ultimately obtain m e a where
    "fst (snd (sync_receive toy_yrs open_class ?H None (cable_up m) (Some [107]))) =
        [OnChange [107] [16], Broadcast (stream_name (Some [107])) e, Transmit a]"
    "received demo_api demo_prov_env (cable_down e) waiting_provider =
        (waiting_provider\<lparr>session := (session waiting_provider)\<lparr>doc := [16]\<rparr>\<rparr>, [], None)"
    using edit_reaches_peer [OF demo_lib0_roundtrip demo_lib0_small demo_sync_update_law _ demo_merge_law
        toy_reader_law toy_frames_agree connected_provider_reach, of cable "[16]" demo_prov_env "[16]"
        open_class "[107]" "[16]" ?H "([], [])" waiting_provider "[16]" "[[16]]" "[16]" 1 None demo_prov_env]
      waiting_status
    by (auto simp del: prov_handle.simps waiting_fields)
  then show ?thesis by (intro exI conjI) (assumption, simp)
qed

subsection \<open>The handshake\<close>

text \<open>
  What the two ends' libraries promise each other. The message yrs writes for a missing part is read
  by y-protocols as sync step 2, which applies it. The message yrs writes for a state vector is read
  as sync step 1, which changes nothing and answers with what the other side is missing,
  \<open>missing d sv\<close>, in a frame yrs reads.
\<close>

definition step2_agrees :: "('d, 'a) api \<Rightarrow> ('e, 'u, 'v) yrs \<Rightarrow> bool" where
  "step2_agrees A Y \<longleftrightarrow>
     (\<forall>b. \<exists>m. y_write Y (SyncStep2 b) = writeVarUint A MessageType_Sync @ m
        \<and> (\<forall>d d' us. applyUpdate A d b = (d', us, None) \<longrightarrow>
             readSyncMessage A m d = (d', us, Inr (messageYjsSyncStep2 A, [], []))))"


lemma read_type: "lib0_roundtrip A \<Longrightarrow> readVarUint A (writeVarUint A n @ r) = Inr (n, r)"
  by (simp add: lib0_roundtrip_def)

lemma receive_step2:
  assumes "lib0_roundtrip A" and "lib0_small A" and "step2_agrees A Y"
    and "snd (snd (applyUpdate A (newDoc A) b)) = None" and "applyUpdate A (doc s) b = (d', us, None)"
  shows "receive A E (y_write Y (SyncStep2 b)) s = (s\<lparr>doc := d', synced := True\<rparr>, [], None)"
proof -
  obtain m where m: "y_write Y (SyncStep2 b) = writeVarUint A MessageType_Sync @ m"
    "\<And>d d' us. applyUpdate A d b = (d', us, None) \<Longrightarrow>
       readSyncMessage A m d = (d', us, Inr (messageYjsSyncStep2 A, [], []))"
    using assms(3) unfolding step2_agrees_def by blast
  obtain d0 us0 where "applyUpdate A (newDoc A) b = (d0, us0, None)"
    using assms(4) by (metis prod.collapse)
  then have new: "readSyncMessage A m (newDoc A) = (d0, us0, Inr (messageYjsSyncStep2 A, [], []))" by (rule m)
  have "validateFrame A (y_write Y (SyncStep2 b)) = Inr (Some MessageType_Sync)"
    by (simp add: validateFrame_def m(1) read_type [OF assms(1)] new check_trailing_def)
  moreover have "valid_sync A (y_write Y (SyncStep2 b)) m"
    by (simp add: valid_sync_def m(1) read_type [OF assms(1)] new)
  ultimately show ?thesis using assms(2) m(2) [OF assms(5)]
    by (simp add: receive_valid_sync reply_of_def lib0_small_def MessageType_Sync_def)
qed


text \<open>
  C13: Connecting brings the document of the server. A provider's first frame, delivered to a
  configured channel, is answered with the part of the stored document the provider lacks and with
  nothing else; the answer, received, applies exactly this part, and the provider shows that it is
  synced.
\<close>

theorem handshake_syncs_client:
  assumes laws: "lib0_roundtrip A" "lib0_small A" "step2_agrees A Y"
    and p: "prov_sub p = Some sub"
    and channel: "configured K key" "fits K (frameSyncStep1 A (doc (session p)))"
      "y_read Y (frameSyncStep1 A (doc (session p))) = Inr (SyncStep1 sv, [])"
      "load_doc Y H (Some key) = ret sd" "integrated_update Y sd sv = Inr b"
    and b: "snd (snd (applyUpdate A (newDoc A) b)) = None"
      "applyUpdate A (doc (session p)) b = (d', us, None)"
  shows "\<exists>m e. PSend (sub_id sub) m \<in> set (calls (prov_handle A dA E CbConnected p))
    \<and> fst (snd (sync_receive Y K H iv (cable_up m) (Some key))) = [Transmit e]
    \<and> (let q = post (received A F (cable_down e) (post (prov_handle A dA E CbConnected p)))
       in doc (session q) = d' \<and> synced (session q) \<and> status q = Synced)"
proof -
  let ?f = "frameSyncStep1 A (doc (session p))" and ?b = "y_write Y (SyncStep2 b)"
  let ?q = "post (prov_handle A dA E CbConnected p)"
  have "SSend ?f None \<in> set (calls (sess_onConnect A SE (session p)))" for SE
    by (simp add: sess_onConnect_def andThen_eq sess_send_def)
  then have sent: "PSend (sub_id sub) (update_envelope (b64_of ?f) None)
      \<in> set (calls (prov_handle A dA E CbConnected p))"
    using sent_frame [OF p, of ?f None E] sync_frame_not_awareness [OF laws(2), of "writeSyncStep1 A (doc (session p))"] p
    by (force simp: cb_connected_def andThen_eq on_session_eq frameSyncStep1_def send_trace_def)
  have served: "fst (snd (sync_receive Y K H iv (cable_up (update_envelope (b64_of ?f) None)) (Some key))) =
      [Transmit (envelope (strict_encode64 ?b))]"
    using handle_frame_step1 [OF channel(1,3-5)] channel(2)
    by (simp add: up_plain envelope_def sync_receive_frame rb_get_def send_ack_simps)
  have q: "doc (session ?q) = doc (session p)" "prov_connected ?q" "prov_sub ?q = Some sub"
    using p
    by (simp_all add: cb_connected_def andThen_eq refreshStatus_post sess_onConnect_post)
  have r: "receive A SE ?b (session ?q) = ((session ?q)\<lparr>doc := d', synced := True\<rparr>, [], None)" for SE
    by (rule receive_step2 [OF laws b(1)]) (use b(2) q(1) in simp)
  have "post (received A F (cable_down (envelope (strict_encode64 ?b))) ?q) =
      ?q\<lparr>session := (session ?q)\<lparr>doc := d', synced := True\<rparr>, status := Synced\<rparr>"
    using q(2,3)
    by (simp add: down_envelope received_update_envelope deliver_frame_eq r Let_def refreshStatus_post
        computeStatus_def del: prov_handle.simps)
  with sent served show ?thesis
    by (intro exI conjI) (assumption, assumption, simp add: Let_def del: prov_handle.simps)
qed

lemma demo_step2_agrees: "step2_agrees demo_api toy_yrs"
proof -
  have "demo_sync (1 # put_array b) d = (d', us, Inr (1, [], []))"
    if "demo_apply d b = (d', us, None)" for b d d' us
    using that get_put_array [of b "[]"] by (simp add: demo_sync_def)
  then show ?thesis
    by (simp add: step2_agrees_def demo_api_def MessageType_Sync_def put_uint.simps)
qed

definition stored_hooks :: hooks where
  "stored_hooks = audit_hooks toy_yrs None (file_of [[16]])"

theorem handshake_syncs_client_witness:
  "\<exists>e. status (post (received demo_api demo_prov_env (cable_down e)
       (post (prov_handle demo_api demo_destroyAw demo_prov_env CbConnected waiting_provider)))) = Synced"
proof -
  have "load_doc toy_yrs stored_hooks (Some [107]) = ret ([16], [])" by code_simp
  moreover have "integrated_update toy_yrs ([16], []) [] = Inr [16]" by code_simp
  moreover have f: "frameSyncStep1 demo_api (doc (session waiting_provider)) = [0, 0, 0]" by code_simp
  moreover have "y_read toy_yrs [0, 0, 0] = Inr (SyncStep1 [], [])" by code_simp
  moreover have "fits open_class [0, 0, 0]" "configured open_class [107]"
    by (simp_all add: fits_def configured_def open_class_def)
  moreover have "snd (snd (applyUpdate demo_api (newDoc demo_api) [16])) = None"
    "applyUpdate demo_api (doc (session waiting_provider)) [16] = ([16], [[16]], None)"
    by simp_all
  moreover have "prov_sub waiting_provider = Some cable" by simp
  ultimately show ?thesis
    using handshake_syncs_client [OF demo_lib0_roundtrip demo_lib0_small demo_step2_agrees,
        of waiting_provider cable open_class "[107]" "[]" stored_hooks "([16], [])" "[16]" "[16]" "[[16]]"
        demo_destroyAw demo_prov_env None demo_prov_env]
    unfolding f Let_def by blast
qed





end
