(* ===== verification/Raw_Client.thy ===== *)
theory Raw_Client
  imports Session Base64
begin

text \<open>
  The raw WebSocket clients of examples/actioncable-demo/frontend. Each test file carries its own
  copy of one client class: a document, an "update" listener that sends local edits as sync frames,
  and a message handler that answers the cable protocol and runs every frame through
  y-protocols. The copies differ in a few places; a \<open>flavour\<close> names the differences, and the
  classes are instances (theory \<open>Demo_Clients\<close>).

  Texts made by \<^verbatim>\<open>JSON.stringify\<close> are represented by the values they were made from. Base64 to the
  wire is the one of \<open>toBase64\<close>; Node's lenient \<^verbatim>\<open>Buffer.from(s, "base64")\<close> and the edits of the
  document are fields of \<open>runtime\<close>, since Node and yjs are not part of the repository.
\<close>

datatype ws_state = WsConnecting | WsOpen | WsClosing | WsClosed

datatype ws_message =
    Subscribe jsval
  | Unsubscribe jsval
  | Message jsval jsval

text \<open>What a client does outside itself, in order.\<close>

datatype raw_call =
    WsNew
  | WsSend ws_message
  | WsClose
  | CloseAfter nat
  | Resolve string
  | Count string
  | Log string

record ('d, 'a) raw =
  c_doc :: 'd
  c_aw :: 'a
  c_ws :: ws_state
  c_ident :: jsval
  c_listening :: bool
  c_closed :: bool

record ('d, 'a) runtime =
  rt_api :: "('d, 'a) api"
  rt_decode :: "jsval \<Rightarrow> js_error + bytes"  \<comment> \<open>\<^verbatim>\<open>new Uint8Array(Buffer.from(v, "base64"))\<close>\<close>
  rt_awareness :: "'d \<Rightarrow> 'a"  \<comment> \<open>\<^verbatim>\<open>new Awareness(doc)\<close>\<close>
  rt_paragraph :: "jsstring \<Rightarrow> 'd \<Rightarrow> 'd \<times> bytes list"  \<comment> \<open>append a paragraph with this text\<close>
  rt_text :: "'d \<Rightarrow> jsstring"  \<comment> \<open>\<^verbatim>\<open>doc.getXmlFragment("default").toString()\<close>\<close>
  rt_state :: "'d \<Rightarrow> bytes"  \<comment> \<open>\<^verbatim>\<open>Y.encodeStateAsUpdate(doc)\<close>\<close>

type_synonym ('d, 'a, 'z) raw_act = "(('d, 'a, 'z) raw_scheme, raw_call) act"

datatype raw_origin = Local | Remote

subsection \<open>What the copies differ in\<close>

text \<open>
  What the class does with a frame type that is not a sync message: apply an awareness message and
  throw on anything else, skip an awareness message and throw on anything else, apply an awareness
  message and go on otherwise, skip one array, or skip one array and stop when that throws.
\<close>

datatype other_frames = ApplyOrThrow | SkipOrThrow | ApplyOrIgnore | SkipArray | SkipArrayOrStop

record flavour =
  fl_early :: "string list"  \<comment> \<open>cable message types that return at once\<close>
  fl_guard :: bool  \<comment> \<open>\<^verbatim>\<open>if (this.ws.readyState !== WebSocket.OPEN) return\<close>\<close>
  fl_reply :: bool  \<comment> \<open>\<^verbatim>\<open>if (encoding.length(enc) > 1) this.send(enc)\<close>\<close>
  fl_other :: other_frames
  fl_synced :: bool  \<comment> \<open>resolves its synced promise on a SyncStep2\<close>
  fl_before :: "string list"  \<comment> \<open>counters incremented before a send\<close>
  fl_after :: "string list"  \<comment> \<open>counters incremented after a send\<close>
  fl_received :: "string list"  \<comment> \<open>counters incremented on an update\<close>

subsection \<open>Sending\<close>

text \<open>\<^verbatim>\<open>WebSocket.send\<close>: throws while connecting, drops silently once closing.\<close>

definition ws_send :: "ws_message \<Rightarrow> ('d, 'a, 'z) raw_act" where
  "ws_send m s =
     (case c_ws s of
        WsConnecting \<Rightarrow> throw (DOMException ''InvalidStateError'') s
      | WsOpen \<Rightarrow> call (WsSend m) s
      | _ \<Rightarrow> skip s)"

definition ws_close :: "('d, 'a, 'z) raw_act" where
  "ws_close = block [call WsClose, modify (\<lambda>s. s\<lparr>c_ws := (if c_ws s = WsClosed then WsClosed else WsClosing)\<rparr>)]"

definition identifier_of :: "jsstring \<Rightarrow> jsval" where
  "identifier_of room = JObj [(''channel'', JStr (js ''DocumentChannel'')), (''id'', JStr room)]"

definition update_data :: "bytes \<Rightarrow> jsval" where
  "update_data frame = JObj [(''update'', JStr (b64_of frame))]"

definition counts :: "string list \<Rightarrow> ('d, 'a, 'z) raw_act" where
  "counts ns = forA ns (\<lambda>n. call (Count n))"

definition raw_send :: "flavour \<Rightarrow> bytes \<Rightarrow> ('d, 'a, 'z) raw_act" where
  "raw_send F frame =
     ifA (\<lambda>s. fl_guard F \<and> (c_closed s \<or> c_ws s \<noteq> WsOpen)) skip
       (block [
          counts (fl_before F),
          (\<lambda>s. ws_send (Message (c_ident s) (update_data frame)) s),
          counts (fl_after F)])"

text \<open>The "update" listener: edits of other peers are not echoed.\<close>

definition raw_listener ::
  "('d, 'a) api \<Rightarrow> (bytes \<Rightarrow> ('d, 'a, 'z) raw_act) \<Rightarrow> bytes \<Rightarrow> raw_origin \<Rightarrow> ('d, 'a, 'z) raw_act" where
  "raw_listener A send u org = ifA (\<lambda>_. org = Remote) skip (send (frameUpdate A u))"

definition emit_updates ::
  "(bytes \<Rightarrow> raw_origin \<Rightarrow> ('d, 'a, 'z) raw_act) \<Rightarrow> bytes list \<Rightarrow> raw_origin \<Rightarrow> ('d, 'a, 'z) raw_act" where
  "emit_updates listener us org = forA us (\<lambda>u. whenA c_listening (listener u org))"

text \<open>An edit through the document's own API.\<close>

definition raw_edit ::
  "(bytes \<Rightarrow> raw_origin \<Rightarrow> ('d, 'a, 'z) raw_act) \<Rightarrow> ('d \<Rightarrow> 'd \<times> bytes list) \<Rightarrow> ('d, 'a, 'z) raw_act" where
  "raw_edit listener f s =
     block [modify (\<lambda>s. s\<lparr>c_doc := fst (f (c_doc s))\<rparr>), emit_updates listener (snd (f (c_doc s))) Local] s"

subsection \<open>Receiving\<close>

text \<open>\<^verbatim>\<open>while (decoding.hasContent(decoder)) body\<close>: the body gets the unread bytes and the loop.\<close>

primrec while_content ::
  "nat \<Rightarrow> (bytes \<Rightarrow> (bytes \<Rightarrow> ('s, 'e) act) \<Rightarrow> ('s, 'e) act) \<Rightarrow> bytes \<Rightarrow> ('s, 'e) act"
where
  "while_content 0 body bs = (if bs = [] then skip else throw OutOfFuel)"
| "while_content (Suc n) body bs = (if bs = [] then skip else body bs (while_content n body))"

text \<open>
  \<^verbatim>\<open>readSyncMessage(decoder, enc, this.doc, "remote")\<close>: the document changes, its updates reach the
  listener, then the call returns the sync type, the rest of the decoder and the reply, or throws.
\<close>

definition read_sync ::
  "('d, 'a) api \<Rightarrow> (bytes \<Rightarrow> raw_origin \<Rightarrow> ('d, 'a, 'z) raw_act) \<Rightarrow> bytes
   \<Rightarrow> (nat \<Rightarrow> bytes \<Rightarrow> bytes \<Rightarrow> ('d, 'a, 'z) raw_act) \<Rightarrow> ('d, 'a, 'z) raw_act" where
  "read_sync A listener m k s =
     (case readSyncMessage A m (c_doc s) of
        (d, us, r) \<Rightarrow>
          block [
            modify (\<lambda>s. s\<lparr>c_doc := d\<rparr>),
            emit_updates listener us Remote,
            (case r of Inl x \<Rightarrow> throw x | Inr (t, rest, w) \<Rightarrow> k t rest w)] s)"

definition apply_awareness :: "('d, 'a) api \<Rightarrow> bytes \<Rightarrow> ('d, 'a, 'z) raw_act" where
  "apply_awareness A b s =
     (case applyAwarenessUpdate A b (c_aw s) of
        (a, _, x) \<Rightarrow> block [modify (\<lambda>s. s\<lparr>c_aw := a\<rparr>), (case x of None \<Rightarrow> skip | Some e \<Rightarrow> throw e)] s)"

definition raw_other ::
  "('d, 'a) api \<Rightarrow> flavour \<Rightarrow> nat \<Rightarrow> bytes \<Rightarrow> (bytes \<Rightarrow> ('d, 'a, 'z) raw_act) \<Rightarrow> ('d, 'a, 'z) raw_act" where
  "raw_other A F ty r loop =
     (let skip_array = (\<lambda>k. case readVarUint8Array A r of Inl x \<Rightarrow> throw x | Inr (b, rest) \<Rightarrow> block [k b, loop rest])
      in case fl_other F of
           ApplyOrThrow \<Rightarrow>
             if ty = MessageType_Awareness then skip_array (apply_awareness A)
             else throw (JsError ''unknown message type'')
         | SkipOrThrow \<Rightarrow>
             if ty = MessageType_Awareness then skip_array (\<lambda>_. skip)
             else throw (JsError ''unknown message type'')
         | ApplyOrIgnore \<Rightarrow>
             if ty = MessageType_Awareness then skip_array (apply_awareness A) else loop r
         | SkipArray \<Rightarrow> skip_array (\<lambda>_. skip)
         | SkipArrayOrStop \<Rightarrow>
             (case readVarUint8Array A r of Inl x \<Rightarrow> skip | Inr (b, rest) \<Rightarrow> loop rest))"

definition raw_body ::
  "('d, 'a) api \<Rightarrow> flavour \<Rightarrow> (bytes \<Rightarrow> raw_origin \<Rightarrow> ('d, 'a, 'z) raw_act) \<Rightarrow> (bytes \<Rightarrow> ('d, 'a, 'z) raw_act)
   \<Rightarrow> bytes \<Rightarrow> (bytes \<Rightarrow> ('d, 'a, 'z) raw_act) \<Rightarrow> ('d, 'a, 'z) raw_act" where
  "raw_body A F listener send bs loop =
     (case readVarUint A bs of
        Inl x \<Rightarrow> throw x
      | Inr (ty, r) \<Rightarrow>
          if ty = MessageType_Sync
          then read_sync A listener r (\<lambda>t rest w.
                 let enc = writeVarUint A MessageType_Sync @ w
                 in block [
                      whenA (\<lambda>_. fl_reply F \<and> 1 < length enc) (send enc),
                      whenA (\<lambda>_. fl_synced F \<and> t = messageYjsSyncStep2 A) (call (Resolve ''synced'')),
                      loop rest])
          else raw_other A F ty r loop)"

definition raw_receive ::
  "('d, 'a) api \<Rightarrow> flavour \<Rightarrow> (bytes \<Rightarrow> raw_origin \<Rightarrow> ('d, 'a, 'z) raw_act) \<Rightarrow> (bytes \<Rightarrow> ('d, 'a, 'z) raw_act)
   \<Rightarrow> bytes \<Rightarrow> ('d, 'a, 'z) raw_act" where
  "raw_receive A F listener send bs = while_content (length bs) (raw_body A F listener send) bs"

text \<open>\<^verbatim>\<open>v?.name\<close>\<close>

definition js_opt :: "jsval \<Rightarrow> string \<Rightarrow> jsval" where
  "js_opt v k = (if v = JUndef \<or> v = JNull then JUndef else case js_get v k of Inl _ \<Rightarrow> JUndef | Inr w \<Rightarrow> w)"

definition send_step1 :: "('d, 'a) api \<Rightarrow> (bytes \<Rightarrow> ('d, 'a, 'z) raw_act) \<Rightarrow> ('d, 'a, 'z) raw_act" where
  "send_step1 A send s = send (frameSyncStep1 A (c_doc s)) s"

definition send_subscribe :: "('d, 'a, 'z) raw_act" where
  "send_subscribe s = ws_send (Subscribe (c_ident s)) s"

text \<open>
  The cable message handler, up to its last branch: \<open>payload\<close> is what the class does with a message
  that is not one of the protocol's own.
\<close>

definition raw_dispatch ::
  "('d, 'a) api \<Rightarrow> flavour \<Rightarrow> (bytes \<Rightarrow> ('d, 'a, 'z) raw_act) \<Rightarrow> (jsval \<Rightarrow> ('d, 'a, 'z) raw_act)
   \<Rightarrow> jsval \<Rightarrow> ('d, 'a, 'z) raw_act" where
  "raw_dispatch A F send payload msg =
     (case js_get msg ''type'' of
        Inl x \<Rightarrow> throw x
      | Inr ty \<Rightarrow>
          if ty = JStr (js ''welcome'') then send_subscribe
          else if ty = JStr (js ''confirm_subscription'')
          then block [send_step1 A send, call (Resolve ''subscribed'')]
          else if ty \<in> JStr ` js ` set (fl_early F) then skip
          else payload (js_opt msg ''message''))"

definition raw_payload ::
  "('d, 'a, 'y) runtime_scheme \<Rightarrow> flavour \<Rightarrow> (bytes \<Rightarrow> raw_origin \<Rightarrow> ('d, 'a, 'z) raw_act)
   \<Rightarrow> (bytes \<Rightarrow> ('d, 'a, 'z) raw_act) \<Rightarrow> jsval \<Rightarrow> ('d, 'a, 'z) raw_act" where
  "raw_payload R F listener send m =
     (let v = js_opt m ''update''
      in if truthy v
         then block [
                counts (fl_received F),
                (case rt_decode R v of Inl x \<Rightarrow> throw x | Inr bs \<Rightarrow> raw_receive (rt_api R) F listener send bs)]
         else skip)"

definition raw_onMessage ::
  "('d, 'a, 'y) runtime_scheme \<Rightarrow> flavour \<Rightarrow> (bytes \<Rightarrow> raw_origin \<Rightarrow> ('d, 'a, 'z) raw_act)
   \<Rightarrow> (bytes \<Rightarrow> ('d, 'a, 'z) raw_act) \<Rightarrow> jsval \<Rightarrow> ('d, 'a, 'z) raw_act" where
  "raw_onMessage R F listener send =
     raw_dispatch (rt_api R) F send (raw_payload R F listener send)"

subsection \<open>Presence\<close>

definition send_presence_for :: "('d, 'a) api \<Rightarrow> (bytes \<Rightarrow> ('d, 'a, 'z) raw_act) \<Rightarrow> ('d, 'a, 'z) raw_act" where
  "send_presence_for A send s = send (frameAwareness A (c_aw s) [clientID A (c_doc s)]) s"

definition set_presence ::
  "('d, 'a) api \<Rightarrow> (bytes \<Rightarrow> ('d, 'a, 'z) raw_act) \<Rightarrow> jsval \<Rightarrow> ('d, 'a, 'z) raw_act" where
  "set_presence A send v =
     block [modify (\<lambda>s. s\<lparr>c_aw := fst (setLocalState A v (c_aw s))\<rparr>), send_presence_for A send]"

text \<open>A constructor: the listener is on, the socket is connecting.\<close>

definition raw_new :: "('d, 'a, 'y) runtime_scheme \<Rightarrow> jsstring \<Rightarrow> ('d, 'a) raw" where
  "raw_new R room =
     \<lparr>c_doc = newDoc (rt_api R), c_aw = rt_awareness R (newDoc (rt_api R)), c_ws = WsConnecting,
      c_ident = identifier_of room, c_listening = True, c_closed = False\<rparr>"

end
