(* ===== verification/Demo_Clients.thy ===== *)
theory Demo_Clients
  imports Raw_Client
begin

text \<open>
  The client classes of examples/actioncable-demo/frontend, one section per file, as instances of
  the raw client. Each class gives its flavour, its constructor and its methods.
\<close>

subsection \<open>e2e.mjs: TestClient\<close>

definition e2e_flavour :: flavour where
  "e2e_flavour = \<lparr>fl_early = [''ping'', ''disconnect''], fl_guard = False, fl_reply = True,
     fl_other = ApplyOrThrow, fl_synced = False, fl_before = [], fl_after = [], fl_received = []\<rparr>"

definition e2e_send :: "bytes \<Rightarrow> ('d, 'a, 'z) raw_act" where
  "e2e_send = raw_send e2e_flavour"

definition e2e_listener :: "('d, 'a) api \<Rightarrow> bytes \<Rightarrow> raw_origin \<Rightarrow> ('d, 'a, 'z) raw_act" where
  "e2e_listener A = raw_listener A e2e_send"

definition e2e_new :: "('d, 'a, 'y) runtime_scheme \<Rightarrow> jsstring \<Rightarrow> ('d, 'a) raw \<times> raw_call list" where
  "e2e_new R room = (raw_new R room, [WsNew])"

definition e2e_onMessage :: "('d, 'a, 'y) runtime_scheme \<Rightarrow> jsval \<Rightarrow> ('d, 'a, 'z) raw_act" where
  "e2e_onMessage R = raw_onMessage R e2e_flavour (e2e_listener (rt_api R)) e2e_send"

definition e2e_receiveBinary :: "('d, 'a) api \<Rightarrow> bytes \<Rightarrow> ('d, 'a, 'z) raw_act" where
  "e2e_receiveBinary A = raw_receive A e2e_flavour (e2e_listener A) e2e_send"

definition e2e_sendPresenceFor :: "('d, 'a) api \<Rightarrow> nat list \<Rightarrow> ('d, 'a, 'z) raw_act" where
  "e2e_sendPresenceFor A clientIds s = e2e_send (frameAwareness A (c_aw s) clientIds) s"

definition e2e_setPresence :: "('d, 'a) api \<Rightarrow> jsval \<Rightarrow> ('d, 'a, 'z) raw_act" where
  "e2e_setPresence A v =
     block [
       modify (\<lambda>s. s\<lparr>c_aw := fst (setLocalState A v (c_aw s))\<rparr>),
       (\<lambda>s. e2e_sendPresenceFor A [clientID A (c_doc s)] s)]"

definition e2e_insertParagraph :: "('d, 'a, 'y) runtime_scheme \<Rightarrow> jsstring \<Rightarrow> ('d, 'a, 'z) raw_act" where
  "e2e_insertParagraph R t = raw_edit (e2e_listener (rt_api R)) (rt_paragraph R t)"

definition e2e_textContent :: "('d, 'a, 'y) runtime_scheme \<Rightarrow> ('d, 'a, 'z) raw_scheme \<Rightarrow> jsstring" where
  "e2e_textContent R s = rt_text R (c_doc s)"

text \<open>The socket is closed 50 ms later, so that the removal frame is flushed first.\<close>

definition e2e_close :: "('d, 'a) api \<Rightarrow> ('d, 'a, 'z) raw_act" where
  "e2e_close A =
     block [
       modify (\<lambda>s. s\<lparr>c_aw := fst (setLocalState A JNull (c_aw s))\<rparr>),
       (\<lambda>s. e2e_sendPresenceFor A [clientID A (c_doc s)] s),
       call (CloseAfter 50)]"

subsection \<open>stress.mjs: StressClient\<close>

record ('d, 'a) stress = "('d, 'a) raw" +
  s_churn :: bool
  s_reconnected :: bool

definition stress_flavour :: flavour where
  "stress_flavour = \<lparr>fl_early = [''ping'', ''disconnect''], fl_guard = True, fl_reply = True,
     fl_other = ApplyOrThrow, fl_synced = False, fl_before = [''messagesSent''], fl_after = [],
     fl_received = [''messagesReceived'']\<rparr>"

definition stress_send :: "bytes \<Rightarrow> ('d, 'a, 'z) raw_act" where
  "stress_send = raw_send stress_flavour"

definition stress_listener :: "('d, 'a) api \<Rightarrow> bytes \<Rightarrow> raw_origin \<Rightarrow> ('d, 'a, 'z) raw_act" where
  "stress_listener A = raw_listener A stress_send"

definition stress_new :: "('d, 'a, 'y) runtime_scheme \<Rightarrow> jsstring \<Rightarrow> ('d, 'a) stress \<times> raw_call list" where
  "stress_new R room =
     (raw.extend (raw_new R room) \<lparr>s_churn = False, s_reconnected = False\<rparr>, [WsNew])"

text \<open>\<^verbatim>\<open>ws.onerror\<close>: an error of a client that was not closed is thrown.\<close>

definition stress_onerror :: "('d, 'a, 'z) raw_act" where
  "stress_onerror = ifA (\<lambda>s. \<not> c_closed s) (throw (JsError ''websocket error'')) skip"

definition stress_onMessage :: "('d, 'a, 'y) runtime_scheme \<Rightarrow> jsval \<Rightarrow> ('d, 'a, 'z) raw_act" where
  "stress_onMessage R = raw_onMessage R stress_flavour (stress_listener (rt_api R)) stress_send"

definition stress_receiveBinary :: "('d, 'a) api \<Rightarrow> bytes \<Rightarrow> ('d, 'a, 'z) raw_act" where
  "stress_receiveBinary A = raw_receive A stress_flavour (stress_listener A) stress_send"

definition stress_text :: "('d, 'a, 'y) runtime_scheme \<Rightarrow> ('d, 'a, 'z) raw_scheme \<Rightarrow> jsstring" where
  "stress_text R s = rt_text R (c_doc s)"

text \<open>
  The text node of the shared paragraph: \<open>ready\<close> creates it if it is missing, \<open>size\<close> is its length
  and \<open>insert_at\<close> inserts into it; the whole transaction emits one list of updates. The offset is
  drawn with \<^verbatim>\<open>Math.floor(Math.random() * (ytext.length + 1))\<close>.
\<close>

record 'd shared_text =
  st_ready :: "'d \<Rightarrow> 'd"
  st_size :: "'d \<Rightarrow> nat"
  st_insert :: "nat \<Rightarrow> jsstring \<Rightarrow> 'd \<Rightarrow> 'd"
  st_updates :: "'d \<Rightarrow> 'd \<Rightarrow> bytes list"

definition random_offset :: "rat \<Rightarrow> nat \<Rightarrow> nat" where
  "random_offset r n = nat \<lfloor>r * (of_nat n + 1)\<rfloor>"

definition stress_insert :: "'d shared_text \<Rightarrow> rat \<Rightarrow> jsstring \<Rightarrow> 'd \<Rightarrow> 'd \<times> bytes list" where
  "stress_insert T r token d =
     (let d1 = st_ready T d; d2 = st_insert T (random_offset r (st_size T d1)) token d1
      in (d2, st_updates T d d2))"

definition stress_edit ::
  "('d, 'a) api \<Rightarrow> 'd shared_text \<Rightarrow> rat \<Rightarrow> jsstring \<Rightarrow> ('d, 'a, 'z) raw_act" where
  "stress_edit A T r token = raw_edit (stress_listener A) (stress_insert T r token)"

definition stress_setPresence :: "('d, 'a) api \<Rightarrow> jsval \<Rightarrow> ('d, 'a, 'z) raw_act" where
  "stress_setPresence A v = set_presence A stress_send v"

text \<open>
  What one round of the storm does, in order; the awaits between them let other events happen.
\<close>

datatype storm_action = StormClose | StormReconnect | StormEdit nat | StormPresence nat | StormFlush

definition storm_offlineAt :: "bool \<Rightarrow> nat \<Rightarrow> int" where
  "storm_offlineAt churn edits = (if churn then int edits div 2 else -1)"

definition storm_round :: "bool \<Rightarrow> nat \<Rightarrow> nat \<Rightarrow> storm_action list" where
  "storm_round churn edits k =
     (if int k = storm_offlineAt churn edits then [StormClose] else [])
     @ (if int k = storm_offlineAt churn edits + 10 then [StormReconnect] else [])
     @ [StormEdit k]
     @ (if k mod 5 = 0 then [StormPresence k] else [])"

definition storm :: "bool \<Rightarrow> nat \<Rightarrow> storm_action list" where
  "storm churn edits =
     concat (map (storm_round churn edits) [0..<edits]) @ (if churn then [StormFlush] else [])"

definition stress_reconnect :: "(('d, 'a) stress, raw_call) act" where
  "stress_reconnect = block [modify (\<lambda>s. s\<lparr>c_ws := WsConnecting\<rparr>), call WsNew]"

definition stress_reconnected :: "(('d, 'a) stress, raw_call) act" where
  "stress_reconnected = modify (\<lambda>s. s\<lparr>s_reconnected := True\<rparr>)"

definition stress_flushOffline :: "('d, 'a) api \<Rightarrow> ('d, 'a, 'z) raw_act" where
  "stress_flushOffline A = send_step1 A stress_send"

definition stress_close :: "('d, 'a, 'z) raw_act" where
  "stress_close = block [modify (\<lambda>s. s\<lparr>c_closed := True\<rparr>), ws_close]"

subsection \<open>chaos.mjs: Client\<close>

definition chaos_flavour :: flavour where
  "chaos_flavour = \<lparr>fl_early = [], fl_guard = True, fl_reply = True, fl_other = SkipArray,
     fl_synced = False, fl_before = [], fl_after = [], fl_received = []\<rparr>"

definition chaos_send :: "bytes \<Rightarrow> ('d, 'a, 'z) raw_act" where
  "chaos_send = raw_send chaos_flavour"

definition chaos_listener :: "('d, 'a) api \<Rightarrow> bytes \<Rightarrow> raw_origin \<Rightarrow> ('d, 'a, 'z) raw_act" where
  "chaos_listener A = raw_listener A chaos_send"

definition chaos_new :: "('d, 'a, 'y) runtime_scheme \<Rightarrow> jsstring \<Rightarrow> ('d, 'a) raw \<times> raw_call list" where
  "chaos_new R room = (raw_new R room, [WsNew])"

definition chaos_msg :: "('d, 'a, 'y) runtime_scheme \<Rightarrow> jsval \<Rightarrow> ('d, 'a, 'z) raw_act" where
  "chaos_msg R = raw_onMessage R chaos_flavour (chaos_listener (rt_api R)) chaos_send"

definition chaos_edit :: "('d, 'a, 'y) runtime_scheme \<Rightarrow> jsstring \<Rightarrow> ('d, 'a, 'z) raw_act" where
  "chaos_edit R t = raw_edit (chaos_listener (rt_api R)) (rt_paragraph R t)"

definition chaos_text :: "('d, 'a, 'y) runtime_scheme \<Rightarrow> ('d, 'a, 'z) raw_scheme \<Rightarrow> jsstring" where
  "chaos_text R s = rt_text R (c_doc s)"

definition chaos_state :: "('d, 'a, 'y) runtime_scheme \<Rightarrow> ('d, 'a, 'z) raw_scheme \<Rightarrow> bytes" where
  "chaos_state R s = rt_state R (c_doc s)"

subsection \<open>chaos.mjs: Vandal\<close>

text \<open>A raw command of the vandal: the "data" text is sent as it is.\<close>

record vandal =
  v_ident :: jsval
  v_ws :: ws_state

datatype vandal_call = VSubscribe jsval | VReady | VRaw jsval vandal_data
and vandal_data = NotJson | JsonData jsval

definition vandal_new :: "jsstring \<Rightarrow> vandal" where
  "vandal_new room = \<lparr>v_ident = identifier_of room, v_ws = WsConnecting\<rparr>"

definition vandal_onmessage :: "jsval \<Rightarrow> (vandal, vandal_call) act" where
  "vandal_onmessage m s =
     (case js_get m ''type'' of
        Inl x \<Rightarrow> throw x s
      | Inr ty \<Rightarrow>
          if ty = JStr (js ''welcome'')
          then (if v_ws s = WsConnecting then throw (DOMException ''InvalidStateError'') s
                else if v_ws s = WsOpen then call (VSubscribe (v_ident s)) s else skip s)
          else if ty = JStr (js ''confirm_subscription'') then call VReady s
          else skip s)"

definition vandal_raw :: "vandal_data \<Rightarrow> (vandal, vandal_call) act" where
  "vandal_raw d s = (if v_ws s \<noteq> WsOpen then skip s else call (VRaw (v_ident s) d) s)"

text \<open>The payloads, in order; \<open>rnd n\<close> are the n random bytes drawn, \<open>step1\<close> the valid frame.\<close>

definition vandal_payloads :: "(nat \<Rightarrow> bytes) \<Rightarrow> bytes \<Rightarrow> vandal_data list" where
  "vandal_payloads rnd step1 =
     [NotJson,
      JsonData (JObj [(''x'', JInt 1)]),
      JsonData (JObj [(''update'', JInt 12345)]),
      JsonData (JObj [(''update'', JStr (js ''!!!not-base64!!!''))]),
      JsonData (update_data (rnd 4)),
      JsonData (update_data (rnd 64)),
      JsonData (update_data (rnd 4096)),
      JsonData (update_data (rnd 200000)),
      JsonData (update_data [99, 99, 99]),
      JsonData (update_data [0, 1, 255, 255, 255, 255, 15]),
      JsonData (update_data [1, 255, 255, 255, 255, 15]),
      JsonData (update_data (butlast step1))]"

subsection \<open>multiprocess.mjs: Client\<close>

definition mp_flavour :: flavour where
  "mp_flavour = \<lparr>fl_early = [], fl_guard = True, fl_reply = True, fl_other = ApplyOrIgnore,
     fl_synced = True, fl_before = [], fl_after = [], fl_received = []\<rparr>"

definition mp_send :: "bytes \<Rightarrow> ('d, 'a, 'z) raw_act" where
  "mp_send = raw_send mp_flavour"

definition mp_listener :: "('d, 'a) api \<Rightarrow> bytes \<Rightarrow> raw_origin \<Rightarrow> ('d, 'a, 'z) raw_act" where
  "mp_listener A = raw_listener A mp_send"

definition mp_new :: "('d, 'a, 'y) runtime_scheme \<Rightarrow> jsstring \<Rightarrow> ('d, 'a) raw \<times> raw_call list" where
  "mp_new R room = (raw_new R room, [WsNew])"

definition mp_msg :: "('d, 'a, 'y) runtime_scheme \<Rightarrow> jsval \<Rightarrow> ('d, 'a, 'z) raw_act" where
  "mp_msg R = raw_onMessage R mp_flavour (mp_listener (rt_api R)) mp_send"

definition mp_edit :: "('d, 'a, 'y) runtime_scheme \<Rightarrow> jsstring \<Rightarrow> ('d, 'a, 'z) raw_act" where
  "mp_edit R t = raw_edit (mp_listener (rt_api R)) (rt_paragraph R t)"

definition mp_setPresence :: "('d, 'a) api \<Rightarrow> jsval \<Rightarrow> ('d, 'a, 'z) raw_act" where
  "mp_setPresence A v = set_presence A mp_send v"

text \<open>\<^verbatim>\<open>.map((s) => s.user?.name).filter(Boolean)\<close> over the states.\<close>

definition mp_presenceNames :: "jsval list \<Rightarrow> jsval list" where
  "mp_presenceNames states = filter truthy (map (\<lambda>s. js_opt (js_opt s ''user'') ''name'') states)"

definition mp_text :: "('d, 'a, 'y) runtime_scheme \<Rightarrow> ('d, 'a, 'z) raw_scheme \<Rightarrow> jsstring" where
  "mp_text R s = rt_text R (c_doc s)"

definition mp_state :: "('d, 'a, 'y) runtime_scheme \<Rightarrow> ('d, 'a, 'z) raw_scheme \<Rightarrow> bytes" where
  "mp_state R s = rt_state R (c_doc s)"

subsection \<open>crash_recovery.mjs: Client\<close>

definition crash_flavour :: flavour where
  "crash_flavour = \<lparr>fl_early = [], fl_guard = True, fl_reply = True, fl_other = SkipArray,
     fl_synced = True, fl_before = [], fl_after = [], fl_received = []\<rparr>"

definition crash_send :: "bytes \<Rightarrow> ('d, 'a, 'z) raw_act" where
  "crash_send = raw_send crash_flavour"

definition crash_listener :: "('d, 'a) api \<Rightarrow> bytes \<Rightarrow> raw_origin \<Rightarrow> ('d, 'a, 'z) raw_act" where
  "crash_listener A = raw_listener A crash_send"

definition crash_new :: "('d, 'a, 'y) runtime_scheme \<Rightarrow> jsstring \<Rightarrow> ('d, 'a) raw \<times> raw_call list" where
  "crash_new R room = (raw_new R room, [WsNew])"

definition crash_msg :: "('d, 'a, 'y) runtime_scheme \<Rightarrow> jsval \<Rightarrow> ('d, 'a, 'z) raw_act" where
  "crash_msg R = raw_onMessage R crash_flavour (crash_listener (rt_api R)) crash_send"

definition crash_edit :: "('d, 'a, 'y) runtime_scheme \<Rightarrow> jsstring \<Rightarrow> ('d, 'a, 'z) raw_act" where
  "crash_edit R t = raw_edit (crash_listener (rt_api R)) (rt_paragraph R t)"

definition crash_text :: "('d, 'a, 'y) runtime_scheme \<Rightarrow> ('d, 'a, 'z) raw_scheme \<Rightarrow> jsstring" where
  "crash_text R s = rt_text R (c_doc s)"

subsection \<open>audit.mjs: Client\<close>

definition auditc_flavour :: flavour where
  "auditc_flavour = \<lparr>fl_early = [], fl_guard = False, fl_reply = True, fl_other = SkipArray,
     fl_synced = False, fl_before = [], fl_after = [], fl_received = []\<rparr>"

definition auditc_send :: "bytes \<Rightarrow> ('d, 'a, 'z) raw_act" where
  "auditc_send = raw_send auditc_flavour"

definition auditc_listener :: "('d, 'a) api \<Rightarrow> bytes \<Rightarrow> raw_origin \<Rightarrow> ('d, 'a, 'z) raw_act" where
  "auditc_listener A = raw_listener A auditc_send"

definition auditc_new :: "('d, 'a, 'y) runtime_scheme \<Rightarrow> jsstring \<Rightarrow> ('d, 'a) raw \<times> raw_call list" where
  "auditc_new R room = (raw_new R room, [WsNew])"

definition auditc_onMessage :: "('d, 'a, 'y) runtime_scheme \<Rightarrow> jsval \<Rightarrow> ('d, 'a, 'z) raw_act" where
  "auditc_onMessage R = raw_onMessage R auditc_flavour (auditc_listener (rt_api R)) auditc_send"

text \<open>\<open>number\<close> is the text of the edit's number.\<close>

definition auditc_edit :: "('d, 'a, 'y) runtime_scheme \<Rightarrow> jsstring \<Rightarrow> ('d, 'a, 'z) raw_act" where
  "auditc_edit R number =
     raw_edit (auditc_listener (rt_api R)) (rt_paragraph R (js ''change number '' @ number))"

end
