(* ===== verification/Demo_Checks.thy ===== *)
theory Demo_Checks
  imports Raw_Client
begin

text \<open>
  What the test files of the demo share: counting failed checks, polling a predicate against a
  deadline, and the string functions their assertions rest on (\<^verbatim>\<open>includes\<close>, \<^verbatim>\<open>split\<close>, the regular
  expressions that strip XML tags and that find edit markers, decimal numbers in templates).
\<close>

subsection \<open>Checks\<close>

text \<open>A file's \<open>failures\<close> counter is the state; a line of the console is a call.\<close>

datatype console = Ok string | Fail string

definition check :: "string \<Rightarrow> bool \<Rightarrow> (nat, console) act" where
  "check label ok =
     block [call (if ok then Ok label else Fail label), whenA (\<lambda>_. \<not> ok) (modify Suc)]"

definition exit_code :: "nat \<Rightarrow> nat" where
  "exit_code failures = (if failures > 0 then 1 else 0)"

definition checks :: "(string \<times> bool) list \<Rightarrow> (nat, console) act" where
  "checks cs = forA cs (\<lambda>(label, ok). check label ok)"

lemma check_eq: "check label ok n = (if ok then n else Suc n, [if ok then Ok label else Fail label], None)"
  by (simp add: check_def andThen_eq)

lemma checks_eq:
  "checks cs n =
     (n + length (filter (\<lambda>(l, ok). \<not> ok) cs), map (\<lambda>(l, ok). if ok then Ok l else Fail l) cs, None)"
  by (induction cs arbitrary: n) (auto simp: checks_def check_eq andThen_eq)

subsection \<open>Polling\<close>

text \<open>
  \<^verbatim>\<open>while (Date.now() < deadline) { if (predicate()) .. await sleep }\<close>: a sample is the clock at the
  loop's test and what the predicate gives there, read at most once per round. The samples are what
  the environment gives; \<open>Polling\<close> is a loop that is still asleep after them.
\<close>

datatype poll_end = PollTrue | PollTimeout | PollThrew js_error | Polling

fun poll :: "int \<Rightarrow> (int \<times> (js_error + bool)) list \<Rightarrow> poll_end" where
  "poll deadline [] = Polling"
| "poll deadline ((now, r) # rest) =
     (if now < deadline
      then (case r of Inl x \<Rightarrow> PollThrew x | Inr b \<Rightarrow> if b then PollTrue else poll deadline rest)
      else PollTimeout)"

text \<open>What a caller of a wait gets once it ended.\<close>

datatype 'a wait_end = Done 'a | Throws js_error | Asleep

text \<open>e2e.mjs and reliable.mjs: log, or throw.\<close>

definition wait_or_throw ::
  "int \<Rightarrow> nat \<Rightarrow> (int \<times> (js_error + bool)) list \<Rightarrow> unit wait_end" where
  "wait_or_throw start timeoutMs samples =
     (case poll (start + int timeoutMs) samples of
        PollTrue \<Rightarrow> Done () | PollTimeout \<Rightarrow> Throws (JsError ''TIMEOUT waiting for'')
      | PollThrew x \<Rightarrow> Throws x | Polling \<Rightarrow> Asleep)"

text \<open>stress.mjs: a diagnosis is printed before the throw.\<close>

definition wait_or_diagnose ::
  "'r \<Rightarrow> int \<Rightarrow> nat \<Rightarrow> (int \<times> (js_error + bool)) list \<Rightarrow> unit wait_end \<times> 'r option" where
  "wait_or_diagnose diagnosis start timeoutMs samples =
     (case poll (start + int timeoutMs) samples of
        PollTrue \<Rightarrow> (Done (), None)
      | PollTimeout \<Rightarrow> (Throws (JsError ''TIMEOUT''), Some diagnosis)
      | PollThrew x \<Rightarrow> (Throws x, None)
      | Polling \<Rightarrow> (Asleep, None))"

text \<open>reliable_provider.mjs, reliable_stress.mjs and the browser tests: a failed check, and the value.\<close>

definition wait_for ::
  "string \<Rightarrow> int \<Rightarrow> nat \<Rightarrow> (int \<times> (js_error + bool)) list \<Rightarrow> nat \<Rightarrow> bool wait_end \<times> nat" where
  "wait_for label start ms samples failures =
     (case poll (start + int ms) samples of
        PollTrue \<Rightarrow> (Done True, failures)
      | PollTimeout \<Rightarrow> (Done False, post (check (''TIMEOUT: '' @ label) False failures))
      | PollThrew x \<Rightarrow> (Throws x, failures)
      | Polling \<Rightarrow> (Asleep, failures))"

text \<open>\<open>stayFalse\<close> of reliable.mjs and of reliable_provider.mjs.\<close>

definition stay_false_or_throw ::
  "int \<Rightarrow> nat \<Rightarrow> (int \<times> (js_error + bool)) list \<Rightarrow> unit wait_end" where
  "stay_false_or_throw start windowMs samples =
     (case poll (start + int windowMs) samples of
        PollTrue \<Rightarrow> Throws (JsError ''EXPECTED-ABSENT but present'') | PollTimeout \<Rightarrow> Done ()
      | PollThrew x \<Rightarrow> Throws x | Polling \<Rightarrow> Asleep)"

definition stay_false ::
  "string \<Rightarrow> int \<Rightarrow> nat \<Rightarrow> (int \<times> (js_error + bool)) list \<Rightarrow> nat \<Rightarrow> bool wait_end \<times> nat" where
  "stay_false label start ms samples failures =
     (case poll (start + int ms) samples of
        PollTrue \<Rightarrow> (Done False, post (check (label @ '' (unexpectedly true)'') False failures))
      | PollTimeout \<Rightarrow> (Done True, failures)
      | PollThrew x \<Rightarrow> (Throws x, failures)
      | Polling \<Rightarrow> (Asleep, failures))"

text \<open>The files' own waits, with their default times.\<close>

definition e2e_waitFor :: "int \<Rightarrow> (int \<times> (js_error + bool)) list \<Rightarrow> unit wait_end" where
  "e2e_waitFor start = wait_or_throw start 5000"

definition reliable_waitFor :: "int \<Rightarrow> (int \<times> (js_error + bool)) list \<Rightarrow> unit wait_end" where
  "reliable_waitFor start = wait_or_throw start 5000"

definition reliable_stayFalse :: "int \<Rightarrow> (int \<times> (js_error + bool)) list \<Rightarrow> unit wait_end" where
  "reliable_stayFalse start = stay_false_or_throw start 600"

definition provider_waitFor ::
  "string \<Rightarrow> int \<Rightarrow> (int \<times> (js_error + bool)) list \<Rightarrow> nat \<Rightarrow> bool wait_end \<times> nat" where
  "provider_waitFor label start = wait_for label start 5000"

definition provider_stayFalse ::
  "string \<Rightarrow> int \<Rightarrow> (int \<times> (js_error + bool)) list \<Rightarrow> nat \<Rightarrow> bool wait_end \<times> nat" where
  "provider_stayFalse label start = stay_false label start 600"

definition lossy_waitFor ::
  "string \<Rightarrow> int \<Rightarrow> (int \<times> (js_error + bool)) list \<Rightarrow> nat \<Rightarrow> bool wait_end \<times> nat" where
  "lossy_waitFor label start = wait_for label start 30000"

definition browsers_waitFor ::
  "string \<Rightarrow> int \<Rightarrow> (int \<times> (js_error + bool)) list \<Rightarrow> nat \<Rightarrow> bool wait_end \<times> nat" where
  "browsers_waitFor label start = wait_for label start 30000"

definition collab_waitFor ::
  "string \<Rightarrow> int \<Rightarrow> (int \<times> (js_error + bool)) list \<Rightarrow> nat \<Rightarrow> bool wait_end \<times> nat" where
  "collab_waitFor label start = wait_for label start 30000"

lemma poll_True_iff:
  "poll d xs = PollTrue \<longleftrightarrow>
     (\<exists>ys t zs. xs = ys @ (t, Inr True) # zs \<and> t < d \<and> (\<forall>(n, r) \<in> set ys. n < d \<and> r = Inr False))"
  (is "?P xs \<longleftrightarrow> ?Q xs")
proof
  show "?P xs \<Longrightarrow> ?Q xs"
  proof (induction d xs rule: poll.induct)
    case (2 deadline now r rest)
    show ?case
    proof (cases "r = Inr True")
      case True
      with 2 show ?thesis by (intro exI [of _ "[]"]) (auto split: if_splits)
    next
      case False
      with "2.prems" have r: "r = Inr False" "now < deadline" and p: "poll deadline rest = PollTrue"
        by (auto split: if_splits sum.splits)
      from "2.IH" [OF r(2,1) _ p] obtain ys t zs where
        "rest = ys @ (t, Inr True) # zs" "t < deadline" "\<forall>(n, r) \<in> set ys. n < deadline \<and> r = Inr False"
        by blast
      with r show ?thesis by (intro exI [of _ "(now, r) # ys"] exI [of _ t] exI [of _ zs]) auto
    qed
  qed simp
  assume "?Q xs"
  then obtain ys t zs where "xs = ys @ (t, Inr True) # zs" "t < d" "\<forall>(n, r) \<in> set ys. n < d \<and> r = Inr False"
    by blast
  then show "?P xs" by (induction ys arbitrary: xs) auto
qed

lemma poll_Timeout_iff:
  "poll d xs = PollTimeout \<longleftrightarrow>
     (\<exists>ys t r zs. xs = ys @ (t, r) # zs \<and> d \<le> t \<and> (\<forall>(n, r) \<in> set ys. n < d \<and> r = Inr False))"
  (is "?P xs \<longleftrightarrow> ?Q xs")
proof
  show "?P xs \<Longrightarrow> ?Q xs"
  proof (induction d xs rule: poll.induct)
    case (2 deadline now r rest)
    show ?case
    proof (cases "now < deadline")
      case False
      then show ?thesis by (intro exI [of _ "[]"] exI [of _ now] exI [of _ r] exI [of _ rest]) auto
    next
      case True
      with "2.prems" have r: "r = Inr False" and p: "poll deadline rest = PollTimeout"
        by (auto split: if_splits sum.splits)
      from "2.IH" [OF True r _ p] obtain ys t r' zs where
        "rest = ys @ (t, r') # zs" "deadline \<le> t" "\<forall>(n, r) \<in> set ys. n < deadline \<and> r = Inr False"
        by blast
      with r True show ?thesis
        by (intro exI [of _ "(now, r) # ys"] exI [of _ t] exI [of _ r'] exI [of _ zs]) auto
    qed
  qed simp
  assume "?Q xs"
  then obtain ys t r zs where "xs = ys @ (t, r) # zs" "d \<le> t" "\<forall>(n, r) \<in> set ys. n < d \<and> r = Inr False"
    by blast
  then show "?P xs" by (induction ys arbitrary: xs) auto
qed

lemma poll_ends:
  "poll d xs = Polling \<Longrightarrow> xs = ys @ [(t, r)] \<Longrightarrow> t < d"
  by (induction ys arbitrary: xs) (auto split: if_splits sum.splits)

subsection \<open>Bytes and strings\<close>

text \<open>\<^verbatim>\<open>a.length === b.length && a.every((x, i) => x === b[i])\<close>\<close>

definition sameBytes :: "bytes \<Rightarrow> bytes \<Rightarrow> bool" where
  "sameBytes a b \<longleftrightarrow> length a = length b \<and> list_all (\<lambda>i. a ! i = b ! i) [0..<length a]"

lemma sameBytes_iff: "sameBytes a b \<longleftrightarrow> a = b"
  by (auto simp: sameBytes_def list_all_iff intro: nth_equalityI)

fun js_starts :: "jsstring \<Rightarrow> jsstring \<Rightarrow> bool" where
  "js_starts s [] \<longleftrightarrow> True"
| "js_starts [] t \<longleftrightarrow> False"
| "js_starts (c # s) (d # t) \<longleftrightarrow> c = d \<and> js_starts s t"

text \<open>\<^verbatim>\<open>s.includes(t)\<close>\<close>

fun js_includes :: "jsstring \<Rightarrow> jsstring \<Rightarrow> bool" where
  "js_includes [] t \<longleftrightarrow> t = []"
| "js_includes (c # s) t \<longleftrightarrow> js_starts (c # s) t \<or> js_includes s t"

lemma js_starts_iff: "js_starts s t \<longleftrightarrow> (\<exists>u. s = t @ u)"
  by (induction s t rule: js_starts.induct) auto

lemma js_includes_iff: "js_includes s t \<longleftrightarrow> (\<exists>u v. s = u @ t @ v)"
proof (induction s)
  case (Cons c s)
  have "(\<exists>u v. c # s = u @ t @ v) \<longleftrightarrow> (\<exists>v. c # s = t @ v) \<or> (\<exists>u v. s = u @ t @ v)"
    by (auto simp: Cons_eq_append_conv)
  with Cons show ?case by (simp add: js_starts_iff)
qed auto

lemma js_includes_sub: "js_includes s (a @ t @ b) \<Longrightarrow> js_includes s t"
  by (auto simp: js_includes_iff) (metis append_assoc)

text \<open>\<^verbatim>\<open>s.split(c)\<close> for a separator of one code unit.\<close>

fun js_split :: "16 word \<Rightarrow> jsstring \<Rightarrow> jsstring list" where
  "js_split c [] = [[]]"
| "js_split c (d # s) =
     (if d = c then [] # js_split c s
      else case js_split c s of [] \<Rightarrow> [[d]] | p # ps \<Rightarrow> (d # p) # ps)"

definition countChar :: "jsstring \<Rightarrow> 16 word \<Rightarrow> nat" where
  "countChar s c = length (js_split c s) - 1"

lemma js_split_length: "length (js_split c s) = Suc (count_list s c)"
  by (induction c s rule: js_split.induct) (auto split: list.splits)

lemma countChar_eq: "countChar s c = count_list s c"
  by (simp add: countChar_def js_split_length)

subsection \<open>Stripping tags\<close>

text \<open>\<^verbatim>\<open>[^>]*>\<close> at a position: what it matches before the first \<^verbatim>\<open>>\<close>, and the rest.\<close>

fun to_gt :: "jsstring \<Rightarrow> (jsstring \<times> jsstring) option" where
  "to_gt [] = None"
| "to_gt (c # s) =
     (if c = 62 then Some ([], s)
      else case to_gt s of None \<Rightarrow> None | Some (p, r) \<Rightarrow> Some (c # p, r))"

lemma to_gt_Some: "to_gt s = Some (p, r) \<Longrightarrow> s = p @ 62 # r \<and> 62 \<notin> set p"
  by (induction s arbitrary: p) (auto split: if_splits option.splits)

lemma to_gt_shorter: "to_gt s = Some (p, r) \<Longrightarrow> length r < length s"
  using to_gt_Some [of s p r] by simp

lemma to_gt_None: "to_gt s = None \<longleftrightarrow> 62 \<notin> set s"
  by (induction s) (auto split: if_splits option.splits)

text \<open>server_read.mjs: \<^verbatim>\<open>s.replace(/<[^>]*>/g, "")\<close>\<close>

function strip_tags :: "jsstring \<Rightarrow> jsstring" where
  "strip_tags [] = []"
| "strip_tags (c # s) =
     (if c = 60 then (case to_gt s of Some (p, r) \<Rightarrow> strip_tags r | None \<Rightarrow> c # strip_tags s)
      else c # strip_tags s)"
  by pat_completeness auto
termination
  by (relation "measure length") (auto dest: to_gt_shorter)

text \<open>stress.mjs: \<^verbatim>\<open>s.replace(/<[^>]+>/g, "")\<close>, which does not match the two characters \<^verbatim>\<open><>\<close>.\<close>

function strip_tags1 :: "jsstring \<Rightarrow> jsstring" where
  "strip_tags1 [] = []"
| "strip_tags1 (c # s) =
     (if c = 60
      then (case to_gt s of
              Some (p, r) \<Rightarrow> if p = [] then c # strip_tags1 s else strip_tags1 r
            | None \<Rightarrow> c # strip_tags1 s)
      else c # strip_tags1 s)"
  by pat_completeness auto
termination
  by (relation "measure length") (auto dest: to_gt_shorter)

definition visibleChars :: "jsstring \<Rightarrow> nat" where
  "visibleChars s = length (strip_tags1 s)"

lemma strip_tags1_eq: "\<not> js_includes s [60, 62] \<Longrightarrow> strip_tags1 s = strip_tags s"
proof (induction s rule: strip_tags1.induct)
  case (2 c s)
  have s: "\<not> js_includes s [60, 62]" using "2.prems" by auto
  show ?case
  proof (cases "c = 60")
    case True
    show ?thesis
    proof (cases "to_gt s")
      case None
      with 2 s True show ?thesis by simp
    next
      case (Some pr)
      obtain p r where pr: "pr = (p, r)" by (cases pr) auto
      have sp: "s = p @ 62 # r" using to_gt_Some [of s p r] Some pr by simp
      with "2.prems" True have "p \<noteq> []" by (auto simp: js_starts_iff)
      moreover have "\<not> js_includes r [60, 62]"
        using s unfolding sp js_includes_iff by (metis append_Cons append_assoc)
      ultimately show ?thesis using 2 True Some pr by simp
    qed
  qed (use 2 s in simp)
qed simp

lemma strip_tags_no_gt: "62 \<notin> set s \<Longrightarrow> strip_tags s = s"
  by (induction s) (auto simp: to_gt_None split: option.splits dest: to_gt_Some)

lemma strip_tags_idem: "strip_tags (strip_tags s) = strip_tags s"
proof (induction s rule: strip_tags.induct)
  case (2 c s)
  show ?case
  proof (cases "c = 60")
    case True
    show ?thesis
    proof (cases "to_gt s")
      case None
      then have n: "62 \<notin> set s" by (simp add: to_gt_None)
      have "strip_tags (c # s) = c # s" using n True by (intro strip_tags_no_gt) simp
      then show ?thesis by simp
    next
      case (Some pr)
      with True 2 show ?thesis by (cases pr) simp
    qed
  qed (use 2 in simp)
qed simp

lemma strip_tags_append:
  "62 \<notin> set a \<Longrightarrow> 60 \<notin> set a \<Longrightarrow> strip_tags (a @ s) = a @ strip_tags s"
  by (induction a) auto

text \<open>A complete tag in front is dropped.\<close>

lemma strip_tags_tag: "62 \<notin> set t \<Longrightarrow> strip_tags (60 # t @ 62 # s) = strip_tags s"
proof -
  assume t: "62 \<notin> set t"
  then have "to_gt (t @ 62 # s) = Some (t, s)" by (induction t) auto
  then show ?thesis by simp
qed

subsection \<open>Decimal numbers\<close>

text \<open>\<^verbatim>\<open>`${n}`\<close> for a natural number.\<close>

fun dec :: "nat \<Rightarrow> jsstring" where
  "dec n = (if n < 10 then [of_nat (48 + n)] else dec (n div 10) @ [of_nat (48 + n mod 10)])"

declare dec.simps [simp del]

lemma dec_small: "n < 10 \<Longrightarrow> dec n = [of_nat (48 + n)]"
  by (subst dec.simps) simp

lemma dec_append: "0 < n \<Longrightarrow> d < 10 \<Longrightarrow> dec (10 * n + d) = dec n @ [of_nat (48 + d)]"
  by (subst dec.simps) simp

abbreviation digit :: "16 word \<Rightarrow> bool" where
  "digit c \<equiv> 48 \<le> c \<and> c \<le> 57"

lemma digit_of_nat: "d < 10 \<Longrightarrow> digit (of_nat (48 + d))"
  by (simp add: word_le_nat_alt unat_of_nat take_bit_eq_mod del: of_nat_add)

lemma unat_digit: "d < 10 \<Longrightarrow> unat (of_nat (48 + d) :: 16 word) = 48 + d"
  by (simp add: unat_of_nat take_bit_eq_mod del: of_nat_add)

lemma dec_digits: "\<forall>c \<in> set (dec n). digit c"
proof (induction n rule: dec.induct)
  case (1 n)
  show ?case
  proof (cases "n < 10")
    case True
    then show ?thesis using digit_of_nat [OF True] by (simp add: dec_small del: of_nat_add)
  next
    case False
    have d: "digit (of_nat (48 + n mod 10))" by (rule digit_of_nat) simp
    have e: "dec n = dec (n div 10) @ [of_nat (48 + n mod 10)]" using False by (subst dec.simps) simp
    show ?thesis using 1 [OF False] d unfolding e by (auto simp del: of_nat_add)
  qed
qed

lemma dec_ne: "dec n \<noteq> []"
  by (subst dec.simps) simp

definition undec :: "jsstring \<Rightarrow> nat" where
  "undec s = foldl (\<lambda>a c. 10 * a + (unat c - 48)) 0 s"

lemma undec_dec: "undec (dec n) = n"
proof (induction n rule: dec.induct)
  case (1 n)
  show ?case
  proof (cases "n < 10")
    case True
    then show ?thesis using unat_digit [OF True] by (simp add: dec_small undec_def del: of_nat_add)
  next
    case False
    have u: "unat (of_nat (48 + n mod 10) :: 16 word) = 48 + n mod 10" by (rule unat_digit) simp
    have e: "dec n = dec (n div 10) @ [of_nat (48 + n mod 10)]" using False by (subst dec.simps) simp
    show ?thesis using 1 [OF False] u unfolding e by (simp add: undec_def del: of_nat_add)
  qed
qed

lemma dec_inject [simp]: "dec m = dec n \<longleftrightarrow> m = n"
  by (metis undec_dec)

end
