(* ===== verification/Demo_Clients_2.thy ===== *)
theory Demo_Clients_2
  imports Demo_Clients Demo_Checks
begin

text \<open>
  The client classes of the audit scenarios, the load test, the AnyCable tests and the reliable
  reference client of reliable.mjs.
\<close>

subsection \<open>audit_scenarios.mjs: Client\<close>

definition scen_flavour :: flavour where
  "scen_flavour = \<lparr>fl_early = [], fl_guard = True, fl_reply = True, fl_other = SkipArray,
     fl_synced = True, fl_before = [], fl_after = [], fl_received = []\<rparr>"

definition scen_send :: "bytes \<Rightarrow> ('d, 'a, 'z) raw_act" where
  "scen_send = raw_send scen_flavour"

definition scen_localUpdate :: "('d, 'a) api \<Rightarrow> bytes \<Rightarrow> raw_origin \<Rightarrow> ('d, 'a, 'z) raw_act" where
  "scen_localUpdate A = raw_listener A scen_send"

text \<open>Listeners are a set: registering the same function again changes nothing.\<close>

definition scen_connect :: "('d, 'a, 'z) raw_act" where
  "scen_connect =
     block [
       modify (\<lambda>s. s\<lparr>c_listening := True\<rparr>),
       modify (\<lambda>s. s\<lparr>c_ws := WsConnecting\<rparr>),
       call WsNew]"

definition scen_new :: "('d, 'a, 'y) runtime_scheme \<Rightarrow> jsstring \<Rightarrow> ('d, 'a) raw \<times> raw_call list \<times> js_error option" where
  "scen_new R room = scen_connect ((raw_new R room)\<lparr>c_listening := False\<rparr>)"

definition scen_onMessage :: "('d, 'a, 'y) runtime_scheme \<Rightarrow> jsval \<Rightarrow> ('d, 'a, 'z) raw_act" where
  "scen_onMessage R = raw_onMessage R scen_flavour (scen_localUpdate (rt_api R)) scen_send"

definition scen_edit :: "('d, 'a, 'y) runtime_scheme \<Rightarrow> jsstring \<Rightarrow> ('d, 'a, 'z) raw_act" where
  "scen_edit R t = raw_edit (scen_localUpdate (rt_api R)) (rt_paragraph R t)"

definition scen_has :: "('d, 'a, 'y) runtime_scheme \<Rightarrow> jsstring \<Rightarrow> ('d, 'a, 'z) raw_scheme \<Rightarrow> bool" where
  "scen_has R t s \<longleftrightarrow> js_includes (rt_text R (c_doc s)) t"

definition scen_goOffline :: "('d, 'a, 'z) raw_act" where
  "scen_goOffline = block [modify (\<lambda>s. s\<lparr>c_listening := False\<rparr>), ws_close]"

definition scen_reconnect :: "('d, 'a, 'z) raw_act" where
  "scen_reconnect = scen_connect"

definition scen_close :: "('d, 'a, 'z) raw_act" where
  "scen_close = ws_close"

subsection \<open>loadtest.mjs: LoadClient\<close>

definition load_flavour :: flavour where
  "load_flavour = \<lparr>fl_early = [], fl_guard = True, fl_reply = False, fl_other = SkipArrayOrStop,
     fl_synced = False, fl_before = [], fl_after = [''sent''], fl_received = [''recv'']\<rparr>"

text \<open>The round trip times: what \<^verbatim>\<open>pingSent\<close> and \<^verbatim>\<open>metrics.latencies\<close> hold.\<close>

record load_metrics =
  pingSent :: "(jsstring \<times> int) \<Rightarrow> rat option"
  latencies :: "rat list"

definition load_port :: "jsstring list \<Rightarrow> nat \<Rightarrow> jsstring" where
  "load_port ports idx = ports ! (idx mod length ports)"

definition load_send :: "bytes \<Rightarrow> ('d, 'a, 'z) raw_act" where
  "load_send = raw_send load_flavour"

definition load_listener :: "('d, 'a) api \<Rightarrow> bytes \<Rightarrow> raw_origin \<Rightarrow> ('d, 'a, 'z) raw_act" where
  "load_listener A = raw_listener A load_send"

definition load_new :: "('d, 'a, 'y) runtime_scheme \<Rightarrow> jsstring \<Rightarrow> ('d, 'a) raw \<times> raw_call list" where
  "load_new R room = (raw_new R room, [WsNew])"

text \<open>The observer of the "lat" map, of a client that is not a probe.\<close>

definition load_observe :: "jsstring \<Rightarrow> int \<Rightarrow> rat \<Rightarrow> load_metrics \<Rightarrow> load_metrics" where
  "load_observe room seq now m =
     (case pingSent m (room, seq) of
        None \<Rightarrow> m
      | Some t0 \<Rightarrow> m\<lparr>latencies := latencies m @ [now - t0], pingSent := (pingSent m)((room, seq) := None)\<rparr>)"

definition load_msg :: "('d, 'a, 'y) runtime_scheme \<Rightarrow> jsval \<Rightarrow> ('d, 'a, 'z) raw_act" where
  "load_msg R = raw_onMessage R load_flavour (load_listener (rt_api R)) load_send"

definition load_edit :: "('d, 'a, 'y) runtime_scheme \<Rightarrow> jsstring \<Rightarrow> ('d, 'a, 'z) raw_act" where
  "load_edit R tok = block [raw_edit (load_listener (rt_api R)) (rt_paragraph R tok), call (Count ''edits'')]"

text \<open>\<open>set_lat seq\<close> is \<^verbatim>\<open>this.lat.set("seq", seq)\<close>.\<close>

definition load_ping_mark :: "jsstring \<Rightarrow> int \<Rightarrow> rat \<Rightarrow> load_metrics \<Rightarrow> load_metrics" where
  "load_ping_mark room seq now m = m\<lparr>pingSent := (pingSent m)((room, seq) \<mapsto> now)\<rparr>"

definition load_ping ::
  "('d, 'a) api \<Rightarrow> (int \<Rightarrow> 'd \<Rightarrow> 'd \<times> bytes list) \<Rightarrow> int \<Rightarrow> ('d, 'a, 'z) raw_act" where
  "load_ping A set_lat seq = raw_edit (load_listener A) (set_lat seq)"

definition load_state :: "('d, 'a, 'y) runtime_scheme \<Rightarrow> ('d, 'a, 'z) raw_scheme \<Rightarrow> bytes" where
  "load_state R s = rt_state R (c_doc s)"

text \<open>A percentile of the latencies.\<close>

definition pct :: "rat list \<Rightarrow> rat \<Rightarrow> rat" where
  "pct arr p =
     (if arr = [] then 0
      else let s = sort arr in s ! min (length s - 1) (nat \<lfloor>p / 100 * of_nat (length s)\<rfloor>))"

subsection \<open>anycable_concurrent.mjs: Client\<close>

definition acs_flavour :: flavour where
  "acs_flavour = \<lparr>fl_early = [], fl_guard = True, fl_reply = False, fl_other = SkipArrayOrStop,
     fl_synced = False, fl_before = [], fl_after = [], fl_received = []\<rparr>"

definition acs_send :: "bytes \<Rightarrow> ('d, 'a, 'z) raw_act" where
  "acs_send = raw_send acs_flavour"

definition acs_listener :: "('d, 'a) api \<Rightarrow> bytes \<Rightarrow> raw_origin \<Rightarrow> ('d, 'a, 'z) raw_act" where
  "acs_listener A = raw_listener A acs_send"

definition acs_new :: "('d, 'a, 'y) runtime_scheme \<Rightarrow> jsstring \<Rightarrow> ('d, 'a) raw \<times> raw_call list" where
  "acs_new R room = (raw_new R room, [WsNew])"

definition acs_msg :: "('d, 'a, 'y) runtime_scheme \<Rightarrow> jsval \<Rightarrow> ('d, 'a, 'z) raw_act" where
  "acs_msg R = raw_onMessage R acs_flavour (acs_listener (rt_api R)) acs_send"

definition acs_addParagraph :: "('d, 'a, 'y) runtime_scheme \<Rightarrow> jsstring \<Rightarrow> ('d, 'a, 'z) raw_act" where
  "acs_addParagraph R t = raw_edit (acs_listener (rt_api R)) (rt_paragraph R t)"

definition acs_state :: "('d, 'a, 'y) runtime_scheme \<Rightarrow> ('d, 'a, 'z) raw_scheme \<Rightarrow> bytes" where
  "acs_state R s = rt_state R (c_doc s)"

definition acs_text :: "('d, 'a, 'y) runtime_scheme \<Rightarrow> ('d, 'a, 'z) raw_scheme \<Rightarrow> jsstring" where
  "acs_text R s = rt_text R (c_doc s)"

subsection \<open>anycable_guarantee.mjs: Client\<close>

definition acg_flavour :: flavour where
  "acg_flavour = \<lparr>fl_early = [], fl_guard = True, fl_reply = False, fl_other = SkipArrayOrStop,
     fl_synced = False, fl_before = [], fl_after = [], fl_received = []\<rparr>"

definition acg_send :: "bytes \<Rightarrow> ('d, 'a, 'z) raw_act" where
  "acg_send = raw_send acg_flavour"

definition acg_listener :: "('d, 'a) api \<Rightarrow> bytes \<Rightarrow> raw_origin \<Rightarrow> ('d, 'a, 'z) raw_act" where
  "acg_listener A = raw_listener A acg_send"

definition acg_new :: "('d, 'a, 'y) runtime_scheme \<Rightarrow> jsstring \<Rightarrow> ('d, 'a) raw \<times> raw_call list" where
  "acg_new R room = (raw_new R room, [WsNew])"

definition acg_msg :: "('d, 'a, 'y) runtime_scheme \<Rightarrow> jsval \<Rightarrow> ('d, 'a, 'z) raw_act" where
  "acg_msg R = raw_onMessage R acg_flavour (acg_listener (rt_api R)) acg_send"

definition acg_edit :: "('d, 'a, 'y) runtime_scheme \<Rightarrow> jsstring \<Rightarrow> ('d, 'a, 'z) raw_act" where
  "acg_edit R t = raw_edit (acg_listener (rt_api R)) (rt_paragraph R t)"

definition acg_has :: "('d, 'a, 'y) runtime_scheme \<Rightarrow> jsstring \<Rightarrow> ('d, 'a, 'z) raw_scheme \<Rightarrow> bool" where
  "acg_has R t s \<longleftrightarrow> js_includes (rt_text R (c_doc s)) t"

subsection \<open>anycable_probe.mjs: Client\<close>

record ('d, 'a) probe = "('d, 'a) raw" +
  p_confirmed :: bool
  p_echoed :: nat
  p_localUpdates :: "jsstring list"

definition acp_flavour :: flavour where
  "acp_flavour = \<lparr>fl_early = [], fl_guard = True, fl_reply = False, fl_other = SkipArrayOrStop,
     fl_synced = False, fl_before = [], fl_after = [], fl_received = []\<rparr>"

definition acp_send :: "bytes \<Rightarrow> (('d, 'a) probe, raw_call) act" where
  "acp_send = raw_send acp_flavour"

definition acp_listener :: "('d, 'a) api \<Rightarrow> bytes \<Rightarrow> raw_origin \<Rightarrow> (('d, 'a) probe, raw_call) act" where
  "acp_listener A u org =
     ifA (\<lambda>_. org = Remote) skip
       (block [
          modify (\<lambda>s. s\<lparr>p_localUpdates := p_localUpdates s @ [b64_of u]\<rparr>),
          acp_send (frameUpdate A u)])"

definition acp_new :: "('d, 'a, 'y) runtime_scheme \<Rightarrow> jsstring \<Rightarrow> ('d, 'a) probe \<times> raw_call list" where
  "acp_new R room =
     (raw.extend (raw_new R room) \<lparr>p_confirmed = False, p_echoed = 0, p_localUpdates = []\<rparr>, [WsNew])"

text \<open>\<^verbatim>\<open>raw.includes(u.slice(0, 12))\<close>; a value that is neither string nor array has no such method.\<close>

definition value_includes :: "jsval \<Rightarrow> jsstring \<Rightarrow> js_error + bool" where
  "value_includes v t =
     (case v of JStr s \<Rightarrow> Inr (js_includes s t) | JArr vs \<Rightarrow> Inr (JStr t \<in> set vs)
      | _ \<Rightarrow> Inl (TypeError ''raw.includes is not a function''))"

text \<open>\<^verbatim>\<open>this.localUpdates.some(..)\<close>\<close>

fun some_included :: "jsval \<Rightarrow> jsstring list \<Rightarrow> js_error + bool" where
  "some_included v [] = Inr False"
| "some_included v (u # us) =
     (case value_includes v (take 12 u) of
        Inl x \<Rightarrow> Inl x | Inr b \<Rightarrow> if b then Inr True else some_included v us)"

definition acp_payload :: "('d, 'a, 'y) runtime_scheme \<Rightarrow> jsval \<Rightarrow> (('d, 'a) probe, raw_call) act" where
  "acp_payload R m =
     (let v = js_opt m ''update''
      in if truthy v
         then block [
                raw_payload R acp_flavour (acp_listener (rt_api R)) acp_send m,
                (\<lambda>s. case some_included v (p_localUpdates s) of
                       Inl x \<Rightarrow> throw x s
                     | Inr b \<Rightarrow> whenA (\<lambda>_. b) (modify (\<lambda>s. s\<lparr>p_echoed := p_echoed s + 1\<rparr>)) s)]
         else skip)"

definition acp_msg :: "('d, 'a, 'y) runtime_scheme \<Rightarrow> jsval \<Rightarrow> (('d, 'a) probe, raw_call) act" where
  "acp_msg R msg =
     (case js_get msg ''type'' of
        Inl x \<Rightarrow> throw x
      | Inr ty \<Rightarrow>
          if ty = JStr (js ''welcome'') then send_subscribe
          else if ty = JStr (js ''confirm_subscription'')
          then block [
                 modify (\<lambda>s. s\<lparr>p_confirmed := True\<rparr>),
                 send_step1 (rt_api R) acp_send,
                 call (Resolve ''subscribed'')]
          else if ty = JStr (js ''reject_subscription'')
          then block [call (Log ''subscription REJECTED''), call (Resolve ''subscribed'')]
          else acp_payload R (js_opt msg ''message''))"

definition acp_edit :: "('d, 'a, 'y) runtime_scheme \<Rightarrow> jsstring \<Rightarrow> (('d, 'a) probe, raw_call) act" where
  "acp_edit R t = raw_edit (acp_listener (rt_api R)) (rt_paragraph R t)"

definition acp_text :: "('d, 'a, 'y) runtime_scheme \<Rightarrow> ('d, 'a) probe \<Rightarrow> jsstring" where
  "acp_text R s = rt_text R (c_doc s)"

subsection \<open>reliable.mjs: ReliableClient\<close>

text \<open>\<open>r_pending\<close> is the Map from ids to frames, in insertion order.\<close>

record ('d, 'a) reliable = "('d, 'a) raw" +
  r_nextId :: int
  r_pending :: "(int \<times> bytes) list"
  r_acked :: "jsval list"
  r_blackhole :: bool
  r_dropped :: nat
  r_timer :: bool

type_synonym ('d, 'a) rel_act = "(('d, 'a) reliable, raw_call) act"

definition rel_flavour :: flavour where
  "rel_flavour = \<lparr>fl_early = [''ping'', ''disconnect''], fl_guard = False, fl_reply = True,
     fl_other = SkipOrThrow, fl_synced = False, fl_before = [], fl_after = [], fl_received = []\<rparr>"

definition rel_new :: "('d, 'a, 'y) runtime_scheme \<Rightarrow> jsstring \<Rightarrow> ('d, 'a) reliable \<times> raw_call list" where
  "rel_new R room =
     (raw.extend (raw_new R room)
        \<lparr>r_nextId = 1, r_pending = [], r_acked = [], r_blackhole = False, r_dropped = 0, r_timer = True\<rparr>,
      [WsNew])"

definition rel_transmit :: "int \<Rightarrow> bytes \<Rightarrow> ('d, 'a) rel_act" where
  "rel_transmit i frame =
     ifA r_blackhole (modify (\<lambda>s. s\<lparr>r_dropped := r_dropped s + 1\<rparr>))
       (\<lambda>s. ws_send (Message (c_ident s)
              (JObj [(''update'', JStr (b64_of frame)), (''id'', JInt i)])) s)"

text \<open>\<^verbatim>\<open>Map.set\<close>: a key that is there keeps its place.\<close>

definition map_put :: "int \<Rightarrow> bytes \<Rightarrow> (int \<times> bytes) list \<Rightarrow> (int \<times> bytes) list" where
  "map_put i f m = (if i \<in> fst ` set m then map (\<lambda>(j, g). if j = i then (j, f) else (j, g)) m else m @ [(i, f)])"

text \<open>\<^verbatim>\<open>Map.delete\<close> of a value of any type: the keys are numbers.\<close>

definition map_delete :: "jsval \<Rightarrow> (int \<times> bytes) list \<Rightarrow> (int \<times> bytes) list" where
  "map_delete v m = filter (\<lambda>(j, g). JInt j \<noteq> v) m"

definition rel_sendReliable :: "bytes \<Rightarrow> ('d, 'a) rel_act" where
  "rel_sendReliable frame s =
     (let i = r_nextId s
      in block [
           modify (\<lambda>s. s\<lparr>r_nextId := js_incr (r_nextId s)\<rparr>),
           modify (\<lambda>s. s\<lparr>r_pending := map_put i frame (r_pending s)\<rparr>),
           rel_transmit i frame] s)"

definition rel_retransmit :: "('d, 'a) rel_act" where
  "rel_retransmit s = forA (r_pending s) (\<lambda>(i, f). rel_transmit i f) s"

definition rel_sendRaw :: "bytes \<Rightarrow> ('d, 'a) rel_act" where
  "rel_sendRaw = raw_send rel_flavour"

definition rel_listener :: "('d, 'a) api \<Rightarrow> bytes \<Rightarrow> raw_origin \<Rightarrow> ('d, 'a) rel_act" where
  "rel_listener A = raw_listener A rel_sendReliable"

definition rel_receiveBinary :: "('d, 'a) api \<Rightarrow> bytes \<Rightarrow> ('d, 'a) rel_act" where
  "rel_receiveBinary A = raw_receive A rel_flavour (rel_listener A) rel_sendRaw"

definition rel_ack :: "jsval \<Rightarrow> ('d, 'a) rel_act" where
  "rel_ack v =
     block [
       modify (\<lambda>s. s\<lparr>r_pending := map_delete v (r_pending s)\<rparr>),
       modify (\<lambda>s. s\<lparr>r_acked := r_acked s @ [v]\<rparr>)]"

definition rel_payload :: "('d, 'a, 'y) runtime_scheme \<Rightarrow> jsval \<Rightarrow> ('d, 'a) rel_act" where
  "rel_payload R m =
     (if js_opt m ''ack'' \<noteq> JUndef then rel_ack (js_opt m ''ack'')
      else raw_payload R rel_flavour (rel_listener (rt_api R)) rel_sendRaw m)"

definition rel_onMessage :: "('d, 'a, 'y) runtime_scheme \<Rightarrow> jsval \<Rightarrow> ('d, 'a) rel_act" where
  "rel_onMessage R = raw_dispatch (rt_api R) rel_flavour rel_sendRaw (rel_payload R)"

definition rel_insertParagraph :: "('d, 'a, 'y) runtime_scheme \<Rightarrow> jsstring \<Rightarrow> ('d, 'a) rel_act" where
  "rel_insertParagraph R t = raw_edit (rel_listener (rt_api R)) (rt_paragraph R t)"

definition rel_textContent :: "('d, 'a, 'y) runtime_scheme \<Rightarrow> ('d, 'a) reliable \<Rightarrow> jsstring" where
  "rel_textContent R s = rt_text R (c_doc s)"

definition rel_close :: "('d, 'a) rel_act" where
  "rel_close = block [modify (\<lambda>s. s\<lparr>r_timer := False\<rparr>), ws_close]"

end
