(* ===== verification/Raw_Client_Props.thy ===== *)
theory Raw_Client_Props
  imports Demo_Clients_2
begin

text \<open>
  Lemmas on the raw clients, once for all flavours. \<open>emits P Q a\<close>: every call the statement makes
  satisfies \<open>P\<close> and every error it throws \<open>Q\<close>, with one rule per statement form; it gives that the
  receive loops end (nothing throws \<open>OutOfFuel\<close>) and what a client sends while it receives.
\<close>

named_theorems emits_rules

definition emits :: "('e \<Rightarrow> bool) \<Rightarrow> (js_error \<Rightarrow> bool) \<Rightarrow> ('s, 'e) act \<Rightarrow> bool" where
  "emits P Q a \<longleftrightarrow>
     (\<forall>s. (\<forall>c \<in> set (calls (a s)). P c) \<and> (\<forall>x. thrown (a s) = Some x \<longrightarrow> Q x))"

lemma emitsD_thrown: "emits P Q a \<Longrightarrow> thrown (a s) = Some x \<Longrightarrow> Q x"
  by (simp add: emits_def)

lemma emitsD_calls: "emits P Q a \<Longrightarrow> c \<in> set (calls (a s)) \<Longrightarrow> P c"
  by (simp add: emits_def)

lemma emitsI: "(\<And>s. emits P Q (\<lambda>_. a s)) \<Longrightarrow> emits P Q a"
  by (simp add: emits_def)

lemma emits_const: "emits P Q (\<lambda>_. r) \<longleftrightarrow> (\<forall>c \<in> set (calls r). P c) \<and> (\<forall>x. thrown r = Some x \<longrightarrow> Q x)"
  by (simp add: emits_def)

text \<open>A statement that looks at its state first.\<close>

lemma emits_state: "(\<And>t. emits P Q (b t)) \<Longrightarrow> emits P Q (\<lambda>s. b s s)"
  by (simp add: emits_def)

lemma emits_skip [emits_rules, simp]: "emits P Q skip"
  by (simp add: emits_def)

lemma emits_skip_applied [simp]: "emits P Q (\<lambda>s. (s, [], None))"
  by (simp add: emits_def)

lemma emits_modify [emits_rules, simp]: "emits P Q (modify f)"
  by (simp add: emits_def)

lemma emits_call [emits_rules]: "P c \<Longrightarrow> emits P Q (call c)"
  by (simp add: emits_def)

lemma emits_throw [emits_rules]: "Q x \<Longrightarrow> emits P Q (throw x)"
  by (simp add: emits_def)

lemma emits_andThen [emits_rules]: "emits P Q a \<Longrightarrow> emits P Q b \<Longrightarrow> emits P Q (andThen a b)"
  by (auto simp: emits_def andThen_eq)

lemma emits_block_Nil [emits_rules, simp]: "emits P Q (block [])"
  by simp

lemma emits_block_Cons [emits_rules]:
  "emits P Q a \<Longrightarrow> emits P Q (block as) \<Longrightarrow> emits P Q (block (a # as))"
  by (simp add: emits_andThen)

lemma emits_ifA [emits_rules]: "emits P Q a \<Longrightarrow> emits P Q b \<Longrightarrow> emits P Q (ifA C a b)"
  by (simp add: emits_def)

lemma emits_whenA [emits_rules]: "emits P Q a \<Longrightarrow> emits P Q (whenA C a)"
  by (simp add: emits_def)

lemma emits_when [emits_rules]: "(c \<Longrightarrow> emits P Q a) \<Longrightarrow> emits P Q (whenA (\<lambda>_. c) a)"
  by (simp add: emits_def)

lemma emits_forA [emits_rules]: "(\<And>x. x \<in> set xs \<Longrightarrow> emits P Q (f x)) \<Longrightarrow> emits P Q (forA xs f)"
  by (induction xs) (auto intro: emits_andThen)

lemma emits_if [emits_rules]:
  "(c \<Longrightarrow> emits P Q a) \<Longrightarrow> (\<not> c \<Longrightarrow> emits P Q b) \<Longrightarrow> emits P Q (if c then a else b)"
  by simp

lemma emits_sum:
  "(\<And>x. r = Inl x \<Longrightarrow> emits P Q (f x)) \<Longrightarrow> (\<And>y. r = Inr y \<Longrightarrow> emits P Q (g y)) \<Longrightarrow>
   emits P Q (case r of Inl x \<Rightarrow> f x | Inr y \<Rightarrow> g y)"
  by (cases r) auto

subsection \<open>The loop ends\<close>

lemma emits_while_content:
  assumes "\<And>bs loop. bs \<noteq> [] \<Longrightarrow> (\<And>r. length r < length bs \<Longrightarrow> emits P Q (loop r)) \<Longrightarrow>
      emits P Q (body bs loop)"
  shows "length bs \<le> n \<Longrightarrow> emits P Q (while_content n body bs)"
proof (induction n arbitrary: bs)
  case (Suc n)
  show ?case
  proof (cases "bs = []")
    case False
    have "emits P Q (body bs (while_content n body))"
      by (rule assms [OF False]) (use Suc in auto)
    with False show ?thesis by simp
  qed simp
qed simp

text \<open>
  lib0 and y-protocols: a reader takes at least one byte or throws, and a sync message is read from
  the front. The packages throw errors of their own, never the marker of the model.
\<close>

definition lib0_progress :: "('d, 'a) api \<Rightarrow> bool" where
  "lib0_progress A \<longleftrightarrow>
     (\<forall>bs n r. readVarUint A bs = Inr (n, r) \<longrightarrow> length r < length bs)
     \<and> (\<forall>bs b r. readVarUint8Array A bs = Inr (b, r) \<longrightarrow> length r < length bs)
     \<and> (\<forall>m d d' us t rest w. readSyncMessage A m d = (d', us, Inr (t, rest, w)) \<longrightarrow> length rest \<le> length m)"

definition proper_errors :: "('d, 'a, 'y) runtime_scheme \<Rightarrow> bool" where
  "proper_errors R \<longleftrightarrow>
     (\<forall>bs. readVarUint (rt_api R) bs \<noteq> Inl OutOfFuel)
     \<and> (\<forall>bs. readVarUint8Array (rt_api R) bs \<noteq> Inl OutOfFuel)
     \<and> (\<forall>m d d' us. readSyncMessage (rt_api R) m d \<noteq> (d', us, Inl OutOfFuel))
     \<and> (\<forall>b a a' cs. applyAwarenessUpdate (rt_api R) b a \<noteq> (a', cs, Some OutOfFuel))
     \<and> (\<forall>v. rt_decode R v \<noteq> Inl OutOfFuel)"

lemma emits_ws_send:
  "P (WsSend m) \<Longrightarrow> Q (DOMException ''InvalidStateError'') \<Longrightarrow> emits P Q (ws_send m)"
  unfolding emits_def by (auto simp: ws_send_def split: ws_state.splits)

lemma emits_counts: "(\<And>n. P (Count n)) \<Longrightarrow> emits P Q (counts ns)"
  unfolding counts_def by (intro emits_rules)

lemma emits_raw_send:
  assumes "\<And>i. P (WsSend (Message i (update_data frame)))" and "\<And>n. P (Count n)"
    and "Q (DOMException ''InvalidStateError'')"
  shows "emits P Q (raw_send F frame)"
proof -
  have "emits P Q (\<lambda>s. ws_send (Message (c_ident s) (update_data frame)) s)"
    by (rule emits_state, rule emits_ws_send, rule assms(1), rule assms(3))
  then show ?thesis
    unfolding raw_send_def
    by (intro emits_ifA emits_skip emits_block_Cons emits_block_Nil emits_counts assms(2))
qed

text \<open>An update of another peer goes through the listener without a trace.\<close>

lemma emit_updates_remote [simp]: "emit_updates (raw_listener A send) us Remote s = (s, [], None)"
  by (induction us) (auto simp: emit_updates_def raw_listener_def andThen_eq)

lemma emits_emit_remote: "emits P Q (emit_updates (raw_listener A send) us Remote)"
  by (simp add: emits_def)

lemma emits_read_sync:
  fixes A :: "('d, 'a) api" and k :: "nat \<Rightarrow> bytes \<Rightarrow> bytes \<Rightarrow> ('d, 'a, 'z) raw_act"
  assumes "\<And>us. emits P Q (emit_updates listener us Remote)"
    and "\<And>d d' us x. readSyncMessage A m d = (d', us, Inl x) \<Longrightarrow> Q x"
    and "\<And>d d' us t rest w. readSyncMessage A m d = (d', us, Inr (t, rest, w)) \<Longrightarrow> emits P Q (k t rest w)"
  shows "emits P Q (read_sync A listener m k)"
proof (rule emitsI)
  fix s :: "('d, 'a, 'z) raw_scheme"
  obtain d us r where e: "readSyncMessage A m (c_doc s) = (d, us, r)" by (metis prod.exhaust)
  let ?b = "block [modify (\<lambda>s. s\<lparr>c_doc := d\<rparr>), emit_updates listener us Remote,
    (case r of Inl x \<Rightarrow> throw x | Inr (t, rest, w) \<Rightarrow> k t rest w)]"
  have "emits P Q (case r of Inl x \<Rightarrow> throw x | Inr (t, rest, w) \<Rightarrow> k t rest w)"
    using assms(2,3) e by (cases r) (auto intro: emits_throw)
  then have "emits P Q ?b" by (intro emits_rules assms(1))
  then show "emits P Q (\<lambda>_. read_sync A listener m k s)"
    by (simp add: emits_def read_sync_def e)
qed

lemma emits_apply_awareness:
  assumes "\<And>a a' cs x. applyAwarenessUpdate A b a = (a', cs, Some x) \<Longrightarrow> Q x"
  shows "emits P Q (apply_awareness A b)"
  unfolding emits_def apply_awareness_def
  using assms by (auto simp: andThen_eq split: prod.splits option.splits)

lemma emits_raw_other:
  assumes "\<And>x. readVarUint8Array A r = Inl x \<Longrightarrow> Q x"
    and "\<And>b a a' cs x. applyAwarenessUpdate A b a = (a', cs, Some x) \<Longrightarrow> Q x"
    and "Q (JsError ''unknown message type'')"
    and "emits P Q (loop r)" and "\<And>b rest. readVarUint8Array A r = Inr (b, rest) \<Longrightarrow> emits P Q (loop rest)"
  shows "emits P Q (raw_other A F ty r loop)"
proof -
  have sk: "emits P Q (case readVarUint8Array A r of Inl x \<Rightarrow> throw x | Inr (b, rest) \<Rightarrow> block [k b, loop rest])"
    if "\<And>b. emits P Q (k b)" for k
  proof (rule emits_sum)
    fix y assume "readVarUint8Array A r = Inr y"
    then show "emits P Q (case y of (b, rest) \<Rightarrow> block [k b, loop rest])"
      using assms(5) that by (cases y) (auto intro: emits_andThen)
  qed (rule emits_throw, rule assms(1))
  have aw: "emits P Q (apply_awareness A b)" for b
    by (rule emits_apply_awareness) (rule assms(2))
  have stop: "emits P Q (case readVarUint8Array A r of Inl x \<Rightarrow> skip | Inr (b, rest) \<Rightarrow> loop rest)"
    using assms(5) by (cases "readVarUint8Array A r") auto
  note rules = emits_if emits_throw emits_skip assms(3,4) sk aw
  show ?thesis
  proof (cases "fl_other F")
    case ApplyOrThrow
    show ?thesis unfolding raw_other_def Let_def ApplyOrThrow other_frames.case by (intro rules)
  next
    case SkipOrThrow
    show ?thesis unfolding raw_other_def Let_def SkipOrThrow other_frames.case by (intro rules)
  next
    case ApplyOrIgnore
    show ?thesis unfolding raw_other_def Let_def ApplyOrIgnore other_frames.case by (intro rules)
  next
    case SkipArray
    show ?thesis unfolding raw_other_def Let_def SkipArray other_frames.case by (intro rules)
  next
    case SkipArrayOrStop
    show ?thesis unfolding raw_other_def Let_def SkipArrayOrStop other_frames.case by (rule stop)
  qed
qed

text \<open>
  What a client does while it receives bytes, given what its replies satisfy: a reply frame is the
  sync type followed by what y-protocols wrote.
\<close>

lemma emits_raw_receive:
  fixes A :: "('d, 'a) api" and send :: "bytes \<Rightarrow> ('d, 'a, 'z) raw_act"
  assumes "lib0_progress A"
    and "\<And>us. emits P Q (emit_updates listener us Remote)"
    and "\<And>w. fl_reply F \<Longrightarrow> 1 < length (writeVarUint A MessageType_Sync @ w) \<Longrightarrow>
      emits P Q (send (writeVarUint A MessageType_Sync @ w))"
    and "\<And>n. P (Resolve n)"
    and "\<And>bs x. readVarUint A bs = Inl x \<Longrightarrow> Q x" and "\<And>bs x. readVarUint8Array A bs = Inl x \<Longrightarrow> Q x"
    and "\<And>m d d' us x. readSyncMessage A m d = (d', us, Inl x) \<Longrightarrow> Q x"
    and "\<And>b a a' cs x. applyAwarenessUpdate A b a = (a', cs, Some x) \<Longrightarrow> Q x"
    and "Q (JsError ''unknown message type'')"
  shows "emits P Q (raw_receive A F listener send bs)"
  unfolding raw_receive_def
proof (rule emits_while_content [OF _ le_refl])
  fix bs :: bytes and loop :: "bytes \<Rightarrow> ('d, 'a, 'z) raw_act"
  assume loop: "\<And>r. length r < length bs \<Longrightarrow> emits P Q (loop r)"
  have sync: "emits P Q (read_sync A listener r (\<lambda>t rest w.
      let enc = writeVarUint A MessageType_Sync @ w
      in block [whenA (\<lambda>_. fl_reply F \<and> 1 < length enc) (send enc),
           whenA (\<lambda>_. fl_synced F \<and> t = messageYjsSyncStep2 A) (call (Resolve ''synced'')), loop rest]))"
    if "length r < length bs" for r
  proof (rule emits_read_sync)
    fix d d' us t rest w
    assume "readSyncMessage A r d = (d', us, Inr (t, rest, w))"
    with assms(1) that have "length rest < length bs"
      unfolding lib0_progress_def by (meson le_less_trans)
    then show "emits P Q (let enc = writeVarUint A MessageType_Sync @ w
      in block [whenA (\<lambda>_. fl_reply F \<and> 1 < length enc) (send enc),
           whenA (\<lambda>_. fl_synced F \<and> t = messageYjsSyncStep2 A) (call (Resolve ''synced'')), loop rest])"
      unfolding Let_def
      by (intro emits_block_Cons emits_block_Nil emits_when emits_call loop assms(3,4)) auto
  qed (use assms in auto)
  have other: "emits P Q (raw_other A F ty r loop)" if "length r < length bs" for ty r
  proof (rule emits_raw_other)
    fix b rest
    assume "readVarUint8Array A r = Inr (b, rest)"
    with assms(1) that have "length rest < length bs"
      unfolding lib0_progress_def by (meson less_trans)
    then show "emits P Q (loop rest)" by (rule loop)
  qed (use assms loop that in auto)
  show "emits P Q (raw_body A F listener send bs loop)"
    unfolding raw_body_def
  proof (rule emits_sum)
    fix y
    assume r: "readVarUint A bs = Inr y"
    obtain ty r where y: "y = (ty, r)" by (cases y)
    have "length r < length bs" using assms(1) r y by (simp add: lib0_progress_def)
    then show "emits P Q (case y of (ty, r) \<Rightarrow>
        if ty = MessageType_Sync
        then read_sync A listener r (\<lambda>t rest w.
               let enc = writeVarUint A MessageType_Sync @ w
               in block [whenA (\<lambda>_. fl_reply F \<and> 1 < length enc) (send enc),
                    whenA (\<lambda>_. fl_synced F \<and> t = messageYjsSyncStep2 A) (call (Resolve ''synced'')), loop rest])
        else raw_other A F ty r loop)"
      unfolding y prod.case by (intro emits_if sync other)
  qed (auto intro: emits_throw assms(5))
qed

subsection \<open>The handlers end\<close>

abbreviation ends :: "('s, 'e) act \<Rightarrow> bool" where
  "ends a \<equiv> emits (\<lambda>_. True) (\<lambda>x. x \<noteq> OutOfFuel) a"

lemma endsD: "ends a \<Longrightarrow> thrown (a s) \<noteq> Some OutOfFuel"
  by (auto simp: emits_def)

lemma js_get_Inl: "js_get v k = Inl x \<Longrightarrow> \<exists>t. x = TypeError t"
  by (cases v) auto

lemma ends_raw_send [intro]: "ends (raw_send F frame)"
  by (rule emits_raw_send) auto

lemma ends_raw_receive:
  assumes "lib0_progress (rt_api R)" and "proper_errors R" and "\<And>f. ends (send f)"
  shows "ends (raw_receive (rt_api R) F (raw_listener (rt_api R) send2) send bs)"
proof (rule emits_raw_receive [OF assms(1)])
  show "ends (emit_updates (raw_listener (rt_api R) send2) us Remote)" for us
    by (rule emits_emit_remote)
qed (use assms(2,3) in \<open>auto simp: proper_errors_def\<close>)

lemma ends_raw_payload:
  assumes "\<And>bs. ends (raw_receive (rt_api R) F listener send bs)" and "proper_errors R"
  shows "ends (raw_payload R F listener send m)"
proof -
  let ?v = "js_opt m ''update''"
  have "ends (case rt_decode R ?v of Inl x \<Rightarrow> throw x | Inr bs \<Rightarrow> raw_receive (rt_api R) F listener send bs)"
    using assms by (cases "rt_decode R ?v") (auto intro!: emits_throw simp: proper_errors_def)
  then show ?thesis
    unfolding raw_payload_def Let_def
    by (intro emits_if emits_skip emits_block_Cons emits_block_Nil emits_counts) auto
qed

lemma ends_raw_dispatch:
  assumes "\<And>f. ends (send f)" and "\<And>m. ends (payload m)"
  shows "ends (raw_dispatch A F send payload msg)"
proof -
  have sub: "ends (send_subscribe)"
    unfolding send_subscribe_def by (rule emits_state) (rule emits_ws_send, auto)
  have step1: "ends (send_step1 A send)"
    unfolding send_step1_def by (rule emits_state) (rule assms(1))
  show ?thesis
    unfolding raw_dispatch_def
    by (intro emits_sum emits_if sub step1 assms(2) emits_skip emits_block_Cons emits_block_Nil
        emits_call emits_throw) (auto dest: js_get_Inl)
qed

lemma ends_raw_onMessage:
  assumes "lib0_progress (rt_api R)" and "proper_errors R" and "\<And>f. ends (send f)"
  shows "ends (raw_onMessage R F (raw_listener (rt_api R) send2) send msg)"
  unfolding raw_onMessage_def
  by (intro ends_raw_dispatch ends_raw_payload ends_raw_receive assms)

lemma value_includes_Inl: "value_includes v t = Inl x \<Longrightarrow> \<exists>m. x = TypeError m"
  by (cases v) (auto simp: value_includes_def)

lemma some_included_Inl: "some_included v us = Inl x \<Longrightarrow> \<exists>m. x = TypeError m"
  by (induction us) (auto split: sum.splits if_splits dest: value_includes_Inl)

lemma acp_listener_remote [simp]: "emit_updates (acp_listener A) us Remote s = (s, [], None)"
  by (induction us) (auto simp: emit_updates_def acp_listener_def andThen_eq)

lemma ends_acp_receive:
  assumes "lib0_progress (rt_api R)" and "proper_errors R"
  shows "ends (raw_receive (rt_api R) acp_flavour (acp_listener (rt_api R)) acp_send bs)"
proof (rule emits_raw_receive [OF assms(1)])
  show "ends (emit_updates (acp_listener (rt_api R)) us Remote)" for us
    by (simp add: emits_def)
qed (use assms(2) in \<open>auto simp: proper_errors_def acp_send_def\<close>)

lemma ends_acp_msg:
  assumes "lib0_progress (rt_api R)" and "proper_errors R"
  shows "ends (acp_msg R msg)"
proof -
  have inc: "ends (\<lambda>s. case some_included v (p_localUpdates s) of
      Inl x \<Rightarrow> throw x s
    | Inr b \<Rightarrow> whenA (\<lambda>_. b) (modify (\<lambda>s. s\<lparr>p_echoed := p_echoed s + 1\<rparr>)) s)" for v
    by (auto simp: emits_def split: sum.splits dest: some_included_Inl)
  have pay: "ends (acp_payload R m)" for m
    unfolding acp_payload_def Let_def
    by (intro emits_if emits_skip emits_block_Cons emits_block_Nil inc ends_raw_payload ends_acp_receive assms)
  have sub: "ends (send_subscribe :: (('a, 'b) probe, raw_call) act)"
    unfolding send_subscribe_def by (rule emits_state) (rule emits_ws_send, auto)
  have step1: "ends (send_step1 (rt_api R) acp_send)"
    unfolding send_step1_def acp_send_def by (rule emits_state) (rule ends_raw_send)
  show ?thesis
    unfolding acp_msg_def
    by (intro emits_sum emits_if sub step1 pay emits_modify emits_skip emits_block_Cons emits_block_Nil
        emits_call emits_throw) (auto dest: js_get_Inl)
qed

lemma ends_rel_transmit: "ends (rel_transmit i f)"
  unfolding rel_transmit_def
  by (intro emits_ifA emits_modify) (rule emits_state, rule emits_ws_send, auto)

lemma ends_rel_onMessage:
  assumes "lib0_progress (rt_api R)" and "proper_errors R"
  shows "ends (rel_onMessage R msg)"
proof -
  have "ends (rel_payload R m)" for m
    unfolding rel_payload_def rel_ack_def rel_listener_def rel_sendRaw_def
    by (intro emits_if emits_modify emits_block_Cons emits_block_Nil ends_raw_payload ends_raw_receive
        ends_raw_send assms)
  then show ?thesis
    unfolding rel_onMessage_def by (intro ends_raw_dispatch) (auto simp: rel_sendRaw_def)
qed

subsection \<open>Received updates are not echoed\<close>

lemma emit_updates_none [simp]: "emit_updates (\<lambda>_ _. skip) us org s = (s, [], None)"
  by (induction us) (auto simp: emit_updates_def andThen_eq)

lemma read_sync_listener:
  assumes "\<And>us s. emit_updates listener us Remote s = (s, [], None)"
  shows "read_sync A listener = read_sync A (\<lambda>_ _. skip)"
  by (rule ext)+ (simp add: read_sync_def andThen_eq assms split: prod.splits)

lemma raw_receive_listener:
  assumes "\<And>us s. emit_updates listener us Remote s = (s, [], None)"
  shows "raw_receive A F listener send = raw_receive A F (\<lambda>_ _. skip) send"
proof -
  have "raw_body A F listener send = raw_body A F (\<lambda>_ _. skip) send"
    unfolding fun_eq_iff raw_body_def read_sync_listener [OF assms] by simp
  then show ?thesis unfolding raw_receive_def [abs_def] by (simp only:)
qed

text \<open>A class that does not reply sends nothing while it receives.\<close>

abbreviation quiet :: "('s, raw_call) act \<Rightarrow> bool" where
  "quiet a \<equiv> emits (\<lambda>c. \<forall>m. c \<noteq> WsSend m) (\<lambda>_. True) a"

lemma quietD: "quiet a \<Longrightarrow> WsSend m \<notin> set (calls (a s))"
  by (auto simp: emits_def)

lemma quiet_raw_receive:
  assumes "lib0_progress A" and "\<not> fl_reply F"
    and "\<And>us s. emit_updates listener us Remote s = (s, [], None)"
  shows "quiet (raw_receive A F listener send bs)"
  by (rule emits_raw_receive [OF assms(1)]) (use assms(2,3) in \<open>auto simp: emits_def\<close>)

lemma quiet_raw_payload:
  assumes "lib0_progress (rt_api R)" and "\<not> fl_reply F"
    and "\<And>us s. emit_updates listener us Remote s = (s, [], None)"
  shows "quiet (raw_payload R F listener send m)"
proof -
  have "quiet (case rt_decode R v of Inl x \<Rightarrow> throw x | Inr bs \<Rightarrow> raw_receive (rt_api R) F listener send bs)" for v
    using quiet_raw_receive [OF assms] by (cases "rt_decode R v") (auto intro!: emits_throw)
  then show ?thesis
    unfolding raw_payload_def Let_def
    by (intro emits_if emits_skip emits_block_Cons emits_block_Nil emits_counts) auto
qed

end
