(* ===== verification/Demo_Instance.thy ===== *)
theory Demo_Instance
  imports Raw_Client_Props Yjs_Instance
begin

text \<open>
  A concrete runtime for the demo clients, over the packages of \<open>Yjs_Instance\<close>: the hypotheses of
  their theorems hold there together. The text of a document is its bytes, a paragraph appends its
  code units.
\<close>

definition demo_rt :: "(bytes, demo_aw) runtime" where
  "demo_rt =
     \<lparr>rt_api = demo_api,
      rt_decode = (\<lambda>v. case v of JStr t \<Rightarrow> fromBase64 t | _ \<Rightarrow> Inl (TypeError ''not a string'')),
      rt_awareness = (\<lambda>_. []),
      rt_paragraph = (\<lambda>t d. (d @ map (\<lambda>c. of_nat (unat c)) t, [map (\<lambda>c. of_nat (unat c)) t])),
      rt_text = map (\<lambda>c. of_nat (unat c)),
      rt_state = (\<lambda>d. d)\<rparr>"

lemma get_uint_shorter: "get_uint bs = Inr (n, r) \<Longrightarrow> length r < length bs"
  by (induction bs arbitrary: n) (auto split: if_splits sum.splits)

lemma get_array_shorter: "get_array bs = Inr (b, r) \<Longrightarrow> length r < length bs"
  by (auto simp: get_array_def split: sum.splits if_splits dest!: get_uint_shorter)

lemma demo_sync_shorter: "demo_sync m d = (d', us, Inr (t, rest, w)) \<Longrightarrow> length rest \<le> length m"
  by (fastforce simp: demo_sync_def split: sum.splits if_splits prod.splits option.splits
      dest!: get_uint_shorter get_array_shorter)

lemma get_uint_error: "get_uint bs = Inl x \<Longrightarrow> x \<noteq> OutOfFuel"
  by (induction bs) (auto split: if_splits sum.splits)

lemma get_array_error: "get_array bs = Inl x \<Longrightarrow> x \<noteq> OutOfFuel"
  by (auto simp: get_array_def split: sum.splits if_splits dest: get_uint_error)

lemma demo_sync_error: "demo_sync m d = (d', us, Inl x) \<Longrightarrow> x \<noteq> OutOfFuel"
  by (auto simp: demo_sync_def split: sum.splits if_splits prod.splits option.splits
      dest: get_uint_error get_array_error)

lemma demo_applyAw_error: "demo_applyAw b a = (a', cs, Some x) \<Longrightarrow> x \<noteq> OutOfFuel"
  by (auto simp: demo_applyAw_def split: sum.splits dest: get_uint_error)

lemma demo_lib0_progress: "lib0_progress demo_api"
  by (auto simp: lib0_progress_def demo_api_def dest: get_uint_shorter get_array_shorter demo_sync_shorter)

lemma atob_error: "atob t = Inl x \<Longrightarrow> x \<noteq> OutOfFuel"
  by (auto simp: atob_def Let_def split: if_splits option.splits)

lemma fromBase64_error: "fromBase64 t = Inl x \<Longrightarrow> x \<noteq> OutOfFuel"
  by (cases "atob t") (auto simp: fromBase64_def dest: atob_error)

lemma demo_proper_errors: "proper_errors demo_rt"
  by (auto simp: proper_errors_def demo_rt_def demo_api_def split: jsval.splits
      dest: get_uint_error get_array_error demo_sync_error demo_applyAw_error fromBase64_error)

end
