(* ===== verification/Reliable_Client_Props.thy ===== *)
theory Reliable_Client_Props
  imports Raw_Client_Props
begin

text \<open>
  The reference client of reliable.mjs under any events: what stays pending, and what its timer
  resends.
\<close>

datatype rel_event =
    RelEdit jsstring
  | RelTick
  | RelMessage jsval
  | RelBlackhole bool
  | RelSocket ws_state
  | RelClose

definition rel_handle :: "('d, 'a, 'y) runtime_scheme \<Rightarrow> rel_event \<Rightarrow> ('d, 'a) rel_act" where
  "rel_handle R e =
     (case e of
        RelEdit t \<Rightarrow> rel_insertParagraph R t
      | RelTick \<Rightarrow> whenA r_timer rel_retransmit
      | RelMessage m \<Rightarrow> rel_onMessage R m
      | RelBlackhole b \<Rightarrow> modify (\<lambda>s. s\<lparr>r_blackhole := b\<rparr>)
      | RelSocket w \<Rightarrow> modify (\<lambda>s. s\<lparr>c_ws := w\<rparr>)
      | RelClose \<Rightarrow> rel_close)"

definition rel_step :: "('d, 'a, 'y) runtime_scheme \<Rightarrow> ('d, 'a) reliable \<Rightarrow> rel_event \<Rightarrow> ('d, 'a) reliable" where
  "rel_step R s e = post (rel_handle R e s)"

text \<open>An ack of the id \<open>i\<close>, as the handler reads it.\<close>

definition acks_id :: "int \<Rightarrow> rel_event \<Rightarrow> bool" where
  "acks_id i e \<longleftrightarrow> (\<exists>m. e = RelMessage m \<and> js_opt (js_opt m ''message'') ''ack'' = JInt i)"

subsection \<open>Preservation\<close>

text \<open>A predicate on what the shared code does not touch.\<close>

definition blind :: "(('d, 'a) reliable \<Rightarrow> bool) \<Rightarrow> bool" where
  "blind I \<longleftrightarrow> (\<forall>s d a. I s \<longrightarrow> I (s\<lparr>c_doc := d\<rparr>) \<and> I (s\<lparr>c_aw := a\<rparr>))"

lemma preserves_state: "(\<And>t. preserves I (b t)) \<Longrightarrow> preserves I (\<lambda>s. b s s)"
  by (simp add: preserves_def)

lemma preserves_ws_send: "preserves I (ws_send m)"
  by (simp add: preserves_def ws_send_def split: ws_state.splits)

lemma preserves_raw_send: "preserves I (raw_send F frame)"
proof -
  have "preserves I (\<lambda>s. ws_send (Message (c_ident s) (update_data frame)) s)"
    by (rule preserves_state) (rule preserves_ws_send)
  then show ?thesis
    unfolding raw_send_def counts_def
    by (intro preserves_ifA preserves_skip preserves_block_Cons preserves_block_Nil preserves_forA preserves_call)
qed

lemma preserves_sum:
  "(\<And>x. r = Inl x \<Longrightarrow> preserves I (f x)) \<Longrightarrow> (\<And>y. r = Inr y \<Longrightarrow> preserves I (g y)) \<Longrightarrow>
   preserves I (case r of Inl x \<Rightarrow> f x | Inr y \<Rightarrow> g y)"
  by (cases r) auto

lemma preserves_if: "preserves I a \<Longrightarrow> preserves I b \<Longrightarrow> preserves I (if c then a else b)"
  by simp

lemma preserves_while_content:
  "(\<And>bs loop. (\<And>r. preserves I (loop r)) \<Longrightarrow> preserves I (body bs loop)) \<Longrightarrow>
   preserves I (while_content n body bs)"
proof (induction n arbitrary: bs)
  case (Suc n)
  have "preserves I (body bs (while_content n body))"
    using Suc.IH [OF Suc.prems] by (rule Suc.prems)
  then show ?case by (simp add: preserves_def)
qed (simp add: preserves_def)

lemma preserves_read_sync:
  assumes "blind I" and "\<And>us s. emit_updates listener us Remote s = (s, [], None)"
    and "\<And>t rest w. preserves I (k t rest w)"
  shows "preserves I (read_sync A listener m k)"
proof (rule preservesI)
  fix s
  assume s: "I s"
  obtain d us r where e: "readSyncMessage A m (c_doc s) = (d, us, r)" by (metis prod.exhaust)
  have "preserves I (case r of Inl x \<Rightarrow> throw x | Inr (t, rest, w) \<Rightarrow> k t rest w)"
    using assms(3) by (cases r) auto
  then show "I (post (read_sync A listener m k s))"
    using assms(1) s by (simp add: read_sync_def e andThen_eq assms(2) blind_def preserves_def)
qed

lemma preserves_skip_array:
  assumes "\<And>b. preserves I (k b)" and "\<And>r. preserves I (loop r)"
  shows "preserves I (case readVarUint8Array A r of Inl x \<Rightarrow> throw x | Inr (b, rest) \<Rightarrow> block [k b, loop rest])"
  by (rule preserves_sum)
    (auto split: prod.splits intro!: preserves_andThen assms)

lemma preserves_raw_other:
  assumes "fl_other F = SkipOrThrow" and "\<And>r. preserves I (loop r)"
  shows "preserves I (raw_other A F ty r loop)"
  unfolding raw_other_def Let_def assms(1) other_frames.case
  by (intro preserves_if preserves_throw preserves_skip_array preserves_skip assms(2))

lemma preserves_raw_receive:
  fixes I :: "('d, 'a) reliable \<Rightarrow> bool"
  assumes "blind I" and "\<And>us s. emit_updates listener us Remote s = (s, [], None)"
    and "\<And>f. preserves I (send f)" and "fl_other F = SkipOrThrow"
  shows "preserves I (raw_receive A F listener send bs)"
  unfolding raw_receive_def
proof (rule preserves_while_content)
  fix bs :: bytes and loop :: "bytes \<Rightarrow> ('d, 'a) rel_act"
  assume loop: "\<And>r. preserves I (loop r)"
  have sync: "preserves I (read_sync A listener r (\<lambda>t rest w.
      let enc = writeVarUint A MessageType_Sync @ w
      in block [whenA (\<lambda>_. fl_reply F \<and> 1 < length enc) (send enc),
           whenA (\<lambda>_. fl_synced F \<and> t = messageYjsSyncStep2 A) (call (Resolve ''synced'')), loop rest]))" for r
    unfolding Let_def
    by (intro preserves_read_sync preserves_block_Cons preserves_block_Nil preserves_whenA preserves_call
        loop assms)
  show "preserves I (raw_body A F listener send bs loop)"
    unfolding raw_body_def
  proof (rule preserves_sum)
    fix y :: "nat \<times> bytes"
    obtain ty r where y: "y = (ty, r)" by (cases y)
    show "preserves I (case y of (ty, r) \<Rightarrow>
        if ty = MessageType_Sync
        then read_sync A listener r (\<lambda>t rest w.
               let enc = writeVarUint A MessageType_Sync @ w
               in block [whenA (\<lambda>_. fl_reply F \<and> 1 < length enc) (send enc),
                    whenA (\<lambda>_. fl_synced F \<and> t = messageYjsSyncStep2 A) (call (Resolve ''synced'')), loop rest])
        else raw_other A F ty r loop)"
      unfolding y prod.case by (intro preserves_if sync preserves_raw_other [OF assms(4)] loop)
  qed simp
qed

text \<open>An entry with an id below the counter is only removed by its ack.\<close>

definition waits :: "int \<Rightarrow> bytes \<Rightarrow> ('d, 'a) reliable \<Rightarrow> bool" where
  "waits i f s \<longleftrightarrow> i < r_nextId s \<and> (i, f) \<in> set (r_pending s)"

lemma blind_waits: "blind (waits i f)"
  by (simp add: blind_def waits_def)

lemma map_put_keeps: "(i, f) \<in> set m \<Longrightarrow> i \<noteq> j \<Longrightarrow> (i, f) \<in> set (map_put j g m)"
  by (auto simp: map_put_def image_iff split: prod.splits intro!: bexI [of _ "(i, f)"])

lemma map_put_new: "(j, g) \<in> set (map_put j g m)"
  by (force simp: map_put_def image_iff)

lemma map_delete_keeps: "(i, f) \<in> set m \<Longrightarrow> v \<noteq> JInt i \<Longrightarrow> (i, f) \<in> set (map_delete v m)"
  by (auto simp: map_delete_def)

lemma preserves_rel_transmit:
  assumes "\<And>s n. I s \<Longrightarrow> I (s\<lparr>r_dropped := n\<rparr>)"
  shows "preserves I (rel_transmit i f)"
proof -
  have "preserves I (\<lambda>s. ws_send (Message (c_ident s)
      (JObj [(''update'', JStr (b64_of f)), (''id'', JInt i)])) s)"
    by (rule preserves_state) (rule preserves_ws_send)
  then show ?thesis
    unfolding rel_transmit_def by (intro preserves_ifA preserves_modify assms)
qed

lemma sendReliable_eq:
  "rel_sendReliable g s =
     rel_transmit (r_nextId s) g
       (s\<lparr>r_nextId := js_incr (r_nextId s), r_pending := map_put (r_nextId s) g (r_pending s)\<rparr>)"
  by (simp add: rel_sendReliable_def Let_def andThen_eq)

lemma preserves_sendReliable: "preserves (waits i f) (rel_sendReliable g :: ('d, 'a) rel_act)"
proof (rule preservesI)
  fix s :: "('d, 'a) reliable"
  assume "waits i f s"
  then have "waits i f (s\<lparr>r_nextId := js_incr (r_nextId s), r_pending := map_put (r_nextId s) g (r_pending s)\<rparr>)"
    using js_incr_ge [of "r_nextId s"] by (auto simp: waits_def intro: map_put_keeps)
  moreover have "preserves (waits i f) (rel_transmit (r_nextId s) g :: ('d, 'a) rel_act)"
    by (rule preserves_rel_transmit) (simp add: waits_def)
  ultimately show "waits i f (post (rel_sendReliable g s))"
    by (simp add: sendReliable_eq preserves_def)
qed

lemma preserves_edit:
  assumes "\<And>u. preserves I (listener u Local)" and "\<And>s d. I s \<Longrightarrow> I (s\<lparr>c_doc := d\<rparr>)"
  shows "preserves I (raw_edit listener f)"
proof (rule preservesI)
  fix s
  assume s: "I s"
  have "preserves I (emit_updates listener us Local)" for us
    unfolding emit_updates_def by (intro preserves_forA preserves_whenA assms(1))
  with assms(2) [OF s] show "I (post (raw_edit listener f s))"
    by (simp add: raw_edit_def andThen_eq preserves_def)
qed

lemma preserves_rel_payload:
  assumes "js_opt m ''ack'' \<noteq> JInt i"
  shows "preserves (waits i f) (rel_payload R m)"
proof -
  have ack: "preserves (waits i f) (rel_ack (js_opt m ''ack''))"
    unfolding rel_ack_def
    by (intro preserves_block_Cons preserves_block_Nil preserves_modify)
      (use assms in \<open>auto simp: waits_def intro: map_delete_keeps\<close>)
  have "preserves (waits i f) (raw_receive (rt_api R) rel_flavour (rel_listener (rt_api R)) rel_sendRaw bs)" for bs
    by (rule preserves_raw_receive [OF blind_waits])
      (auto simp: rel_listener_def rel_sendRaw_def rel_flavour_def intro: preserves_raw_send)
  then have "preserves (waits i f) (raw_payload R rel_flavour (rel_listener (rt_api R)) rel_sendRaw m)"
    unfolding raw_payload_def Let_def counts_def
    by (intro preserves_if preserves_skip preserves_block_Cons preserves_block_Nil preserves_forA
        preserves_call preserves_sum preserves_throw)
  with ack show ?thesis unfolding rel_payload_def by (intro preserves_if)
qed

lemma preserves_rel_onMessage:
  assumes "js_opt (js_opt m ''message'') ''ack'' \<noteq> JInt i"
  shows "preserves (waits i f) (rel_onMessage R m)"
proof -
  have sub: "preserves (waits i f) send_subscribe"
    unfolding send_subscribe_def by (rule preserves_state) (rule preserves_ws_send)
  have step1: "preserves (waits i f) (send_step1 (rt_api R) rel_sendRaw)"
    unfolding send_step1_def rel_sendRaw_def by (rule preserves_state) (rule preserves_raw_send)
  show ?thesis
    unfolding rel_onMessage_def raw_dispatch_def
    by (intro preserves_sum preserves_throw preserves_if sub step1 preserves_block_Cons preserves_block_Nil
        preserves_call preserves_skip preserves_rel_payload assms)
qed

lemma preserves_rel_handle:
  fixes R :: "('d, 'a, 'y) runtime_scheme"
  assumes "\<not> acks_id i e"
  shows "preserves (waits i f) (rel_handle R e)"
proof (cases e)
  case (RelEdit t)
  have "preserves (waits i f) (rel_listener (rt_api R) u Local)" for u
    unfolding rel_listener_def raw_listener_def
    by (intro preserves_ifA preserves_skip preserves_sendReliable)
  then have "preserves (waits i f) (rel_insertParagraph R t)"
    unfolding rel_insertParagraph_def by (rule preserves_edit) (simp add: waits_def)
  with RelEdit show ?thesis by (simp add: rel_handle_def)
next
  case RelTick
  have "preserves (waits i f) (rel_retransmit :: ('d, 'a) rel_act)"
    unfolding rel_retransmit_def
    by (rule preserves_state) (auto intro!: preserves_forA preserves_rel_transmit simp: waits_def)
  with RelTick show ?thesis unfolding rel_handle_def by (simp add: preserves_def)
next
  case (RelMessage m)
  with assms show ?thesis by (simp add: rel_handle_def acks_id_def preserves_rel_onMessage)
next
  case RelClose
  then show ?thesis
    by (simp add: rel_handle_def rel_close_def ws_close_def preserves_def andThen_eq waits_def)
qed (auto simp: rel_handle_def preserves_def waits_def)

lemma waits_run:
  "waits i f s \<Longrightarrow> (\<forall>e \<in> set es. \<not> acks_id i e) \<Longrightarrow> waits i f (run (rel_step R) s es)"
proof (induction es arbitrary: s)
  case (Cons e es)
  then have "waits i f (rel_step R s e)"
    using preserves_rel_handle [of i e f R] by (simp add: rel_step_def preserves_def)
  with Cons show ?case by simp
qed simp

subsection \<open>Listening\<close>

lemma blind_listening: "blind c_listening"
  by (simp add: blind_def)

lemma preserves_rel_listening:
  fixes R :: "('d, 'a, 'y) runtime_scheme"
  shows "preserves c_listening (rel_handle R e)"
proof (cases e)
  case (RelEdit t)
  have tr: "preserves c_listening (rel_transmit i g :: ('d, 'a) rel_act)" for i g
    by (rule preserves_rel_transmit) simp
  have "preserves c_listening (rel_sendReliable g :: ('d, 'a) rel_act)" for g
    using tr by (auto simp: preserves_def sendReliable_eq)
  then have "preserves c_listening (rel_listener (rt_api R) u Local)" for u
    unfolding rel_listener_def raw_listener_def by (intro preserves_ifA preserves_skip)
  then have "preserves c_listening (rel_insertParagraph R t)"
    unfolding rel_insertParagraph_def by (rule preserves_edit) simp
  with RelEdit show ?thesis by (simp add: rel_handle_def)
next
  case RelTick
  have "preserves c_listening (rel_retransmit :: ('d, 'a) rel_act)"
    unfolding rel_retransmit_def
    by (rule preserves_state) (auto intro!: preserves_forA preserves_rel_transmit)
  with RelTick show ?thesis unfolding rel_handle_def by (simp add: preserves_def)
next
  case (RelMessage m)
  have "preserves c_listening (raw_receive (rt_api R) rel_flavour (rel_listener (rt_api R)) rel_sendRaw bs)" for bs
    by (rule preserves_raw_receive [OF blind_listening])
      (auto simp: rel_listener_def rel_sendRaw_def rel_flavour_def intro: preserves_raw_send)
  then have "preserves c_listening (raw_payload R rel_flavour (rel_listener (rt_api R)) rel_sendRaw v)" for v
    unfolding raw_payload_def Let_def counts_def
    by (intro preserves_if preserves_skip preserves_block_Cons preserves_block_Nil preserves_forA
        preserves_call preserves_sum preserves_throw)
  moreover have "preserves c_listening (rel_ack v)" for v
    by (simp add: rel_ack_def preserves_def andThen_eq)
  ultimately have pay: "preserves c_listening (rel_payload R v)" for v
    unfolding rel_payload_def by (intro preserves_if)
  have sub: "preserves c_listening send_subscribe"
    unfolding send_subscribe_def by (rule preserves_state) (rule preserves_ws_send)
  have step1: "preserves c_listening (send_step1 (rt_api R) rel_sendRaw)"
    unfolding send_step1_def rel_sendRaw_def by (rule preserves_state) (rule preserves_raw_send)
  have "preserves c_listening (rel_onMessage R m)"
    unfolding rel_onMessage_def raw_dispatch_def
    by (intro preserves_sum preserves_throw preserves_if sub step1 preserves_block_Cons preserves_block_Nil
        preserves_call preserves_skip pay)
  with RelMessage show ?thesis by (simp add: rel_handle_def)
next
  case RelClose
  then show ?thesis by (simp add: rel_handle_def rel_close_def ws_close_def preserves_def andThen_eq)
qed (auto simp: rel_handle_def preserves_def)

lemma listening_run: "c_listening s \<Longrightarrow> c_listening (run (rel_step R) s es)"
  by (rule run_invariant [of c_listening])
    (use preserves_rel_listening in \<open>auto simp: rel_step_def preserves_def\<close>)

text \<open>An edit is pending under the next id.\<close>

lemma rel_edit_waits:
  fixes R :: "('d, 'a, 'y) runtime_scheme"
  assumes "c_listening s" and "r_nextId s < 2 ^ 53" and "snd (rt_paragraph R t (c_doc s)) = [u]"
  shows "waits (r_nextId s) (frameUpdate (rt_api R) u) (rel_step R s (RelEdit t))"
proof -
  let ?g = "frameUpdate (rt_api R) u"
  let ?d = "s\<lparr>c_doc := fst (rt_paragraph R t (c_doc s))\<rparr>"
  have "post (rel_handle R (RelEdit t) s) = post (rel_sendReliable ?g ?d)"
    using assms(1,3)
    by (simp add: rel_handle_def rel_insertParagraph_def raw_edit_def emit_updates_def andThen_eq
        rel_listener_def raw_listener_def)
  moreover have "waits (r_nextId s) ?g
      (?d\<lparr>r_nextId := js_incr (r_nextId ?d), r_pending := map_put (r_nextId ?d) ?g (r_pending ?d)\<rparr>)"
    using js_incr_less [OF assms(2)] by (simp add: waits_def map_put_new)
  moreover have "preserves (waits (r_nextId s) ?g) (rel_transmit (r_nextId s) ?g :: ('d, 'a) rel_act)"
    by (rule preserves_rel_transmit) (simp add: waits_def)
  ultimately show ?thesis by (simp add: rel_step_def sendReliable_eq preserves_def)
qed

subsection \<open>The timer\<close>

definition pending_message :: "('d, 'a) reliable \<Rightarrow> int \<times> bytes \<Rightarrow> raw_call" where
  "pending_message s p =
     WsSend (Message (c_ident s) (JObj [(''update'', JStr (b64_of (snd p))), (''id'', JInt (fst p))]))"

lemma rel_retransmit_open:
  assumes "c_ws s = WsOpen" and "\<not> r_blackhole s"
  shows "rel_retransmit s = (s, map (pending_message s) (r_pending s), None)"
proof -
  have one: "rel_transmit i f s = (s, [pending_message s (i, f)], None)" for i f
    using assms by (simp add: rel_transmit_def ws_send_def pending_message_def)
  have "forA ps (\<lambda>(i, f). rel_transmit i f) s = (s, map (pending_message s) ps, None)" for ps
    by (induction ps) (auto simp: andThen_eq one)
  then show ?thesis by (simp add: rel_retransmit_def)
qed

end
