(* ===== verification/Demo_Verdicts.thy ===== *)
theory Demo_Verdicts
  imports Demo_Clients_2
begin

text \<open>
  What the test files of the demo conclude from what they observed: each definition takes the texts
  and states read at the end of a scenario and gives the checks the file makes, or its exit code, or
  what it throws. The waiting between the steps of a scenario is not part of these definitions.
\<close>

subsection \<open>server_read.mjs\<close>

text \<open>\<open>status\<close> and \<open>body\<close> are the answer of \<^verbatim>\<open>fetch\<close>.\<close>

definition serverDoc ::
  "('d, 'a, 'y) runtime_scheme \<Rightarrow> nat \<Rightarrow> jsval \<Rightarrow> js_error + nat \<times> 'd option" where
  "serverDoc R status body =
     (if status \<noteq> 200 then Inr (status, None)
      else case js_get body ''state'' of
        Inl x \<Rightarrow> Inl x
      | Inr state \<Rightarrow>
          (case rt_decode R state of
             Inl x \<Rightarrow> Inl x
           | Inr u \<Rightarrow>
               (case applyUpdate (rt_api R) (newDoc (rt_api R)) u of
                  (d, _, Some x) \<Rightarrow> Inl x
                | (d, _, None) \<Rightarrow> Inr (status, Some d))))"

definition serverText ::
  "('d, 'a, 'y) runtime_scheme \<Rightarrow> nat \<Rightarrow> jsval \<Rightarrow> js_error + jsstring" where
  "serverText R status body =
     (case serverDoc R status body of
        Inl x \<Rightarrow> Inl x
      | Inr (_, None) \<Rightarrow> Inr []
      | Inr (_, Some d) \<Rightarrow> Inr (strip_tags (rt_text R d)))"

subsection \<open>What several files share\<close>

text \<open>\<^verbatim>\<open>const ref = xs[0].state(); xs.every((x) => .. equal to ref)\<close>\<close>

fun all_same :: "bytes list \<Rightarrow> js_error + bool" where
  "all_same [] = Inl (TypeError ''cannot read properties of undefined'')"
| "all_same (ref # rest) = Inr (list_all (\<lambda>s. sameBytes s ref) (ref # rest))"

text \<open>The texts \<open>tag\<close>1, \<open>tag\<close>2, .. up to \<open>n\<close> that are not in a text.\<close>

definition missing_edits :: "string \<Rightarrow> nat \<Rightarrow> jsstring \<Rightarrow> nat list" where
  "missing_edits tag n t = filter (\<lambda>i. \<not> js_includes t (js tag @ dec i)) [1..<Suc n]"

subsection \<open>crash_recovery.mjs\<close>

definition crash_verify_exit :: "nat \<Rightarrow> jsstring \<Rightarrow> jsstring \<Rightarrow> nat" where
  "crash_verify_exit edits client_text live_text =
     (let missing = length (missing_edits ''edit-'' edits client_text);
          liveMissing = missing_edits ''edit-'' edits live_text
      in if missing = 0 \<and> liveMissing = [] then 0 else 1)"

subsection \<open>multiprocess.mjs\<close>

definition mp_bothFresh :: "nat \<Rightarrow> jsstring \<Rightarrow> jsstring \<Rightarrow> bool" where
  "mp_bothFresh edits textA textB \<longleftrightarrow>
     list_all (\<lambda>tag. missing_edits tag edits textA = [] \<and> missing_edits tag edits textB = [])
       [''A1-'', ''A2-'', ''B1-'', ''B2-'']"

definition mp_lateOk :: "nat \<Rightarrow> jsstring \<Rightarrow> bool" where
  "mp_lateOk edits t \<longleftrightarrow> missing_edits ''A1-'' edits t = [] \<and> missing_edits ''B2-'' edits t = []"

text \<open>The logs of both processes are lists of values, in fact of base64 texts.\<close>

definition mp_sameLog :: "'v list \<Rightarrow> 'v list \<Rightarrow> bool" where
  "mp_sameLog a b \<longleftrightarrow> length a = length b \<and> list_all (\<lambda>i. a ! i = b ! i) [0..<length a]"

subsection \<open>anycable_concurrent.mjs\<close>

definition acs_tokens :: "nat \<Rightarrow> nat \<Rightarrow> jsstring list" where
  "acs_tokens n paras =
     concat (map (\<lambda>i. map (\<lambda>j. js ''c'' @ dec i @ js ''p'' @ dec j) [0..<paras]) [0..<n])"

subsection \<open>loadtest.mjs\<close>

text \<open>A client's room; the first client of each room is its latency probe.\<close>

definition load_room :: "nat \<Rightarrow> nat \<Rightarrow> nat" where
  "load_room rooms i = i mod rooms"

definition load_probe :: "nat \<Rightarrow> nat \<Rightarrow> bool" where
  "load_probe rooms i \<longleftrightarrow> i < rooms"

definition load_exit :: "nat \<Rightarrow> bool \<Rightarrow> nat" where
  "load_exit errors converged = (if errors = 0 \<and> converged then 0 else 1)"

subsection \<open>stress.mjs\<close>

text \<open>A client at the end of the storm: its name, whether it was closed, its text and its state.\<close>

record storm_client =
  sc_name :: jsstring
  sc_closed :: bool
  sc_text :: jsstring
  sc_state :: bytes
  sc_pending :: "nat list"  \<comment> \<open>clients a pending update waits for\<close>

definition stress_token :: "jsstring \<Rightarrow> nat \<Rightarrow> jsstring" where
  "stress_token name k = [91] @ name @ [46] @ dec k @ [93]"

definition survivors :: "storm_client list \<Rightarrow> storm_client list" where
  "survivors clients = filter (\<lambda>c. \<not> sc_closed c) clients"

definition expected_chars :: "jsstring list \<Rightarrow> nat" where
  "expected_chars tokens = sum_list (map length tokens)"

text \<open>The clients that are reported when a wait times out.\<close>

definition diagnoseRoom :: "storm_client list \<Rightarrow> nat \<Rightarrow> storm_client list" where
  "diagnoseRoom clients expectedChars =
     filter (\<lambda>c. visibleChars (sc_text c) \<noteq> expectedChars \<or> 0 < length (sc_pending c)) (survivors clients)"

text \<open>The predicate the room is polled with.\<close>

definition room_settled :: "storm_client list \<Rightarrow> nat \<Rightarrow> bool" where
  "room_settled clients expectedChars \<longleftrightarrow>
     list_all (\<lambda>c. visibleChars (sc_text c) = expectedChars) (survivors clients)"

fun diverged :: "storm_client \<Rightarrow> storm_client list \<Rightarrow> js_error option" where
  "diverged verifier [] = None"
| "diverged verifier (c # cs) =
     (if \<not> sameBytes (sc_state c) (sc_state verifier) then Some (JsError ''diverged from verifier (state encoding)'')
      else if sc_text c \<noteq> sc_text verifier then Some (JsError ''diverged from verifier (text)'')
      else diverged verifier cs)"

subsection \<open>reliable_stress.mjs\<close>

text \<open>\<open>addEdit\<close>, and \<open>addParagraph\<close> of reliable_provider.mjs.\<close>

definition addEdit :: "('d, 'a, 'y) runtime_scheme \<Rightarrow> 'd \<Rightarrow> jsstring \<Rightarrow> 'd \<times> bytes list" where
  "addEdit R d m = rt_paragraph R m d"

definition addParagraph :: "('d, 'a, 'y) runtime_scheme \<Rightarrow> 'd \<Rightarrow> jsstring \<Rightarrow> 'd \<times> bytes list" where
  "addParagraph R d t = rt_paragraph R t d"

definition marker :: "nat \<Rightarrow> nat \<Rightarrow> jsstring" where
  "marker i n = [99] @ dec i @ [45] @ dec n"

text \<open>\<^verbatim>\<open>s.match(/c\d+-\d+/g)\<close>\<close>

function markers :: "jsstring \<Rightarrow> jsstring list" where
  "markers [] = []"
| "markers (c # s) =
     (let d1 = takeWhile (\<lambda>c. digit c) s; r1 = dropWhile (\<lambda>c. digit c) s;
          d2 = takeWhile (\<lambda>c. digit c) (tl r1); r2 = dropWhile (\<lambda>c. digit c) (tl r1)
      in if c = 99 \<and> d1 \<noteq> [] \<and> r1 \<noteq> [] \<and> hd r1 = 45 \<and> d2 \<noteq> []
         then (c # d1 @ 45 # d2) # markers r2
         else markers s)"
  by pat_completeness auto
termination
  by (relation "measure length") (auto simp: le_imp_less_Suc length_dropWhile_le le_trans
    [OF length_dropWhile_le] diff_le_self le_trans [OF diff_le_self])

definition markersIn :: "jsstring \<Rightarrow> jsstring set" where
  "markersIn t = set (markers t)"

definition expected_markers :: "nat \<Rightarrow> nat \<Rightarrow> jsstring set" where
  "expected_markers clients edits =
     set (concat (map (\<lambda>i. map (marker i) [0..<edits]) [0..<clients]))"

text \<open>The wait for a verifier: \<^verbatim>\<open>markersIn(c.doc).size === TOTAL\<close>.\<close>

definition verifier_settled :: "nat \<Rightarrow> nat \<Rightarrow> jsstring \<Rightarrow> bool" where
  "verifier_settled clients edits t \<longleftrightarrow> card (markersIn t) = clients * edits"

definition verifier_complete :: "nat \<Rightarrow> nat \<Rightarrow> jsstring \<Rightarrow> bool" where
  "verifier_complete clients edits t \<longleftrightarrow> (\<forall>m \<in> expected_markers clients edits. m \<in> markersIn t)"

subsection \<open>agent_browsers.mjs\<close>

text \<open>\<^verbatim>\<open>String((i + 1) % 10)\<close>, one code unit.\<close>

definition agent_digit :: "nat \<Rightarrow> 16 word" where
  "agent_digit i = of_nat (48 + (i + 1) mod 10)"

definition agent_digits :: "nat \<Rightarrow> (16 word) list" where
  "agent_digits n = map agent_digit [0..<n]"

text \<open>What each browser types in a round.\<close>

definition agent_types :: "nat \<Rightarrow> nat \<Rightarrow> jsstring" where
  "agent_types per i = replicate per (agent_digit i)"

fun agent_converged :: "(16 word) list \<Rightarrow> nat \<Rightarrow> jsstring list \<Rightarrow> bool" where
  "agent_converged digits perDigit [] = list_all (\<lambda>d. False) digits"
| "agent_converged digits perDigit (t0 # ts) =
     (list_all (\<lambda>t. t = t0) (t0 # ts) \<and> list_all (\<lambda>d. countChar t0 d = perDigit) digits)"

definition agent_conserved :: "(16 word) list \<Rightarrow> nat \<Rightarrow> jsstring \<Rightarrow> bool" where
  "agent_conserved digits perDigit t \<longleftrightarrow>
     sum_list (map (countChar t) digits) = perDigit * length digits"

text \<open>\<^verbatim>\<open>[...s].filter((c) => DIGITS.includes(c)).sort().join("")\<close>\<close>

definition onlyDigits :: "(16 word) list \<Rightarrow> jsstring \<Rightarrow> jsstring" where
  "onlyDigits digits s = sort (filter (\<lambda>c. c \<in> set digits) s)"

end
