(* ===== verification/Demo_Consumers.thy ===== *)
theory Demo_Consumers
  imports Raw_Client
begin

text \<open>
  The two consumers the reliability tests hand to the provider in place of @rails/actioncable:
  \<open>rawConsumer\<close> of reliable_provider.mjs, with a switch that drops outbound frames, and
  \<open>lossyConsumer\<close> of reliable_stress.mjs, which drops outbound frames and inbound acks at random.

  A subscription object is known by its number; \<open>cs_connected\<close> and \<open>cs_received\<close> say whether the mixin
  it was made with has the callback. \<^verbatim>\<open>JSON.stringify(params)\<close> is given as the identifier's text. A
  random number drawn by the code is a parameter.
\<close>

record cable_sub =
  cs_key :: nat
  cs_identifier :: jsstring
  cs_connected :: bool
  cs_received :: bool

datatype consumer_call =
    WireSubscribe jsstring
  | WireMessage jsstring jsval
  | WireUnsubscribe jsstring
  | CallConnected nat
  | CallReceived nat jsval

record consumer =
  subs :: "cable_sub list"
  welcomed :: bool
  socket :: ws_state
  blackhole :: bool
  dropped :: nat

text \<open>\<open>lossyConsumer\<close> counts its drops in \<open>droppedOut\<close>, not in \<open>dropped\<close>.\<close>

record lossy_consumer = consumer +
  loss :: rat
  ackLoss :: rat
  droppedOut :: nat
  droppedAck :: nat
  sent :: nat

type_synonym 'z consumer_act = "('z consumer_scheme, consumer_call) act"

subsection \<open>What both share\<close>

definition wire :: "consumer_call \<Rightarrow> 'z consumer_act" where
  "wire c s =
     (case socket s of
        WsConnecting \<Rightarrow> throw (DOMException ''InvalidStateError'') s
      | WsOpen \<Rightarrow> call c s
      | _ \<Rightarrow> skip s)"

definition subscribe :: "cable_sub \<Rightarrow> 'z consumer_act" where
  "subscribe sub = wire (WireSubscribe (cs_identifier sub))"

text \<open>\<^verbatim>\<open>subs.find((s) => s.identifier === msg.identifier)\<close>\<close>

definition find_sub :: "jsval \<Rightarrow> 'z consumer_scheme \<Rightarrow> cable_sub option" where
  "find_sub identifier s = find (\<lambda>sub. JStr (cs_identifier sub) = identifier) (subs s)"

definition on_welcome :: "'z consumer_act" where
  "on_welcome s =
     block [modify (\<lambda>s. s\<lparr>welcomed := True\<rparr>), forA (subs s) subscribe] s"

definition on_confirm :: "jsval \<Rightarrow> 'z consumer_act" where
  "on_confirm identifier s =
     (case find_sub identifier s of
        None \<Rightarrow> skip s
      | Some sub \<Rightarrow> whenA (\<lambda>_. cs_connected sub) (call (CallConnected (cs_key sub))) s)"

definition deliver :: "jsval \<Rightarrow> jsval \<Rightarrow> 'z consumer_act" where
  "deliver identifier m s =
     (case find_sub identifier s of
        None \<Rightarrow> skip s
      | Some sub \<Rightarrow> whenA (\<lambda>_. cs_received sub) (call (CallReceived (cs_key sub) m)) s)"

text \<open>The message handler, up to what is done with a message for a subscription.\<close>

definition on_cable :: "(jsval \<Rightarrow> jsval \<Rightarrow> 'z consumer_act) \<Rightarrow> jsval \<Rightarrow> 'z consumer_act" where
  "on_cable on_message msg =
     (case (js_get msg ''type'', js_get msg ''message'', js_get msg ''identifier'') of
        (Inr ty, Inr m, Inr identifier) \<Rightarrow>
          if ty = JStr (js ''welcome'') then on_welcome
          else if ty = JStr (js ''confirm_subscription'') then on_confirm identifier
          else if truthy m then on_message identifier m
          else skip
      | (Inl x, _, _) \<Rightarrow> throw x
      | (_, Inl x, _) \<Rightarrow> throw x
      | (_, _, Inl x) \<Rightarrow> throw x)"

definition create :: "cable_sub \<Rightarrow> 'z consumer_act" where
  "create sub =
     block [
       modify (\<lambda>s. s\<lparr>subs := subs s @ [sub]\<rparr>),
       whenA (\<lambda>s. welcomed s \<and> socket s = WsOpen) (subscribe sub)]"

definition unsubscribe :: "cable_sub \<Rightarrow> 'z consumer_act" where
  "unsubscribe sub = wire (WireUnsubscribe (cs_identifier sub))"

subsection \<open>rawConsumer\<close>

definition rawConsumer :: consumer where
  "rawConsumer =
     \<lparr>subs = [], welcomed = False, socket = WsConnecting, blackhole = False, dropped = 0\<rparr>"

definition raw_onmessage :: "jsval \<Rightarrow> 'z consumer_act" where
  "raw_onmessage = on_cable deliver"

definition raw_sub_send :: "cable_sub \<Rightarrow> jsval \<Rightarrow> 'z consumer_act" where
  "raw_sub_send sub data =
     ifA blackhole
       (modify (\<lambda>s. s\<lparr>dropped := dropped s + 1\<rparr>))
       (wire (WireMessage (cs_identifier sub) data))"

text \<open>The subscription stays in the list: only the command is sent.\<close>

definition raw_remove :: "cable_sub \<Rightarrow> 'z consumer_act" where
  "raw_remove = unsubscribe"

subsection \<open>lossyConsumer\<close>

definition lossyConsumer :: lossy_consumer where
  "lossyConsumer =
     \<lparr>subs = [], welcomed = False, socket = WsConnecting, blackhole = False, dropped = 0,
      loss = 0, ackLoss = 0, droppedOut = 0, droppedAck = 0, sent = 0\<rparr>"

type_synonym lossy_act = "(lossy_consumer, consumer_call) act"

definition lossy_message :: "rat \<Rightarrow> jsval \<Rightarrow> jsval \<Rightarrow> lossy_act" where
  "lossy_message draw identifier m =
     (case js_get m ''ack'' of
        Inl x \<Rightarrow> throw x
      | Inr a \<Rightarrow>
          ifA (\<lambda>s. a \<noteq> JUndef \<and> draw < ackLoss s)
            (modify (\<lambda>s. s\<lparr>droppedAck := droppedAck s + 1\<rparr>))
            (deliver identifier m))"

definition lossy_onmessage :: "rat \<Rightarrow> jsval \<Rightarrow> lossy_act" where
  "lossy_onmessage draw = on_cable (lossy_message draw)"

definition lossy_sub_send :: "rat \<Rightarrow> cable_sub \<Rightarrow> jsval \<Rightarrow> lossy_act" where
  "lossy_sub_send draw sub data =
     ifA (\<lambda>s. blackhole s \<or> draw < loss s)
       (modify (\<lambda>s. s\<lparr>droppedOut := droppedOut s + 1\<rparr>))
       (block [
          wire (WireMessage (cs_identifier sub) data),
          modify (\<lambda>s. s\<lparr>sent := sent s + 1\<rparr>)])"

text \<open>\<^verbatim>\<open>subs.splice(subs.indexOf(sub), 1)\<close>: the first entry that is the object goes.\<close>

definition lossy_remove :: "cable_sub \<Rightarrow> lossy_act" where
  "lossy_remove sub =
     block [modify (\<lambda>s. s\<lparr>subs := remove1 sub (subs s)\<rparr>), unsubscribe sub]"

subsection \<open>reliable_stress.mjs: random delays\<close>

text \<open>\<^verbatim>\<open>a + Math.floor(Math.random() * (b - a))\<close>\<close>

definition rand :: "rat \<Rightarrow> int \<Rightarrow> int \<Rightarrow> int" where
  "rand r a b = a + \<lfloor>r * of_int (b - a)\<rfloor>"

lemma rand_bounds: "0 \<le> r \<Longrightarrow> r < 1 \<Longrightarrow> a < b \<Longrightarrow> a \<le> rand r a b \<and> rand r a b < b"
proof -
  assume r: "0 \<le> r" "r < 1" and ab: "a < b"
  have "0 \<le> r * of_int (b - a)" using r ab by simp
  moreover have "r * of_int (b - a) < of_int (b - a)" using r ab by simp
  ultimately show ?thesis unfolding rand_def by linarith
qed

subsection \<open>The lossy network counts what it does\<close>

text \<open>The sends of a test, each with its draw, over one socket.\<close>

definition lossy_sends :: "(rat \<times> cable_sub \<times> jsval) list \<Rightarrow> lossy_act" where
  "lossy_sends xs = forA xs (\<lambda>(draw, sub, data). lossy_sub_send draw sub data)"

text \<open>The sends a network that loses nothing and does not black out would put on the wire.\<close>

definition surviving :: "rat \<Rightarrow> (rat \<times> cable_sub \<times> jsval) list \<Rightarrow> consumer_call list" where
  "surviving p xs =
     map (\<lambda>(draw, sub, data). WireMessage (cs_identifier sub) data) (filter (\<lambda>(draw, _). p \<le> draw) xs)"

lemma wire_open [simp]: "socket s = WsOpen \<Longrightarrow> wire c s = (s, [c], None)"
  by (simp add: wire_def)

lemma lossy_sub_send_open:
  "socket s = WsOpen \<Longrightarrow> \<not> blackhole s \<Longrightarrow>
   lossy_sub_send draw sub data s =
     (if draw < loss s then (s\<lparr>droppedOut := droppedOut s + 1\<rparr>, [], None)
      else (s\<lparr>sent := sent s + 1\<rparr>, [WireMessage (cs_identifier sub) data], None))"
  by (simp add: lossy_sub_send_def andThen_eq)

lemma lossy_sends_open:
  assumes "socket s = WsOpen" and "\<not> blackhole s"
  shows "calls (lossy_sends xs s) = surviving (loss s) xs \<and> thrown (lossy_sends xs s) = None
    \<and> sent (post (lossy_sends xs s)) = sent s + length (surviving (loss s) xs)
    \<and> droppedOut (post (lossy_sends xs s)) + length (surviving (loss s) xs) = droppedOut s + length xs"
  using assms
proof (induction xs arbitrary: s)
  case Nil
  then show ?case by (simp add: lossy_sends_def surviving_def)
next
  case (Cons x xs)
  obtain draw sub data where x: "x = (draw, sub, data)" by (cases x) auto
  show ?case
  proof (cases "draw < loss s")
    case True
    have "lossy_sends (x # xs) s = lossy_sends xs (s\<lparr>droppedOut := droppedOut s + 1\<rparr>)"
      using Cons.prems True by (simp add: x lossy_sends_def andThen_eq lossy_sub_send_open)
    with Cons.IH [of "s\<lparr>droppedOut := droppedOut s + 1\<rparr>"] Cons.prems True
    show ?thesis by (simp add: x surviving_def)
  next
    case False
    have "lossy_sends (x # xs) s =
      (case lossy_sends xs (s\<lparr>sent := sent s + 1\<rparr>) of
         (s2, cs, r) \<Rightarrow> (s2, WireMessage (cs_identifier sub) data # cs, r))"
      using Cons.prems False by (simp add: x lossy_sends_def andThen_eq lossy_sub_send_open split: prod.splits)
    with Cons.IH [of "s\<lparr>sent := sent s + 1\<rparr>"] Cons.prems False
    show ?thesis by (simp add: x surviving_def split: prod.splits)
  qed
qed

subsection \<open>Messages reach the subscription they name\<close>

lemma find_sub_SomeD:
  "find_sub i s = Some sub \<Longrightarrow> sub \<in> set (subs s) \<and> i = JStr (cs_identifier sub)"
  by (auto simp: find_sub_def find_Some_iff)

lemma deliver_calls:
  "calls (deliver i m s) =
     (case find_sub i s of None \<Rightarrow> []
      | Some sub \<Rightarrow> if cs_received sub then [CallReceived (cs_key sub) m] else [])"
  by (simp add: deliver_def split: option.splits)

lemma deliver_same [simp]: "post (deliver i m s) = s \<and> thrown (deliver i m s) = None"
  by (simp add: deliver_def split: option.splits)

end
