(* ===== verification/Demo_Theorems.thy ===== *)
theory Demo_Theorems
  imports Demo_Instance Reliable_Client_Props Demo_Verdicts Demo_Consumers
begin

text \<open>
  The properties of the demo's test programs: their clients, the consumers of the reliability tests,
  and the conclusions the tests draw.
\<close>

subsection \<open>The clients\<close>

lemmas class_onMessage_defs =
  e2e_onMessage_def e2e_listener_def e2e_send_def stress_onMessage_def stress_listener_def stress_send_def
  chaos_msg_def chaos_listener_def chaos_send_def mp_msg_def mp_listener_def mp_send_def
  crash_msg_def crash_listener_def crash_send_def auditc_onMessage_def auditc_listener_def auditc_send_def
  scen_onMessage_def scen_localUpdate_def scen_send_def load_msg_def load_listener_def load_send_def
  acs_msg_def acs_listener_def acs_send_def acg_msg_def acg_listener_def acg_send_def

lemma raw_onMessage_ends:
  assumes "lib0_progress (rt_api R)" and "proper_errors R"
  shows "thrown (raw_onMessage R F (raw_listener (rt_api R) (raw_send F)) (raw_send F) m s) \<noteq> Some OutOfFuel"
  by (intro endsD ends_raw_onMessage assms ends_raw_send)

text \<open>
  C34: The message handler of every demo client ends, whatever bytes it is sent. Its loop over a frame
  (\<^verbatim>\<open>while (decoding.hasContent(decoder))\<close>) is cut off after as many rounds as the frame has bytes;
  that is always enough, so the cut-off is never reached. This rests on each lib0 reader taking at
  least one byte or throwing.
\<close>

theorem demo_handlers_end:
  assumes "lib0_progress (rt_api R)" and "proper_errors R"
  shows "thrown (e2e_onMessage R m s1) \<noteq> Some OutOfFuel \<and> thrown (stress_onMessage R m s2) \<noteq> Some OutOfFuel
    \<and> thrown (chaos_msg R m s3) \<noteq> Some OutOfFuel \<and> thrown (mp_msg R m s4) \<noteq> Some OutOfFuel
    \<and> thrown (crash_msg R m s5) \<noteq> Some OutOfFuel \<and> thrown (auditc_onMessage R m s6) \<noteq> Some OutOfFuel
    \<and> thrown (scen_onMessage R m s7) \<noteq> Some OutOfFuel \<and> thrown (load_msg R m s8) \<noteq> Some OutOfFuel
    \<and> thrown (acs_msg R m s9) \<noteq> Some OutOfFuel \<and> thrown (acg_msg R m s10) \<noteq> Some OutOfFuel
    \<and> thrown (acp_msg R m s11) \<noteq> Some OutOfFuel \<and> thrown (rel_onMessage R m s12) \<noteq> Some OutOfFuel"
  by (intro conjI; (unfold class_onMessage_defs)?;
      intro raw_onMessage_ends endsD ends_acp_msg ends_rel_onMessage assms)

theorem demo_handlers_end_witness:
  "lib0_progress (rt_api demo_rt) \<and> proper_errors demo_rt
   \<and> (\<forall>m. thrown (chaos_msg demo_rt m (fst (chaos_new demo_rt (js ''r'')))) \<noteq> Some OutOfFuel)"
proof -
  have l: "lib0_progress (rt_api demo_rt)" by (simp add: demo_rt_def demo_lib0_progress)
  from demo_handlers_end [OF l demo_proper_errors] l demo_proper_errors show ?thesis by blast
qed




text \<open>
  C36: The reference client of reliable.mjs loses no edit to the network. From construction on, in any
  sequence of edits, timer ticks, messages, outages, socket changes and closing, an edit made while
  ids are left waits under its own id until a message acknowledges exactly that id, also when the
  transmission throws.
\<close>

theorem reliable_edit_kept:
  assumes "s = run (rel_step R) (fst (rel_new R room)) es"
    and "r_nextId s < 2 ^ 53" and "snd (rt_paragraph R t (c_doc s)) = [u]"
    and "\<forall>e \<in> set fs. \<not> acks_id (r_nextId s) e"
  shows "(r_nextId s, frameUpdate (rt_api R) u) \<in> set (r_pending (run (rel_step R) s (RelEdit t # fs)))"
proof -
  have "c_listening (fst (rel_new R room))"
    by (simp add: rel_new_def raw_new_def raw.defs)
  then have "c_listening s" unfolding assms(1) by (rule listening_run)
  from waits_run [OF rel_edit_waits [OF this assms(2,3)] assms(4), of R]
  show ?thesis by (simp add: waits_def)
qed

lemma demo_paragraph: "rt_paragraph demo_rt (js ''a'') d = (d @ [97], [[97]])"
  by (simp add: demo_rt_def js_def)

theorem reliable_edit_kept_witness:
  "(1, frameUpdate demo_api [97]) \<in>
     set (r_pending (run (rel_step demo_rt) (fst (rel_new demo_rt (js ''r'')))
       [RelEdit (js ''a''), RelTick, RelMessage (JObj [(''message'', JObj [(''ack'', JInt 2)])]), RelClose]))"
proof -
  let ?s = "fst (rel_new demo_rt (js ''r''))"
  have s: "?s = run (rel_step demo_rt) (fst (rel_new demo_rt (js ''r''))) []" by simp
  have n: "r_nextId ?s = 1" by (simp add: rel_new_def raw_new_def raw.defs)
  have api: "rt_api demo_rt = demo_api" by (simp add: demo_rt_def)
  have "\<forall>e \<in> set [RelTick, RelMessage (JObj [(''message'', JObj [(''ack'', JInt 2)])]), RelClose].
      \<not> acks_id (r_nextId ?s) e"
    by (simp add: n acks_id_def js_opt_def)
  from reliable_edit_kept [OF s, of "js ''a''" "[97]", OF _ _ this] n show ?thesis
    by (simp add: demo_paragraph api)
qed

text \<open>
  With the socket open and the outage over, one tick of the reference client's timer sends every
  pending frame with its own id, in the order of the edits, and changes nothing.
\<close>

theorem reliable_tick_resends:
  assumes "c_ws s = WsOpen" and "\<not> r_blackhole s" and "r_timer s"
  shows "rel_handle R RelTick s =
    (s, map (\<lambda>(i, f). WsSend (Message (c_ident s) (JObj [(''update'', JStr (b64_of f)), (''id'', JInt i)])))
          (r_pending s), None)"
  using assms
  by (simp add: rel_handle_def rel_retransmit_open pending_message_def [abs_def] case_prod_unfold)

theorem reliable_tick_resends_witness:
  "calls (rel_handle demo_rt RelTick
     ((fst (rel_new demo_rt (js ''r'')))\<lparr>c_ws := WsOpen, r_pending := [(1, [0]), (2, [1])]\<rparr>)) =
   [WsSend (Message (identifier_of (js ''r'')) (JObj [(''update'', JStr (b64_of [0])), (''id'', JInt 1)])),
    WsSend (Message (identifier_of (js ''r'')) (JObj [(''update'', JStr (b64_of [1])), (''id'', JInt 2)]))]"
  by (subst reliable_tick_resends) (simp_all add: rel_new_def raw_new_def raw.defs)

lemma storm_reconnect_churn: "StormReconnect \<in> set (storm True edits) \<longleftrightarrow> 20 < edits"
proof -
  have "StormReconnect \<in> set (storm True edits) \<longleftrightarrow> (\<exists>k < edits. int k = int edits div 2 + 10)"
    by (auto simp: storm_def storm_round_def storm_offlineAt_def)
  also have "\<dots> \<longleftrightarrow> 20 < edits"
  proof
    assume "20 < edits"
    then have "edits div 2 + 10 < edits \<and> int (edits div 2 + 10) = int edits div 2 + 10" by (auto simp: zdiv_int)
    then show "\<exists>k < edits. int k = int edits div 2 + 10" by blast
  qed auto
  finally show ?thesis .
qed

text \<open>
  In a storm of more than nine rounds, a client that is not to be taken offline opens a second
  connection in round nine: its \<^verbatim>\<open>offlineAt\<close> is -1, and -1 + 10 is a round. It never closes the first
  one. A client that is taken offline comes back only in a storm of more than twenty rounds.
\<close>

theorem storm_reconnects_everyone:
  assumes "9 < edits"
  shows "StormReconnect \<in> set (storm False edits) \<and> StormClose \<notin> set (storm False edits)
    \<and> StormClose \<in> set (storm True edits)
    \<and> (StormReconnect \<in> set (storm True edits) \<longleftrightarrow> 20 < edits)"
proof -
  have "StormReconnect \<in> set (storm_round False edits 9)"
    by (simp add: storm_round_def storm_offlineAt_def)
  with assms have "StormReconnect \<in> set (storm False edits)"
    by (auto simp: storm_def intro!: bexI [of _ 9])
  moreover have "StormClose \<notin> set (storm False edits)"
    by (auto simp: storm_def storm_round_def storm_offlineAt_def)
  moreover have "StormClose \<in> set (storm_round True edits (edits div 2))"
    by (simp add: storm_round_def storm_offlineAt_def zdiv_int)
  then have "StormClose \<in> set (storm True edits)"
    using assms by (auto simp: storm_def intro!: bexI [of _ "edits div 2"])
  ultimately show ?thesis by (simp add: storm_reconnect_churn)
qed

theorem storm_reconnects_everyone_witness:
  "StormReconnect \<in> set (storm False 10) \<and> StormReconnect \<notin> set (storm True 10)"
  using storm_reconnects_everyone [of 10] by simp

subsection \<open>Waiting\<close>



subsection \<open>The lossy network\<close>

text \<open>
  The lossy consumer of the stress test drops and counts exactly what its draws say. Over an open
  socket, a sequence of sends puts on the wire, in order, the frames whose draw is not below the loss
  rate; it throws nothing, every frame is counted once, as sent or as dropped, and during a blackout
  every frame is dropped.
\<close>

theorem lossy_network_accounts:
  assumes "socket s = WsOpen"
  shows "calls (lossy_sends xs s) = (if blackhole s then [] else surviving (loss s) xs)
    \<and> thrown (lossy_sends xs s) = None
    \<and> sent (post (lossy_sends xs s)) = sent s + length (calls (lossy_sends xs s))
    \<and> sent (post (lossy_sends xs s)) + droppedOut (post (lossy_sends xs s))
        = sent s + droppedOut s + length xs"
proof (cases "blackhole s")
  case True
  then have "lossy_sends xs s = (s\<lparr>droppedOut := droppedOut s + length xs\<rparr>, [], None)"
  proof (induction xs arbitrary: s)
    case (Cons x xs)
    obtain draw sub data where x: "x = (draw, sub, data)" by (cases x) auto
    have "lossy_sub_send draw sub data s = (s\<lparr>droppedOut := droppedOut s + 1\<rparr>, [], None)"
      using Cons.prems by (simp add: lossy_sub_send_def)
    with Cons show ?case by (simp add: x lossy_sends_def andThen_eq)
  qed (simp add: lossy_sends_def)
  with True show ?thesis by simp
next
  case False
  from lossy_sends_open [OF assms False, of xs] False show ?thesis by simp
qed

definition sample_sub :: cable_sub where
  "sample_sub = \<lparr>cs_key = 0, cs_identifier = js ''d'', cs_connected = True, cs_received = True\<rparr>"

theorem lossy_network_accounts_witness:
  "calls (lossy_sends [(0, sample_sub, JInt 1), (1 / 2, sample_sub, JInt 2)]
     (lossyConsumer\<lparr>socket := WsOpen, loss := 1 / 3\<rparr>)) = [WireMessage (js ''d'') (JInt 2)]"
  using lossy_network_accounts [of "lossyConsumer\<lparr>socket := WsOpen, loss := 1 / 3\<rparr>"
      "[(0, sample_sub, JInt 1), (1 / 2, sample_sub, JInt 2)]"]
  by (simp add: lossyConsumer_def surviving_def sample_sub_def)

text \<open>
  A subscription that takes the place of a removed one with the same identifier is never confirmed by
  \<open>rawConsumer\<close>, whose \<open>remove\<close> leaves the old one in the list; \<open>lossyConsumer\<close> confirms it.
\<close>

lemma resubscription_starves:
  fixes sub :: cable_sub
  assumes "subs s = []" and "socket s = WsOpen" and "cs_connected sub" and "cs_connected sub2"
    and "cs_identifier sub2 = cs_identifier sub"
  defines "s1 \<equiv> post (create sub s)"
  defines "s2 \<equiv> post (create sub2 (post (raw_remove sub s1)))"
  shows "calls (on_confirm (JStr (cs_identifier sub2)) s2) = [CallConnected (cs_key sub)]"
  using assms(1-5)
  by (simp add: s1_def s2_def create_def raw_remove_def unsubscribe_def subscribe_def on_confirm_def
      find_sub_def andThen_eq)

lemma resubscription_confirmed:
  fixes sub :: cable_sub
  assumes "subs s = []" and "socket s = WsOpen" and "cs_connected sub2"
  defines "s1 \<equiv> post (create sub s)"
  defines "s2 \<equiv> post (create sub2 (post (lossy_remove sub s1)))"
  shows "calls (on_confirm (JStr (cs_identifier sub2)) s2) = [CallConnected (cs_key sub2)]"
  using assms(1-3)
  by (simp add: s1_def s2_def create_def lossy_remove_def unsubscribe_def subscribe_def on_confirm_def
      find_sub_def andThen_eq)

subsection \<open>What the tests conclude\<close>

text \<open>
  The stress test counts characters with two regular expressions, one on the clients and one in
  the helper that reads the server. On a text without an empty tag they strip the same, so a client
  that shows the server's document passes its check exactly if the server passes its own.
\<close>

theorem stress_counts_agree:
  assumes "serverDoc R status body = Inr (status, Some d)" and "serverText R status body = Inr t"
    and "\<not> js_includes (rt_text R d) [60, 62]" and "sc_text c = rt_text R d" and "\<not> sc_closed c"
  shows "room_settled [c] n \<longleftrightarrow> length t = n"
  using assms(1,2,4,5)
  by (auto simp: serverText_def room_settled_def survivors_def visibleChars_def strip_tags1_eq [OF assms(3)])

theorem stress_counts_agree_witness:
  "room_settled [\<lparr>sc_name = [], sc_closed = False, sc_text = js ''<p>ab</p>'', sc_state = [], sc_pending = []\<rparr>] 2"
proof -
  let ?c = "\<lparr>sc_name = [], sc_closed = False, sc_text = js ''<p>ab</p>'', sc_state = [], sc_pending = []\<rparr>"
  let ?d = "[60, 112, 62, 97, 98, 60, 47, 112, 62] :: bytes"
  let ?body = "JObj [(''state'', JStr (b64_of ?d))]"
  have api: "rt_api demo_rt = demo_api" "newDoc demo_api = []" "applyUpdate demo_api = demo_apply"
    by (simp_all add: demo_rt_def demo_api_def)
  have dec: "rt_decode demo_rt (JStr (b64_of ?d)) = Inr ?d"
    by (simp only: demo_rt_def runtime.simps jsval.simps fromBase64_b64_of)
  have shown: "rt_text demo_rt ?d = js ''<p>ab</p>''" by (simp add: demo_rt_def js_def)
  have doc: "serverDoc demo_rt 200 ?body = Inr (200, Some ?d)"
    by (simp add: serverDoc_def api dec del: fromBase64_b64_of)
  have strip: "strip_tags (js ''<p>ab</p>'') = js ''ab''" by (simp add: js_def)
  have st: "serverText demo_rt 200 ?body = Inr (js ''ab'')"
    using shown strip by (simp add: serverText_def doc)
  have "\<not> js_includes (rt_text demo_rt ?d) [60, 62]" unfolding shown by (simp add: js_def)
  from stress_counts_agree [OF doc st this, of ?c 2] shown show ?thesis by (simp add: js_def)
qed

text \<open>
  The crash test cannot see the loss of most edits. It looks for the text of edit i with
  \<^verbatim>\<open>includes\<close>, and that is also found in the text of any of the edits 10 i to 10 i + 9; an edit is
  never reported as missing while one of these is there.
\<close>

theorem lost_edit_masked:
  assumes "0 < i" and "d < 10" and "js_includes t (js tag @ dec (10 * i + d))"
  shows "i \<notin> set (missing_edits tag edits t)"
proof -
  have "js_includes t (js tag @ dec i)"
    using js_includes_sub [of t "[]" "js tag @ dec i" "[of_nat (48 + d)]"] assms(3)
    by (simp add: dec_append [OF assms(1,2)] del: of_nat_add)
  then show ?thesis by (simp add: missing_edits_def)
qed

theorem lost_edit_masked_witness:
  "1 \<notin> set (missing_edits ''edit-'' 10 (js ''edit-10''))"
proof (rule lost_edit_masked [of 1 0])
  have "dec (10 * 1 + 0) = dec 1 @ [of_nat (48 + 0)]" by (rule dec_append) simp_all
  then have "js ''edit-'' @ dec (10 * 1 + 0) = js ''edit-10''" by (simp add: dec_small js_def)
  then show "js_includes (js ''edit-10'') (js ''edit-'' @ dec (10 * 1 + 0))"
    by (simp only: js_includes_iff) (metis append_Nil append_Nil2)
qed simp_all

text \<open>The paragraphs of a document made by \<open>addEdit\<close>, as \<^verbatim>\<open>toString()\<close> gives them.\<close>

definition paragraphs_text :: "(nat \<times> nat) list \<Rightarrow> jsstring" where
  "paragraphs_text ms =
     concat (map (\<lambda>(i, n). js ''<paragraph>'' @ marker i n @ js ''</paragraph>'') ms)"

lemma markers_skip: "99 \<notin> set a \<Longrightarrow> markers (a @ s) = markers s"
  by (induction a) (auto simp: Let_def)

lemma takeWhile_digits:
  "\<forall>c \<in> set ds. digit c \<Longrightarrow> r = [] \<or> \<not> digit (hd r) \<Longrightarrow>
   takeWhile (\<lambda>c. digit c) (ds @ r) = ds \<and> dropWhile (\<lambda>c. digit c) (ds @ r) = r"
  by (induction ds) (auto simp: takeWhile_eq_Nil_iff dropWhile_eq_self_iff)

lemma markers_marker:
  assumes "r = [] \<or> \<not> digit (hd r)"
  shows "markers (marker i n @ r) = marker i n # markers r"
proof -
  have "takeWhile (\<lambda>c. digit c) (dec i @ 45 # dec n @ r) = dec i"
    "dropWhile (\<lambda>c. digit c) (dec i @ 45 # dec n @ r) = 45 # dec n @ r"
    using takeWhile_digits [OF dec_digits, of "45 # dec n @ r" i] by simp_all
  moreover have "takeWhile (\<lambda>c. digit c) (dec n @ r) = dec n"
    "dropWhile (\<lambda>c. digit c) (dec n @ r) = r"
    using takeWhile_digits [OF dec_digits assms, of n] by simp_all
  ultimately show ?thesis by (simp add: marker_def Let_def dec_ne)
qed

lemma markers_paragraphs: "markers (paragraphs_text ms) = map (\<lambda>(i, n). marker i n) ms"
proof (induction ms)
  case (Cons im ms)
  obtain i n where im: "im = (i, n)" by (cases im)
  have a: "markers (js ''<paragraph>'' @ s) = markers s" for s by (rule markers_skip) (simp add: js_def)
  have b: "markers (js ''</paragraph>'' @ s) = markers s" for s by (rule markers_skip) (simp add: js_def)
  have "markers (marker i n @ js ''</paragraph>'' @ s) = marker i n # markers (js ''</paragraph>'' @ s)" for s
    by (rule markers_marker) (simp add: js_def)
  with a b Cons show ?case by (simp add: paragraphs_text_def im)
qed (simp add: paragraphs_text_def)

lemma marker_inject [simp]: "marker i n = marker i' n' \<longleftrightarrow> i = i' \<and> n = n'"
proof
  assume e: "marker i n = marker i' n'"
  have s: "takeWhile (\<lambda>c. digit c) (dec k @ 45 # dec l) = dec k"
    "dropWhile (\<lambda>c. digit c) (dec k @ 45 # dec l) = 45 # dec l" for k l
    using takeWhile_digits [OF dec_digits, of "45 # dec l" k] by simp_all
  from e have d: "dec i @ 45 # dec n = dec i' @ 45 # dec n'" by (simp add: marker_def)
  from arg_cong [OF d, of "takeWhile (\<lambda>c. digit c)"] arg_cong [OF d, of "dropWhile (\<lambda>c. digit c)"]
  show "i = i' \<and> n = n'" unfolding s by simp
qed simp

lemma expected_markers_eq: "expected_markers clients edits = (\<lambda>(i, n). marker i n) ` ({..<clients} \<times> {..<edits})"
  by (auto simp: expected_markers_def)

lemma marker_image_inj: "inj_on (\<lambda>(i, n). marker i n) A"
  by (auto simp: inj_on_def)

text \<open>
  The stress test of the provider waits for the number of markers in a document, and that is
  enough: in a document made of edits of the test, each once or more often, the number of distinct
  markers the regular expression finds is the expected total exactly if every expected marker is
  found, which is exactly if every edit is in the document.
\<close>

theorem verifier_count_suffices:
  assumes "set ms \<subseteq> {..<clients} \<times> {..<edits}"
  shows "(verifier_settled clients edits (paragraphs_text ms) \<longleftrightarrow> verifier_complete clients edits (paragraphs_text ms))
    \<and> (verifier_complete clients edits (paragraphs_text ms) \<longleftrightarrow> set ms = {..<clients} \<times> {..<edits})"
proof -
  let ?f = "\<lambda>(i, n). marker i n"
  have m: "markersIn (paragraphs_text ms) = ?f ` set ms"
    by (simp add: markersIn_def markers_paragraphs)
  have complete: "verifier_complete clients edits (paragraphs_text ms) \<longleftrightarrow> set ms = {..<clients} \<times> {..<edits}"
  proof -
    have "verifier_complete clients edits (paragraphs_text ms) \<longleftrightarrow> ?f ` ({..<clients} \<times> {..<edits}) \<subseteq> ?f ` set ms"
      unfolding verifier_complete_def m expected_markers_eq by auto
    also have "\<dots> \<longleftrightarrow> {..<clients} \<times> {..<edits} \<subseteq> set ms"
      by (rule inj_image_subset_iff) (rule marker_image_inj)
    finally show ?thesis using assms by blast
  qed
  have "verifier_settled clients edits (paragraphs_text ms) \<longleftrightarrow> card (set ms) = card ({..<clients} \<times> {..<edits})"
    by (simp add: verifier_settled_def m card_image [OF marker_image_inj] card_cartesian_product)
  also have "\<dots> \<longleftrightarrow> set ms = {..<clients} \<times> {..<edits}"
    using assms by (metis card_subset_eq finite_SigmaI finite_lessThan)
  finally show ?thesis using complete by simp
qed

theorem verifier_count_suffices_witness:
  "verifier_settled 1 2 (paragraphs_text [(0, 0), (0, 1), (0, 0)])"
proof -
  have "{..<1} \<times> {..<2} = {(0 :: nat, 0 :: nat), (0, 1)}"
    by (auto simp: lessThan_Suc numeral_2_eq_2)
  moreover have "set [(0 :: nat, 0 :: nat), (0, 1), (0, 0)] = {(0, 0), (0, 1)}" by auto
  ultimately have s: "set [(0 :: nat, 0 :: nat), (0, 1), (0, 0)] = {..<1} \<times> {..<2}" by (simp only:)
  note v = verifier_count_suffices [OF equalityD1 [OF s]]
  from s v show ?thesis by (simp only:)
qed

text \<open>The digits of the browsers are told apart only up to ten browsers.\<close>

lemma agent_digits_distinct: "distinct (agent_digits n) \<longleftrightarrow> n \<le> 10"
proof
  have ten: "distinct (agent_digits 10)" by code_simp
  assume "n \<le> 10"
  then have "agent_digits n = take n (agent_digits 10)" by (simp add: agent_digits_def take_map take_upt)
  then show "distinct (agent_digits n)" using ten by (simp add: distinct_take)
next
  assume d: "distinct (agent_digits n)"
  show "n \<le> 10"
  proof (rule ccontr)
    assume "\<not> n \<le> 10"
    then have "agent_digits n ! 0 = agent_digits n ! 10" "10 < length (agent_digits n)" "0 < length (agent_digits n)"
      by (simp_all add: agent_digits_def agent_digit_def)
    with d show False by (metis nth_eq_iff_index_eq zero_neq_numeral)
  qed
qed

end
