(* ===== verification/Demo_Dom.thy ===== *)
theory Demo_Dom
  imports Provider
begin

text \<open>
  What the demo pages of examples/actioncable-demo/frontend/src share: the conversion of values to
  strings in templates, the user picked at random, the presence chips, the status line, and the
  pages that only start an editor (app.js, codemirror.js, lexxy.js) or stub a package.

  The text of a number is a parameter \<open>N\<close>. The editor bindings are third-party code: starting one is
  a call.
\<close>

subsection \<open>Conversion to a string\<close>

text \<open>\<^verbatim>\<open>xs.join(",")\<close> of texts\<close>

fun js_join :: "jsstring list \<Rightarrow> jsstring" where
  "js_join [] = []"
| "js_join [t] = t"
| "js_join (t # ts) = t @ [44] @ js_join ts"

text \<open>
  \<^verbatim>\<open>String(v)\<close> and \<^verbatim>\<open>`${v}`\<close> of a value that came out of JSON: an own \<^verbatim>\<open>toString\<close> hides the
  prototype's and is not callable, so the conversion throws.
\<close>

fun js_text :: "(jsnum \<Rightarrow> jsstring) \<Rightarrow> jsval \<Rightarrow> js_error + jsstring"
  and js_texts :: "(jsnum \<Rightarrow> jsstring) \<Rightarrow> jsval list \<Rightarrow> js_error + jsstring list" where
  "js_text N JUndef = Inr (js ''undefined'')"
| "js_text N JNull = Inr (js ''null'')"
| "js_text N (JBool b) = Inr (js (if b then ''true'' else ''false''))"
| "js_text N (JNum n) = Inr (N n)"
| "js_text N (JStr s) = Inr s"
| "js_text N (JArr vs) = (case js_texts N vs of Inl x \<Rightarrow> Inl x | Inr ts \<Rightarrow> Inr (js_join ts))"
| "js_text N (JObj ps) =
     (if map_of ps ''toString'' = None then Inr (js ''[object Object]'')
      else Inl (TypeError ''cannot convert object to primitive value''))"
| "js_texts N [] = Inr []"
| "js_texts N (v # vs) =
     (case (if v = JUndef \<or> v = JNull then Inr [] else js_text N v) of
        Inl x \<Rightarrow> Inl x
      | Inr t \<Rightarrow> (case js_texts N vs of Inl x \<Rightarrow> Inl x | Inr ts \<Rightarrow> Inr (t # ts)))"

subsection \<open>The user\<close>

definition NAMES :: "jsstring list" where
  "NAMES = map js [''Ada'', ''Grace'', ''Linus'', ''Yukihiro'', ''Barbara'', ''Dennis'', ''Radia'', ''Alan'']"

definition COLORS :: "jsstring list" where
  "COLORS = map js [''#f87171'', ''#fb923c'', ''#facc15'', ''#4ade80'', ''#22d3ee'', ''#818cf8'', ''#e879f9'', ''#f472b6'']"

text \<open>\<^verbatim>\<open>a[Math.floor(Math.random() * a.length)]\<close>: undefined out of range.\<close>

definition pick :: "rat \<Rightarrow> jsstring list \<Rightarrow> jsval" where
  "pick r a =
     (let i = nat \<lfloor>r * of_nat (length a)\<rfloor> in if i < length a then JStr (a ! i) else JUndef)"

definition user_of :: "rat \<Rightarrow> rat \<Rightarrow> jsval" where
  "user_of r1 r2 = JObj [(''name'', pick r1 NAMES), (''color'', pick r2 COLORS)]"

lemma pick_in: "0 \<le> r \<Longrightarrow> r < 1 \<Longrightarrow> a \<noteq> [] \<Longrightarrow> \<exists>s \<in> set a. pick r a = JStr s"
proof -
  assume r: "0 \<le> r" "r < 1" and a: "a \<noteq> []"
  have "r * of_nat (length a) < of_nat (length a)" using r a by simp
  moreover have "0 \<le> r * of_nat (length a)" using r by simp
  ultimately have "nat \<lfloor>r * of_nat (length a)\<rfloor> < length a" by linarith
  then show ?thesis by (auto simp: pick_def Let_def intro!: nth_mem)
qed

subsection \<open>Presence chips\<close>

text \<open>\<open>you\<close> is \<^verbatim>\<open>user.name\<close>; the parts of the template are converted from left to right.\<close>

definition chip :: "(jsnum \<Rightarrow> jsstring) \<Rightarrow> jsval \<Rightarrow> jsval \<Rightarrow> js_error + jsstring" where
  "chip N you u =
     (case (js_get u ''color'', js_get u ''name'') of
        (Inr c, Inr n) \<Rightarrow>
          (case (js_text N c, js_text N n) of
             (Inl x, _) \<Rightarrow> Inl x
           | (_, Inl x) \<Rightarrow> Inl x
           | (Inr ct, Inr nt) \<Rightarrow>
               Inr (js ''<span class=\"chip\" style=\"background:'' @ ct @ js ''\">'' @ nt
                    @ (if n = you then js '' (you)'' else []) @ js ''</span>''))
      | (Inl x, _) \<Rightarrow> Inl x
      | (_, Inl x) \<Rightarrow> Inl x)"

fun chips :: "(jsnum \<Rightarrow> jsstring) \<Rightarrow> jsval \<Rightarrow> jsval list \<Rightarrow> js_error + jsstring" where
  "chips N you [] = Inr []"
| "chips N you (u # us) =
     (case chip N you u of
        Inl x \<Rightarrow> Inl x
      | Inr h \<Rightarrow> (case chips N you us of Inl x \<Rightarrow> Inl x | Inr hs \<Rightarrow> Inr (h @ hs)))"

text \<open>\<^verbatim>\<open>[...getStates().values()].map((s) => s.user).filter(Boolean)\<close>\<close>

fun users_of :: "jsval list \<Rightarrow> js_error + jsval list" where
  "users_of [] = Inr []"
| "users_of (s # ss) =
     (case js_get s ''user'' of
        Inl x \<Rightarrow> Inl x
      | Inr u \<Rightarrow> (case users_of ss of Inl x \<Rightarrow> Inl x | Inr us \<Rightarrow> Inr (if truthy u then u # us else us)))"

text \<open>The new contents of the presence element; \<open>Inl\<close> leaves it as it was.\<close>

definition renderPresence :: "(jsnum \<Rightarrow> jsstring) \<Rightarrow> jsval \<Rightarrow> jsval list \<Rightarrow> js_error + jsstring" where
  "renderPresence N you states =
     (case users_of states of Inl x \<Rightarrow> Inl x | Inr us \<Rightarrow> chips N you us)"

subsection \<open>The status line\<close>

definition status_name :: "status \<Rightarrow> jsstring" where
  "status_name s =
     js (case s of Connecting \<Rightarrow> ''connecting'' | Connected \<Rightarrow> ''connected'' | Synced \<Rightarrow> ''synced''
         | Disconnected \<Rightarrow> ''disconnected'')"

text \<open>The ellipsis of the templates, one code unit.\<close>

definition ellipsis :: "16 word" where
  "ellipsis = 8230"

text \<open>forms.js, kanban.js, whiteboard.js\<close>

definition page_status :: "jsstring \<Rightarrow> status \<Rightarrow> jsstring" where
  "page_status name s = (if s = Synced then js ''synced as '' @ name else status_name s @ [ellipsis])"

text \<open>codemirror.js: the state attribute and the text.\<close>

definition code_status :: "jsstring \<Rightarrow> status \<Rightarrow> jsstring \<times> jsstring" where
  "code_status name s =
     (js (if s = Synced then ''connected'' else ''connecting''),
      if s = Synced then js ''synced, editing as '' @ name else status_name s @ [ellipsis])"

text \<open>lexxy.js: \<open>setStatus\<close> gets the status itself.\<close>

definition lexxy_status :: "jsstring \<Rightarrow> status \<Rightarrow> jsstring \<times> jsstring" where
  "lexxy_status name s =
     (status_name s, if s = Synced then js ''synced, editing as '' @ name else status_name s @ [ellipsis])"

text \<open>The delay of the timer a status arms, in the pages that seed an empty document.\<close>

definition seed_timer :: "status \<Rightarrow> nat option" where
  "seed_timer s = (if s = Synced then Some 200 else None)"

subsection \<open>codemirror.js\<close>

definition code_seed :: jsstring where
  "code_seed =
     js ''// Collaborative code '' @ [8212] @ js '' open in two windows.'' @ [10]
     @ js ''function greet(name) {'' @ [10] @ js ''  return `Hi, ${name}!`'' @ [10] @ js ''}'' @ [10]"

text \<open>The armed timer: \<open>size\<close> is \<^verbatim>\<open>ytext.length\<close>, the result is what is inserted at 0.\<close>

definition code_seeds :: "nat \<Rightarrow> jsstring option" where
  "code_seeds size_now = (if size_now = 0 then Some code_seed else None)"

subsection \<open>app.js\<close>

record app =
  app_editor :: bool
  app_timer :: bool
  app_state :: string

datatype app_call = NewEditor | SetPoll | ClearPoll

definition startEditor :: "(app, app_call) act" where
  "startEditor =
     block [
       call NewEditor,
       modify (\<lambda>s. s\<lparr>app_editor := True\<rparr>),
       modify (\<lambda>s. s\<lparr>app_state := ''connected''\<rparr>)]"

text \<open>The end of the script; \<open>ready\<close> is \<^verbatim>\<open>provider.synced\<close>.\<close>

definition app_boot :: "bool \<Rightarrow> (app, app_call) act" where
  "app_boot ready =
     ifA (\<lambda>_. ready) startEditor (block [call SetPoll, modify (\<lambda>s. s\<lparr>app_timer := True\<rparr>)])"

definition app_poll :: "bool \<Rightarrow> (app, app_call) act" where
  "app_poll ready =
     ifA (\<lambda>_. \<not> ready) skip
       (block [call ClearPoll, modify (\<lambda>s. s\<lparr>app_timer := False\<rparr>), startEditor])"

definition new_app :: app where
  "new_app = \<lparr>app_editor = False, app_timer = False, app_state = ''connecting''\<rparr>"

text \<open>
  A run of the page: the script's end, then the ticks of the poll timer, each with what
  \<^verbatim>\<open>provider.synced\<close> is; a cleared timer ticks no more.
\<close>

definition app_tick :: "bool \<Rightarrow> (app, app_call) act" where
  "app_tick b = whenA app_timer (app_poll b)"

definition app_run :: "bool \<Rightarrow> bool list \<Rightarrow> (app, app_call) act" where
  "app_run ready ticks =
     block [app_boot ready, forA ticks app_tick]"

lemma app_poll_eq:
  "app_poll b s =
     (if b then (s\<lparr>app_timer := False, app_editor := True, app_state := ''connected''\<rparr>, [ClearPoll, NewEditor], None)
      else (s, [], None))"
  by (simp add: app_poll_def startEditor_def andThen_eq)

lemma app_tick_eq: "app_tick b s = (if app_timer s then app_poll b s else (s, [], None))"
  by (simp add: app_tick_def)

lemma app_ticks_done:
  "\<not> app_timer s \<Longrightarrow> forA ticks app_tick s = (s, [], None)"
  by (induction ticks) (auto simp: andThen_eq app_tick_eq)

lemma app_ticks:
  "app_timer s \<Longrightarrow>
   forA ticks app_tick s =
     (if True \<in> set ticks
      then (s\<lparr>app_timer := False, app_editor := True, app_state := ''connected''\<rparr>, [ClearPoll, NewEditor], None)
      else (s, [], None))"
proof (induction ticks)
  case (Cons b ticks)
  let ?s = "s\<lparr>app_timer := False, app_editor := True, app_state := ''connected''\<rparr>"
  have t: "app_tick b s = (if b then (?s, [ClearPoll, NewEditor], None) else (s, [], None))"
    using Cons.prems by (simp add: app_tick_eq app_poll_eq)
  have d: "forA ticks app_tick ?s = (?s, [], None)" by (rule app_ticks_done) simp
  show ?case
  proof (cases b)
    case True
    with t have "app_tick True s = (?s, [ClearPoll, NewEditor], None)" by simp
    with True d show ?thesis by (simp add: andThen_eq)
  next
    case False
    with t have "app_tick False s = (s, [], None)" by simp
    with False Cons show ?thesis by (simp add: andThen_eq)
  qed
qed simp

subsection \<open>lexxy.js\<close>

datatype lexxy_call =
    CreateCollab
  | SetAttribute string jsval
  | AttachCollab
  | ProviderConnect

record lexxy =
  lx_waiting :: bool  \<comment> \<open>the once-listener for lexxy:initialize is registered\<close>

definition lexxy_mount :: "jsstring \<Rightarrow> jsval \<Rightarrow> jsval \<Rightarrow> (lexxy, lexxy_call) act" where
  "lexxy_mount documentId name color =
     block [
       call CreateCollab,
       call (SetAttribute ''doc-id'' (JStr documentId)),
       call (SetAttribute ''name'' name),
       call (SetAttribute ''color'' color),
       call (SetAttribute ''channel-name'' (JStr (js ''DocumentChannel''))),
       call (SetAttribute ''channel-params'' (JObj [(''id'', JStr documentId)])),
       call AttachCollab,
       call ProviderConnect]"

text \<open>The end of the script: \<open>ready\<close> is whether the editor element has its editor.\<close>

definition lexxy_boot :: "bool \<Rightarrow> jsstring \<Rightarrow> jsval \<Rightarrow> jsval \<Rightarrow> (lexxy, lexxy_call) act" where
  "lexxy_boot ready documentId name color =
     ifA (\<lambda>_. ready) (lexxy_mount documentId name color) (modify (\<lambda>s. s\<lparr>lx_waiting := True\<rparr>))"

definition lexxy_initialize :: "jsstring \<Rightarrow> jsval \<Rightarrow> jsval \<Rightarrow> (lexxy, lexxy_call) act" where
  "lexxy_initialize documentId name color =
     whenA lx_waiting
       (block [modify (\<lambda>s. s\<lparr>lx_waiting := False\<rparr>), lexxy_mount documentId name color])"

subsection \<open>stubs/activestorage.js\<close>

text \<open>\<^verbatim>\<open>DirectUpload.create(cb)\<close>: what the callback is called with, if there is one.\<close>

definition directUpload_create :: "bool \<Rightarrow> js_error list" where
  "directUpload_create cb = (if cb then [JsError ''activestorage disabled in this demo''] else [])"

end
