(* ===== verification/Demo_Kanban.thy ===== *)
theory Demo_Kanban
  imports Demo_Dom
begin

text \<open>
  examples/actioncable-demo/frontend/src/kanban.js: a board of cards kept in a Y.Array of Y.Maps.

  The shared types are third-party: \<open>board_api\<close> has the calls the page makes on them, over the type
  \<open>'d\<close> of documents and \<open>'m\<close> of cards. Only \<open>board_laws\<close>, stated where it is needed, says what they
  do. An edit runs the page's deep observer before it returns. The page's state is the document, the
  three lists, and the text typed in each column's input.
\<close>

record ('d, 'm) board_api =
  toArray :: "'d \<Rightarrow> 'm list"
  m_get :: "'d \<Rightarrow> 'm \<Rightarrow> string \<Rightarrow> jsval"
  m_set :: "'m \<Rightarrow> string \<Rightarrow> jsval \<Rightarrow> 'd \<Rightarrow> 'd"
  push_map :: "(string \<times> jsval) list \<Rightarrow> 'd \<Rightarrow> 'd"
  delete_at :: "nat \<Rightarrow> 'd \<Rightarrow> 'd"

record ('d, 'm) kanban =
  k_doc :: 'd
  k_lists :: "jsstring \<Rightarrow> (jsstring \<times> 'm) list"
  k_inputs :: "jsstring \<Rightarrow> jsstring"

type_synonym ('d, 'm) kanban_act = "(('d, 'm) kanban, unit) act"

subsection \<open>Columns\<close>

definition COLUMNS :: "(jsstring \<times> jsstring) list" where
  "COLUMNS = [(js ''todo'', js ''To Do''), (js ''doing'', js ''Doing''), (js ''done'', js ''Done'')]"

definition ORDER :: "jsstring list" where
  "ORDER = map fst COLUMNS"

text \<open>What \<^verbatim>\<open>lists[name]\<close> also finds: the truthy members of the prototype of \<^verbatim>\<open>{}\<close>.\<close>

definition object_members :: "jsstring list" where
  "object_members =
     map js [''constructor'', ''__defineGetter__'', ''__defineSetter__'', ''hasOwnProperty'',
       ''__lookupGetter__'', ''__lookupSetter__'', ''isPrototypeOf'', ''propertyIsEnumerable'',
       ''toString'', ''valueOf'', ''__proto__'', ''toLocaleString'']"

text \<open>\<^verbatim>\<open>ORDER.indexOf(v)\<close>\<close>

fun index_of :: "'x \<Rightarrow> 'x list \<Rightarrow> int" where
  "index_of v [] = -1"
| "index_of v (w # ws) = (if w = v then 0 else let i = index_of v ws in if i < 0 then -1 else i + 1)"

text \<open>\<^verbatim>\<open>xs[i]\<close>\<close>

definition js_at :: "'x list \<Rightarrow> int \<Rightarrow> 'x option" where
  "js_at xs i = (if 0 \<le> i \<and> i < int (length xs) then Some (xs ! nat i) else None)"

subsection \<open>Escaping\<close>

definition esc_unit :: "16 word \<Rightarrow> jsstring" where
  "esc_unit c =
     (if c = 38 then js ''&amp;'' else if c = 60 then js ''&lt;'' else if c = 62 then js ''&gt;'' else [c])"

definition esc_text :: "jsstring \<Rightarrow> jsstring" where
  "esc_text s = concat (map esc_unit s)"

definition esc :: "(jsnum \<Rightarrow> jsstring) \<Rightarrow> jsval \<Rightarrow> js_error + jsstring" where
  "esc N v = (case js_text N v of Inl x \<Rightarrow> Inl x | Inr s \<Rightarrow> Inr (esc_text s))"

subsection \<open>Rendering\<close>

definition card_controls :: jsstring where
  "card_controls =
     js ''</span><span class=\"ctl\">''
     @ js ''<button data-a=\"left\" title=\"move left\">'' @ [8592] @ js ''</button>''
     @ js ''<button data-a=\"right\" title=\"move right\">'' @ [8594] @ js ''</button>''
     @ js ''<button data-a=\"del\" title=\"delete\">'' @ [215] @ js ''</button></span>''"

definition card_html :: "(jsnum \<Rightarrow> jsstring) \<Rightarrow> jsval \<Rightarrow> js_error + jsstring" where
  "card_html N v =
     (case esc N v of Inl x \<Rightarrow> Inl x
      | Inr t \<Rightarrow> Inr (js ''<span class=\"t\">'' @ t @ card_controls))"

definition render_card ::
  "('d, 'm) board_api \<Rightarrow> (jsnum \<Rightarrow> jsstring) \<Rightarrow> 'm \<Rightarrow> ('d, 'm) kanban_act" where
  "render_card B N m s =
     (case js_text N (m_get B (k_doc s) m ''column'') of
        Inl x \<Rightarrow> throw x s
      | Inr k \<Rightarrow>
          if k \<notin> set ORDER \<and> k \<notin> set object_members then skip s
          else case card_html N (m_get B (k_doc s) m ''text'') of
            Inl x \<Rightarrow> throw x s
          | Inr h \<Rightarrow>
              if k \<in> set ORDER
              then modify (\<lambda>s. s\<lparr>k_lists := (k_lists s)(k := k_lists s k @ [(h, m)])\<rparr>) s
              else throw (TypeError ''list.appendChild is not a function'') s)"

definition clear_lists :: "('d, 'm) kanban_act" where
  "clear_lists = forA ORDER (\<lambda>k. modify (\<lambda>s. s\<lparr>k_lists := (k_lists s)(k := [])\<rparr>))"

definition kanban_render :: "('d, 'm) board_api \<Rightarrow> (jsnum \<Rightarrow> jsstring) \<Rightarrow> ('d, 'm) kanban_act" where
  "kanban_render B N s = block [clear_lists, forA (toArray B (k_doc s)) (render_card B N)] s"

subsection \<open>Edits\<close>

text \<open>A transaction that ends in the observer.\<close>

definition kanban_edit ::
  "('d, 'm) board_api \<Rightarrow> (jsnum \<Rightarrow> jsstring) \<Rightarrow> ('d \<Rightarrow> 'd) \<Rightarrow> ('d, 'm) kanban_act" where
  "kanban_edit B N f = block [modify (\<lambda>s. s\<lparr>k_doc := f (k_doc s)\<rparr>), kanban_render B N]"

text \<open>The submit handler of a column; \<open>uuid\<close> is what \<^verbatim>\<open>crypto.randomUUID()\<close> gives.\<close>

definition kanban_submit ::
  "('d, 'm) board_api \<Rightarrow> (jsnum \<Rightarrow> jsstring) \<Rightarrow> jsstring \<Rightarrow> jsstring \<Rightarrow> ('d, 'm) kanban_act" where
  "kanban_submit B N column uuid s =
     (let t = js_trim (k_inputs s column)
      in if t = [] then skip s
         else block [
           kanban_edit B N (push_map B [(''id'', JStr uuid), (''text'', JStr t), (''column'', JStr column)]),
           modify (\<lambda>s. s\<lparr>k_inputs := (k_inputs s)(column := [])\<rparr>)] s)"

text \<open>\<open>None\<close>: past either end.\<close>

definition move_target :: "jsval \<Rightarrow> int \<Rightarrow> jsstring option" where
  "move_target v dir = js_at ORDER (index_of v (map JStr ORDER) + dir)"

definition kanban_move ::
  "('d, 'm) board_api \<Rightarrow> (jsnum \<Rightarrow> jsstring) \<Rightarrow> 'm \<Rightarrow> int \<Rightarrow> ('d, 'm) kanban_act" where
  "kanban_move B N m dir s =
     (case move_target (m_get B (k_doc s) m ''column'') dir of
        None \<Rightarrow> skip s
      | Some n \<Rightarrow> kanban_edit B N (m_set B m ''column'' (JStr n)) s)"

definition kanban_delete ::
  "('d, 'm) board_api \<Rightarrow> (jsnum \<Rightarrow> jsstring) \<Rightarrow> 'm \<Rightarrow> ('d, 'm) kanban_act" where
  "kanban_delete B N m s =
     (let i = index_of m (toArray B (k_doc s))
      in if 0 \<le> i then kanban_edit B N (delete_at B (nat i)) s else skip s)"

definition seed_cards :: "(jsstring \<times> jsstring) list" where
  "seed_cards =
     [(js ''Design the API'', js ''todo''), (js ''Write the gem'', js ''doing''),
      (js ''Ship it '' @ [55357, 56960], js ''done'')]"

text \<open>The timer armed by the status; one transaction pushes the three cards.\<close>

definition kanban_seed ::
  "('d, 'm) board_api \<Rightarrow> (jsnum \<Rightarrow> jsstring) \<Rightarrow> (nat \<Rightarrow> jsstring) \<Rightarrow> ('d, 'm) kanban_act" where
  "kanban_seed B N uuid s =
     (if toArray B (k_doc s) \<noteq> [] then skip s
      else kanban_edit B N
        (\<lambda>d. fold (\<lambda>(i, t, c). push_map B [(''id'', JStr (uuid i)), (''text'', JStr t), (''column'', JStr c)])
               (zip [0..<length seed_cards] seed_cards) d) s)"

text \<open>An update of another peer: the document is replaced, the observer runs.\<close>

definition kanban_remote ::
  "('d, 'm) board_api \<Rightarrow> (jsnum \<Rightarrow> jsstring) \<Rightarrow> 'd \<Rightarrow> ('d, 'm) kanban_act" where
  "kanban_remote B N d = kanban_edit B N (\<lambda>_. d)"

subsection \<open>The columns a move reaches\<close>

lemma ORDER_eq: "ORDER = [js ''todo'', js ''doing'', js ''done'']"
  by (simp add: ORDER_def COLUMNS_def)

lemma js_Nil [simp]: "js [] = []"
  by (simp add: js_def)

lemma ORDER_ne: "js ''todo'' \<noteq> js ''doing''" "js ''todo'' \<noteq> js ''done''" "js ''doing'' \<noteq> js ''done''"
  by (simp_all add: js_def)

lemma ORDER_distinct: "distinct ORDER"
  using ORDER_ne by (simp add: ORDER_eq)

lemma ORDER_no_member: "k \<in> set ORDER \<Longrightarrow> k \<notin> set object_members"
  by (auto simp: ORDER_eq object_members_def js_def)

lemma index_of_nth: "distinct xs \<Longrightarrow> i < length xs \<Longrightarrow> index_of (xs ! i) xs = int i"
proof (induction xs arbitrary: i)
  case (Cons x xs)
  then show ?case by (cases i) auto
qed simp

lemma index_of_range: "-1 \<le> index_of v xs \<and> index_of v xs < int (length xs)"
  by (induction xs) (auto simp: Let_def)

lemma index_of_neg: "index_of v xs < 0 \<longleftrightarrow> v \<notin> set xs"
  by (induction xs) (auto simp: Let_def)

lemma index_of_at: "0 \<le> index_of v xs \<Longrightarrow> xs ! nat (index_of v xs) = v"
  by (induction xs) (auto simp: Let_def nat_add_distrib split: if_splits)

lemma js_at_set: "js_at xs i = Some x \<Longrightarrow> x \<in> set xs"
  by (auto simp: js_at_def split: if_splits)

lemma move_target_in: "move_target v dir = Some n \<Longrightarrow> n \<in> set ORDER"
  by (simp add: move_target_def js_at_set)

subsection \<open>What a page shows\<close>

text \<open>The cards of a column, as the observer shows them.\<close>

definition shown_in :: "('d, 'm) board_api \<Rightarrow> (jsnum \<Rightarrow> jsstring) \<Rightarrow> 'd \<Rightarrow> jsstring \<Rightarrow> (jsstring \<times> 'm) list" where
  "shown_in B N d k =
     map (\<lambda>m. (projr (card_html N (m_get B d m ''text'')), m))
       (filter (\<lambda>m. js_text N (m_get B d m ''column'') = Inr k) (toArray B d))"

text \<open>A card the observer can show or skip.\<close>

definition renderable :: "('d, 'm) board_api \<Rightarrow> (jsnum \<Rightarrow> jsstring) \<Rightarrow> 'd \<Rightarrow> 'm \<Rightarrow> bool" where
  "renderable B N d m \<longleftrightarrow>
     (\<exists>k h. js_text N (m_get B d m ''column'') = Inr k \<and> k \<notin> set object_members
        \<and> card_html N (m_get B d m ''text'') = Inr h)"

definition add_card ::
  "('d, 'm) board_api \<Rightarrow> (jsnum \<Rightarrow> jsstring) \<Rightarrow> 'd \<Rightarrow> 'm \<Rightarrow> (jsstring \<Rightarrow> (jsstring \<times> 'm) list)
   \<Rightarrow> jsstring \<Rightarrow> (jsstring \<times> 'm) list" where
  "add_card B N d m L k =
     (if k \<in> set ORDER \<and> js_text N (m_get B d m ''column'') = Inr k
      then L k @ [(projr (card_html N (m_get B d m ''text'')), m)] else L k)"

lemma render_card_ok:
  "renderable B N (k_doc s) m \<Longrightarrow>
   render_card B N m s = (s\<lparr>k_lists := add_card B N (k_doc s) m (k_lists s)\<rparr>, [], None)"
  by (cases s) (auto simp: renderable_def render_card_def add_card_def fun_eq_iff)

lemma render_cards_ok:
  "\<forall>m \<in> set ms. renderable B N (k_doc s) m \<Longrightarrow>
   forA ms (render_card B N) s =
     (s\<lparr>k_lists := fold (add_card B N (k_doc s)) ms (k_lists s)\<rparr>, [], None)"
proof (induction ms arbitrary: s)
  case (Cons m ms)
  let ?s = "s\<lparr>k_lists := add_card B N (k_doc s) m (k_lists s)\<rparr>"
  have "forA ms (render_card B N) ?s =
    (?s\<lparr>k_lists := fold (add_card B N (k_doc ?s)) ms (k_lists ?s)\<rparr>, [], None)"
    by (rule Cons.IH) (use Cons.prems in simp)
  then show ?case using Cons.prems by (simp add: andThen_eq render_card_ok)
qed simp

lemma fold_add_card:
  "k \<in> set ORDER \<Longrightarrow>
   fold (add_card B N d) ms L k =
     L k @ map (\<lambda>m. (projr (card_html N (m_get B d m ''text'')), m))
       (filter (\<lambda>m. js_text N (m_get B d m ''column'') = Inr k) ms)"
  by (induction ms arbitrary: L) (auto simp: add_card_def)

lemma clear_lists_eq:
  "clear_lists s = (s\<lparr>k_lists := (\<lambda>k. if k \<in> set ORDER then [] else k_lists s k)\<rparr>, [], None)"
  by (cases s) (auto simp: clear_lists_def ORDER_eq andThen_eq fun_eq_iff)

lemma kanban_render_ok:
  assumes "\<forall>m \<in> set (toArray B (k_doc s)). renderable B N (k_doc s) m"
  shows "thrown (kanban_render B N s) = None \<and> k_doc (post (kanban_render B N s)) = k_doc s
    \<and> (\<forall>k \<in> set ORDER. k_lists (post (kanban_render B N s)) k = shown_in B N (k_doc s) k)"
  using assms
  by (auto simp: kanban_render_def andThen_eq clear_lists_eq render_cards_ok fold_add_card shown_in_def)

lemma kanban_render_doc: "k_doc (post (kanban_render B N s)) = k_doc s"
proof -
  have "preserves (\<lambda>t. k_doc t = k_doc s) (render_card B N m)" for m
    by (auto simp: preserves_def render_card_def split: sum.splits)
  then have "preserves (\<lambda>t. k_doc t = k_doc s) (block [clear_lists, forA (toArray B (k_doc s)) (render_card B N)])"
    by (intro preserves_rules) (auto simp: preserves_def clear_lists_eq)
  then show ?thesis by (simp add: preserves_def kanban_render_def)
qed

lemma kanban_edit_doc: "k_doc (post (kanban_edit B N f s)) = f (k_doc s)"
  by (simp add: kanban_edit_def andThen_eq kanban_render_doc)

end
