(* ===== verification/Demo_Forms.thy ===== *)
theory Demo_Forms
  imports Demo_Dom
begin

text \<open>
  examples/actioncable-demo/frontend/src/forms.js: a form whose fields are the keys of a Y.Map.

  The shared map is third-party: \<open>form_get\<close> and \<open>form_set\<close> are parameters. What an element's value
  becomes when \<open>v\<close> is assigned to it is the platform's and depends on the kind of field (a select
  only takes one of its options): the parameter \<open>assigned\<close>. The state is the document, the value of
  each field's element and the field that has the focus.
\<close>

datatype field_type = TextField | EmailField | SelectField "jsstring list" | TextareaField

record field =
  f_key :: string
  f_label :: string
  f_type :: field_type

definition FIELDS :: "field list" where
  "FIELDS =
     [\<lparr>f_key = ''name'', f_label = ''Full name'', f_type = TextField\<rparr>,
      \<lparr>f_key = ''email'', f_label = ''Email'', f_type = EmailField\<rparr>,
      \<lparr>f_key = ''role'', f_label = ''Role'',
        f_type = SelectField (map js ['''', ''Engineer'', ''Designer'', ''PM'', ''Other''])\<rparr>,
      \<lparr>f_key = ''notes'', f_label = ''Notes'', f_type = TextareaField\<rparr>]"

text \<open>The options of a select: \<^verbatim>\<open>f.options.map((o) => `<option>${o}</option>`).join("")\<close>\<close>

definition options_html :: "jsstring list \<Rightarrow> jsstring" where
  "options_html os = concat (map (\<lambda>t. js ''<option>'' @ t @ js ''</option>'') os)"

datatype element = Textarea | Select jsstring | Input string

definition field_element :: "field \<Rightarrow> element" where
  "field_element f =
     (case f_type f of
        TextareaField \<Rightarrow> Textarea
      | SelectField os \<Rightarrow> Select (options_html os)
      | TextField \<Rightarrow> Input ''text''
      | EmailField \<Rightarrow> Input ''email'')"

record 'd form =
  fm_doc :: 'd
  fm_value :: "string \<Rightarrow> jsstring"
  fm_focus :: "string option"

type_synonym 'd form_act = "('d form, unit) act"

text \<open>The loop that builds the page: each field's element, under its key.\<close>

definition form_inputs :: "(string \<times> element) list" where
  "form_inputs = map (\<lambda>f. (f_key f, field_element f)) FIELDS"

text \<open>The observer.\<close>

definition form_observe ::
  "('d \<Rightarrow> string \<Rightarrow> jsval) \<Rightarrow> (string \<Rightarrow> jsval \<Rightarrow> jsstring) \<Rightarrow> 'd form_act" where
  "form_observe form_get assigned =
     forA FIELDS (\<lambda>f s.
       let k = f_key f; v = nullish (form_get (fm_doc s) k) (JStr [])
       in if JStr (fm_value s k) \<noteq> v \<and> fm_focus s \<noteq> Some k
          then modify (\<lambda>s. s\<lparr>fm_value := (fm_value s)(k := assigned k v)\<rparr>) s
          else skip s)"

text \<open>
  The user types: the platform has put the text in the element, the "input" handler writes it to the
  map, and the observer runs.
\<close>

definition form_input ::
  "('d \<Rightarrow> string \<Rightarrow> jsval) \<Rightarrow> (string \<Rightarrow> jsval \<Rightarrow> 'd \<Rightarrow> 'd) \<Rightarrow> (string \<Rightarrow> jsval \<Rightarrow> jsstring)
   \<Rightarrow> string \<Rightarrow> jsstring \<Rightarrow> 'd form_act" where
  "form_input form_get form_set assigned k t =
     block [
       modify (\<lambda>s. s\<lparr>fm_value := (fm_value s)(k := t)\<rparr>),
       modify (\<lambda>s. s\<lparr>fm_doc := form_set k (JStr (fm_value s k)) (fm_doc s)\<rparr>),
       form_observe form_get assigned]"

text \<open>An update of another peer.\<close>

definition form_remote ::
  "('d \<Rightarrow> string \<Rightarrow> jsval) \<Rightarrow> (string \<Rightarrow> jsval \<Rightarrow> jsstring) \<Rightarrow> 'd \<Rightarrow> 'd form_act" where
  "form_remote form_get assigned d =
     block [modify (\<lambda>s. s\<lparr>fm_doc := d\<rparr>), form_observe form_get assigned]"

subsection \<open>What the observer shows\<close>

definition shown_value ::
  "('d \<Rightarrow> string \<Rightarrow> jsval) \<Rightarrow> (string \<Rightarrow> jsval \<Rightarrow> jsstring) \<Rightarrow> 'd form \<Rightarrow> string \<Rightarrow> jsstring" where
  "shown_value form_get assigned s k =
     (let v = nullish (form_get (fm_doc s) k) (JStr [])
      in if k \<in> f_key ` set FIELDS \<and> JStr (fm_value s k) \<noteq> v \<and> fm_focus s \<noteq> Some k
         then assigned k v else fm_value s k)"

lemma FIELDS_keys: "map f_key FIELDS = [''name'', ''email'', ''role'', ''notes'']"
  by (simp add: FIELDS_def)

lemma form_observe_fold:
  assumes "distinct (map f_key fs)"
  shows "forA fs (\<lambda>f s.
       let k = f_key f; v = nullish (form_get (fm_doc s) k) (JStr [])
       in if JStr (fm_value s k) \<noteq> v \<and> fm_focus s \<noteq> Some k
          then modify (\<lambda>s. s\<lparr>fm_value := (fm_value s)(k := assigned k v)\<rparr>) s
          else skip s) s =
     (s\<lparr>fm_value := (\<lambda>k. let v = nullish (form_get (fm_doc s) k) (JStr [])
         in if k \<in> f_key ` set fs \<and> JStr (fm_value s k) \<noteq> v \<and> fm_focus s \<noteq> Some k
            then assigned k v else fm_value s k)\<rparr>, [], None)"
  using assms
proof (induction fs arbitrary: s)
  case Nil
  then show ?case by simp
next
  case (Cons f fs)
  have new: "f_key f \<notin> f_key ` set fs" and d: "distinct (map f_key fs)" using Cons.prems by auto
  show ?case
    by (auto simp: andThen_eq Let_def Cons.IH [OF d, unfolded Let_def] new fun_eq_iff
        intro!: arg_cong [where f = "\<lambda>h. s\<lparr>fm_value := h\<rparr>"])
qed

lemma form_observe_eq:
  "form_observe form_get assigned s = (s\<lparr>fm_value := shown_value form_get assigned s\<rparr>, [], None)"
proof -
  have "distinct (map f_key FIELDS)" by (simp add: FIELDS_keys)
  note fold = form_observe_fold [OF this, of form_get assigned s]
  have "shown_value form_get assigned s =
    (\<lambda>k. let v = nullish (form_get (fm_doc s) k) (JStr [])
      in if k \<in> f_key ` set FIELDS \<and> JStr (fm_value s k) \<noteq> v \<and> fm_focus s \<noteq> Some k
         then assigned k v else fm_value s k)"
    by (rule ext) (simp add: shown_value_def)
  with fold show ?thesis by (simp only: form_observe_def)
qed

end
