(* ===== verification/Demo_Whiteboard.thy ===== *)
theory Demo_Whiteboard
  imports Demo_Dom
begin

text \<open>
  examples/actioncable-demo/frontend/src/whiteboard.js: notes kept in a Y.Map from ids to Y.Maps.

  A shape is the record the page writes: x and y are numbers, kept exactly; text and color are
  whatever peers wrote. The document is the list of its shapes with their ids, in the order
  \<^verbatim>\<open>forEach\<close> visits them. A note element keeps what the page sets on it and the text of its textarea.
\<close>

record shape =
  sh_x :: rat
  sh_y :: rat
  sh_text :: jsval
  sh_color :: jsval

type_synonym shape_map = "(jsstring \<times> shape) list"

record note_el =
  n_left :: rat
  n_top :: rat
  n_background :: jsval
  n_value :: jsstring

text \<open>
  \<open>w_els\<close> is the Map from ids to elements; the elements of the canvas are the same ones. \<open>w_drag\<close> is
  the pointer drag in progress: the note, the pointer's start, the note's start.
\<close>

record board =
  w_shapes :: shape_map
  w_els :: "(jsstring \<times> note_el) list"
  w_focus :: "jsstring option"
  w_drag :: "(jsstring \<times> rat \<times> rat \<times> rat \<times> rat) option"

type_synonym board_act = "(board, unit) act"

subsection \<open>The shared map\<close>

text \<open>A change of the value under a key, and setting a key: one that is there keeps its place.\<close>

definition at_key :: "jsstring \<Rightarrow> ('v \<Rightarrow> 'v) \<Rightarrow> (jsstring \<times> 'v) list \<Rightarrow> (jsstring \<times> 'v) list" where
  "at_key i g m = map (\<lambda>(j, w). (j, if j = i then g w else w)) m"

definition put :: "jsstring \<Rightarrow> 'v \<Rightarrow> (jsstring \<times> 'v) list \<Rightarrow> (jsstring \<times> 'v) list" where
  "put i v m = (if i \<in> fst ` set m then at_key i (\<lambda>_. v) m else m @ [(i, v)])"

subsection \<open>Rendering\<close>

text \<open>\<^verbatim>\<open>m.get("color") || "#fde68a"\<close>\<close>

definition note_color :: "jsval \<Rightarrow> jsval" where
  "note_color c = (if truthy c then c else JStr (js ''#fde68a''))"

text \<open>The part of the observer that shows a shape on its element; \<open>N\<close> is the text of a number.\<close>

definition show_shape ::
  "(jsnum \<Rightarrow> jsstring) \<Rightarrow> jsstring option \<Rightarrow> jsstring \<Rightarrow> shape \<Rightarrow> note_el \<Rightarrow> js_error + note_el" where
  "show_shape N focus i m el =
     (let el1 = el\<lparr>n_left := sh_x m, n_top := sh_y m, n_background := note_color (sh_color m)\<rparr>;
          t = nullish (sh_text m) (JStr [])
      in if JStr (n_value el) \<noteq> t \<and> focus \<noteq> Some i
         then (case js_text N t of Inl x \<Rightarrow> Inl x | Inr s \<Rightarrow> Inr (el1\<lparr>n_value := s\<rparr>))
         else Inr el1)"

definition blank_note :: note_el where
  "blank_note = \<lparr>n_left = 0, n_top = 0, n_background = JUndef, n_value = []\<rparr>"

definition render_shape :: "(jsnum \<Rightarrow> jsstring) \<Rightarrow> jsstring \<times> shape \<Rightarrow> board_act" where
  "render_shape N im s =
     (let el = (case map_of (w_els s) (fst im) of None \<Rightarrow> blank_note | Some el \<Rightarrow> el)
      in case show_shape N (w_focus s) (fst im) (snd im) el of
           Inl x \<Rightarrow>
             block [modify (\<lambda>s. s\<lparr>w_els := put (fst im)
                      (el\<lparr>n_left := sh_x (snd im), n_top := sh_y (snd im),
                          n_background := note_color (sh_color (snd im))\<rparr>) (w_els s)\<rparr>),
                    throw x] s
         | Inr el1 \<Rightarrow> modify (\<lambda>s. s\<lparr>w_els := put (fst im) el1 (w_els s)\<rparr>) s)"

text \<open>
  \<^verbatim>\<open>for (const [id, el] of els) if (!shapes.has(id)) { el.remove(); els.delete(id) }\<close>; an element that
  is removed loses the focus.
\<close>

definition drop_gone :: board_act where
  "drop_gone = modify (\<lambda>s. s\<lparr>
     w_els := filter (\<lambda>(i, el). i \<in> fst ` set (w_shapes s)) (w_els s),
     w_focus := (case w_focus s of None \<Rightarrow> None
                 | Some i \<Rightarrow> if i \<in> fst ` set (w_els s) \<and> i \<notin> fst ` set (w_shapes s) then None else Some i)\<rparr>)"

definition board_render :: "(jsnum \<Rightarrow> jsstring) \<Rightarrow> board_act" where
  "board_render N s = block [drop_gone, forA (w_shapes s) (render_shape N)] s"

definition board_edit :: "(jsnum \<Rightarrow> jsstring) \<Rightarrow> (shape_map \<Rightarrow> shape_map) \<Rightarrow> board_act" where
  "board_edit N f = block [modify (\<lambda>s. s\<lparr>w_shapes := f (w_shapes s)\<rparr>), board_render N]"

subsection \<open>Notes\<close>

definition addNote :: "(jsnum \<Rightarrow> jsstring) \<Rightarrow> jsval \<Rightarrow> jsstring \<Rightarrow> rat \<Rightarrow> rat \<Rightarrow> jsstring \<Rightarrow> board_act" where
  "addNote N color uuid x y t =
     board_edit N (put uuid \<lparr>sh_x = x, sh_y = y, sh_text = JStr t, sh_color = color\<rparr>)"

text \<open>\<^verbatim>\<open>Math.round\<close>: halves go up.\<close>

definition js_round :: "rat \<Rightarrow> rat" where
  "js_round q = of_int \<lfloor>q + 1 / 2\<rfloor>"

definition on_dblclick ::
  "(jsnum \<Rightarrow> jsstring) \<Rightarrow> jsval \<Rightarrow> jsstring \<Rightarrow> rat \<Rightarrow> rat \<Rightarrow> rat \<Rightarrow> rat \<Rightarrow> board_act" where
  "on_dblclick N color uuid clientX clientY rleft rtop =
     addNote N color uuid (js_round (clientX - rleft - 60)) (js_round (clientY - rtop - 24)) (js ''note'')"

definition on_note_input :: "(jsnum \<Rightarrow> jsstring) \<Rightarrow> jsstring \<Rightarrow> jsstring \<Rightarrow> board_act" where
  "on_note_input N i t =
     block [
       modify (\<lambda>s. s\<lparr>w_els := at_key i (\<lambda>el. el\<lparr>n_value := t\<rparr>) (w_els s)\<rparr>),
       board_edit N (at_key i (\<lambda>m. m\<lparr>sh_text := JStr t\<rparr>))]"

subsection \<open>Dragging\<close>

text \<open>A press on the textarea does not start a drag.\<close>

definition on_pointerdown :: "bool \<Rightarrow> jsstring \<Rightarrow> rat \<Rightarrow> rat \<Rightarrow> board_act" where
  "on_pointerdown on_textarea i clientX clientY s =
     (if on_textarea then skip s
      else case map_of (w_shapes s) i of
        None \<Rightarrow> skip s
      | Some m \<Rightarrow> modify (\<lambda>s. s\<lparr>w_drag := Some (i, clientX, clientY, sh_x m, sh_y m)\<rparr>) s)"

definition on_pointermove :: "(jsnum \<Rightarrow> jsstring) \<Rightarrow> rat \<Rightarrow> rat \<Rightarrow> board_act" where
  "on_pointermove N clientX clientY s =
     (case w_drag s of
        None \<Rightarrow> skip s
      | Some (i, sx, sy, ox, oy) \<Rightarrow>
          board_edit N
            (at_key i (\<lambda>m. m\<lparr>sh_x := ox + clientX - sx, sh_y := oy + clientY - sy\<rparr>)) s)"

definition on_pointerup :: board_act where
  "on_pointerup = modify (\<lambda>s. s\<lparr>w_drag := None\<rparr>)"

text \<open>A whole drag: down, the moves in order, up.\<close>

definition drag_note ::
  "(jsnum \<Rightarrow> jsstring) \<Rightarrow> jsstring \<Rightarrow> rat \<times> rat \<Rightarrow> (rat \<times> rat) list \<Rightarrow> board_act" where
  "drag_note N i start moves =
     block [
       on_pointerdown False i (fst start) (snd start),
       forA moves (\<lambda>(x, y). on_pointermove N x y),
       on_pointerup]"

subsection \<open>Seeding\<close>

definition board_seed :: "(jsnum \<Rightarrow> jsstring) \<Rightarrow> jsval \<Rightarrow> jsstring \<Rightarrow> jsstring \<Rightarrow> board_act" where
  "board_seed N color u1 u2 s =
     (if w_shapes s = []
      then block [addNote N color u1 40 40 (js ''drag me''),
                  addNote N color u2 240 120 (js ''double-click to add'')] s
      else skip s)"

subsection \<open>The elements follow the shapes\<close>

lemma map_of_at_key: "map_of (at_key i g m) j = (if j = i then map_option g (map_of m j) else map_of m j)"
  by (induction m) (auto simp: at_key_def)

lemma keys_at_key [simp]: "map fst (at_key i g m) = map fst m"
  by (simp add: at_key_def comp_def split_def)

lemma key_set_at_key [simp]: "fst ` set (at_key i g m) = fst ` set m"
  by (metis keys_at_key list.set_map)

lemma map_of_put [simp]: "map_of (put i v m) j = (if j = i then Some v else map_of m j)"
proof (cases "i \<in> fst ` set m")
  case True
  then obtain w where "map_of m i = Some w" by (metis map_of_eq_None_iff not_None_eq)
  with True show ?thesis by (simp add: put_def map_of_at_key)
next
  case False
  then have "map_of m i = None" by (simp add: map_of_eq_None_iff)
  with False show ?thesis by (auto simp: put_def map_add_def split: option.splits)
qed

lemma keys_put: "fst ` set (put i v m) = insert i (fst ` set m)"
  by (auto simp: put_def)

lemma distinct_put: "distinct (map fst m) \<Longrightarrow> distinct (map fst (put i v m))"
  by (simp add: put_def)

text \<open>What an element shows of its shape.\<close>

definition displays :: "jsstring option \<Rightarrow> jsstring \<Rightarrow> shape \<Rightarrow> note_el \<Rightarrow> bool" where
  "displays focus i m el \<longleftrightarrow>
     n_left el = sh_x m \<and> n_top el = sh_y m \<and> n_background el = note_color (sh_color m)
     \<and> (focus \<noteq> Some i \<longrightarrow> JStr (n_value el) = nullish (sh_text m) (JStr []))"

text \<open>The texts the page itself writes are strings; a missing one shows as empty.\<close>

definition text_ok :: "shape \<Rightarrow> bool" where
  "text_ok m \<longleftrightarrow> sh_text m = JUndef \<or> sh_text m = JNull \<or> (\<exists>t. sh_text m = JStr t)"

lemma text_ok_nullish: "text_ok m \<Longrightarrow> \<exists>t. nullish (sh_text m) (JStr []) = JStr t"
  by (auto simp: text_ok_def)

lemma show_shape_ok:
  assumes "text_ok m"
  obtains el1 where "show_shape N focus i m el = Inr el1" and "displays focus i m el1"
    and "focus = Some i \<Longrightarrow> n_value el1 = n_value el"
proof -
  from text_ok_nullish [OF assms] obtain t where t: "nullish (sh_text m) (JStr []) = JStr t" by blast
  show ?thesis
  proof (cases "n_value el \<noteq> t \<and> focus \<noteq> Some i")
    case True
    then show ?thesis
      using that [of "el\<lparr>n_left := sh_x m, n_top := sh_y m, n_background := note_color (sh_color m), n_value := t\<rparr>"]
      by (simp add: show_shape_def t displays_def)
  next
    case False
    then show ?thesis
      using that [of "el\<lparr>n_left := sh_x m, n_top := sh_y m, n_background := note_color (sh_color m)\<rparr>"]
      by (auto simp: show_shape_def t displays_def)
  qed
qed

text \<open>The effect of the loop: a run from \<open>s\<close> to \<open>r\<close> over the shapes \<open>ims\<close>.\<close>

definition rendered :: "(jsstring \<times> shape) list \<Rightarrow> board \<Rightarrow> (board, unit) outcome \<Rightarrow> bool" where
  "rendered ims s r \<longleftrightarrow>
     thrown r = None \<and> w_shapes (post r) = w_shapes s \<and> w_focus (post r) = w_focus s
     \<and> w_drag (post r) = w_drag s
     \<and> fst ` set (w_els (post r)) = fst ` set (w_els s) \<union> fst ` set ims
     \<and> (\<forall>j. j \<notin> fst ` set ims \<longrightarrow> map_of (w_els (post r)) j = map_of (w_els s) j)
     \<and> (\<forall>i m. (i, m) \<in> set ims \<longrightarrow>
          (\<exists>el. map_of (w_els (post r)) i = Some el \<and> displays (w_focus s) i m el))"

lemma rendered_Cons:
  assumes "render_shape N (i, m) s = (s1, [], None)" and "s1 = s\<lparr>w_els := put i el1 (w_els s)\<rparr>"
    and "displays (w_focus s) i m el1" and "i \<notin> fst ` set ims"
    and "rendered ims s1 (forA ims (render_shape N) s1)"
  shows "rendered ((i, m) # ims) s (forA ((i, m) # ims) (render_shape N) s)"
proof -
  let ?r = "forA ims (render_shape N) s1"
  have r: "forA ((i, m) # ims) (render_shape N) s = (post ?r, calls ?r, thrown ?r)"
    using assms(1) by (simp add: andThen_eq)
  have els: "map_of (w_els (post ?r)) i = Some el1"
    using assms(2,4,5) by (simp add: rendered_def)
  show ?thesis
    unfolding r using assms(2-5) els by (auto simp: rendered_def keys_put)
qed

lemma render_shapes_ok:
  "\<forall>(i, m) \<in> set ims. text_ok m \<Longrightarrow> distinct (map fst ims) \<Longrightarrow>
   rendered ims s (forA ims (render_shape N) s)"
proof (induction ims arbitrary: s)
  case Nil
  then show ?case by (simp add: rendered_def)
next
  case (Cons im ims)
  obtain i m where im: "im = (i, m)" by (cases im)
  let ?el = "case map_of (w_els s) i of None \<Rightarrow> blank_note | Some el \<Rightarrow> el"
  have "text_ok m" using Cons.prems by (simp add: im)
  then obtain el1 where el1: "show_shape N (w_focus s) i m ?el = Inr el1" "displays (w_focus s) i m el1"
    by (rule show_shape_ok)
  let ?s = "s\<lparr>w_els := put i el1 (w_els s)\<rparr>"
  have step: "render_shape N (i, m) s = (?s, [], None)"
    using el1(1) by (simp add: render_shape_def Let_def)
  have "i \<notin> fst ` set ims" using Cons.prems by (simp add: im)
  moreover have "rendered ims ?s (forA ims (render_shape N) ?s)"
    by (rule Cons.IH) (use Cons.prems in auto)
  ultimately show ?case unfolding im by (rule rendered_Cons [OF step refl el1(2)])
qed

lemma board_render_ok:
  assumes "\<forall>(i, m) \<in> set (w_shapes s). text_ok m" and "distinct (map fst (w_shapes s))"
  shows "thrown (board_render N s) = None \<and> w_shapes (post (board_render N s)) = w_shapes s
    \<and> w_drag (post (board_render N s)) = w_drag s
    \<and> fst ` set (w_els (post (board_render N s))) = fst ` set (w_shapes s)
    \<and> (\<forall>i m. (i, m) \<in> set (w_shapes s) \<longrightarrow>
         (\<exists>el. map_of (w_els (post (board_render N s))) i = Some el
            \<and> displays (w_focus (post (board_render N s))) i m el))"
proof -
  let ?s = "post (drop_gone s)"
  have r: "board_render N s = forA (w_shapes s) (render_shape N) ?s"
    by (simp add: board_render_def drop_gone_def andThen_eq)
  have "fst ` set (w_els ?s) \<subseteq> fst ` set (w_shapes s)"
    by (auto simp: drop_gone_def intro: rev_image_eqI)
  then have "fst ` set (w_els ?s) \<union> fst ` set (w_shapes s) = fst ` set (w_shapes s)" by (rule Un_absorb1)
  moreover have "w_shapes ?s = w_shapes s" "w_drag ?s = w_drag s" by (simp_all add: drop_gone_def)
  ultimately show ?thesis using render_shapes_ok [OF assms, of ?s N]
    unfolding r rendered_def by simp
qed

end
