(* ===== verification/Demo_Page_Theorems.thy ===== *)
theory Demo_Page_Theorems
  imports Demo_Kanban Demo_Forms Demo_Whiteboard Demo_Checks
begin

text \<open>
  The properties of the demo pages: the kanban board shows its document after every action, escaped
  card texts read back, the whiteboard follows a drag, the form keeps the field one types in, the
  editor starts once.
\<close>

subsection \<open>The board types\<close>

text \<open>
  yjs: \<^verbatim>\<open>push\<close> appends a new map with the given entries, \<^verbatim>\<open>set\<close> changes one key of one map, \<^verbatim>\<open>delete\<close>
  takes one map out; nothing else changes.
\<close>

definition board_laws :: "('d, 'm) board_api \<Rightarrow> bool" where
  "board_laws B \<longleftrightarrow>
     (\<forall>ps d. \<exists>m. toArray B (push_map B ps d) = toArray B d @ [m] \<and> m \<notin> set (toArray B d)
        \<and> (\<forall>k. m_get B (push_map B ps d) m k = (case map_of ps k of None \<Rightarrow> JUndef | Some v \<Rightarrow> v))
        \<and> (\<forall>m' \<in> set (toArray B d). \<forall>k. m_get B (push_map B ps d) m' k = m_get B d m' k))
     \<and> (\<forall>m k v d. toArray B (m_set B m k v d) = toArray B d)
     \<and> (\<forall>m k v d m' k'. m \<in> set (toArray B d) \<longrightarrow> m' \<in> set (toArray B d) \<longrightarrow>
          m_get B (m_set B m k v d) m' k' = (if m' = m \<and> k' = k then v else m_get B d m' k'))
     \<and> (\<forall>i d. distinct (toArray B d) \<and> i < length (toArray B d) \<longrightarrow>
          toArray B (delete_at B i d) = take i (toArray B d) @ drop (Suc i) (toArray B d)
          \<and> (\<forall>m \<in> set (toArray B (delete_at B i d)). \<forall>k. m_get B (delete_at B i d) m k = m_get B d m k))"

text \<open>A card of the page's own making: a string id, a text that is not blank, a column of the board.\<close>

definition card_ok :: "('d, 'm) board_api \<Rightarrow> 'd \<Rightarrow> 'm \<Rightarrow> bool" where
  "card_ok B d m \<longleftrightarrow>
     (\<exists>u. m_get B d m ''id'' = JStr u) \<and> (\<exists>t. m_get B d m ''text'' = JStr t \<and> t \<noteq> [])
     \<and> (\<exists>k \<in> set ORDER. m_get B d m ''column'' = JStr k)"

definition cards_ok :: "('d, 'm) board_api \<Rightarrow> 'd \<Rightarrow> bool" where
  "cards_ok B d \<longleftrightarrow> distinct (toArray B d) \<and> (\<forall>m \<in> set (toArray B d). card_ok B d m)"

text \<open>The page shows its document: each column has its cards, in the order of the array.\<close>

definition in_step :: "('d, 'm) board_api \<Rightarrow> (jsnum \<Rightarrow> jsstring) \<Rightarrow> ('d, 'm) kanban \<Rightarrow> bool" where
  "in_step B N s \<longleftrightarrow>
     cards_ok B (k_doc s) \<and> (\<forall>k \<in> set ORDER. k_lists s k = shown_in B N (k_doc s) k)"

datatype 'm kanban_event =
    KType jsstring jsstring
  | KSubmit jsstring jsstring
  | KMove 'm int
  | KDelete 'm
  | KSeed "nat \<Rightarrow> jsstring"

text \<open>The user's actions: a form of one of the columns, a button of one of the shown cards.\<close>

definition kanban_handle ::
  "('d, 'm) board_api \<Rightarrow> (jsnum \<Rightarrow> jsstring) \<Rightarrow> 'm kanban_event \<Rightarrow> ('d, 'm) kanban_act" where
  "kanban_handle B N e s =
     (case e of
        KType k t \<Rightarrow> modify (\<lambda>s. s\<lparr>k_inputs := (k_inputs s)(k := t)\<rparr>) s
      | KSubmit k uuid \<Rightarrow> if k \<in> set ORDER then kanban_submit B N k uuid s else skip s
      | KMove m dir \<Rightarrow> if m \<in> set (toArray B (k_doc s)) then kanban_move B N m dir s else skip s
      | KDelete m \<Rightarrow> kanban_delete B N m s
      | KSeed uuid \<Rightarrow> kanban_seed B N uuid s)"

lemma card_ok_renderable: "card_ok B d m \<Longrightarrow> renderable B N d m"
  using ORDER_no_member by (auto simp: card_ok_def renderable_def card_html_def esc_def)

lemma kanban_edit_in_step:
  assumes "cards_ok B (f (k_doc s))"
  shows "thrown (kanban_edit B N f s) = None \<and> in_step B N (post (kanban_edit B N f s))"
proof -
  let ?s = "s\<lparr>k_doc := f (k_doc s)\<rparr>"
  have "\<forall>m \<in> set (toArray B (k_doc ?s)). renderable B N (k_doc ?s) m"
    using assms by (auto simp: cards_ok_def intro: card_ok_renderable)
  from kanban_render_ok [OF this] assms show ?thesis
    by (simp add: kanban_edit_def andThen_eq in_step_def)
qed

lemma cards_ok_push:
  assumes "board_laws B" and "cards_ok B d" and "t \<noteq> []" and "k \<in> set ORDER"
  shows "cards_ok B (push_map B [(''id'', JStr u), (''text'', JStr t), (''column'', JStr k)] d)"
proof -
  let ?d = "push_map B [(''id'', JStr u), (''text'', JStr t), (''column'', JStr k)] d"
  obtain m where m: "toArray B ?d = toArray B d @ [m]" "m \<notin> set (toArray B d)"
    and new: "\<forall>j. m_get B ?d m j =
      (case map_of [(''id'', JStr u), (''text'', JStr t), (''column'', JStr k)] j of None \<Rightarrow> JUndef | Some v \<Rightarrow> v)"
    and old: "\<forall>m' \<in> set (toArray B d). \<forall>j. m_get B ?d m' j = m_get B d m' j"
    using assms(1) unfolding board_laws_def by blast
  have "card_ok B ?d m" using new assms(3,4) by (simp add: card_ok_def)
  moreover have "card_ok B ?d m'" if "m' \<in> set (toArray B d)" for m'
    using that assms(2) old by (simp add: cards_ok_def card_ok_def)
  ultimately show ?thesis using m assms(2) by (auto simp: cards_ok_def)
qed

lemma cards_ok_set:
  assumes "board_laws B" and "cards_ok B d" and "m \<in> set (toArray B d)" and "k \<in> set ORDER"
  shows "cards_ok B (m_set B m ''column'' (JStr k) d)"
proof -
  have a: "toArray B (m_set B m ''column'' (JStr k) d) = toArray B d"
    and g: "m_get B (m_set B m ''column'' (JStr k) d) m' j =
      (if m' = m \<and> j = ''column'' then JStr k else m_get B d m' j)" if "m' \<in> set (toArray B d)" for m' j
    using assms(1,3) that unfolding board_laws_def by blast+
  have "toArray B (m_set B m ''column'' (JStr k) d) = toArray B d"
    using assms(1) unfolding board_laws_def by blast
  then show ?thesis using assms(2,4) g by (auto simp: cards_ok_def card_ok_def)
qed

lemma cards_ok_delete:
  assumes "board_laws B" and "cards_ok B d" and "i < length (toArray B d)"
  shows "cards_ok B (delete_at B i d)"
proof -
  have a: "toArray B (delete_at B i d) = take i (toArray B d) @ drop (Suc i) (toArray B d)"
    and g: "\<forall>m \<in> set (toArray B (delete_at B i d)). \<forall>k. m_get B (delete_at B i d) m k = m_get B d m k"
    using assms unfolding board_laws_def cards_ok_def by blast+
  have sub: "set (toArray B (delete_at B i d)) \<subseteq> set (toArray B d)"
    unfolding a by (auto dest: in_set_takeD in_set_dropD)
  have "distinct (toArray B (delete_at B i d))"
    using assms(2) unfolding a cards_ok_def
    by (simp add: set_take_disj_set_drop_if_distinct)
  then show ?thesis using assms(2) g sub by (auto simp: cards_ok_def card_ok_def)
qed

lemma kanban_move_in_step:
  assumes "board_laws B" and "in_step B N s" and "m \<in> set (toArray B (k_doc s))"
  shows "thrown (kanban_move B N m dir s) = None \<and> in_step B N (post (kanban_move B N m dir s))"
proof (cases "move_target (m_get B (k_doc s) m ''column'') dir")
  case (Some n)
  have "cards_ok B (m_set B m ''column'' (JStr n) (k_doc s))"
    using assms move_target_in [OF Some] by (intro cards_ok_set) (auto simp: in_step_def)
  from kanban_edit_in_step [where f = "m_set B m ''column'' (JStr n)", OF this] Some show ?thesis by (simp add: kanban_move_def)
qed (use assms(2) in \<open>simp add: kanban_move_def\<close>)

lemma kanban_delete_in_step:
  assumes "board_laws B" and "in_step B N s"
  shows "thrown (kanban_delete B N m s) = None \<and> in_step B N (post (kanban_delete B N m s))"
proof (cases "0 \<le> index_of m (toArray B (k_doc s))")
  case True
  have "nat (index_of m (toArray B (k_doc s))) < length (toArray B (k_doc s))"
    using True index_of_range [of m "toArray B (k_doc s)"] by linarith
  then have "cards_ok B (delete_at B (nat (index_of m (toArray B (k_doc s)))) (k_doc s))"
    using assms by (intro cards_ok_delete) (auto simp: in_step_def)
  from kanban_edit_in_step [where f = "delete_at B (nat (index_of m (toArray B (k_doc s))))", OF this] True
  show ?thesis by (simp add: kanban_delete_def Let_def)
qed (use assms(2) in \<open>simp add: kanban_delete_def Let_def\<close>)

lemma kanban_submit_in_step:
  assumes "board_laws B" and "in_step B N s" and "k \<in> set ORDER"
  shows "thrown (kanban_submit B N k uuid s) = None \<and> in_step B N (post (kanban_submit B N k uuid s))"
proof (cases "js_trim (k_inputs s k) = []")
  case False
  have "cards_ok B (push_map B [(''id'', JStr uuid), (''text'', JStr (js_trim (k_inputs s k))), (''column'', JStr k)] (k_doc s))"
    using assms False by (intro cards_ok_push) (auto simp: in_step_def)
  from kanban_edit_in_step [where f = "push_map B [(''id'', JStr uuid),
      (''text'', JStr (js_trim (k_inputs s k))), (''column'', JStr k)]", OF this] False show ?thesis
    by (simp add: kanban_submit_def Let_def andThen_eq in_step_def)
qed (use assms(2) in \<open>simp add: kanban_submit_def\<close>)

lemma cards_ok_pushes:
  assumes "board_laws B"
  shows "cards_ok B d \<Longrightarrow> (\<forall>(i, t, k) \<in> set xs. t \<noteq> [] \<and> k \<in> set ORDER) \<Longrightarrow>
   cards_ok B (fold (\<lambda>(i, t, c). push_map B [(''id'', JStr (uuid i)), (''text'', JStr t), (''column'', JStr c)]) xs d)"
  by (induction xs arbitrary: d) (auto intro: cards_ok_push [OF assms])

lemma kanban_seed_in_step:
  assumes "board_laws B" and "in_step B N s"
  shows "thrown (kanban_seed B N uuid s) = None \<and> in_step B N (post (kanban_seed B N uuid s))"
proof (cases "toArray B (k_doc s) = []")
  case True
  have "\<forall>(i, t, k) \<in> set (zip [0..<length seed_cards] seed_cards). t \<noteq> [] \<and> k \<in> set ORDER"
    by (auto simp: seed_cards_def ORDER_eq js_def upt_rec)
  with assms have "cards_ok B (fold (\<lambda>(i, t, c). push_map B [(''id'', JStr (uuid i)), (''text'', JStr t), (''column'', JStr c)])
      (zip [0..<length seed_cards] seed_cards) (k_doc s))"
    by (intro cards_ok_pushes) (auto simp: in_step_def)
  from kanban_edit_in_step [of B "\<lambda>d. fold (\<lambda>(i, t, c). push_map B [(''id'', JStr (uuid i)), (''text'', JStr t), (''column'', JStr c)])
      (zip [0..<length seed_cards] seed_cards) d", OF this] True show ?thesis
    by (simp add: kanban_seed_def)
qed (use assms(2) in \<open>simp add: kanban_seed_def\<close>)

lemma kanban_handle_in_step:
  assumes "board_laws B" and "in_step B N s"
  shows "thrown (kanban_handle B N e s) = None \<and> in_step B N (post (kanban_handle B N e s))"
proof (cases e)
  case (KType k t)
  with assms(2) show ?thesis by (simp add: kanban_handle_def in_step_def)
next
  case (KSubmit k uuid)
  with assms(2) kanban_submit_in_step [OF assms] show ?thesis by (simp add: kanban_handle_def)
next
  case (KMove m dir)
  with assms(2) kanban_move_in_step [OF assms] show ?thesis by (simp add: kanban_handle_def)
next
  case (KDelete m)
  with kanban_delete_in_step [OF assms] show ?thesis by (simp add: kanban_handle_def)
next
  case (KSeed uuid)
  with kanban_seed_in_step [OF assms] show ?thesis by (simp add: kanban_handle_def)
qed

text \<open>
  C37: The kanban board keeps its types and shows its document. Whatever its users type, submit, move,
  delete or seed, every card has a string id, a text that is not blank and one of the three columns,
  no action throws, and each list shows exactly the cards of its column, in the order of the shared
  array, with their escaped texts.
\<close>

theorem kanban_in_step:
  assumes "board_laws B" and "in_step B N s"
  shows "in_step B N (run (\<lambda>s e. post (kanban_handle B N e s)) s es)
    \<and> thrown (kanban_handle B N e (run (\<lambda>s e. post (kanban_handle B N e s)) s es)) = None"
proof -
  have "in_step B N (run (\<lambda>s e. post (kanban_handle B N e s)) s es)"
    by (rule run_invariant [of "in_step B N"]) (use assms kanban_handle_in_step in blast)+
  with kanban_handle_in_step [OF assms(1) this] show ?thesis by blast
qed

text \<open>A concrete board: numbered maps in a list.\<close>

definition list_board :: "((nat \<times> (string \<times> jsval) list) list, nat) board_api" where
  "list_board =
     \<lparr>toArray = map fst,
      m_get = (\<lambda>d m k. case map_of d m of None \<Rightarrow> JUndef
                 | Some ps \<Rightarrow> (case map_of ps k of None \<Rightarrow> JUndef | Some v \<Rightarrow> v)),
      m_set = (\<lambda>m k v. map (\<lambda>(j, ps). (j, if j = m then (k, v) # ps else ps))),
      push_map = (\<lambda>ps d. d @ [(Suc (sum_list (map fst d)), ps)]),
      delete_at = (\<lambda>i d. take i d @ drop (Suc i) d)\<rparr>"

lemma map_of_set_key:
  "map_of (map (\<lambda>(j, ps). (j, if j = m then (k, v) # ps else ps)) d) i =
     (if i = m then map_option (\<lambda>ps. (k, v) # ps) (map_of d i) else map_of d i)"
  by (induction d) auto

lemma fresh_sum: "i \<in> fst ` set d \<Longrightarrow> i \<noteq> Suc (sum_list (map fst d))" for d :: "(nat \<times> 'x) list"
  using member_le_sum_list [of i "map fst d"] by auto

lemma map_of_without:
  assumes "distinct (map fst d)" and "m \<in> fst ` set (take i d @ drop (Suc i) d)"
  shows "map_of (take i d @ drop (Suc i) d) m = map_of d m"
proof -
  let ?d = "take i d @ drop (Suc i) d"
  have "set ?d \<subseteq> set d" by (auto dest: in_set_takeD in_set_dropD)
  moreover from assms(2) obtain ps where "map_of ?d m = Some ps" by (metis map_of_eq_None_iff not_None_eq)
  ultimately have "(m, ps) \<in> set d" by (meson map_of_SomeD subsetD)
  with assms(1) have "map_of d m = Some ps" by simp
  with \<open>map_of ?d m = Some ps\<close> show ?thesis by simp
qed

lemma list_board_laws: "board_laws list_board"
  unfolding board_laws_def
proof (intro conjI allI impI ballI)
  fix ps and d :: "(nat \<times> (string \<times> jsval) list) list"
  have new: "map_of d (Suc (sum_list (map fst d))) = None"
    using fresh_sum [of _ d] by (auto simp: map_of_eq_None_iff)
  show "\<exists>m. toArray list_board (push_map list_board ps d) = toArray list_board d @ [m]
        \<and> m \<notin> set (toArray list_board d)
        \<and> (\<forall>k. m_get list_board (push_map list_board ps d) m k = (case map_of ps k of None \<Rightarrow> JUndef | Some v \<Rightarrow> v))
        \<and> (\<forall>m' \<in> set (toArray list_board d). \<forall>k.
              m_get list_board (push_map list_board ps d) m' k = m_get list_board d m' k)"
    using fresh_sum [of _ d] new
    by (intro exI [of _ "Suc (sum_list (map fst d))"])
      (auto simp: list_board_def map_add_def split: option.splits dest: map_of_eq_None_iff [THEN iffD1])
next
  fix i and d :: "(nat \<times> (string \<times> jsval) list) list"
  assume d: "distinct (toArray list_board d) \<and> i < length (toArray list_board d)"
  then show "toArray list_board (delete_at list_board i d) =
      take i (toArray list_board d) @ drop (Suc i) (toArray list_board d)"
    by (simp add: list_board_def take_map drop_map)
  fix m k
  assume "m \<in> set (toArray list_board (delete_at list_board i d))"
  then have "m \<in> fst ` set (take i d @ drop (Suc i) d)" by (simp add: list_board_def image_Un)
  with map_of_without [of d m i] d
  show "m_get list_board (delete_at list_board i d) m k = m_get list_board d m k"
    by (simp add: list_board_def)
next
  fix m k v and d :: "(nat \<times> (string \<times> jsval) list) list"
  show "toArray list_board (m_set list_board m k v d) = toArray list_board d"
    by (simp add: list_board_def comp_def split_def)
next
  fix m k v m' k' and d :: "(nat \<times> (string \<times> jsval) list) list"
  assume "m \<in> set (toArray list_board d)"
  then have "m \<in> fst ` set d" by (simp add: list_board_def)
  then obtain ps where "map_of d m = Some ps" by (metis map_of_eq_None_iff not_None_eq)
  then show "m_get list_board (m_set list_board m k v d) m' k' =
      (if m' = m \<and> k' = k then v else m_get list_board d m' k')"
    by (auto simp: list_board_def map_of_set_key)
qed

definition empty_board :: "((nat \<times> (string \<times> jsval) list) list, nat) kanban" where
  "empty_board = \<lparr>k_doc = [], k_lists = (\<lambda>_. []), k_inputs = (\<lambda>_. [])\<rparr>"

theorem kanban_in_step_witness:
  "in_step list_board (\<lambda>_. []) (run (\<lambda>s e. post (kanban_handle list_board (\<lambda>_. []) e s)) empty_board
     [KSeed (\<lambda>_. []), KMove 1 1, KDelete 2])"
proof -
  have "in_step list_board (\<lambda>_. []) empty_board"
    by (simp add: in_step_def cards_ok_def shown_in_def list_board_def empty_board_def)
  from kanban_in_step [OF list_board_laws this] show ?thesis by blast
qed

text \<open>
  One card whose column is the name of a member of the prototype of objects makes the observer throw;
  the cards behind it are not shown.
\<close>

lemma poison_card_blocks_board:
  assumes "toArray B (k_doc s) = m # ms" and "m_get B (k_doc s) m ''column'' = JStr (js ''constructor'')"
    and "m_get B (k_doc s) m ''text'' = JStr t" and "k \<in> set ORDER"
  shows "thrown (kanban_render B N s) = Some (TypeError ''list.appendChild is not a function'')
    \<and> k_lists (post (kanban_render B N s)) k = []"
proof -
  have c: "js ''constructor'' \<notin> set ORDER" "js ''constructor'' \<in> set object_members"
    by (auto simp: ORDER_eq object_members_def js_def)
  have "render_card B N m (post (clear_lists s)) =
      (post (clear_lists s), [], Some (TypeError ''list.appendChild is not a function''))"
    using assms(2,3) c by (simp add: render_card_def clear_lists_eq card_html_def esc_def)
  with assms(1,4) show ?thesis
    by (simp add: kanban_render_def andThen_eq clear_lists_eq)
qed

subsection \<open>Escaping\<close>

text \<open>How a browser reads the three entities back.\<close>

function unesc :: "jsstring \<Rightarrow> jsstring" where
  "unesc [] = []"
| "unesc (c # s) =
     (if c = 38 \<and> js_starts s (js ''amp;'') then 38 # unesc (drop 4 s)
      else if c = 38 \<and> js_starts s (js ''lt;'') then 60 # unesc (drop 3 s)
      else if c = 38 \<and> js_starts s (js ''gt;'') then 62 # unesc (drop 3 s)
      else c # unesc s)"
  by pat_completeness auto
termination
  by (relation "measure length") auto

text \<open>
  The text of a card is shown as it is. The escaped text holds no angle bracket, so it cannot
  open or close a tag of the card, and reading its three entities back gives the text, whatever it
  is, entities and markup included.
\<close>

theorem card_text_roundtrip: "unesc (esc_text t) = t \<and> 60 \<notin> set (esc_text t) \<and> 62 \<notin> set (esc_text t)"
proof (induction t)
  case (Cons c t)
  have e: "esc_text (c # t) = esc_unit c @ esc_text t" by (simp add: esc_text_def)
  have "unesc (esc_unit c @ s) = c # unesc s" for s
    by (auto simp: esc_unit_def js_def)
  with Cons show ?case by (auto simp: e) (auto simp: esc_unit_def js_def split: if_splits)
qed (simp add: esc_text_def)

text \<open>The name of a user, in contrast, goes into the chip as it is.\<close>

lemma chip_unescaped:
  assumes "js_get u ''color'' = Inr (JStr c)" and "js_get u ''name'' = Inr (JStr n)" and "JStr n \<noteq> you"
  shows "chip N you u = Inr (js ''<span class=\"chip\" style=\"background:'' @ c @ js ''\">'' @ n @ js ''</span>'')"
  using assms by (simp add: chip_def js_def)

subsection \<open>The form\<close>

text \<open>
  A remote change of the field that has the focus is not shown, and not after the focus has gone
  either: nothing renders on blur.
\<close>

lemma form_stale_after_blur:
  assumes "fm_focus s = Some k"
  shows "fm_value ((post (form_remote form_get assigned d s))\<lparr>fm_focus := None\<rparr>) k = fm_value s k
    \<and> fm_doc ((post (form_remote form_get assigned d s))\<lparr>fm_focus := None\<rparr>) = d"
  using assms
  by (simp add: form_remote_def andThen_eq form_observe_eq shown_value_def)

subsection \<open>The whiteboard\<close>

lemma board_edit_ok:
  assumes "\<forall>(i, m) \<in> set (f (w_shapes s)). text_ok m" and "distinct (map fst (f (w_shapes s)))"
  shows "thrown (board_edit N f s) = None \<and> w_shapes (post (board_edit N f s)) = f (w_shapes s)
    \<and> w_drag (post (board_edit N f s)) = w_drag s
    \<and> fst ` set (w_els (post (board_edit N f s))) = fst ` set (f (w_shapes s))
    \<and> (\<forall>i m. (i, m) \<in> set (f (w_shapes s)) \<longrightarrow>
         (\<exists>el. map_of (w_els (post (board_edit N f s))) i = Some el
            \<and> displays (w_focus (post (board_edit N f s))) i m el))"
  using board_render_ok [of "s\<lparr>w_shapes := f (w_shapes s)\<rparr>" N] assms
  by (simp add: board_edit_def andThen_eq)

lemma text_ok_at_key:
  "\<forall>(i, m) \<in> set ims. text_ok m \<Longrightarrow> (\<And>m. text_ok m \<Longrightarrow> text_ok (g m)) \<Longrightarrow>
   \<forall>(i, m) \<in> set (at_key k g ims). text_ok m"
  by (auto simp: at_key_def)

definition moved :: "rat \<Rightarrow> rat \<Rightarrow> shape \<Rightarrow> shape" where
  "moved x y m = m\<lparr>sh_x := x, sh_y := y\<rparr>"

lemma moves_ok:
  assumes "w_drag s = Some (i, sx, sy, ox, oy)" and "\<forall>(i, m) \<in> set (w_shapes s). text_ok m"
    and "distinct (map fst (w_shapes s))"
  shows "let r = forA (ps @ [(x, y)]) (\<lambda>(x, y). on_pointermove N x y) s
    in thrown r = None \<and> w_shapes (post r) = at_key i (moved (ox + x - sx) (oy + y - sy)) (w_shapes s)
       \<and> fst ` set (w_els (post r)) = fst ` set (w_shapes s)
       \<and> (\<forall>j m. (j, m) \<in> set (w_shapes (post r)) \<longrightarrow>
            (\<exists>el. map_of (w_els (post r)) j = Some el \<and> displays (w_focus (post r)) j m el))"
  using assms
proof (induction ps arbitrary: s)
  case Nil
  let ?f = "at_key i (moved (ox + x - sx) (oy + y - sy))"
  have e: "on_pointermove N x y s = board_edit N ?f s"
    using Nil.prems(1) by (simp add: on_pointermove_def moved_def [abs_def])
  have "\<forall>(i, m) \<in> set (?f (w_shapes s)). text_ok m"
    by (rule text_ok_at_key [OF Nil.prems(2)]) (simp add: text_ok_def moved_def)
  from board_edit_ok [where f = ?f, OF this, of N] Nil.prems(3)
  show ?case by (simp add: e Let_def)
next
  case (Cons p ps)
  obtain px py where p: "p = (px, py)" by (cases p)
  let ?f = "at_key i (moved (ox + px - sx) (oy + py - sy))"
  let ?s = "post (board_edit N ?f s)"
  have e: "on_pointermove N px py s = board_edit N ?f s"
    using Cons.prems(1) by (simp add: on_pointermove_def moved_def [abs_def])
  have t: "\<forall>(i, m) \<in> set (?f (w_shapes s)). text_ok m"
    by (rule text_ok_at_key [OF Cons.prems(2)]) (simp add: text_ok_def moved_def)
  from board_edit_ok [where f = ?f, OF t, of N] Cons.prems(3)
  have ok: "thrown (board_edit N ?f s) = None" "w_shapes ?s = ?f (w_shapes s)" "w_drag ?s = w_drag s" by simp_all
  have "\<forall>(i, m) \<in> set (w_shapes ?s). text_ok m" "distinct (map fst (w_shapes ?s))" "w_drag ?s = Some (i, sx, sy, ox, oy)"
    using ok t Cons.prems by simp_all
  from Cons.IH [OF this(3,1,2)] ok
  have IH: "let r = forA (ps @ [(x, y)]) (\<lambda>(x, y). on_pointermove N x y) ?s
    in thrown r = None \<and> w_shapes (post r) = at_key i (moved (ox + x - sx) (oy + y - sy)) (?f (w_shapes s))
       \<and> fst ` set (w_els (post r)) = fst ` set (w_shapes s)
       \<and> (\<forall>j m. (j, m) \<in> set (w_shapes (post r)) \<longrightarrow>
            (\<exists>el. map_of (w_els (post r)) j = Some el \<and> displays (w_focus (post r)) j m el))"
    by (simp add: Let_def)
  have twice: "at_key i (moved a b) (?f ms) = at_key i (moved a b) ms" for a b ms
    by (auto simp: at_key_def moved_def)
  from IH show ?case by (simp add: p andThen_eq e ok(1) twice Let_def)
qed

text \<open>
  Dragging a note moves it by what the pointer moved, however many moves are reported on the way:
  it ends at its start plus the last pointer position minus the first. Every other note stays, the
  drag ends with the press, and every note on the canvas shows its record.
\<close>

theorem drag_moves_note:
  assumes "\<forall>(i, m) \<in> set (w_shapes s). text_ok m" and "distinct (map fst (w_shapes s))"
    and "map_of (w_shapes s) i = Some m"
  shows "let r = drag_note N i (sx, sy) (ps @ [(x, y)]) s
    in thrown r = None \<and> w_drag (post r) = None
       \<and> map_of (w_shapes (post r)) = (map_of (w_shapes s))(i \<mapsto> m\<lparr>sh_x := sh_x m + (x - sx), sh_y := sh_y m + (y - sy)\<rparr>)
       \<and> fst ` set (w_els (post r)) = fst ` set (w_shapes s)
       \<and> (\<forall>j m. (j, m) \<in> set (w_shapes (post r)) \<longrightarrow>
            (\<exists>el. map_of (w_els (post r)) j = Some el \<and> displays (w_focus (post r)) j m el))"
proof -
  let ?s = "s\<lparr>w_drag := Some (i, sx, sy, sh_x m, sh_y m)\<rparr>"
  have down: "on_pointerdown False i sx sy s = (?s, [], None)"
    using assms(3) by (simp add: on_pointerdown_def)
  have "map_of (at_key i (moved a b) (w_shapes s)) = (map_of (w_shapes s))(i \<mapsto> m\<lparr>sh_x := a, sh_y := b\<rparr>)" for a b
    using assms(3) by (auto simp: map_of_at_key moved_def fun_eq_iff)
  with moves_ok [of ?s i sx sy "sh_x m" "sh_y m" ps x y N] assms(1,2) show ?thesis
    by (simp add: drag_note_def andThen_eq down on_pointerup_def Let_def algebra_simps)
qed

definition one_note :: board where
  "one_note =
     \<lparr>w_shapes = [(js ''n'', \<lparr>sh_x = 40, sh_y = 40, sh_text = JStr (js ''drag me''), sh_color = JUndef\<rparr>)],
      w_els = [], w_focus = None, w_drag = None\<rparr>"

theorem drag_moves_note_witness:
  "let r = drag_note (\<lambda>_. []) (js ''n'') (10, 10) ([(500, 3)] @ [(15, 8)]) one_note
   in thrown r = None \<and> map_option sh_x (map_of (w_shapes (post r)) (js ''n'')) = Some 45"
proof -
  have "\<forall>(i, m) \<in> set (w_shapes one_note). text_ok m" "distinct (map fst (w_shapes one_note))"
    "map_of (w_shapes one_note) (js ''n'') = Some \<lparr>sh_x = 40, sh_y = 40, sh_text = JStr (js ''drag me''), sh_color = JUndef\<rparr>"
    by (simp_all add: one_note_def text_ok_def)
  from drag_moves_note [OF this, of "\<lambda>_. []" 10 10 "[(500, 3)]" 15 8] show ?thesis
    by (simp add: Let_def)
qed

subsection \<open>Starting the editor\<close>

text \<open>
  The editor page creates its editor once and only when the provider is synced: at the end of the
  script, or at the first tick of the poll that finds it synced, which also ends the poll.
\<close>

theorem editor_starts_after_sync:
  "calls (app_run ready ticks new_app) =
     (if ready then [NewEditor]
      else if True \<in> set ticks then [SetPoll, ClearPoll, NewEditor] else [SetPoll])
   \<and> app_editor (post (app_run ready ticks new_app)) = (ready \<or> True \<in> set ticks)
   \<and> app_timer (post (app_run ready ticks new_app)) = (\<not> ready \<and> True \<notin> set ticks)"
proof (cases ready)
  case True
  then have b: "app_boot ready new_app = (new_app\<lparr>app_editor := True, app_state := ''connected''\<rparr>, [NewEditor], None)"
    by (simp add: app_boot_def startEditor_def andThen_eq)
  have "forA ticks app_tick (new_app\<lparr>app_editor := True, app_state := ''connected''\<rparr>) =
      (new_app\<lparr>app_editor := True, app_state := ''connected''\<rparr>, [], None)"
    by (rule app_ticks_done) (simp add: new_app_def)
  with b True show ?thesis by (simp add: app_run_def andThen_eq) (simp add: new_app_def)
next
  case False
  then have b: "app_boot ready new_app = (new_app\<lparr>app_timer := True\<rparr>, [SetPoll], None)"
    by (simp add: app_boot_def andThen_eq)
  have "app_timer (new_app\<lparr>app_timer := True\<rparr>)" by simp
  from app_ticks [OF this, of ticks] b False show ?thesis
    by (simp add: app_run_def andThen_eq) (simp add: new_app_def)
qed

end
