(* ===== verification/Demo_Script.thy ===== *)
theory Demo_Script
  imports Demo_Checks
begin

text \<open>
  The scripts at the end of the test files: programs that make clients, edit through them, wait, look
  at what arrived and exit. A script runs on a \<open>stage\<close>: the clients it made, the failures it counted,
  the calls the clients made, and the \<open>agenda\<close>, which is what the environment does while the script
  waits. A \<open>beat\<close> of the agenda is one turn of the event loop: events handled by the clients, in
  order, the clock after them, and what a pending request answers. The theorems hold for every
  agenda; a script whose agenda is used up is still waiting.

  An error thrown by an event handler does not reach the script. The clock is the one of the last
  turn: the code between two waits takes no time.
\<close>

datatype 'a script_end = Value 'a | Raised js_error | Waiting | Exited nat

record 'e beat =
  bt_time :: int
  bt_tasks :: "(nat \<times> 'e) list"
  bt_status :: nat
  bt_body :: jsval
  bt_resumes :: "nat option"  \<comment> \<open>the concurrent part of the script whose sleep ended\<close>

record ('c, 'e, 'm) stage =
  cast :: "'c list"
  agenda :: "'e beat list"
  clock :: int
  failures :: nat
  printed :: "console list"  \<comment> \<open>the checks; the line of a wait that failed is only counted\<close>
  trace :: "(nat \<times> 'm) list"

type_synonym ('c, 'e, 'm, 'a) script = "('c, 'e, 'm) stage \<Rightarrow> 'a script_end \<times> ('c, 'e, 'm) stage"

definition fresh_stage :: "'e beat list \<Rightarrow> int \<Rightarrow> ('c, 'e, 'm) stage" where
  "fresh_stage bs now = \<lparr>cast = [], agenda = bs, clock = now, failures = 0, printed = [], trace = []\<rparr>"

subsection \<open>Sequencing\<close>

definition give :: "'a \<Rightarrow> ('c, 'e, 'm, 'a) script" where
  "give v s = (Value v, s)"

definition look :: "(('c, 'e, 'm) stage \<Rightarrow> 'a) \<Rightarrow> ('c, 'e, 'm, 'a) script" where
  "look f s = (Value (f s), s)"

definition raiseS :: "js_error \<Rightarrow> ('c, 'e, 'm, 'a) script" where
  "raiseS x s = (Raised x, s)"

text \<open>\<^verbatim>\<open>process.exit(n)\<close>\<close>

definition exit_with :: "nat \<Rightarrow> ('c, 'e, 'm, 'a) script" where
  "exit_with n s = (Exited n, s)"

definition follow ::
  "('c, 'e, 'm, 'a) script \<Rightarrow> ('a \<Rightarrow> ('c, 'e, 'm, 'b) script) \<Rightarrow> ('c, 'e, 'm, 'b) script" where
  "follow m f s =
     (case m s of
        (Value v, t) \<Rightarrow> f v t
      | (Raised x, t) \<Rightarrow> (Raised x, t)
      | (Waiting, t) \<Rightarrow> (Waiting, t)
      | (Exited n, t) \<Rightarrow> (Exited n, t))"

primrec steps :: "('c, 'e, 'm, unit) script list \<Rightarrow> ('c, 'e, 'm, unit) script" where
  "steps [] = give ()"
| "steps (m # ms) = follow m (\<lambda>_. steps ms)"

definition each :: "'x list \<Rightarrow> ('x \<Rightarrow> ('c, 'e, 'm, unit) script) \<Rightarrow> ('c, 'e, 'm, unit) script" where
  "each xs f = steps (map f xs)"

definition unless :: "(('c, 'e, 'm) stage \<Rightarrow> bool) \<Rightarrow> js_error \<Rightarrow> ('c, 'e, 'm, unit) script" where
  "unless P x s = (if P s then give () s else raiseS x s)"

text \<open>An expression that may throw.\<close>

definition value_or_throw :: "(('c, 'e, 'm) stage \<Rightarrow> js_error + 'a) \<Rightarrow> ('c, 'e, 'm, 'a) script" where
  "value_or_throw f s = (case f s of Inl x \<Rightarrow> raiseS x s | Inr v \<Rightarrow> give v s)"

subsection \<open>Clients\<close>

text \<open>\<^verbatim>\<open>new Client(..)\<close>: the number of the client.\<close>

definition enter :: "'c \<times> 'm list \<Rightarrow> ('c, 'e, 'm, nat) script" where
  "enter c s =
     (Value (length (cast s)),
      s\<lparr>cast := cast s @ [fst c], trace := trace s @ map (Pair (length (cast s))) (snd c)\<rparr>)"

definition act_on :: "nat \<Rightarrow> ('c, 'm) act \<Rightarrow> ('c, 'e, 'm) stage \<Rightarrow> ('c, 'e, 'm) stage" where
  "act_on i a s =
     (if i < length (cast s)
      then s\<lparr>cast := (cast s)[i := post (a (cast s ! i))],
             trace := trace s @ map (Pair i) (calls (a (cast s ! i)))\<rparr>
      else s)"

text \<open>A method of a client, called by the script: its error is the script's.\<close>

definition perform :: "nat \<Rightarrow> ('c, 'm) act \<Rightarrow> ('c, 'e, 'm, unit) script" where
  "perform i a s =
     ((case thrown (a (cast s ! i)) of None \<Rightarrow> Value () | Some x \<Rightarrow> Raised x), act_on i a s)"

subsection \<open>Waiting\<close>

definition task :: "('e \<Rightarrow> ('c, 'm) act) \<Rightarrow> ('c, 'e, 'm) stage \<Rightarrow> nat \<times> 'e \<Rightarrow> ('c, 'e, 'm) stage" where
  "task H s t = act_on (fst t) (H (snd t)) s"

definition turn :: "('e \<Rightarrow> ('c, 'm) act) \<Rightarrow> 'e beat \<Rightarrow> ('c, 'e, 'm) stage \<Rightarrow> ('c, 'e, 'm) stage" where
  "turn H b s = (foldl (task H) s (bt_tasks b))\<lparr>clock := bt_time b\<rparr>"

text \<open>\<^verbatim>\<open>await sleep(ms)\<close>, and \<^verbatim>\<open>await fetch(..)\<close> with the status and the body of the answer.\<close>

definition next_beat :: "('e \<Rightarrow> ('c, 'm) act) \<Rightarrow> ('c, 'e, 'm, 'e beat) script" where
  "next_beat H s =
     (case agenda s of [] \<Rightarrow> (Waiting, s) | b # bs \<Rightarrow> (Value b, turn H b (s\<lparr>agenda := bs\<rparr>)))"

definition sleep :: "('e \<Rightarrow> ('c, 'm) act) \<Rightarrow> ('c, 'e, 'm, unit) script" where
  "sleep H = follow (next_beat H) (\<lambda>_. give ())"

definition fetch :: "('e \<Rightarrow> ('c, 'm) act) \<Rightarrow> ('c, 'e, 'm, nat \<times> jsval) script" where
  "fetch H = follow (next_beat H) (\<lambda>b. give (bt_status b, bt_body b))"

text \<open>An awaited promise, given as whether it is resolved.\<close>

primrec await_on ::
  "('e \<Rightarrow> ('c, 'm) act) \<Rightarrow> (('c, 'e, 'm) stage \<Rightarrow> bool) \<Rightarrow> 'e beat list \<Rightarrow> ('c, 'e, 'm, unit) script" where
  "await_on H P [] s = (if P s then Value () else Waiting, s\<lparr>agenda := []\<rparr>)"
| "await_on H P (b # bs) s =
     (if P s then (Value (), s\<lparr>agenda := b # bs\<rparr>) else await_on H P bs (turn H b s))"

definition await_until ::
  "('e \<Rightarrow> ('c, 'm) act) \<Rightarrow> (('c, 'e, 'm) stage \<Rightarrow> bool) \<Rightarrow> ('c, 'e, 'm, unit) script" where
  "await_until H P s = await_on H P (agenda s) s"

text \<open>
  The polling loops of \<open>Demo_Checks\<close> on a stage: the samples a loop reads, one per turn, and the stage
  when the loop ends.
\<close>

primrec samples ::
  "('e \<Rightarrow> ('c, 'm) act) \<Rightarrow> (('c, 'e, 'm) stage \<Rightarrow> js_error + bool) \<Rightarrow> 'e beat list \<Rightarrow> ('c, 'e, 'm) stage
   \<Rightarrow> (int \<times> (js_error + bool)) list" where
  "samples H P [] s = [(clock s, P s)]"
| "samples H P (b # bs) s = (clock s, P s) # samples H P bs (turn H b s)"

primrec poll_stage ::
  "('e \<Rightarrow> ('c, 'm) act) \<Rightarrow> int \<Rightarrow> (('c, 'e, 'm) stage \<Rightarrow> js_error + bool) \<Rightarrow> 'e beat list
   \<Rightarrow> ('c, 'e, 'm) stage \<Rightarrow> ('c, 'e, 'm) stage" where
  "poll_stage H deadline P [] s = s\<lparr>agenda := []\<rparr>"
| "poll_stage H deadline P (b # bs) s =
     (if clock s < deadline \<and> P s = Inr False then poll_stage H deadline P bs (turn H b s)
      else s\<lparr>agenda := b # bs\<rparr>)"

fun end_of :: "'a wait_end \<Rightarrow> 'a script_end" where
  "end_of (Done v) = Value v"
| "end_of (Throws x) = Raised x"
| "end_of Asleep = Waiting"

text \<open>A wait of a test file: \<open>w\<close> is its function on samples, \<open>ms\<close> its time.\<close>

definition wait_with ::
  "('e \<Rightarrow> ('c, 'm) act) \<Rightarrow> nat \<Rightarrow> (int \<Rightarrow> (int \<times> (js_error + bool)) list \<Rightarrow> 'a wait_end)
   \<Rightarrow> (('c, 'e, 'm) stage \<Rightarrow> js_error + bool) \<Rightarrow> ('c, 'e, 'm, 'a) script" where
  "wait_with H ms w P s =
     (end_of (w (clock s) (samples H P (agenda s) s)),
      poll_stage H (clock s + int ms) P (agenda s) s)"

text \<open>The same for the waits that count a timeout as a failure.\<close>

definition wait_counting ::
  "('e \<Rightarrow> ('c, 'm) act) \<Rightarrow> nat
   \<Rightarrow> (int \<Rightarrow> (int \<times> (js_error + bool)) list \<Rightarrow> nat \<Rightarrow> 'a wait_end \<times> nat)
   \<Rightarrow> (('c, 'e, 'm) stage \<Rightarrow> js_error + bool) \<Rightarrow> ('c, 'e, 'm, 'a) script" where
  "wait_counting H ms w P s =
     (let r = w (clock s) (samples H P (agenda s) s) (failures s)
      in (end_of (fst r), (poll_stage H (clock s + int ms) P (agenda s) s)\<lparr>failures := snd r\<rparr>))"

subsection \<open>Concurrent parts\<close>

text \<open>
  \<^verbatim>\<open>await Promise.all([..])\<close> over async functions. Such a function runs in pieces, from one await to the
  next. A \<open>strand\<close> gives its next piece: how far all the strands are (the number of pieces each has
  run, or none if it is finished), its own number, the answer of the request it waited for, and the
  stage decide whether it is finished, still waiting for a promise, or runs on. Its first piece runs
  when it is called.
\<close>

datatype 'p piece = Finished | Blocked | Runs 'p

type_synonym ('c, 'e, 'm) strand =
  "nat option list \<Rightarrow> nat \<Rightarrow> nat \<times> jsval \<Rightarrow> ('c, 'e, 'm) stage \<Rightarrow> ('c, 'e, 'm, unit) script piece"

definition resume ::
  "('c, 'e, 'm) strand list \<Rightarrow> nat \<times> jsval \<Rightarrow> nat \<Rightarrow> nat option list
   \<Rightarrow> ('c, 'e, 'm, nat option list) script" where
  "resume ts answer k ps s =
     (if k < length ts
      then (case ps ! k of
              None \<Rightarrow> give ps s
            | Some n \<Rightarrow>
                (case (ts ! k) ps n answer s of
                   Finished \<Rightarrow> give (ps[k := None]) s
                 | Blocked \<Rightarrow> give ps s
                 | Runs m \<Rightarrow> follow m (\<lambda>_. give (ps[k := Some (Suc n)])) s))
      else give ps s)"

primrec start_all ::
  "('c, 'e, 'm) strand list \<Rightarrow> nat list \<Rightarrow> nat option list \<Rightarrow> ('c, 'e, 'm, nat option list) script" where
  "start_all ts [] ps = give ps"
| "start_all ts (k # ks) ps = follow (resume ts (0, JUndef) k ps) (start_all ts ks)"

primrec together_on ::
  "('e \<Rightarrow> ('c, 'm) act) \<Rightarrow> ('c, 'e, 'm) strand list \<Rightarrow> 'e beat list \<Rightarrow> nat option list
   \<Rightarrow> ('c, 'e, 'm, unit) script" where
  "together_on H ts [] ps s =
     (if list_all (\<lambda>a. a = None) ps then Value () else Waiting, s\<lparr>agenda := []\<rparr>)"
| "together_on H ts (b # bs) ps s =
     (if list_all (\<lambda>a. a = None) ps then (Value (), s\<lparr>agenda := b # bs\<rparr>)
      else follow
             (case bt_resumes b of None \<Rightarrow> give ps | Some k \<Rightarrow> resume ts (bt_status b, bt_body b) k ps)
             (together_on H ts bs) (turn H b (s\<lparr>agenda := bs\<rparr>)))"

definition together ::
  "('e \<Rightarrow> ('c, 'm) act) \<Rightarrow> ('c, 'e, 'm) strand list \<Rightarrow> ('c, 'e, 'm, unit) script" where
  "together H ts =
     follow (start_all ts [0..<length ts] (replicate (length ts) (Some 0)))
       (\<lambda>ps s. together_on H ts (agenda s) ps s)"

text \<open>A loop whose rounds each end in an await: one piece per round.\<close>

definition rounds :: "('c, 'e, 'm, unit) script list \<Rightarrow> ('c, 'e, 'm) strand" where
  "rounds ms ps n answer s = (if n < length ms then Runs (ms ! n) else Finished)"

subsection \<open>Checks\<close>

definition checkS :: "string \<Rightarrow> (('c, 'e, 'm) stage \<Rightarrow> bool) \<Rightarrow> ('c, 'e, 'm, unit) script" where
  "checkS label P s =
     (let r = check label (P s) (failures s)
      in (Value (), s\<lparr>failures := post r, printed := printed s @ calls r\<rparr>))"

definition check_all :: "(string \<times> bool) list \<Rightarrow> ('c, 'e, 'm, unit) script" where
  "check_all cs s =
     (let r = checks cs (failures s)
      in (Value (), s\<lparr>failures := post r, printed := printed s @ calls r\<rparr>))"

text \<open>\<^verbatim>\<open>if (failures > 0) { .. process.exit(1) } .. process.exit(0)\<close>\<close>

definition report :: "('c, 'e, 'm, unit) script" where
  "report s = exit_with (exit_code (failures s)) s"

end
