(* ===== verification/Script_Props.thy ===== *)
theory Script_Props
  imports Demo_Script
begin

text \<open>
  How scripts run: the steps of a sequence, what a turn of the event loop keeps of a client, and what
  is known when a wait ends.
\<close>

subsection \<open>Sequencing\<close>

lemma give_eq [simp]: "give v s = (Value v, s)"
  by (simp add: give_def)

lemma look_eq [simp]: "look f s = (Value (f s), s)"
  by (simp add: look_def)

lemma follow_Value: "m s = (Value v, t) \<Longrightarrow> follow m f s = f v t"
  by (simp add: follow_def)

lemma follow_end:
  "fst (m s) = Waiting \<Longrightarrow> follow m f s = (Waiting, snd (m s))"
  "fst (m s) = Raised x \<Longrightarrow> follow m f s = (Raised x, snd (m s))"
  "fst (m s) = Exited n \<Longrightarrow> follow m f s = (Exited n, snd (m s))"
  by (cases "m s", simp add: follow_def)+

lemma follow_give [simp]: "follow (give v) f = f v"
  by (rule ext) (simp add: follow_def)

lemma perform_ok:
  "thrown (a (cast s ! i)) = None \<Longrightarrow> follow (perform i a) f s = f () (act_on i a s)"
  by (simp add: perform_def follow_def)

lemma checkS_eq:
  "checkS label P s =
     (Value (), s\<lparr>failures := (if P s then failures s else Suc (failures s)),
                 printed := printed s @ [if P s then Ok label else Fail label]\<rparr>)"
  by (simp add: checkS_def check_eq Let_def)

subsection \<open>What a turn keeps of a client\<close>

definition actor_is :: "nat \<Rightarrow> ('c \<Rightarrow> bool) \<Rightarrow> ('c, 'e, 'm) stage \<Rightarrow> bool" where
  "actor_is i Q s \<longleftrightarrow> i < length (cast s) \<and> Q (cast s ! i)"

lemma actor_is_fields [simp]:
  "actor_is i Q (s\<lparr>agenda := bs\<rparr>) = actor_is i Q s"
  "actor_is i Q (s\<lparr>clock := t\<rparr>) = actor_is i Q s"
  "actor_is i Q (s\<lparr>failures := n\<rparr>) = actor_is i Q s"
  "actor_is i Q (s\<lparr>printed := ls\<rparr>) = actor_is i Q s"
  by (simp_all add: actor_is_def)

lemma act_on_length [simp]: "length (cast (act_on i a s)) = length (cast s)"
  by (simp add: act_on_def)

lemma act_on_fields [simp]:
  "agenda (act_on i a s) = agenda s" "clock (act_on i a s) = clock s"
  "failures (act_on i a s) = failures s" "printed (act_on i a s) = printed s"
  by (simp_all add: act_on_def)

lemma act_on_nth:
  "i < length (cast s) \<Longrightarrow> cast (act_on j a s) ! i = (if j = i then post (a (cast s ! i)) else cast s ! i)"
  by (auto simp: act_on_def)

lemma actor_is_act_on:
  "actor_is i Q (act_on j a s) =
     (if j = i then i < length (cast s) \<and> Q (post (a (cast s ! i))) else actor_is i Q s)"
  by (auto simp: actor_is_def act_on_def)

lemma actor_is_tasks:
  assumes "\<And>j e. (j, e) \<in> set ts \<Longrightarrow> j = i \<Longrightarrow> preserves Q (H e)"
  shows "actor_is i Q s \<Longrightarrow> actor_is i Q (foldl (task H) s ts)"
  using assms
proof (induction ts arbitrary: s)
  case (Cons t ts)
  obtain j e where t: "t = (j, e)" by (cases t)
  have "actor_is i Q (task H s t)"
    using Cons.prems by (auto simp: t task_def act_on_nth actor_is_def preserves_def)
  with Cons show ?case by simp
qed simp

lemma actor_is_turn:
  assumes "\<And>j e. (j, e) \<in> set (bt_tasks b) \<Longrightarrow> j = i \<Longrightarrow> preserves Q (H e)"
  shows "actor_is i Q s \<Longrightarrow> actor_is i Q (turn H b s)"
  using actor_is_tasks [of "bt_tasks b" i Q H s] assms by (simp add: turn_def)

text \<open>A task of the turn that takes the client from \<open>Q\<close> to \<open>Q'\<close>, which the others keep.\<close>

lemma actor_becomes:
  assumes "\<And>j e. (j, e) \<in> set (bt_tasks b) \<Longrightarrow> j = i \<Longrightarrow> preserves Q (H e) \<and> preserves Q' (H e)"
    and "(i, e0) \<in> set (bt_tasks b)" and "\<And>c. Q c \<Longrightarrow> Q' (post (H e0 c))"
    and "actor_is i Q s"
  shows "actor_is i Q' (turn H b s)"
proof -
  from assms(2) obtain xs ys where ts: "bt_tasks b = xs @ (i, e0) # ys" by (auto dest: split_list)
  have "actor_is i Q (foldl (task H) s xs)"
    by (rule actor_is_tasks) (use assms(1,4) in \<open>auto simp: ts\<close>)
  then have "actor_is i Q' (task H (foldl (task H) s xs) (i, e0))"
    using assms(3) by (simp add: task_def act_on_nth actor_is_def)
  then have "actor_is i Q' (foldl (task H) (task H (foldl (task H) s xs) (i, e0)) ys)"
    by (rule actor_is_tasks [rotated]) (use assms(1) in \<open>auto simp: ts\<close>)
  then show ?thesis by (simp add: turn_def ts)
qed

lemma turn_fields [simp]: "failures (turn H b s) = failures s" "printed (turn H b s) = printed s"
proof -
  have "failures (foldl (task H) s ts) = failures s \<and> printed (foldl (task H) s ts) = printed s" for ts
    by (induction ts arbitrary: s) (simp_all add: task_def)
  then show "failures (turn H b s) = failures s" "printed (turn H b s) = printed s"
    by (simp_all add: turn_def)
qed

subsection \<open>Waits\<close>

lemma poll_stage_fields [simp]:
  "failures (poll_stage H d P bs s) = failures s" "printed (poll_stage H d P bs s) = printed s"
  by (induction bs arbitrary: s) simp_all

text \<open>The sample that decided a wait was read on the stage at its end.\<close>

lemma poll_True_stage: "poll d (samples H P bs s) = PollTrue \<Longrightarrow> P (poll_stage H d P bs s) = Inr True"
  if "\<And>s bs. P (s\<lparr>agenda := bs\<rparr>) = P s"
proof (induction bs arbitrary: s)
  case Nil
  then show ?case by (simp add: that split: if_splits sum.splits)
next
  case (Cons b bs)
  then show ?case by (auto simp: that split: if_splits sum.splits)
qed

lemma poll_stage_keeps:
  assumes "\<And>b t. b \<in> set bs \<Longrightarrow> Q t \<Longrightarrow> Q (turn H b t)" and "\<And>t bs. Q t \<Longrightarrow> Q (t\<lparr>agenda := bs\<rparr>)"
  shows "Q s \<Longrightarrow> Q (poll_stage H d P bs s)"
  using assms(1)
proof (induction bs arbitrary: s)
  case Nil
  then show ?case using assms(2) [of s "[]"] by simp
next
  case (Cons b bs)
  have "Q (turn H b s)" using Cons.prems by simp
  then have "Q (poll_stage H d P bs (turn H b s))" using Cons by simp
  then show ?case using assms(2) [of s "b # bs"] Cons.prems(1) by simp
qed

text \<open>A wait whose first sample is false takes a turn, or it is still waiting.\<close>

lemma poll_stage_moves:
  assumes "P s = Inr False" and "clock s < d"
    and "\<And>b t. b \<in> set bs \<Longrightarrow> Q t \<Longrightarrow> Q' (turn H b t)"
    and "\<And>b t. b \<in> set bs \<Longrightarrow> Q' t \<Longrightarrow> Q' (turn H b t)" and "\<And>t bs. Q' t \<Longrightarrow> Q' (t\<lparr>agenda := bs\<rparr>)"
    and "Q s" and "poll d (samples H P bs s) \<noteq> Polling"
  shows "Q' (poll_stage H d P bs s)"
proof (cases bs)
  case Nil
  with assms(1,2,7) show ?thesis by simp
next
  case (Cons b bs')
  have "Q' (turn H b s)" using assms(3,6) Cons by simp
  then have "Q' (poll_stage H d P bs' (turn H b s))"
    by (rule poll_stage_keeps [where Q = Q', rotated 2]) (use assms(4,5) Cons in auto)
  then show ?thesis using assms(1,2) Cons by simp
qed

end
