(* ===== verification/Demo_Peers.thy ===== *)
theory Demo_Peers
  imports Provider Demo_Consumers
begin

text \<open>
  A provider over one of the test consumers, as reliable_provider.mjs and reliable_stress.mjs make
  them: the provider's calls are carried out by the consumer, and the consumer's callbacks are the
  provider's. What the consumer's \<^verbatim>\<open>send\<close> does is \<open>put\<close>; \<open>on_msg\<close> is its message handler.

  The page of the tests is a Node process: there is no \<^verbatim>\<open>window\<close>, and \<^verbatim>\<open>JSON.stringify\<close> of the channel's
  parameters is the function \<open>stringify\<close>.
\<close>

record ('d, 'a, 'c) peer =
  pr_provider :: "('d, 'a) provider"
  pr_consumer :: 'c
  pr_soon :: "nat list"  \<comment> \<open>microtasks: the subscriptions to unsubscribe\<close>

datatype peer_call = OnWire consumer_call | ByProvider provider_call

type_synonym ('d, 'a, 'z) peer_act = "(('d, 'a, 'z consumer_scheme) peer, peer_call) act"
type_synonym 'z put = "cable_sub \<Rightarrow> jsval \<Rightarrow> 'z consumer_act"

definition sub_of :: "nat \<Rightarrow> 'z consumer_scheme \<Rightarrow> cable_sub option" where
  "sub_of k c = find (\<lambda>sub. cs_key sub = k) (subs c)"

text \<open>
  What the provider sees of its consumer during one handler: the socket and the blackhole do not
  change in it.
\<close>

definition peer_transport :: "'z put \<Rightarrow> 'z consumer_scheme \<Rightarrow> nat \<Rightarrow> jsval \<Rightarrow> transport_result" where
  "peer_transport put c k data =
     (case sub_of k c of
        None \<Rightarrow> Returned
      | Some sub \<Rightarrow> (case thrown (put sub data c) of None \<Rightarrow> Returned | Some x \<Rightarrow> Threw x))"

definition peer_env :: "'z put \<Rightarrow> 'z consumer_scheme \<Rightarrow> prov_env" where
  "peer_env put c =
     \<lparr>transport = peer_transport put c, prov_timer = 0,
      created = Inr \<lparr>sub_id = length (subs c), sub_whispers = False, sub_unsubscribes = True\<rparr>,
      listener_raises = (\<lambda>_ _. None), has_window = False\<rparr>"

text \<open>A statement of the consumer. What \<^verbatim>\<open>send\<close> throws is already the provider's error.\<close>

definition on_consumer :: "'z consumer_act \<Rightarrow> ('d, 'a, 'z) peer_act" where
  "on_consumer a p =
     (p\<lparr>pr_consumer := post (a (pr_consumer p))\<rparr>, map OnWire (calls (a (pr_consumer p))), None)"

definition new_cable_sub :: "(jsval \<Rightarrow> jsstring) \<Rightarrow> jsval \<Rightarrow> 'z consumer_scheme \<Rightarrow> cable_sub" where
  "new_cable_sub stringify spec c =
     \<lparr>cs_key = length (subs c), cs_identifier = stringify spec, cs_connected = True, cs_received = True\<rparr>"

definition on_sub :: "nat \<Rightarrow> (cable_sub \<Rightarrow> 'z consumer_act) \<Rightarrow> ('d, 'a, 'z) peer_act" where
  "on_sub k a p =
     (case sub_of k (pr_consumer p) of None \<Rightarrow> skip p | Some sub \<Rightarrow> on_consumer (a sub) p)"

fun peer_obey ::
  "'z put \<Rightarrow> (jsval \<Rightarrow> jsstring) \<Rightarrow> provider_call \<Rightarrow> ('d, 'a, 'z) peer_act" where
  "peer_obey put stringify (PSend k data) = on_sub k (\<lambda>sub. put sub data)"
| "peer_obey put stringify (PCreate spec) =
     on_consumer (\<lambda>c. create (new_cable_sub stringify spec c) c)"
| "peer_obey put stringify (PUnsubscribeSoon k) = modify (\<lambda>p. p\<lparr>pr_soon := pr_soon p @ [k]\<rparr>)"
| "peer_obey put stringify e = call (ByProvider e)"

text \<open>A statement of the provider.\<close>

definition via_provider ::
  "'z put \<Rightarrow> (jsval \<Rightarrow> jsstring) \<Rightarrow> (prov_env \<Rightarrow> ('d, 'a) prov_act) \<Rightarrow> ('d, 'a, 'z) peer_act" where
  "via_provider put stringify a p =
     (let r = a (peer_env put (pr_consumer p)) (pr_provider p)
      in block [
           modify (\<lambda>p. p\<lparr>pr_provider := post r\<rparr>),
           forA (calls r) (peer_obey put stringify),
           rethrow (thrown r)] p)"

text \<open>The callbacks the consumer's handler calls.\<close>

fun peer_callback ::
  "'z put \<Rightarrow> (jsval \<Rightarrow> jsstring) \<Rightarrow> ('d, 'a) api \<Rightarrow> consumer_call \<Rightarrow> ('d, 'a, 'z) peer_act" where
  "peer_callback put stringify A (CallConnected k) = via_provider put stringify (cb_connected A)"
| "peer_callback put stringify A (CallReceived k m) = via_provider put stringify (\<lambda>E. received A E m)"
| "peer_callback put stringify A c = call (OnWire c)"

definition peer_incoming ::
  "'z put \<Rightarrow> (jsval \<Rightarrow> 'z consumer_act) \<Rightarrow> (jsval \<Rightarrow> jsstring) \<Rightarrow> ('d, 'a) api \<Rightarrow> jsval
   \<Rightarrow> ('d, 'a, 'z) peer_act" where
  "peer_incoming put on_msg stringify A msg p =
     (let r = on_msg msg (pr_consumer p)
      in block [
           modify (\<lambda>p. p\<lparr>pr_consumer := post r\<rparr>),
           forA (calls r) (peer_callback put stringify A),
           rethrow (thrown r)] p)"

text \<open>\<^verbatim>\<open>queueMicrotask\<close>: they run when a handler is done.\<close>

definition peer_microtasks :: "('d, 'a, 'z) peer_act" where
  "peer_microtasks p =
     block [
       modify (\<lambda>p. p\<lparr>pr_soon := []\<rparr>),
       forA (pr_soon p) (\<lambda>k. on_sub k unsubscribe)] p"

text \<open>
  What happens to a peer: a message, a new state of its socket, and its resend timer, which ticks
  only while the queue holds one.
\<close>

datatype peer_event = PeerIncoming jsval | PeerSocketIs ws_state | PeerTick

definition peer_timer :: "('d, 'a, 'c) peer \<Rightarrow> timer_handle option" where
  "peer_timer p = timer (delivery (session (pr_provider p)))"

definition peer_tick :: "'z put \<Rightarrow> (jsval \<Rightarrow> jsstring) \<Rightarrow> ('d, 'a) api \<Rightarrow> ('d, 'a, 'z) peer_act" where
  "peer_tick put stringify A =
     whenA (\<lambda>p. peer_timer p \<noteq> None)
       (via_provider put stringify (\<lambda>E. on_session E (\<lambda>SE. on_delivery A (onTick (delivery_env A SE)))))"

definition peer_handle ::
  "'z put \<Rightarrow> (jsval \<Rightarrow> 'z consumer_act) \<Rightarrow> (jsval \<Rightarrow> jsstring) \<Rightarrow> ('d, 'a) api \<Rightarrow> peer_event
   \<Rightarrow> ('d, 'a, 'z) peer_act" where
  "peer_handle put on_msg stringify A e =
     block [
       tryA
         (case e of
            PeerIncoming m \<Rightarrow> peer_incoming put on_msg stringify A m
          | PeerSocketIs w \<Rightarrow> modify (\<lambda>p. p\<lparr>pr_consumer := (pr_consumer p)\<lparr>socket := w\<rparr>\<rparr>)
          | PeerTick \<Rightarrow> peer_tick put stringify A)
         (\<lambda>x. block [peer_microtasks, throw x]),
       peer_microtasks]"

subsection \<open>What a script does with a peer\<close>

definition peer_doc :: "('d, 'a, 'c) peer \<Rightarrow> 'd" where
  "peer_doc p = doc (session (pr_provider p))"

definition peer_synced :: "('d, 'a, 'c) peer \<Rightarrow> bool" where
  "peer_synced p = synced (session (pr_provider p))"

definition peer_hasPending :: "('d, 'a, 'c) peer \<Rightarrow> bool" where
  "peer_hasPending p = sess_hasPending (session (pr_provider p))"

text \<open>\<^verbatim>\<open>new ActionCableProvider(doc, consumer, "DocumentChannel", { id: ROOM }, opts)\<close>\<close>

definition peer_new ::
  "('d, 'a, 'y) runtime_scheme \<Rightarrow> jsstring \<Rightarrow> int \<Rightarrow> 'c \<Rightarrow> js_error + ('d, 'a, 'c) peer" where
  "peer_new R room interval c =
     (case new_ActionCableProvider (\<lambda>d. Inr (rt_awareness R (newDoc (rt_api R)))) (Some (newDoc (rt_api R)))
             (js ''DocumentChannel'') [(''id'', JStr room)] (JInt interval) of
        Inl x \<Rightarrow> Inl x
      | Inr p \<Rightarrow> Inr \<lparr>pr_provider = p, pr_consumer = c, pr_soon = []\<rparr>)"

definition peer_connect :: "'z put \<Rightarrow> (jsval \<Rightarrow> jsstring) \<Rightarrow> ('d, 'a, 'z) peer_act" where
  "peer_connect put stringify = via_provider put stringify prov_connect"

text \<open>An edit of the document: the origin of its transaction is not the session.\<close>

definition peer_edit ::
  "'z put \<Rightarrow> (jsval \<Rightarrow> jsstring) \<Rightarrow> ('d, 'a) api \<Rightarrow> ('d \<Rightarrow> 'd \<times> bytes list) \<Rightarrow> ('d, 'a, 'z) peer_act" where
  "peer_edit put stringify A f p =
     via_provider put stringify
       (\<lambda>E. on_session E (\<lambda>SE. doc_edit A SE (fst (f (peer_doc p))) (snd (f (peer_doc p))) (OOther 0))) p"

definition peer_setPresence ::
  "'z put \<Rightarrow> (jsval \<Rightarrow> jsstring) \<Rightarrow> ('d, 'a) api \<Rightarrow> jsval \<Rightarrow> ('d, 'a, 'z) peer_act" where
  "peer_setPresence put stringify A v = via_provider put stringify (\<lambda>E. setPresence A E v)"

text \<open>\<open>dA\<close> is \<^verbatim>\<open>awareness.destroy()\<close>.\<close>

definition peer_destroy ::
  "'z put \<Rightarrow> (jsval \<Rightarrow> jsstring) \<Rightarrow> ('d, 'a) api \<Rightarrow> ('a \<Rightarrow> 'a \<times> aw_change list) \<Rightarrow> ('d, 'a, 'z) peer_act" where
  "peer_destroy put stringify A dA = via_provider put stringify (prov_destroy A dA)"

end
