(* ===== verification/Demo_Peers_Props.thy ===== *)
theory Demo_Peers_Props
  imports Demo_Peers Provider_Props
begin

text \<open>
  A provider whose network is cut: \<open>rawConsumer\<close> with its blackhole on. One local edit waits in the
  queue, whatever else happens to the peer, every send is counted as dropped, and every tick of the
  resend timer is a send.
\<close>

subsection \<open>The queue\<close>

text \<open>A connected queue whose only entry is the update \<open>u\<close> with the number \<open>i\<close>, under a timer.\<close>

definition waiting :: "int \<Rightarrow> bytes \<Rightarrow> reliable_sync \<Rightarrow> bool" where
  "waiting i u d \<longleftrightarrow> connected d \<and> timer d \<noteq> None \<and> pending d = [\<lparr>p_seq = i, p_update = u\<rparr>]"

text \<open>The merged tail is the entry, unless the cache holds something else.\<close>

definition fresh_tail :: "bytes \<Rightarrow> reliable_sync \<Rightarrow> bool" where
  "fresh_tail u d \<longleftrightarrow> tailCache d = None \<or> tailCache d = Some u"

lemma waiting_tail: "waiting i u d \<Longrightarrow> fresh_tail u d \<Longrightarrow> snd (mergedTail E d) = Inr u"
  by (auto simp: waiting_def fresh_tail_def mergedTail_def)

lemma fresh_tail_merged: "waiting i u d \<Longrightarrow> fresh_tail u d \<Longrightarrow> fresh_tail u (fst (mergedTail E d))"
  by (auto simp: waiting_def fresh_tail_def mergedTail_def)

definition held :: "int \<Rightarrow> bytes \<Rightarrow> reliable_sync \<Rightarrow> bool" where
  "held i u d \<longleftrightarrow> waiting i u d \<and> fresh_tail u d"

lemma held_flush: "held i u d \<Longrightarrow> held i u (post (flush E d))"
  using fresh_tail_merged [of i u d E] by (auto simp: held_def waiting_def flush_post)

lemma held_flush_calls: "held i u d \<Longrightarrow> calls (flush E d) = [Send u i]"
  using waiting_tail [of i u d E] by (simp add: held_def waiting_def flush_calls)

lemma held_onConnect: "held i u d \<Longrightarrow> held i u (post (onConnect E d))"
proof -
  assume "held i u d"
  then have "held i u (post (flush E (d\<lparr>connected := True\<rparr>)))"
    by (intro held_flush) (simp add: held_def waiting_def fresh_tail_def)
  then show ?thesis
    by (auto simp: held_def waiting_def fresh_tail_def onConnect_def andThen_eq)
qed

text \<open>An acknowledgement of the entry, as the queue reads it.\<close>

definition acks :: "int \<Rightarrow> jsval \<Rightarrow> bool" where
  "acks i v \<longleftrightarrow> isSafeInteger v \<and> num_of v = of_int i"

lemma held_onAck:
  assumes "held i u d" and "\<not> acks i v"
  shows "held i u (post (onAck v d))"
proof (cases "ack_invalid v d")
  case False
  then have "isSafeInteger v" "num_of v \<le> of_int i"
    using assms(1) by (auto simp: ack_invalid_def held_def waiting_def not_less)
  then have "num_of v < of_int i" using assms(2) by (auto simp: acks_def)
  then show ?thesis
    using assms(1) False by (auto simp: onAck_def held_def waiting_def fresh_tail_def andThen_eq)
qed (use assms in \<open>simp add: onAck_def\<close>)

lemma held_enqueue:
  assumes "connected d" and "pending d = []" and "nextSeq d = i" and "sendRaises E u i = None"
  shows "held i u (post (enqueue E u d))" and "calls (enqueue E u d) =
    (if timer d = None then [SetInterval (newTimer E) (resendInterval d)] else []) @ [Send u i]"
    and "thrown (enqueue E u d) = None"
proof -
  let ?d = "(push_pending u d)\<lparr>tailCache := None\<rparr>"
  let ?t = "post (startTimer E ?d)"
  have held: "held i u ?t"
    using assms by (auto simp: held_def waiting_def fresh_tail_def push_pending_def)
  have "enqueue E u d = (post (flush E ?t), calls (startTimer E ?d) @ calls (flush E ?t), thrown (flush E ?t))"
    using assms(1) by (simp add: enqueue_def andThen_eq push_pending_def)
  moreover have "thrown (flush E ?t) = None"
    using waiting_tail [of i u ?t E] held assms(4)
    by (simp add: flush_thrown held_def waiting_def)
  moreover have "calls (startTimer E ?d) =
      (if timer d = None then [SetInterval (newTimer E) (resendInterval d)] else [])"
    by (simp add: startTimer_def push_pending_def split: option.split)
  ultimately show "held i u (post (enqueue E u d))" and "thrown (enqueue E u d) = None"
    and "calls (enqueue E u d) =
      (if timer d = None then [SetInterval (newTimer E) (resendInterval d)] else []) @ [Send u i]"
    using held_flush [OF held] held_flush_calls [OF held] by simp_all
qed


subsection \<open>The peer\<close>

text \<open>\<open>L\<close> is the subscription the provider holds and the object the consumer made for it.\<close>

definition attached :: "subscription \<times> cable_sub \<Rightarrow> ('d, 'a, 'z consumer_scheme) peer \<Rightarrow> bool" where
  "attached L p \<longleftrightarrow>
     prov_sub (pr_provider p) = Some (fst L) \<and> \<not> sub_whispers (fst L)
     \<and> sub_of (sub_id (fst L)) (pr_consumer p) = Some (snd L)
     \<and> find_sub (JStr (cs_identifier (snd L))) (pr_consumer p) = Some (snd L) \<and> cs_received (snd L)"

text \<open>The network is cut, at least \<open>k\<close> frames are lost, and the edit waits.\<close>

definition cut_off :: "subscription \<times> cable_sub \<Rightarrow> nat \<Rightarrow> int \<Rightarrow> bytes \<Rightarrow> ('d, 'a, 'z consumer_scheme) peer \<Rightarrow> bool" where
  "cut_off L k i u p \<longleftrightarrow>
     blackhole (pr_consumer p) \<and> k \<le> dropped (pr_consumer p) \<and> attached L p
     \<and> held i u (delivery (session (pr_provider p)))"

lemma cut_off_mono: "cut_off L k i u p \<Longrightarrow> j \<le> k \<Longrightarrow> cut_off L j i u p"
  by (simp add: cut_off_def)

lemma blackholed_put:
  "blackhole c \<Longrightarrow> raw_sub_send sub data c = (c\<lparr>dropped := dropped c + 1\<rparr>, [], None)"
  by (simp add: raw_sub_send_def)

lemma blackholed_transport: "blackhole c \<Longrightarrow> transport (peer_env raw_sub_send c) k data = Returned"
  by (simp add: peer_env_def peer_transport_def blackholed_put split: option.split)

lemma sub_of_update [simp]:
  "sub_of k (c\<lparr>dropped := n\<rparr>) = sub_of k c"
  "sub_of k (c\<lparr>blackhole := b\<rparr>) = sub_of k c"
  "sub_of k (c\<lparr>socket := w\<rparr>) = sub_of k c"
  by (simp_all add: sub_of_def)

lemma find_sub_update [simp]:
  "find_sub k (c\<lparr>dropped := n\<rparr>) = find_sub k c"
  "find_sub k (c\<lparr>blackhole := b\<rparr>) = find_sub k c"
  "find_sub k (c\<lparr>socket := w\<rparr>) = find_sub k c"
  by (simp_all add: find_sub_def)

text \<open>What keeps the network cut and the subscriptions, and loses no count.\<close>

definition calm :: "'z consumer_act \<Rightarrow> bool" where
  "calm a \<longleftrightarrow> (\<forall>c. blackhole c \<longrightarrow>
     blackhole (post (a c)) \<and> dropped c \<le> dropped (post (a c))
     \<and> (\<exists>new. subs (post (a c)) = subs c @ new))"

lemma calm_wire: "calm (wire c)"
  by (simp add: calm_def wire_def split: ws_state.split)

lemma calm_put: "calm (raw_sub_send sub data)"
  by (simp add: calm_def blackholed_put)

lemma calm_create: "calm (\<lambda>c. create (new_cable_sub J spec c) c)"
proof -
  have w: "post (wire c s) = s" for c and s :: "'a consumer_scheme"
    by (simp add: wire_def split: ws_state.split)
  show ?thesis by (auto simp: calm_def create_def andThen_eq subscribe_def w)
qed

lemma sub_of_more: "subs c' = subs c @ new \<Longrightarrow> sub_of k c = Some cs \<Longrightarrow> sub_of k c' = Some cs"
  by (simp add: sub_of_def find_append_Some)

lemma find_sub_more: "subs c' = subs c @ new \<Longrightarrow> find_sub v c = Some cs \<Longrightarrow> find_sub v c' = Some cs"
  by (simp add: find_sub_def find_append_Some)

lemma cut_off_consumer: "calm a \<Longrightarrow> cut_off L k i u p \<Longrightarrow> cut_off L k i u (post (on_consumer a p))"
proof -
  assume a: "calm a" and p: "cut_off L k i u p"
  let ?c = "pr_consumer p"
  obtain new where new: "subs (post (a ?c)) = subs ?c @ new"
    and "blackhole (post (a ?c))" "dropped ?c \<le> dropped (post (a ?c))"
    using a p by (auto simp: calm_def cut_off_def)
  with p sub_of_more [OF new] find_sub_more [OF new] show ?thesis
    by (simp add: cut_off_def attached_def on_consumer_def)
qed

lemma cut_off_on_sub: "(\<And>sub. calm (a sub)) \<Longrightarrow> cut_off L k i u p \<Longrightarrow> cut_off L k i u (post (on_sub n a p))"
  by (auto simp: on_sub_def cut_off_consumer split: option.split)

lemma cut_off_soon [simp]: "cut_off L k i u (p\<lparr>pr_soon := ks\<rparr>) = cut_off L k i u p"
  by (simp add: cut_off_def attached_def)

lemma cut_off_obey: "preserves (cut_off L k i u) (peer_obey raw_sub_send J c)"
proof (rule preservesI)
  fix p
  assume "cut_off L k i u p"
  then show "cut_off L k i u (post (peer_obey raw_sub_send J c p))"
    by (cases c) (auto intro: cut_off_on_sub cut_off_consumer calm_put calm_create)
qed

lemma preserves_rethrow: "preserves I (rethrow x)"
  by (simp add: rethrow_def split: option.split)

text \<open>
  A statement of the provider that keeps its subscription and the waiting edit, on whatever it is told
  by the transport.
\<close>

definition patient :: "int \<Rightarrow> bytes \<Rightarrow> (prov_env \<Rightarrow> ('d, 'a) prov_act) \<Rightarrow> bool" where
  "patient i u a \<longleftrightarrow> (\<forall>E p. held i u (delivery (session p)) \<longrightarrow>
     prov_sub (post (a E p)) = prov_sub p \<and> held i u (delivery (session (post (a E p)))))"

lemma cut_off_provider:
  assumes "patient i u a"
  shows "preserves (cut_off L k i u) (via_provider raw_sub_send J a)"
proof (rule preservesI)
  fix p :: "('a, 'b, 'c consumer_scheme) peer"
  assume p: "cut_off L k i u p"
  let ?r = "a (peer_env raw_sub_send (pr_consumer p)) (pr_provider p)"
  have "cut_off L k i u (p\<lparr>pr_provider := post ?r\<rparr>)"
    using assms p by (auto simp: patient_def cut_off_def attached_def)
  moreover have "preserves (cut_off L k i u) (block [forA (calls ?r) (peer_obey raw_sub_send J), rethrow (thrown ?r)])"
    by (intro preserves_block_Cons preserves_block_Nil preserves_forA cut_off_obey preserves_rethrow)
  ultimately show "cut_off L k i u (post (via_provider raw_sub_send J a p))"
    unfolding via_provider_def Let_def block_modify by (rule preservesD [rotated])
qed

lemma patient_tick: "patient i u (\<lambda>E. on_session E (\<lambda>SE. on_delivery A (onTick (delivery_env A SE))))"
  by (simp add: patient_def on_delivery_eq onTick_eq held_flush)

lemma delivery_onConnect:
  "\<exists>DE. delivery (post (sess_onConnect A E s)) \<in> {delivery s, post (onConnect DE (delivery s))}"
  by (auto simp: sess_onConnect_def andThen_eq sess_send_def send_presence_def on_delivery_eq
      split: option.split)

lemma patient_connected: "patient i u (cb_connected A)"
proof -
  have "held i u (delivery (post (sess_onConnect A E s)))" if "held i u (delivery s)" for E s
    using delivery_onConnect [of A E s] that held_onConnect by auto
  then show ?thesis
    by (simp add: patient_def cb_connected_def andThen_eq refreshStatus_post)
qed

lemma received_sub: "prov_sub (post (received A E m p)) = prov_sub p"
  by (auto simp: received_def deliver_frame_eq Let_def refreshStatus_post
      split: option.split sum.split jsval.split)

lemma patient_received:
  assumes "\<And>v. msg_ack m = Some v \<Longrightarrow> \<not> acks i v"
  shows "patient i u (\<lambda>E. received A E m)"
  using assms by (auto simp: patient_def received_sub received_queue held_onAck split: option.split)

text \<open>A message of the cable that carries an acknowledgement of the entry.\<close>

definition cable_acks :: "int \<Rightarrow> peer_event \<Rightarrow> bool" where
  "cable_acks i e \<longleftrightarrow>
     (\<exists>msg m v. e = PeerIncoming msg \<and> js_get msg ''message'' = Inr m \<and> msg_ack m = Some v \<and> acks i v)"

lemma calm_on_welcome: "calm on_welcome"
proof -
  have "post (forA ss subscribe s) = s" for ss and s :: "'a consumer_scheme"
    by (induction ss) (auto simp: andThen_eq subscribe_def wire_def split: ws_state.split)
  then show ?thesis by (simp add: calm_def on_welcome_def andThen_eq)
qed

lemma on_confirm_same: "post (on_confirm i s) = s"
  by (simp add: on_confirm_def split: option.split)

lemma calm_raw_onmessage: "calm (raw_onmessage msg)"
  using calm_on_welcome
  by (auto simp: raw_onmessage_def on_cable_def calm_def on_confirm_same deliver_same split: sum.split)

lemma raw_onmessage_calls:
  "c \<in> set (calls (raw_onmessage msg s)) \<Longrightarrow> c = CallReceived k m \<Longrightarrow> js_get msg ''message'' = Inr m"
proof -
  have w: "CallReceived k m \<notin> set (calls (forA ss subscribe s))" for ss and s :: "'a consumer_scheme"
    by (induction ss) (auto simp: andThen_eq subscribe_def wire_def split: ws_state.split)
  show "c \<in> set (calls (raw_onmessage msg s)) \<Longrightarrow> c = CallReceived k m \<Longrightarrow> js_get msg ''message'' = Inr m"
    using w by (auto simp: raw_onmessage_def on_cable_def on_welcome_def on_confirm_def deliver_calls andThen_eq
        split: sum.splits if_splits option.splits)
qed

lemma cut_off_callback:
  assumes "\<And>k m v. c = CallReceived k m \<Longrightarrow> msg_ack m = Some v \<Longrightarrow> \<not> acks i v"
  shows "preserves (cut_off L k i u) (peer_callback raw_sub_send J A c)"
  using assms by (cases c) (simp_all add: cut_off_provider patient_connected patient_received)

lemma cut_off_incoming:
  assumes "\<not> cable_acks i (PeerIncoming msg)"
  shows "preserves (cut_off L k i u) (peer_incoming raw_sub_send raw_onmessage J A msg)"
proof (rule preservesI)
  fix p :: "('a, 'b, 'c consumer_scheme) peer"
  assume p: "cut_off L k i u p"
  let ?r = "raw_onmessage msg (pr_consumer p)"
  have "preserves (cut_off L k i u) (peer_callback raw_sub_send J A c)" if "c \<in> set (calls ?r)" for c
    using assms raw_onmessage_calls [OF that] by (intro cut_off_callback) (auto simp: cable_acks_def)
  then have "preserves (cut_off L k i u) (block [forA (calls ?r) (peer_callback raw_sub_send J A), rethrow (thrown ?r)])"
    by (intro preserves_block_Cons preserves_block_Nil preserves_forA_set preserves_rethrow)
  moreover have "cut_off L k i u (p\<lparr>pr_consumer := post ?r\<rparr>)"
    using cut_off_consumer [OF calm_raw_onmessage p, of msg] by (simp add: on_consumer_def)
  ultimately show "cut_off L k i u (post (peer_incoming raw_sub_send raw_onmessage J A msg p))"
    unfolding peer_incoming_def Let_def block_modify by (rule preservesD)
qed

lemma cut_off_microtasks: "preserves (cut_off L k i u) peer_microtasks"
proof (rule preservesI)
  fix p :: "('a, 'b, 'c consumer_scheme) peer"
  assume p: "cut_off L k i u p"
  have "preserves (cut_off L k i u) (forA (pr_soon p) (\<lambda>k. on_sub k unsubscribe))"
    by (intro preserves_forA preservesI cut_off_on_sub) (simp_all add: unsubscribe_def calm_wire)
  from preservesD [OF this, of "p\<lparr>pr_soon := []\<rparr>"] p show "cut_off L k i u (post (peer_microtasks p))"
    by (simp add: peer_microtasks_def andThen_eq)
qed

lemma cut_off_tick: "preserves (cut_off L k i u) (peer_tick raw_sub_send J A)"
  unfolding peer_tick_def by (intro preserves_whenA cut_off_provider patient_tick)

lemma cut_off_handle:
  assumes "\<not> cable_acks i e"
  shows "preserves (cut_off L k i u) (peer_handle raw_sub_send raw_onmessage J A e)"
proof -
  have "preserves (cut_off L k i u)
      (case e of PeerIncoming m \<Rightarrow> peer_incoming raw_sub_send raw_onmessage J A m
       | PeerSocketIs w \<Rightarrow> modify (\<lambda>p. p\<lparr>pr_consumer := (pr_consumer p)\<lparr>socket := w\<rparr>\<rparr>)
       | PeerTick \<Rightarrow> peer_tick raw_sub_send J A)"
    using assms
    by (cases e) (auto simp: cut_off_tick cut_off_incoming intro!: preserves_modify, simp add: cut_off_def attached_def)
  then show ?thesis unfolding peer_handle_def
    by (intro preserves_block_Cons preserves_block_Nil preserves_tryA cut_off_microtasks preserves_throw)
qed


subsection \<open>Counting the sends\<close>

lemma held_session_sends:
  assumes "prov_sub p = Some sub" and "\<not> sub_whispers sub"
    and "\<And>n m. transport E n m = Returned"
  shows "session_calls E p (SSend f i) = [PSend (sub_id sub) (update_envelope (b64_of f) i)]"
  using assms by (simp add: prov_send_eq send_trace_def cable_call_def)

lemma obey_no_throw: "thrown (peer_obey put J (PSend n data) p) = None"
  by (simp add: on_sub_def on_consumer_def split: option.split)

lemma obey_send:
  assumes "blackhole (pr_consumer p)" and "sub_of n (pr_consumer p) = Some cs"
  shows "peer_obey raw_sub_send J (PSend n data) p =
    (p\<lparr>pr_consumer := (pr_consumer p)\<lparr>dropped := dropped (pr_consumer p) + 1\<rparr>\<rparr>, [], None)"
  using assms by (simp add: on_sub_def on_consumer_def blackholed_put)

lemma cut_off_sent:
  assumes "cut_off L k i u p" and "prov_sub (pr_provider p) = Some sub"
  shows "cut_off L (Suc k) i u (post (peer_obey raw_sub_send J (PSend (sub_id sub) data) p))"
proof -
  from assms obtain cs where "sub_of (sub_id sub) (pr_consumer p) = Some cs"
    by (auto simp: cut_off_def attached_def)
  with assms show ?thesis
    by (subst obey_send [of p _ cs]) (auto simp: cut_off_def attached_def)
qed

lemma cut_off_ticks:
  assumes p: "cut_off L k i u p"
  shows "cut_off L (Suc k) i u (post (peer_handle raw_sub_send raw_onmessage J A PeerTick p))"
proof -
  let ?a = "\<lambda>E. on_session E (\<lambda>SE. on_delivery A (onTick (delivery_env A SE)))"
  let ?E = "peer_env raw_sub_send (pr_consumer p)"
  let ?r = "?a ?E (pr_provider p)"
  from p obtain sub where sub: "prov_sub (pr_provider p) = Some sub" "\<not> sub_whispers sub"
    by (auto simp: cut_off_def attached_def)
  have b: "blackhole (pr_consumer p)" and h: "held i u (delivery (session (pr_provider p)))"
    using p by (auto simp: cut_off_def)
  have calls: "calls ?r = [PSend (sub_id sub) (update_envelope (b64_of (frameUpdate A u)) (Some i))]"
    using held_session_sends [OF sub blackholed_transport [OF b]] held_flush_calls [OF h]
    by (simp add: on_session_eq on_delivery_eq onTick_eq)
  have q: "cut_off L k i u (p\<lparr>pr_provider := post ?r\<rparr>)"
    using patient_tick [of i u A] p h by (auto simp: patient_def cut_off_def attached_def)
  have "cut_off L (Suc k) i u (post (peer_obey raw_sub_send J
      (PSend (sub_id sub) (update_envelope (b64_of (frameUpdate A u)) (Some i))) (p\<lparr>pr_provider := post ?r\<rparr>)))"
    by (rule cut_off_sent [OF q]) (simp add: sub)
  from preservesD [where I = "cut_off L (Suc k) i u", OF preserves_rethrow this, of "thrown ?r"]
  have "cut_off L (Suc k) i u (post (via_provider raw_sub_send J ?a p))"
    unfolding via_provider_def Let_def block_modify calls
    by (simp add: andThen_eq obey_no_throw del: peer_obey.simps)
  moreover have "peer_timer p \<noteq> None" using h by (simp add: peer_timer_def held_def waiting_def)
  ultimately have tick: "cut_off L (Suc k) i u (post (peer_tick raw_sub_send J A p))"
    by (simp add: peer_tick_def)
  have "preserves (cut_off L (Suc k) i u) peer_microtasks" by (rule cut_off_microtasks)
  with tick show ?thesis
    by (auto simp: peer_handle_def tryA_eq andThen_eq preserves_def split: option.split)
qed

text \<open>A peer on a live connection with nothing unacked.\<close>

definition online :: "subscription \<times> cable_sub \<Rightarrow> int \<Rightarrow> ('d, 'a, 'z consumer_scheme) peer \<Rightarrow> bool" where
  "online L i p \<longleftrightarrow>
     attached L p \<and> doc_listener (session (pr_provider p))
     \<and> connected (delivery (session (pr_provider p))) \<and> pending (delivery (session (pr_provider p))) = []
     \<and> nextSeq (delivery (session (pr_provider p))) = i"

lemma edit_session:
  assumes "doc_listener (session p)" and "connected (delivery (session p))"
    and "pending (delivery (session p)) = []" and "nextSeq (delivery (session p)) = i"
  shows "held i u (delivery (session (post (on_session E (\<lambda>SE. doc_edit A SE d [u] (OOther 0)) p))))"
    and "\<exists>cs. set cs \<subseteq> range (\<lambda>(h, ms). SSetInterval h ms) \<and>
      calls (on_session E (\<lambda>SE. doc_edit A SE d [u] (OOther 0)) p) =
        concat (map (session_calls E p) (cs @ [SSend (frameUpdate A u) (Some i)]))"
    and "thrown (on_session E (\<lambda>SE. doc_edit A SE d [u] (OOther 0)) p) = None"
proof -
  let ?DE = "delivery_env A (session_env E p)"
  have e: "doc_edit A (session_env E p) d [u] (OOther 0) (session p) =
      (let r = enqueue ?DE u (delivery (session p))
       in ((session p)\<lparr>doc := d, delivery := post r\<rparr>, concat (map (delivery_call A) (calls r)), thrown r))"
    using assms(1) by (simp add: doc_edit_def andThen_eq emit_doc_def onDocUpdate_def on_delivery_eq Let_def)
  note q = held_enqueue [OF assms(2-4), of ?DE u]
  have "sendRaises ?DE u i = None" by simp
  note q = q [OF this]
  show "held i u (delivery (session (post (on_session E (\<lambda>SE. doc_edit A SE d [u] (OOther 0)) p))))"
    using q(1) by (simp add: e Let_def)
  show "thrown (on_session E (\<lambda>SE. doc_edit A SE d [u] (OOther 0)) p) = None"
    using q(3) by (simp add: e Let_def)
  show "\<exists>cs. set cs \<subseteq> range (\<lambda>(h, ms). SSetInterval h ms) \<and>
      calls (on_session E (\<lambda>SE. doc_edit A SE d [u] (OOther 0)) p) =
        concat (map (session_calls E p) (cs @ [SSend (frameUpdate A u) (Some i)]))"
    by (rule exI [of _ "concat (map (delivery_call A) (if timer (delivery (session p)) = None
          then [SetInterval (newTimer ?DE) (resendInterval (delivery (session p)))] else []))"])
      (auto simp: on_session_eq e q(2) Let_def)
qed

lemma edit_cut_off:
  assumes o': "online L i p" and b: "blackhole (pr_consumer p)" and f: "f (peer_doc p) = (d, [u])"
  shows "cut_off L (Suc (dropped (pr_consumer p))) i u (post (peer_edit raw_sub_send J A f p))"
    and "thrown (peer_edit raw_sub_send J A f p) = None"
proof -
  let ?E = "peer_env raw_sub_send (pr_consumer p)"
  let ?a = "\<lambda>E. on_session E (\<lambda>SE. doc_edit A SE d [u] (OOther 0))"
  let ?q = "p\<lparr>pr_provider := post (?a ?E (pr_provider p))\<rparr>"
  note o = o' [unfolded online_def]
  from o obtain sub where sub: "prov_sub (pr_provider p) = Some sub" "\<not> sub_whispers sub"
    by (auto simp: attached_def)
  note e = edit_session [of "pr_provider p" i, where E = ?E and A = A and d = d and u = u]
  from e(2) o obtain cs where cs: "set cs \<subseteq> range (\<lambda>(h, ms). SSetInterval h ms)"
    "calls (?a ?E (pr_provider p)) = concat (map (session_calls ?E (pr_provider p)) (cs @ [SSend (frameUpdate A u) (Some i)]))"
    by auto
  let ?m = "PSend (sub_id sub) (update_envelope (b64_of (frameUpdate A u)) (Some i))"
  have "concat (map (session_calls ?E (pr_provider p)) cs) = map (\<lambda>c. case c of SSetInterval h ms \<Rightarrow> PSetInterval h ms) cs"
    using cs(1) by (induction cs) auto
  with cs(2) held_session_sends [OF sub blackholed_transport [OF b]]
  have calls: "calls (?a ?E (pr_provider p)) = map (\<lambda>c. case c of SSetInterval h ms \<Rightarrow> PSetInterval h ms) cs @ [?m]"
    by simp
  have timers: "forA (map (\<lambda>c. case c of SSetInterval h ms \<Rightarrow> PSetInterval h ms) cs @ [?m]) (peer_obey raw_sub_send J) r =
      (post (peer_obey raw_sub_send J ?m r),
       map (\<lambda>c. case c of SSetInterval h ms \<Rightarrow> ByProvider (PSetInterval h ms)) cs @ calls (peer_obey raw_sub_send J ?m r),
       thrown (peer_obey raw_sub_send J ?m r))" for r
    using cs(1) by (induction cs) (auto simp: andThen_eq simp del: peer_obey.simps(1))
  have q: "cut_off L (dropped (pr_consumer p)) i u ?q"
    using e(1) o b by (auto simp: cut_off_def attached_def)
  have qs: "prov_sub (pr_provider ?q) = Some sub" using sub by simp
  have r: "peer_edit raw_sub_send J A f p = via_provider raw_sub_send J ?a p"
    by (simp add: peer_edit_def f)
  have t: "thrown (?a ?E (pr_provider p)) = None" using e(3) o by simp
  show "cut_off L (Suc (dropped (pr_consumer p))) i u (post (peer_edit raw_sub_send J A f p))"
    unfolding r via_provider_def Let_def block_modify calls t
    using cut_off_sent [OF q qs, of J] by (simp add: andThen_eq timers obey_no_throw rethrow_def del: peer_obey.simps)
  show "thrown (peer_edit raw_sub_send J A f p) = None"
    unfolding r via_provider_def Let_def calls t
    by (simp add: andThen_eq timers obey_no_throw rethrow_def del: peer_obey.simps)
qed


subsection \<open>The provider behind the calls\<close>

lemma obey_provider [simp]: "pr_provider (post (peer_obey put J c p)) = pr_provider p"
  by (cases c) (simp_all add: on_sub_def on_consumer_def split: option.split)

lemma forA_obey_provider: "pr_provider (post (forA cs (peer_obey put J) p)) = pr_provider p"
  by (induction cs arbitrary: p) (simp_all add: andThen_eq)

lemma via_provider_provider:
  "pr_provider (post (via_provider put J a p)) = post (a (peer_env put (pr_consumer p)) (pr_provider p))"
  by (simp add: via_provider_def Let_def andThen_eq rethrow_def forA_obey_provider split: option.split)

lemma microtasks_provider:
  fixes p :: "('d, 'a, 'z consumer_scheme) peer"
  shows "pr_provider (post (peer_microtasks p)) = pr_provider p"
proof -
  have "pr_provider (post (forA ks (\<lambda>k. on_sub k a) q)) = pr_provider q"
    for ks a and q :: "('d, 'a, 'z consumer_scheme) peer"
    by (induction ks arbitrary: q) (simp_all add: andThen_eq on_sub_def on_consumer_def split: option.split)
  then show ?thesis by (simp add: peer_microtasks_def andThen_eq)
qed

lemma peer_handle_provider:
  "pr_provider (post (peer_handle put on_msg J A e p)) =
     pr_provider (post ((case e of
       PeerIncoming m \<Rightarrow> peer_incoming put on_msg J A m
     | PeerSocketIs w \<Rightarrow> modify (\<lambda>p. p\<lparr>pr_consumer := (pr_consumer p)\<lparr>socket := w\<rparr>\<rparr>)
     | PeerTick \<Rightarrow> peer_tick put J A) p))"
  unfolding peer_handle_def block.simps andThen_skip
  by (simp only: andThen_eq tryA_eq microtasks_provider throw_simps block.simps fst_conv snd_conv
      option.case_eq_if if_distrib [of fst] if_distrib [of pr_provider] if_cancel split: if_split)

subsection \<open>The connection returns\<close>

text \<open>The wire is open, and the edit waits.\<close>

definition reconnected :: "subscription \<times> cable_sub \<Rightarrow> int \<Rightarrow> bytes \<Rightarrow> ('d, 'a, 'z consumer_scheme) peer \<Rightarrow> bool" where
  "reconnected L i u p \<longleftrightarrow>
     \<not> blackhole (pr_consumer p) \<and> socket (pr_consumer p) = WsOpen \<and> attached L p
     \<and> held i u (delivery (session (pr_provider p)))"

lemma open_put:
  "\<not> blackhole c \<Longrightarrow> socket c = WsOpen \<Longrightarrow>
   raw_sub_send cs data c = (c, [WireMessage (cs_identifier cs) data], None)"
  by (simp add: raw_sub_send_def wire_def)

lemma open_transport:
  "\<not> blackhole c \<Longrightarrow> socket c = WsOpen \<Longrightarrow> transport (peer_env raw_sub_send c) k data = Returned"
  by (simp add: peer_env_def peer_transport_def open_put split: option.split)

lemma reconnected_tick:
  fixes A :: "('d, 'a) api" and p :: "('d, 'a, 'z consumer_scheme) peer"
  assumes p: "reconnected (sub, cs) i u p"
  shows "calls (peer_tick raw_sub_send J A p) =
      [OnWire (WireMessage (cs_identifier cs) (update_envelope (b64_of (frameUpdate A u)) (Some i)))]"
    and "held i u (delivery (session (pr_provider (post (peer_tick raw_sub_send J A p)))))"
    and "pr_consumer (post (peer_tick raw_sub_send J A p)) = pr_consumer p"
proof -
  let ?a = "\<lambda>E. on_session E (\<lambda>SE. on_delivery A (onTick (delivery_env A SE))) :: ('d, 'a) prov_act"
  let ?c = "pr_consumer p"
  let ?r = "?a (peer_env raw_sub_send ?c) (pr_provider p)"
  note d = p [unfolded reconnected_def attached_def fst_conv snd_conv]
  have h: "held i u (delivery (session (pr_provider p)))" using d by simp
  have t: "\<And>n m. transport (peer_env raw_sub_send ?c) n m = Returned" using d by (intro open_transport) simp_all
  have sent: "calls ?r = [PSend (sub_id sub) (update_envelope (b64_of (frameUpdate A u)) (Some i))]"
    using held_session_sends [of "pr_provider p" sub, OF _ _ t] held_flush_calls [OF h] d
    by (simp add: on_session_eq on_delivery_eq onTick_eq)
  have thrown: "thrown ?r = None"
    using waiting_tail [of i u "delivery (session (pr_provider p))"] h
    by (simp add: on_delivery_eq onTick_eq flush_thrown held_def waiting_def)
  have timer: "peer_timer p \<noteq> None" using h by (simp add: peer_timer_def held_def waiting_def)
  then have tick: "peer_tick raw_sub_send J A p = via_provider raw_sub_send J ?a p"
    by (simp add: peer_tick_def)
  show "calls (peer_tick raw_sub_send J A p) =
      [OnWire (WireMessage (cs_identifier cs) (update_envelope (b64_of (frameUpdate A u)) (Some i)))]"
    and "pr_consumer (post (peer_tick raw_sub_send J A p)) = pr_consumer p"
    using d unfolding tick via_provider_def Let_def sent thrown
    by (simp_all add: andThen_eq on_sub_def on_consumer_def open_put rethrow_def)
  show "held i u (delivery (session (pr_provider (post (peer_tick raw_sub_send J A p)))))"
    using patient_tick [of i u A] h by (simp add: tick via_provider_provider patient_def)
qed

definition ack_message :: "jsstring \<Rightarrow> int \<Rightarrow> jsval" where
  "ack_message identifier i =
     JObj [(''identifier'', JStr identifier), (''message'', JObj [(''ack'', JInt i)])]"

lemma held_acked: "held i u d \<Longrightarrow> 0 \<le> i \<Longrightarrow> i \<le> max_safe_integer \<Longrightarrow> pending (post (onAck (JInt i) d)) = []"
  by (simp add: onAck_def ack_invalid_def held_def waiting_def andThen_eq)

lemma acked_drains:
  assumes "held i u (delivery (session (pr_provider p)))" and "0 \<le> i" and "i \<le> max_safe_integer"
    and "find_sub (JStr identifier) (pr_consumer p) = Some cs" and "cs_received cs"
  shows "\<not> peer_hasPending (post (peer_handle raw_sub_send raw_onmessage J A (PeerIncoming (ack_message identifier i)) p))"
proof -
  let ?m = "ack_message identifier i" and ?ack = "JObj [(''ack'', JInt i)]"
  have msg: "raw_onmessage ?m (pr_consumer p) = (pr_consumer p, [CallReceived (cs_key cs) ?ack], None)"
    using assms(4,5)
    by (simp add: raw_onmessage_def on_cable_def ack_message_def js_def deliver_def)
  have "pr_provider (post (peer_incoming raw_sub_send raw_onmessage J A ?m p)) =
      post (received A (peer_env raw_sub_send (pr_consumer p)) ?ack (pr_provider p))"
    by (simp add: peer_incoming_def msg Let_def andThen_eq rethrow_def via_provider_provider)
  then show ?thesis
    using held_acked [OF assms(1-3)]
    by (simp add: peer_hasPending_def sess_hasPending_def hasPending_def peer_handle_provider received_queue
        msg_ack_def)
qed

end
