(* ===== verification/Demo_Scenarios.thy ===== *)
theory Demo_Scenarios
  imports Demo_Script Demo_Verdicts Reliable_Client_Props
begin

text \<open>
  The scripts of the test files whose clients are raw WebSocket clients, one section per file. A
  client's part in a script is what the script calls on it; what arrives at it is the agenda's.
\<close>

subsection \<open>What the scripts share\<close>

text \<open>
  The events of a raw client: a message, a new state of its socket, and the timer of \<^verbatim>\<open>close\<close>.
\<close>

datatype raw_event = Incoming jsval | SocketIs ws_state | CloseTimer

definition raw_handle ::
  "(jsval \<Rightarrow> ('d, 'a, 'z) raw_act) \<Rightarrow> raw_event \<Rightarrow> ('d, 'a, 'z) raw_act" where
  "raw_handle onMessage e =
     (case e of
        Incoming m \<Rightarrow> onMessage m
      | SocketIs w \<Rightarrow> modify (\<lambda>s. s\<lparr>c_ws := w\<rparr>)
      | CloseTimer \<Rightarrow> ws_close)"

text \<open>A promise of a client that was made when the trace had length \<open>k\<close>.\<close>

definition resolved_since :: "nat \<Rightarrow> nat \<Rightarrow> string \<Rightarrow> ('c, 'e, raw_call) stage \<Rightarrow> bool" where
  "resolved_since k i name s \<longleftrightarrow> (i, Resolve name) \<in> set (drop k (trace s))"

definition subscribed :: "nat \<Rightarrow> ('c, 'e, raw_call) stage \<Rightarrow> bool" where
  "subscribed i = resolved_since 0 i ''subscribed''"

text \<open>\<^verbatim>\<open>await Promise.all(clients.map((c) => c.subscribed))\<close>\<close>

definition all_subscribed :: "nat list \<Rightarrow> ('c, 'e, raw_call) stage \<Rightarrow> bool" where
  "all_subscribed cs s \<longleftrightarrow> list_all (\<lambda>i. subscribed i s) cs"

abbreviation actor :: "nat \<Rightarrow> ('c, 'e, 'm) stage \<Rightarrow> 'c" where
  "actor i s \<equiv> cast s ! i"

text \<open>server_read.mjs over a request.\<close>

definition read_serverDoc ::
  "('e \<Rightarrow> ('c, 'm) act) \<Rightarrow> ('d, 'a, 'y) runtime_scheme \<Rightarrow> ('c, 'e, 'm, nat \<times> 'd option) script" where
  "read_serverDoc H R =
     follow (fetch H) (\<lambda>(status, body). value_or_throw (\<lambda>_. serverDoc R status body))"

definition read_serverText ::
  "('e \<Rightarrow> ('c, 'm) act) \<Rightarrow> ('d, 'a, 'y) runtime_scheme \<Rightarrow> ('c, 'e, 'm, jsstring) script" where
  "read_serverText H R =
     follow (fetch H) (\<lambda>(status, body). value_or_throw (\<lambda>_. serverText R status body))"

text \<open>\<^verbatim>\<open>(await (await fetch(..)).json()).count\<close>, and the number it is compared as.\<close>

definition read_count :: "('e \<Rightarrow> ('c, 'm) act) \<Rightarrow> ('c, 'e, 'm, jsval) script" where
  "read_count H = follow (fetch H) (\<lambda>(status, body). value_or_throw (\<lambda>_. js_get body ''count''))"

text \<open>\<^verbatim>\<open>v >= n\<close> for a number; the endpoint sends one. Anything else compares false.\<close>

fun num_ge :: "jsval \<Rightarrow> nat \<Rightarrow> bool" where
  "num_ge (JNum (Fin q)) n \<longleftrightarrow> of_nat n \<le> q"
| "num_ge (JNum PosInf) n \<longleftrightarrow> True"
| "num_ge _ n \<longleftrightarrow> False"

text \<open>
  \<^verbatim>\<open>.updates\<close> of the audit endpoint's JSON, which the scripts iterate. The endpoint sends an array; a
  value that is none is taken to throw.
\<close>

definition updates_of :: "jsval \<Rightarrow> js_error + jsval list" where
  "updates_of body =
     (case js_get body ''updates'' of
        Inl x \<Rightarrow> Inl x
      | Inr (JArr vs) \<Rightarrow> Inr vs
      | Inr _ \<Rightarrow> Inl (TypeError ''updates is not iterable''))"

text \<open>\<^verbatim>\<open>for (const entry of updates) Y.applyUpdate(replay, fromBase64(entry))\<close>\<close>

fun replay_log :: "('d, 'a, 'y) runtime_scheme \<Rightarrow> 'd \<Rightarrow> jsval list \<Rightarrow> js_error + 'd" where
  "replay_log R d [] = Inr d"
| "replay_log R d (v # vs) =
     (case rt_decode R v of
        Inl x \<Rightarrow> Inl x
      | Inr u \<Rightarrow>
          (case applyUpdate (rt_api R) d u of
             (d1, _, Some x) \<Rightarrow> Inl x
           | (d1, _, None) \<Rightarrow> replay_log R d1 vs))"

text \<open>\<^verbatim>\<open>states.some((s) => s.user?.name === name)\<close>\<close>

definition some_user :: "string \<Rightarrow> jsval list \<Rightarrow> bool" where
  "some_user name states \<longleftrightarrow> list_ex (\<lambda>s. js_opt (js_opt s ''user'') ''name'' = JStr (js name)) states"

definition user_value :: "string \<Rightarrow> string \<Rightarrow> jsval" where
  "user_value name color =
     JObj [(''user'', JObj [(''name'', JStr (js name)), (''color'', JStr (js color))])]"

subsection \<open>reliable.mjs\<close>

definition rel_sees :: "('d, 'a, 'y) runtime_scheme \<Rightarrow> nat \<Rightarrow> string \<Rightarrow> (('d, 'a) reliable, 'e, 'm) stage \<Rightarrow> bool" where
  "rel_sees R i t s \<longleftrightarrow> js_includes (rel_textContent R (actor i s)) (js t)"

definition rel_drained :: "nat \<Rightarrow> (('d, 'a) reliable, 'e, 'm) stage \<Rightarrow> bool" where
  "rel_drained i s \<longleftrightarrow> r_pending (actor i s) = []"

abbreviation rel_wait where
  "rel_wait R P \<equiv> wait_with (rel_handle R) 5000 reliable_waitFor (\<lambda>s. Inr (P s))"

text \<open>A normal edit is acked and relayed.\<close>

definition reliable_normal ::
  "('d, 'a, 'y) runtime_scheme \<Rightarrow> (('d, 'a) reliable, rel_event, raw_call, unit) script" where
  "reliable_normal R =
     steps [
       perform 0 (rel_insertParagraph R (js ''First edit'')),
       rel_wait R (rel_drained 0),
       rel_wait R (rel_sees R 1 ''First edit'')]"

text \<open>An edit during an outage stays pending, unseen, and is retried.\<close>

definition reliable_outage ::
  "('d, 'a, 'y) runtime_scheme \<Rightarrow> (('d, 'a) reliable, rel_event, raw_call, unit) script" where
  "reliable_outage R =
     steps [
       perform 0 (modify (\<lambda>s. s\<lparr>r_blackhole := True\<rparr>)),
       perform 0 (rel_insertParagraph R (js ''Lost edit'')),
       wait_with (rel_handle R) 600 reliable_stayFalse (\<lambda>s. Inr (rel_sees R 1 ''Lost edit'' s)),
       unless (\<lambda>s. \<not> rel_drained 0 s) (JsError ''lost edit must still be pending (unacked) during the outage''),
       unless (\<lambda>s. 2 \<le> r_dropped (actor 0 s)) (JsError ''retransmit should have retried during the outage'')]"

text \<open>Connectivity returns, and the retransmit recovers the edit.\<close>

definition reliable_recovery ::
  "('d, 'a, 'y) runtime_scheme \<Rightarrow> (('d, 'a) reliable, rel_event, raw_call, unit) script" where
  "reliable_recovery R =
     steps [
       perform 0 (modify (\<lambda>s. s\<lparr>r_blackhole := False\<rparr>)),
       rel_wait R (rel_drained 0),
       rel_wait R (rel_sees R 1 ''Lost edit''),
       rel_wait R (\<lambda>s. sameBytes (rt_state R (c_doc (actor 0 s))) (rt_state R (c_doc (actor 1 s)))),
       unless (\<lambda>s. 2 \<le> length (r_acked (actor 0 s))) (JsError ''expected at least 2 acks''),
       perform 0 rel_close,
       perform 1 rel_close,
       exit_with 0]"

definition reliable_script ::
  "('d, 'a, 'y) runtime_scheme \<Rightarrow> jsstring \<Rightarrow> (('d, 'a) reliable, rel_event, raw_call, unit) script" where
  "reliable_script R room =
     steps [
       follow (enter (rel_new R room)) (\<lambda>_. give ()),
       await_until (rel_handle R) (subscribed 0),
       follow (enter (rel_new R room)) (\<lambda>_. give ()),
       await_until (rel_handle R) (subscribed 1),
       reliable_normal R,
       reliable_outage R,
       reliable_recovery R]"

subsection \<open>multiprocess.mjs\<close>

abbreviation mp_handle where
  "mp_handle R \<equiv> raw_handle (mp_msg R)"

type_synonym ('d, 'a) mp_stage = "(('d, 'a) raw, raw_event, raw_call) stage"
type_synonym ('d, 'a, 'r) mp_script = "(('d, 'a) raw, raw_event, raw_call, 'r) script"

text \<open>Four clients, two per process, and their edits, interleaved.\<close>

definition mp_clients :: "('d, 'a, 'y) runtime_scheme \<Rightarrow> jsstring \<Rightarrow> ('d, 'a, unit) mp_script" where
  "mp_clients R room =
     steps [
       each [0..<4] (\<lambda>_. follow (enter (mp_new R room)) (\<lambda>_. give ())),
       await_until (mp_handle R) (all_subscribed [0..<4]),
       sleep (mp_handle R)]"

definition mp_edits :: "('d, 'a, 'y) runtime_scheme \<Rightarrow> nat \<Rightarrow> ('d, 'a, unit) mp_script" where
  "mp_edits R edits =
     steps [
       each [1..<Suc edits] (\<lambda>i. steps [
         perform 0 (mp_edit R (js ''A1-'' @ dec i)),
         perform 2 (mp_edit R (js ''B1-'' @ dec i)),
         perform 1 (mp_edit R (js ''A2-'' @ dec i)),
         perform 3 (mp_edit R (js ''B2-'' @ dec i)),
         sleep (mp_handle R)]),
       sleep (mp_handle R)]"

definition mp_converged :: "('d, 'a, 'y) runtime_scheme \<Rightarrow> ('d, 'a) mp_stage \<Rightarrow> bool" where
  "mp_converged R s \<longleftrightarrow>
     list_all (\<lambda>i. sameBytes (mp_state R (actor i s)) (mp_state R (actor 0 s))) [0..<4]"

definition mp_check_fresh :: "('d, 'a, 'y) runtime_scheme \<Rightarrow> nat \<Rightarrow> ('d, 'a, unit) mp_script" where
  "mp_check_fresh R edits =
     steps [
       checkS ''all clients across both processes converged byte-for-byte'' (mp_converged R),
       follow (read_serverText (mp_handle R) R) (\<lambda>textA.
         follow (read_serverText (mp_handle R) R) (\<lambda>textB.
           checkS ''both processes' server-side replicas reflect every edit''
             (\<lambda>_. mp_bothFresh edits textA textB)))]"

definition mp_check_late ::
  "('d, 'a, 'y) runtime_scheme \<Rightarrow> jsstring \<Rightarrow> nat \<Rightarrow> ('d, 'a, unit) mp_script" where
  "mp_check_late R room edits =
     steps [
       follow (enter (mp_new R room)) (\<lambda>_. give ()),
       await_until (mp_handle R) (subscribed 4),
       await_until (mp_handle R) (resolved_since 0 4 ''synced''),
       sleep (mp_handle R),
       checkS ''a late joiner on the OTHER process receives the whole document''
         (\<lambda>s. mp_lateOk edits (mp_text R (actor 4 s)))]"

text \<open>\<open>V\<close> is \<^verbatim>\<open>[...awareness.getStates().values()]\<close>.\<close>

definition mp_sees_user :: "('a \<Rightarrow> jsval list) \<Rightarrow> nat \<Rightarrow> string \<Rightarrow> ('d, 'a) mp_stage \<Rightarrow> bool" where
  "mp_sees_user V i name s \<longleftrightarrow> JStr (js name) \<in> set (mp_presenceNames (V (c_aw (actor i s))))"

definition mp_check_presence ::
  "('d, 'a, 'y) runtime_scheme \<Rightarrow> ('a \<Rightarrow> jsval list) \<Rightarrow> ('d, 'a, unit) mp_script" where
  "mp_check_presence R V =
     steps [
       perform 0 (mp_setPresence (rt_api R) (JObj [(''user'', JObj [(''name'', JStr (js ''ALICE-A''))])])),
       perform 3 (mp_setPresence (rt_api R) (JObj [(''user'', JObj [(''name'', JStr (js ''BOB-B''))])])),
       sleep (mp_handle R),
       checkS ''presence crosses processes (B sees A's cursor)'' (mp_sees_user V 2 ''ALICE-A''),
       checkS ''presence crosses processes (A sees B's cursor)'' (mp_sees_user V 1 ''BOB-B'')]"

text \<open>The replayed log against the live document, which may be missing.\<close>

definition same_as_live :: "('d, 'a, 'y) runtime_scheme \<Rightarrow> 'd \<Rightarrow> 'd option \<Rightarrow> js_error + bool" where
  "same_as_live R replay live =
     (case live of
        None \<Rightarrow> Inl (TypeError ''cannot read properties of null'')
      | Some d \<Rightarrow> Inr (sameBytes (rt_state R replay) (rt_state R d)))"

definition mp_check_log :: "('d, 'a, 'y) runtime_scheme \<Rightarrow> ('d, 'a, unit) mp_script" where
  "mp_check_log R =
     follow (fetch (mp_handle R)) (\<lambda>(_, auditA).
     follow (fetch (mp_handle R)) (\<lambda>(_, auditB).
     follow (value_or_throw (\<lambda>_. updates_of auditA)) (\<lambda>a.
     follow (value_or_throw (\<lambda>_. updates_of auditB)) (\<lambda>b.
     steps [
       checkS ''both processes see the same shared audit log'' (\<lambda>_. mp_sameLog a b),
       follow (value_or_throw (\<lambda>_. replay_log R (newDoc (rt_api R)) a)) (\<lambda>replay.
       follow (read_serverDoc (mp_handle R) R) (\<lambda>(_, live).
       follow (value_or_throw (\<lambda>_. same_as_live R replay live)) (\<lambda>same.
         checkS ''the shared audit log alone replays to the converged document'' (\<lambda>_. same))))]))))"

definition mp_scenario ::
  "('d, 'a, 'y) runtime_scheme \<Rightarrow> ('a \<Rightarrow> jsval list) \<Rightarrow> jsstring \<Rightarrow> nat \<Rightarrow> ('d, 'a, unit) mp_script" where
  "mp_scenario R V room edits =
     steps [
       mp_clients R room,
       mp_edits R edits,
       mp_check_fresh R edits,
       mp_check_late R room edits,
       mp_check_presence R V,
       mp_check_log R,
       each [0..<5] (\<lambda>i. perform i ws_close),
       report]"

subsection \<open>crash_recovery.mjs\<close>

abbreviation crash_handle where
  "crash_handle R \<equiv> raw_handle (crash_msg R)"

text \<open>
  \<^verbatim>\<open>for (let tries = 0; tries < 100; tries++) { if (count >= EDITS) break; await sleep }\<close>
\<close>

primrec crash_await_records ::
  "('d, 'a, 'y) runtime_scheme \<Rightarrow> nat \<Rightarrow> nat \<Rightarrow> ('d, 'a, unit) mp_script" where
  "crash_await_records R edits 0 = give ()"
| "crash_await_records R edits (Suc tries) =
     follow (read_count (crash_handle R)) (\<lambda>count.
       if num_ge count edits then give ()
       else follow (sleep (crash_handle R)) (\<lambda>_. crash_await_records R edits tries))"

definition crash_write :: "('d, 'a, 'y) runtime_scheme \<Rightarrow> jsstring \<Rightarrow> nat \<Rightarrow> ('d, 'a, unit) mp_script" where
  "crash_write R room edits =
     steps [
       follow (enter (crash_new R room)) (\<lambda>_. give ()),
       await_until (crash_handle R) (subscribed 0),
       sleep (crash_handle R),
       each [1..<Suc edits] (\<lambda>i. steps [
         perform 0 (crash_edit R (js ''edit-'' @ dec i)),
         sleep (crash_handle R)]),
       crash_await_records R edits 100,
       follow (read_count (crash_handle R)) (\<lambda>count.
         exit_with (if num_ge count edits then 0 else 1))]"

definition crash_verify :: "('d, 'a, 'y) runtime_scheme \<Rightarrow> jsstring \<Rightarrow> nat \<Rightarrow> ('d, 'a, unit) mp_script" where
  "crash_verify R room edits =
     steps [
       follow (enter (crash_new R room)) (\<lambda>_. give ()),
       await_until (crash_handle R) (subscribed 0),
       await_until (crash_handle R) (resolved_since 0 0 ''synced''),
       sleep (crash_handle R),
       follow (look (\<lambda>s. crash_text R (actor 0 s))) (\<lambda>client_text.
         follow (read_serverText (crash_handle R) R) (\<lambda>live_text.
           exit_with (crash_verify_exit edits client_text live_text)))]"

subsection \<open>audit.mjs\<close>

abbreviation auditc_handle where
  "auditc_handle R \<equiv> raw_handle (auditc_onMessage R)"

text \<open>\<open>paragraphs\<close> is the length of the fragment.\<close>

definition audit_compare ::
  "('d, 'a, 'y) runtime_scheme \<Rightarrow> ('d \<Rightarrow> nat) \<Rightarrow> nat \<Rightarrow> 'd \<Rightarrow> jsstring \<Rightarrow> ('d, 'a, unit) mp_script" where
  "audit_compare R paragraphs edits replay live_text =
     steps [
       unless (\<lambda>_. missing_edits ''change number '' edits live_text = [])
         (JsError ''live document is missing edit''),
       unless (\<lambda>s. paragraphs replay = paragraphs (c_doc (actor 0 s)))
         (JsError ''replayed document structure differs from the client's''),
       unless (\<lambda>s. sameBytes (rt_state R replay) (rt_state R (c_doc (actor 0 s))))
         (JsError ''audit-log replay does not match the live document byte-for-byte'')]"

text \<open>\<^verbatim>\<open>audit.count < 1\<close>\<close>

fun num_less_1 :: "jsval \<Rightarrow> bool" where
  "num_less_1 (JNum (Fin q)) \<longleftrightarrow> q < 1"
| "num_less_1 (JNum NegInf) \<longleftrightarrow> True"
| "num_less_1 _ \<longleftrightarrow> False"

definition audit_script ::
  "('d, 'a, 'y) runtime_scheme \<Rightarrow> ('d \<Rightarrow> nat) \<Rightarrow> jsstring \<Rightarrow> nat \<Rightarrow> ('d, 'a, unit) mp_script" where
  "audit_script R paragraphs room edits =
     steps [
       follow (enter (auditc_new R room)) (\<lambda>_. give ()),
       await_until (auditc_handle R) (subscribed 0),
       each [1..<Suc edits] (\<lambda>i. steps [
         perform 0 (auditc_edit R (dec i)),
         sleep (auditc_handle R)]),
       sleep (auditc_handle R),
       follow (fetch (auditc_handle R)) (\<lambda>(_, audit).
       follow (value_or_throw (\<lambda>_. js_get audit ''count'')) (\<lambda>count. steps [
         unless (\<lambda>_. \<not> num_less_1 count) (JsError ''audit log is empty''),
         follow (value_or_throw (\<lambda>_. updates_of audit)) (\<lambda>entries.
         follow (value_or_throw (\<lambda>_. replay_log R (newDoc (rt_api R)) entries)) (\<lambda>replay.
         follow (read_serverText (auditc_handle R) R) (\<lambda>live_text.
           audit_compare R paragraphs edits replay live_text)))])),
       perform 0 ws_close,
       exit_with 0]"

subsection \<open>e2e.mjs\<close>

abbreviation e2e_handle where
  "e2e_handle R \<equiv> raw_handle (e2e_onMessage R)"

abbreviation e2e_wait where
  "e2e_wait R P \<equiv> wait_with (e2e_handle R) 5000 e2e_waitFor (\<lambda>s. Inr (P s))"

definition e2e_sees :: "('d, 'a, 'y) runtime_scheme \<Rightarrow> nat \<Rightarrow> string \<Rightarrow> ('d, 'a) mp_stage \<Rightarrow> bool" where
  "e2e_sees R i t s \<longleftrightarrow> js_includes (e2e_textContent R (actor i s)) (js t)"

definition e2e_sees_user :: "('a \<Rightarrow> jsval list) \<Rightarrow> nat \<Rightarrow> string \<Rightarrow> ('d, 'a) mp_stage \<Rightarrow> bool" where
  "e2e_sees_user V i name s \<longleftrightarrow> some_user name (V (c_aw (actor i s)))"

text \<open>Alice edits and is present, Bob joins, and each sees the other.\<close>

definition e2e_meet ::
  "('d, 'a, 'y) runtime_scheme \<Rightarrow> ('a \<Rightarrow> jsval list) \<Rightarrow> jsstring \<Rightarrow> ('d, 'a, unit) mp_script" where
  "e2e_meet R V room =
     steps [
       follow (enter (e2e_new R room)) (\<lambda>_. give ()),
       await_until (e2e_handle R) (subscribed 0),
       perform 0 (e2e_insertParagraph R (js ''Hello from Alice'')),
       perform 0 (e2e_setPresence (rt_api R) (user_value ''Alice'' ''#f00'')),
       follow (enter (e2e_new R room)) (\<lambda>_. give ()),
       await_until (e2e_handle R) (subscribed 1),
       e2e_wait R (e2e_sees R 1 ''Hello from Alice''),
       perform 0 (e2e_setPresence (rt_api R) (user_value ''Alice'' ''#f00'')),
       e2e_wait R (e2e_sees_user V 1 ''Alice''),
       perform 1 (e2e_insertParagraph R (js ''Hi from Bob'')),
       e2e_wait R (e2e_sees R 0 ''Hi from Bob''),
       e2e_wait R (\<lambda>s. sameBytes (rt_state R (c_doc (actor 0 s))) (rt_state R (c_doc (actor 1 s))))]"

text \<open>The server's document; \<^verbatim>\<open>status !== 200 || !doc\<close>.\<close>

definition e2e_server :: "('d, 'a, 'y) runtime_scheme \<Rightarrow> ('d, 'a, unit) mp_script" where
  "e2e_server R =
     follow (read_serverDoc (e2e_handle R) R) (\<lambda>(status, live). steps [
       unless (\<lambda>_. status = 200 \<and> live \<noteq> None) (JsError ''content endpoint failed''),
       follow (read_serverText (e2e_handle R) R) (\<lambda>content.
         unless (\<lambda>_. js_includes content (js ''Hello from Alice'') \<and> js_includes content (js ''Hi from Bob''))
           (JsError ''server content missing edits''))])"

text \<open>Alice leaves, and only her presence is cleared.\<close>

definition e2e_part ::
  "('d, 'a, 'y) runtime_scheme \<Rightarrow> ('a \<Rightarrow> jsval list) \<Rightarrow> ('d, 'a, unit) mp_script" where
  "e2e_part R V =
     steps [
       perform 1 (e2e_setPresence (rt_api R) (user_value ''Bob'' ''#00f'')),
       e2e_wait R (e2e_sees_user V 0 ''Bob''),
       perform 0 (e2e_close (rt_api R)),
       e2e_wait R (\<lambda>s. \<not> e2e_sees_user V 1 ''Alice'' s),
       unless (e2e_sees_user V 1 ''Bob'')
         (JsError ''bob's own presence was wrongly removed by alice's disconnect''),
       perform 1 (e2e_close (rt_api R)),
       exit_with 0]"

definition e2e_script ::
  "('d, 'a, 'y) runtime_scheme \<Rightarrow> ('a \<Rightarrow> jsval list) \<Rightarrow> jsstring \<Rightarrow> ('d, 'a, unit) mp_script" where
  "e2e_script R V room = steps [e2e_meet R V room, e2e_server R, e2e_part R V]"

subsection \<open>anycable_concurrent.mjs\<close>

abbreviation acs_handle where
  "acs_handle R \<equiv> raw_handle (acs_msg R)"

definition acs_writer :: "('d, 'a, 'y) runtime_scheme \<Rightarrow> nat \<Rightarrow> nat \<Rightarrow> ('d, 'a, unit) mp_script list" where
  "acs_writer R paras i =
     map (\<lambda>j. perform i (acs_addParagraph R (js ''c'' @ dec i @ js ''p'' @ dec j))) [0..<paras]"

definition acs_script ::
  "('d, 'a, 'y) runtime_scheme \<Rightarrow> jsstring \<Rightarrow> nat \<Rightarrow> nat \<Rightarrow> ('d, 'a, unit) mp_script" where
  "acs_script R room n paras =
     steps [
       each [0..<n] (\<lambda>_. follow (enter (acs_new R room)) (\<lambda>_. give ())),
       await_until (acs_handle R) (all_subscribed [0..<n]),
       sleep (acs_handle R),
       together (acs_handle R) (map (\<lambda>i. rounds (acs_writer R paras i)) [0..<n]),
       sleep (acs_handle R),
       follow (value_or_throw (\<lambda>s. all_same (map (\<lambda>i. acs_state R (actor i s)) [0..<n]))) (\<lambda>converged.
       follow (look (\<lambda>s. acs_text R (actor 0 s))) (\<lambda>t0. steps [
         checkS ''all clients converged byte-for-byte'' (\<lambda>_. converged),
         checkS ''every token present across clients'' (\<lambda>_. list_all (js_includes t0) (acs_tokens n paras)),
         follow (read_serverText (acs_handle R) R) (\<lambda>srv.
           checkS ''Puma /content reflects every edit'' (\<lambda>_. list_all (js_includes srv) (acs_tokens n paras)))])),
       each [0..<n] (\<lambda>i. perform i ws_close),
       report]"

end
