(* ===== verification/Demo_Scenarios_4.thy ===== *)
theory Demo_Scenarios_4
  imports Demo_Peers Demo_Scenarios
begin

text \<open>
  The scripts of reliable_provider.mjs and reliable_stress.mjs: providers over consumers that lose
  frames.
\<close>

subsection \<open>reliable_provider.mjs\<close>

type_synonym ('d, 'a) rp_peer = "('d, 'a, consumer) peer"
type_synonym ('d, 'a) rp_stage = "(('d, 'a) rp_peer, peer_event, peer_call) stage"
type_synonym ('d, 'a, 'r) rp_script = "(('d, 'a) rp_peer, peer_event, peer_call, 'r) script"

definition rp_handle ::
  "('d, 'a, 'y) runtime_scheme \<Rightarrow> (jsval \<Rightarrow> jsstring) \<Rightarrow> peer_event \<Rightarrow> (('d, 'a) rp_peer, peer_call) act" where
  "rp_handle R J = peer_handle raw_sub_send raw_onmessage J (rt_api R)"

definition rp_sees :: "('d, 'a, 'y) runtime_scheme \<Rightarrow> nat \<Rightarrow> string \<Rightarrow> ('d, 'a) rp_stage \<Rightarrow> bool" where
  "rp_sees R i t s \<longleftrightarrow> js_includes (rt_text R (peer_doc (actor i s))) (js t)"

definition rp_pending :: "nat \<Rightarrow> ('d, 'a) rp_stage \<Rightarrow> bool" where
  "rp_pending i s \<longleftrightarrow> peer_hasPending (actor i s)"

definition rp_wait ::
  "('d, 'a, 'y) runtime_scheme \<Rightarrow> (jsval \<Rightarrow> jsstring) \<Rightarrow> string \<Rightarrow> (('d, 'a) rp_stage \<Rightarrow> bool)
   \<Rightarrow> ('d, 'a, unit) rp_script" where
  "rp_wait R J label P =
     follow (wait_counting (rp_handle R J) 5000 (provider_waitFor label) (\<lambda>s. Inr (P s))) (\<lambda>_. give ())"

definition rp_blackhole :: "bool \<Rightarrow> (('d, 'a) rp_peer, peer_call) act" where
  "rp_blackhole b = modify (\<lambda>p. p\<lparr>pr_consumer := (pr_consumer p)\<lparr>blackhole := b\<rparr>\<rparr>)"

definition rp_edit ::
  "('d, 'a, 'y) runtime_scheme \<Rightarrow> (jsval \<Rightarrow> jsstring) \<Rightarrow> string \<Rightarrow> (('d, 'a) rp_peer, peer_call) act" where
  "rp_edit R J t = peer_edit raw_sub_send J (rt_api R) (\<lambda>d. addParagraph R d (js t))"

definition rp_join ::
  "('d, 'a, 'y) runtime_scheme \<Rightarrow> (jsval \<Rightarrow> jsstring) \<Rightarrow> jsstring \<Rightarrow> ('d, 'a, unit) rp_script" where
  "rp_join R J room =
     steps [
       each [0..<2] (\<lambda>_.
         follow (value_or_throw (\<lambda>_. peer_new R room 150 rawConsumer)) (\<lambda>p.
         follow (enter (p, [])) (\<lambda>_. give ()))),
       perform 0 (peer_connect raw_sub_send J),
       perform 1 (peer_connect raw_sub_send J),
       rp_wait R J ''both providers report synced'' (\<lambda>s. peer_synced (actor 0 s) \<and> peer_synced (actor 1 s)),
       checkS ''both providers synced with the server'' (\<lambda>s. peer_synced (actor 0 s) \<and> peer_synced (actor 1 s))]"

text \<open>1. A normal edit propagates, is acked and drains the queue.\<close>

definition rp_normal ::
  "('d, 'a, 'y) runtime_scheme \<Rightarrow> (jsval \<Rightarrow> jsstring) \<Rightarrow> ('d, 'a, unit) rp_script" where
  "rp_normal R J =
     steps [
       perform 0 (rp_edit R J ''alpha''),
       rp_wait R J ''p2 receives alpha'' (rp_sees R 1 ''alpha''),
       rp_wait R J ''p1's queue drains (alpha acked)'' (\<lambda>s. \<not> rp_pending 0 s),
       checkS ''normal edit acked and propagated'' (\<lambda>s. rp_sees R 1 ''alpha'' s \<and> \<not> rp_pending 0 s)]"

text \<open>2. The network drops everything the first peer sends.\<close>

definition rp_watch ::
  "('d, 'a, 'y) runtime_scheme \<Rightarrow> (jsval \<Rightarrow> jsstring) \<Rightarrow> ('d, 'a, unit) rp_script" where
  "rp_watch R J =
     steps [
       follow (wait_counting (rp_handle R J) 600 (provider_stayFalse ''beta-lost stays off p2 during the outage'')
                 (\<lambda>s. Inr (rp_sees R 1 ''beta-lost'' s))) (\<lambda>absent.
         checkS ''lost edit did not reach p2 during the outage'' (\<lambda>_. absent)),
       checkS ''p1 still has the edit queued (unacked)'' (rp_pending 0),
       checkS ''the provider kept retransmitting (and failing)'' (\<lambda>s. 2 \<le> dropped (pr_consumer (actor 0 s)))]"

definition rp_outage ::
  "('d, 'a, 'y) runtime_scheme \<Rightarrow> (jsval \<Rightarrow> jsstring) \<Rightarrow> ('d, 'a, unit) rp_script" where
  "rp_outage R J =
     steps [perform 0 (rp_blackhole True), perform 0 (rp_edit R J ''beta-lost''), rp_watch R J]"

text \<open>3. Connectivity returns: the next retransmit lands.\<close>

definition rp_recovery ::
  "('d, 'a, 'y) runtime_scheme \<Rightarrow> (jsval \<Rightarrow> jsstring) \<Rightarrow> ('d, 'a, unit) rp_script" where
  "rp_recovery R J =
     steps [
       perform 0 (rp_blackhole False),
       rp_wait R J ''p1's queue drains once connectivity returns'' (\<lambda>s. \<not> rp_pending 0 s),
       rp_wait R J ''p2 receives the recovered beta-lost'' (rp_sees R 1 ''beta-lost''),
       checkS ''retransmit recovered the lost edit'' (\<lambda>s. rp_sees R 1 ''beta-lost'' s \<and> \<not> rp_pending 0 s)]"

text \<open>
  Presence flows and the documents converge. \<open>V\<close> is \<^verbatim>\<open>[...awareness.getStates().values()]\<close>.
\<close>

definition rp_sees_user ::
  "('a option \<Rightarrow> jsval list) \<Rightarrow> nat \<Rightarrow> string \<Rightarrow> ('d, 'a) rp_stage \<Rightarrow> bool" where
  "rp_sees_user V i name s \<longleftrightarrow> some_user name (V (awareness (session (pr_provider (actor i s)))))"

definition rp_presence ::
  "('d, 'a, 'y) runtime_scheme \<Rightarrow> ('a option \<Rightarrow> jsval list) \<Rightarrow> (jsval \<Rightarrow> jsstring) \<Rightarrow> ('d, 'a, unit) rp_script" where
  "rp_presence R V J =
     steps [
       perform 0 (peer_setPresence raw_sub_send J (rt_api R)
         (JObj [(''user'', JObj [(''name'', JStr (js ''P-ONE''))])])),
       rp_wait R J ''p2 sees p1's presence'' (rp_sees_user V 1 ''P-ONE''),
       checkS ''awareness propagated'' (rp_sees_user V 1 ''P-ONE''),
       sleep (rp_handle R J),
       checkS ''documents converged byte-for-byte''
         (\<lambda>s. sameBytes (rt_state R (peer_doc (actor 0 s))) (rt_state R (peer_doc (actor 1 s))))]"

definition rp_script ::
  "('d, 'a, 'y) runtime_scheme \<Rightarrow> ('a option \<Rightarrow> jsval list) \<Rightarrow> ('a \<Rightarrow> 'a \<times> aw_change list)
   \<Rightarrow> (jsval \<Rightarrow> jsstring) \<Rightarrow> jsstring \<Rightarrow> ('d, 'a, unit) rp_script" where
  "rp_script R V dA J room =
     steps [
       rp_join R J room,
       rp_normal R J,
       rp_outage R J,
       rp_recovery R J,
       rp_presence R V J,
       perform 0 (peer_destroy raw_sub_send J (rt_api R) dA),
       perform 1 (peer_destroy raw_sub_send J (rt_api R) dA),
       report]"

subsection \<open>reliable_stress.mjs\<close>

text \<open>
  An event carries the random numbers drawn while it is handled: one for an inbound ack, and one for
  each frame the provider sends.
\<close>

record lossy_draws =
  dr_ack :: rat
  dr_frame :: "jsval \<Rightarrow> rat"

definition lossy_put :: "lossy_draws \<Rightarrow> cable_sub \<Rightarrow> jsval \<Rightarrow> lossy_act" where
  "lossy_put D sub data = lossy_sub_send (dr_frame D data) sub data"

type_synonym ('d, 'a) rs_peer = "('d, 'a, lossy_consumer) peer"
type_synonym ('d, 'a) rs_stage = "(('d, 'a) rs_peer, lossy_draws \<times> peer_event, peer_call) stage"
type_synonym ('d, 'a, 'r) rs_script = "(('d, 'a) rs_peer, lossy_draws \<times> peer_event, peer_call, 'r) script"

definition lossy_handle ::
  "('d, 'a, 'y) runtime_scheme \<Rightarrow> (jsval \<Rightarrow> jsstring) \<Rightarrow> lossy_draws \<times> peer_event
   \<Rightarrow> (('d, 'a) rs_peer, peer_call) act" where
  "lossy_handle R J e = peer_handle (lossy_put (fst e)) (lossy_onmessage (dr_ack (fst e))) J (rt_api R) (snd e)"

definition rs_wait ::
  "('d, 'a, 'y) runtime_scheme \<Rightarrow> (jsval \<Rightarrow> jsstring) \<Rightarrow> string \<Rightarrow> (('d, 'a) rs_stage \<Rightarrow> bool)
   \<Rightarrow> ('d, 'a, unit) rs_script" where
  "rs_wait R J label P =
     follow (wait_counting (lossy_handle R J) 30000 (lossy_waitFor label) (\<lambda>s. Inr (P s))) (\<lambda>_. give ())"

definition rs_all :: "nat list \<Rightarrow> (('d, 'a) rs_peer \<Rightarrow> bool) \<Rightarrow> ('d, 'a) rs_stage \<Rightarrow> bool" where
  "rs_all cs P s \<longleftrightarrow> list_all (\<lambda>i. P (actor i s)) cs"

text \<open>A client: a document, a consumer and a connected provider. Before the handshake nothing is lost.\<close>

definition rs_enter ::
  "('d, 'a, 'y) runtime_scheme \<Rightarrow> (jsval \<Rightarrow> jsstring) \<Rightarrow> jsstring \<Rightarrow> lossy_draws \<Rightarrow> ('d, 'a, unit) rs_script" where
  "rs_enter R J room D =
     follow (value_or_throw (\<lambda>_. peer_new R room 100 lossyConsumer)) (\<lambda>p.
     follow (enter (p, [])) (\<lambda>i. perform i (peer_connect (lossy_put D) J)))"

definition rs_network :: "rat \<Rightarrow> rat \<Rightarrow> (('d, 'a) rs_peer, peer_call) act" where
  "rs_network out acks =
     modify (\<lambda>p. p\<lparr>pr_consumer := (pr_consumer p)\<lparr>loss := out, ackLoss := acks\<rparr>\<rparr>)"

definition rs_blackhole :: "bool \<Rightarrow> (('d, 'a) rs_peer, peer_call) act" where
  "rs_blackhole b = modify (\<lambda>p. p\<lparr>pr_consumer := (pr_consumer p)\<lparr>blackhole := b\<rparr>\<rparr>)"

text \<open>
  The outages: random clients, one after another, while an editor is still at work. \<open>pick\<close> are the
  random numbers.
\<close>

definition rs_outage_storm :: "nat \<Rightarrow> (nat \<Rightarrow> rat) \<Rightarrow> (('d, 'a) rs_peer, lossy_draws \<times> peer_event, peer_call) strand" where
  "rs_outage_storm clients pick ps n answer s =
     (let c = nat (rand (pick (n div 2)) 0 (int clients))
      in if odd n then Runs (perform c (rs_blackhole False))
         else if n = 0 \<or> list_ex (\<lambda>p. p \<noteq> None) (tl ps)
         then Runs (if clients = 0 then raiseS (TypeError ''cannot read properties of undefined'')
                    else perform c (rs_blackhole True))
         else Finished)"

definition rs_editor ::
  "('d, 'a, 'y) runtime_scheme \<Rightarrow> (jsval \<Rightarrow> jsstring) \<Rightarrow> (nat \<Rightarrow> nat \<Rightarrow> lossy_draws) \<Rightarrow> nat \<Rightarrow> nat
   \<Rightarrow> ('d, 'a, unit) rs_script list" where
  "rs_editor R J D edits i =
     map (\<lambda>n. perform i (peer_edit (lossy_put (D i n)) J (rt_api R) (\<lambda>d. addEdit R d (marker i n)))) [0..<edits]"

definition rs_hostile ::
  "('d, 'a, 'y) runtime_scheme \<Rightarrow> (jsval \<Rightarrow> jsstring) \<Rightarrow> (nat \<Rightarrow> rat) \<Rightarrow> (nat \<Rightarrow> nat \<Rightarrow> lossy_draws)
   \<Rightarrow> nat \<Rightarrow> nat \<Rightarrow> rat \<Rightarrow> rat \<Rightarrow> ('d, 'a, unit) rs_script" where
  "rs_hostile R J pick D clients edits out acks =
     steps [
       each [0..<clients] (\<lambda>i. perform i (rs_network out acks)),
       together (lossy_handle R J)
         (rs_outage_storm clients pick # map (\<lambda>i. rounds (rs_editor R J D edits i)) [0..<clients])]"

definition rs_heal ::
  "('d, 'a, 'y) runtime_scheme \<Rightarrow> (jsval \<Rightarrow> jsstring) \<Rightarrow> nat \<Rightarrow> ('d, 'a, unit) rs_script" where
  "rs_heal R J clients =
     steps [
       each [0..<clients] (\<lambda>i. steps [perform i (rs_network 0 0), perform i (rs_blackhole False)]),
       rs_wait R J ''every client's pending queue drains (all edits acked)''
         (rs_all [0..<clients] (\<lambda>p. \<not> peer_hasPending p)),
       checkS ''all pending queues drained'' (rs_all [0..<clients] (\<lambda>p. \<not> peer_hasPending p))]"

text \<open>\<^verbatim>\<open>[...expected].filter((m) => !server.includes(m))\<close>\<close>

definition marker_list :: "nat \<Rightarrow> nat \<Rightarrow> jsstring list" where
  "marker_list clients edits = concat (map (\<lambda>i. map (marker i) [0..<edits]) [0..<clients])"

definition rs_check_server ::
  "('d, 'a, 'y) runtime_scheme \<Rightarrow> (jsval \<Rightarrow> jsstring) \<Rightarrow> nat \<Rightarrow> nat \<Rightarrow> ('d, 'a, unit) rs_script" where
  "rs_check_server R J clients edits =
     follow (read_serverText (lossy_handle R J) R) (\<lambda>server.
       checkS ''server holds all edits''
         (\<lambda>_. filter (\<lambda>m. \<not> js_includes server m) (marker_list clients edits) = []))"

text \<open>Fresh clients sync from the store; \<open>vs\<close> are their numbers.\<close>

definition rs_verify ::
  "('d, 'a, 'y) runtime_scheme \<Rightarrow> (jsval \<Rightarrow> jsstring) \<Rightarrow> nat \<Rightarrow> nat \<Rightarrow> nat list \<Rightarrow> ('d, 'a, unit) rs_script" where
  "rs_verify R J clients edits vs =
     steps [
       rs_wait R J ''fresh clients sync from the durable store'' (rs_all vs peer_synced),
       rs_wait R J ''every verifier sees all edits''
         (rs_all vs (\<lambda>p. verifier_settled clients edits (rt_text R (peer_doc p)))),
       checkS ''fresh clients have all edits (nothing acknowledged was lost)''
         (rs_all vs (\<lambda>p. verifier_complete clients edits (rt_text R (peer_doc p)))),
       follow (value_or_throw (\<lambda>s. all_same (map (\<lambda>i. rt_state R (peer_doc (actor i s))) vs))) (\<lambda>converged.
         checkS ''fresh client docs converged byte-for-byte'' (\<lambda>_. converged))]"

definition rs_total :: "(lossy_consumer \<Rightarrow> nat) \<Rightarrow> nat \<Rightarrow> ('d, 'a) rs_stage \<Rightarrow> nat" where
  "rs_total f clients s = sum_list (map (\<lambda>i. f (pr_consumer (actor i s))) [0..<clients])"

text \<open>\<^verbatim>\<open>totalDroppedOut > TOTAL * 0.1\<close>\<close>

definition rs_check_loss :: "nat \<Rightarrow> nat \<Rightarrow> ('d, 'a, unit) rs_script" where
  "rs_check_loss clients edits =
     steps [
       checkS ''loss was actually exercised (outbound frames dropped)''
         (\<lambda>s. clients * edits < 10 * rs_total droppedOut clients s),
       checkS ''ack loss was actually exercised'' (\<lambda>s. 0 < rs_total droppedAck clients s)]"

definition rs_script ::
  "('d, 'a, 'y) runtime_scheme \<Rightarrow> ('a \<Rightarrow> 'a \<times> aw_change list) \<Rightarrow> (jsval \<Rightarrow> jsstring) \<Rightarrow> jsstring
   \<Rightarrow> lossy_draws \<Rightarrow> (nat \<Rightarrow> rat) \<Rightarrow> (nat \<Rightarrow> nat \<Rightarrow> lossy_draws) \<Rightarrow> nat \<Rightarrow> nat \<Rightarrow> rat \<Rightarrow> rat
   \<Rightarrow> ('d, 'a, unit) rs_script" where
  "rs_script R dA J room D0 pick D clients edits out acks =
     steps [
       each [0..<clients] (\<lambda>_. rs_enter R J room D0),
       rs_wait R J ''all clients synced (clean network)'' (rs_all [0..<clients] peer_synced),
       checkS ''all clients completed the handshake'' (rs_all [0..<clients] peer_synced),
       rs_hostile R J pick D clients edits out acks,
       rs_heal R J clients,
       rs_check_server R J clients edits,
       each [0..<min 3 clients] (\<lambda>_. rs_enter R J room D0),
       rs_verify R J clients edits [clients..<clients + min 3 clients],
       rs_check_loss clients edits,
       each [0..<clients + min 3 clients] (\<lambda>i. perform i (peer_destroy (lossy_put D0) J (rt_api R) dA)),
       report]"

end
