(* ===== verification/Demo_Scenarios_2.thy ===== *)
theory Demo_Scenarios_2
  imports Demo_Scenarios
begin

text \<open>
  The scripts of audit_scenarios.mjs and anycable_guarantee.mjs: what no one may see while the store
  is slow or fails.
\<close>

subsection \<open>audit_scenarios.mjs\<close>

abbreviation scen_handle where
  "scen_handle R \<equiv> raw_handle (scen_onMessage R)"

definition scen_enter :: "('d, 'a, 'y) runtime_scheme \<Rightarrow> jsstring \<Rightarrow> ('d, 'a, nat) mp_script" where
  "scen_enter R room = enter (post (scen_new R room), calls (scen_new R room))"

text \<open>\<^verbatim>\<open>await control(room, ..)\<close>\<close>

definition scen_control :: "('d, 'a, 'y) runtime_scheme \<Rightarrow> ('d, 'a, unit) mp_script" where
  "scen_control R = follow (fetch (scen_handle R)) (\<lambda>_. give ())"

definition scen_sees :: "('d, 'a, 'y) runtime_scheme \<Rightarrow> nat \<Rightarrow> string \<Rightarrow> ('d, 'a) mp_stage \<Rightarrow> bool" where
  "scen_sees R i t s \<longleftrightarrow> scen_has R (js t) (actor i s)"

definition scen_check_server ::
  "('d, 'a, 'y) runtime_scheme \<Rightarrow> string \<Rightarrow> (jsstring \<Rightarrow> bool) \<Rightarrow> ('d, 'a, unit) mp_script" where
  "scen_check_server R label P =
     follow (read_serverText (scen_handle R) R) (\<lambda>t. checkS label (\<lambda>_. P t))"

definition scen_check_count ::
  "('d, 'a, 'y) runtime_scheme \<Rightarrow> string \<Rightarrow> int \<Rightarrow> ('d, 'a, unit) mp_script" where
  "scen_check_count R label n =
     follow (read_count (scen_handle R)) (\<lambda>count. checkS label (\<lambda>_. count = JInt n))"

text \<open>Two clients of a room, subscribed.\<close>

definition scen_pair ::
  "('d, 'a, 'y) runtime_scheme \<Rightarrow> jsstring \<Rightarrow> (nat \<Rightarrow> nat \<Rightarrow> ('d, 'a, unit) mp_script) \<Rightarrow> ('d, 'a, unit) mp_script" where
  "scen_pair R room rest =
     follow (scen_control R) (\<lambda>_.
     follow (scen_enter R room) (\<lambda>a.
     follow (scen_enter R room) (\<lambda>b. steps [
       await_until (scen_handle R) (all_subscribed [a, b]),
       sleep (scen_handle R),
       rest a b])))"

text \<open>Scenario 1: no one sees a change until it is stored.\<close>

definition scen_mid_store ::
  "('d, 'a, 'y) runtime_scheme \<Rightarrow> nat \<Rightarrow> nat \<Rightarrow> ('d, 'a, unit) mp_script" where
  "scen_mid_store R a b =
     steps [
       perform a (scen_edit R (js ''SECRET-MARKER'')),
       sleep (scen_handle R),
       checkS ''originating client has its own optimistic edit'' (scen_sees R a ''SECRET-MARKER''),
       checkS ''other connected client does NOT see it yet'' (\<lambda>s. \<not> scen_sees R b ''SECRET-MARKER'' s),
       scen_check_server R ''server /content does NOT show it yet'' (\<lambda>t. \<not> js_includes t (js ''SECRET-MARKER''))]"

definition scen_after_store ::
  "('d, 'a, 'y) runtime_scheme \<Rightarrow> nat \<Rightarrow> nat \<Rightarrow> nat \<Rightarrow> ('d, 'a, unit) mp_script" where
  "scen_after_store R a b c =
     steps [
       await_until (scen_handle R) (subscribed c),
       await_until (scen_handle R) (resolved_since 0 c ''synced''),
       sleep (scen_handle R),
       checkS ''a fresh client's resync does NOT receive it (back door closed)''
         (\<lambda>s. \<not> scen_sees R c ''SECRET-MARKER'' s),
       scen_check_count R ''audit log is still empty mid-store'' 0,
       sleep (scen_handle R),
       checkS ''connected client sees it after it's stored'' (scen_sees R b ''SECRET-MARKER''),
       scen_check_server R ''server /content shows it after it's stored'' (\<lambda>t. js_includes t (js ''SECRET-MARKER'')),
       scen_check_count R ''audit log has exactly one entry'' 1,
       perform a scen_close, perform b scen_close, perform c scen_close]"

definition scen_slowStore :: "('d, 'a, 'y) runtime_scheme \<Rightarrow> jsstring \<Rightarrow> ('d, 'a, unit) mp_script" where
  "scen_slowStore R room =
     scen_pair R room (\<lambda>a b.
       follow (scen_mid_store R a b) (\<lambda>_.
       follow (scen_enter R room) (\<lambda>c. scen_after_store R a b c)))"

text \<open>Scenario 2: a failed store leaks nothing.\<close>

definition scen_storeFailure :: "('d, 'a, 'y) runtime_scheme \<Rightarrow> jsstring \<Rightarrow> ('d, 'a, unit) mp_script" where
  "scen_storeFailure R room =
     scen_pair R room (\<lambda>a b. steps [
       perform a (scen_edit R (js ''DOOMED-EDIT'')),
       sleep (scen_handle R),
       checkS ''other client never saw the failed change'' (\<lambda>s. \<not> scen_sees R b ''DOOMED-EDIT'' s),
       scen_check_server R ''server /content does not contain it'' (\<lambda>t. \<not> js_includes t (js ''DOOMED-EDIT'')),
       scen_check_count R ''audit log does not contain it'' 0,
       checkS ''originating client still holds it locally (diverged)'' (scen_sees R a ''DOOMED-EDIT''),
       perform a scen_close, perform b scen_close])"

text \<open>
  Scenario 3: self-heal after a failed store. \<^verbatim>\<open>reconnect()\<close> makes both promises anew.
\<close>

definition scen_rejoin :: "('d, 'a, 'y) runtime_scheme \<Rightarrow> nat \<Rightarrow> ('d, 'a, unit) mp_script" where
  "scen_rejoin R a =
     follow (look (\<lambda>s. length (trace s))) (\<lambda>k. steps [
       perform a scen_reconnect,
       await_until (scen_handle R) (resolved_since k a ''subscribed''),
       await_until (scen_handle R) (resolved_since k a ''synced''),
       sleep (scen_handle R)])"

definition scen_selfHeal :: "('d, 'a, 'y) runtime_scheme \<Rightarrow> jsstring \<Rightarrow> ('d, 'a, unit) mp_script" where
  "scen_selfHeal R room =
     scen_pair R room (\<lambda>a b. steps [
       perform a (scen_edit R (js ''HEAL-ME'')),
       sleep (scen_handle R),
       scen_check_count R ''change is absent after the failed store'' 0,
       checkS ''other client does not have it yet'' (\<lambda>s. \<not> scen_sees R b ''HEAL-ME'' s),
       scen_rejoin R a,
       scen_check_count R ''after reconnect, the change is now recorded'' 1,
       scen_check_server R ''server /content now shows it'' (\<lambda>t. js_includes t (js ''HEAL-ME'')),
       checkS ''the other client now receives it'' (scen_sees R b ''HEAL-ME''),
       perform a scen_close, perform b scen_close])"

text \<open>Scenario 4: offline edits recorded on reconnect. \<open>paragraphs\<close> is the length of the fragment.\<close>

definition scen_catch_up ::
  "('d, 'a, 'y) runtime_scheme \<Rightarrow> ('d \<Rightarrow> nat) \<Rightarrow> ('d, 'a, unit) mp_script" where
  "scen_catch_up R paragraphs =
     follow (fetch (scen_handle R)) (\<lambda>(_, log).
     follow (value_or_throw (\<lambda>_. js_get log ''count'')) (\<lambda>count. steps [
       checkS ''offline edits arrive as ONE merged diff (2 total entries)'' (\<lambda>_. count = JInt 2),
       scen_check_server R ''all edits present on the server after catch-up''
         (\<lambda>t. js_includes t (js ''online-1'') \<and> js_includes t (js ''offline-1'') \<and> js_includes t (js ''offline-2'')),
       follow (value_or_throw (\<lambda>_. updates_of log)) (\<lambda>entries.
       follow (value_or_throw (\<lambda>_. replay_log R (newDoc (rt_api R)) entries)) (\<lambda>replay.
         checkS ''audit-log replay reconstructs all three paragraphs'' (\<lambda>_. paragraphs replay = 3)))]))"

definition scen_offlineCatchUp ::
  "('d, 'a, 'y) runtime_scheme \<Rightarrow> ('d \<Rightarrow> nat) \<Rightarrow> jsstring \<Rightarrow> ('d, 'a, unit) mp_script" where
  "scen_offlineCatchUp R paragraphs room =
     follow (scen_control R) (\<lambda>_.
     follow (scen_enter R room) (\<lambda>a. steps [
       await_until (scen_handle R) (subscribed a),
       sleep (scen_handle R),
       perform a (scen_edit R (js ''online-1'')),
       sleep (scen_handle R),
       scen_check_count R ''online edit recorded (1 entry)'' 1,
       perform a scen_goOffline,
       sleep (scen_handle R),
       perform a (scen_edit R (js ''offline-1'')),
       perform a (scen_edit R (js ''offline-2'')),
       scen_rejoin R a,
       scen_catch_up R paragraphs,
       perform a scen_close]))"

text \<open>The rooms are four different names.\<close>

definition audit_scenarios ::
  "('d, 'a, 'y) runtime_scheme \<Rightarrow> ('d \<Rightarrow> nat) \<Rightarrow> (string \<Rightarrow> jsstring) \<Rightarrow> ('d, 'a, unit) mp_script" where
  "audit_scenarios R paragraphs room =
     steps [
       scen_slowStore R (room ''slow''),
       scen_storeFailure R (room ''fail''),
       scen_selfHeal R (room ''heal''),
       scen_offlineCatchUp R paragraphs (room ''offline''),
       report]"

subsection \<open>anycable_guarantee.mjs\<close>

abbreviation acg_handle where
  "acg_handle R \<equiv> raw_handle (acg_msg R)"

definition acg_sees :: "('d, 'a, 'y) runtime_scheme \<Rightarrow> nat \<Rightarrow> string \<Rightarrow> ('d, 'a) mp_stage \<Rightarrow> bool" where
  "acg_sees R i t s \<longleftrightarrow> acg_has R (js t) (actor i s)"

definition acg_check_server ::
  "('d, 'a, 'y) runtime_scheme \<Rightarrow> string \<Rightarrow> (jsstring \<Rightarrow> bool) \<Rightarrow> ('d, 'a, unit) mp_script" where
  "acg_check_server R label P =
     follow (read_serverText (acg_handle R) R) (\<lambda>t. checkS label (\<lambda>_. P t))"

definition acg_check_count ::
  "('d, 'a, 'y) runtime_scheme \<Rightarrow> string \<Rightarrow> int \<Rightarrow> ('d, 'a, unit) mp_script" where
  "acg_check_count R label n =
     follow (read_count (acg_handle R)) (\<lambda>count. checkS label (\<lambda>_. count = JInt n))"

definition acg_pair ::
  "('d, 'a, 'y) runtime_scheme \<Rightarrow> jsstring \<Rightarrow> (nat \<Rightarrow> nat \<Rightarrow> ('d, 'a, unit) mp_script) \<Rightarrow> ('d, 'a, unit) mp_script" where
  "acg_pair R room rest =
     follow (fetch (acg_handle R)) (\<lambda>_.
     follow (enter (acg_new R room)) (\<lambda>a.
     follow (enter (acg_new R room)) (\<lambda>b. steps [
       await_until (acg_handle R) (all_subscribed [a, b]),
       sleep (acg_handle R),
       rest a b])))"

text \<open>A fresh client whose handshake is served from the store.\<close>

definition acg_fresh ::
  "('d, 'a, 'y) runtime_scheme \<Rightarrow> jsstring \<Rightarrow> (nat \<Rightarrow> ('d, 'a, unit) mp_script) \<Rightarrow> ('d, 'a, unit) mp_script" where
  "acg_fresh R room rest =
     follow (enter (acg_new R room)) (\<lambda>c. steps [
       await_until (acg_handle R) (subscribed c),
       sleep (acg_handle R),
       rest c])"

definition acg_slowStore :: "('d, 'a, 'y) runtime_scheme \<Rightarrow> jsstring \<Rightarrow> ('d, 'a, unit) mp_script" where
  "acg_slowStore R room =
     acg_pair R room (\<lambda>a b. steps [
       perform a (acg_edit R (js ''SECRET'')),
       sleep (acg_handle R),
       checkS ''other client does NOT see it mid-store'' (\<lambda>s. \<not> acg_sees R b ''SECRET'' s),
       acg_check_server R ''server /content does NOT show it mid-store'' (\<lambda>t. \<not> js_includes t (js ''SECRET'')),
       acg_check_count R ''audit store has nothing yet'' 0,
       acg_fresh R room (\<lambda>c. steps [
         checkS ''a fresh client's handshake does NOT include it'' (\<lambda>s. \<not> acg_sees R c ''SECRET'' s),
         sleep (acg_handle R),
         checkS ''after it's stored, the other client sees it'' (acg_sees R b ''SECRET''),
         acg_check_server R ''after it's stored, /content shows it'' (\<lambda>t. js_includes t (js ''SECRET'')),
         acg_check_count R ''after it's stored, the audit store has exactly one entry'' 1,
         perform a ws_close, perform b ws_close, perform c ws_close])])"

definition acg_storeFailure :: "('d, 'a, 'y) runtime_scheme \<Rightarrow> jsstring \<Rightarrow> ('d, 'a, unit) mp_script" where
  "acg_storeFailure R room =
     acg_pair R room (\<lambda>a b. steps [
       perform a (acg_edit R (js ''DOOMED'')),
       sleep (acg_handle R),
       checkS ''other client never saw the rejected change'' (\<lambda>s. \<not> acg_sees R b ''DOOMED'' s),
       acg_check_server R ''server /content does not contain it'' (\<lambda>t. \<not> js_includes t (js ''DOOMED'')),
       acg_check_count R ''audit store does not contain it'' 0,
       acg_fresh R room (\<lambda>c. steps [
         checkS ''a fresh client's handshake does not include it'' (\<lambda>s. \<not> acg_sees R c ''DOOMED'' s),
         perform a ws_close, perform b ws_close, perform c ws_close])])"

definition acg_script ::
  "('d, 'a, 'y) runtime_scheme \<Rightarrow> (string \<Rightarrow> jsstring) \<Rightarrow> ('d, 'a, unit) mp_script" where
  "acg_script R room = steps [acg_slowStore R (room ''slow''), acg_storeFailure R (room ''fail''), report]"

end
