(* ===== verification/Demo_Scenarios_3.thy ===== *)
theory Demo_Scenarios_3
  imports Demo_Scenarios_2
begin

text \<open>
  The scripts of anycable_probe.mjs, which reports what it saw, and of chaos.mjs, where a vandal sprays
  malformed frames while the others edit.
\<close>

subsection \<open>anycable_probe.mjs\<close>

type_synonym ('d, 'a, 'r) acp_script = "(('d, 'a) probe, raw_event, raw_call, 'r) script"

abbreviation acp_handle where
  "acp_handle R \<equiv> raw_handle (acp_msg R)"

text \<open>The values that are printed.\<close>

record probe_report =
  pb_subscribed :: "bool \<times> bool"
  pb_liveness :: bool
  pb_echoed :: nat
  pb_status :: nat
  pb_view :: jsstring

text \<open>\<^verbatim>\<open>doc ? doc.getXmlFragment("default").toString() : `status ${status}`\<close>\<close>

definition acp_view :: "('d, 'a, 'y) runtime_scheme \<Rightarrow> nat \<Rightarrow> 'd option \<Rightarrow> jsstring" where
  "acp_view R status d = (case d of None \<Rightarrow> js ''status '' @ dec status | Some d \<Rightarrow> rt_text R d)"

definition acp_observe :: "('d, 'a, 'y) runtime_scheme \<Rightarrow> bool \<times> bool \<Rightarrow> ('d, 'a, probe_report) acp_script" where
  "acp_observe R joined =
     follow (look (\<lambda>s. (js_includes (acp_text R (actor 1 s)) (js ''hello-from-A''), p_echoed (actor 0 s))))
       (\<lambda>(live, echoed).
     follow (read_serverDoc (acp_handle R) R) (\<lambda>(status, d).
     give \<lparr>pb_subscribed = joined, pb_liveness = live, pb_echoed = echoed, pb_status = status,
           pb_view = take 120 (acp_view R status d)\<rparr>))"

definition acp_run :: "('d, 'a, 'y) runtime_scheme \<Rightarrow> jsstring \<Rightarrow> ('d, 'a, probe_report) acp_script" where
  "acp_run R room =
     follow (steps [
       each [0..<2] (\<lambda>_. follow (enter (acp_new R room)) (\<lambda>_. give ())),
       await_until (acp_handle R) (all_subscribed [0, 1]),
       sleep (acp_handle R)]) (\<lambda>_.
     follow (look (\<lambda>s. (p_confirmed (actor 0 s), p_confirmed (actor 1 s)))) (\<lambda>joined.
     follow (steps [
       perform 0 (acp_edit R (js ''hello-from-A'')),
       sleep (acp_handle R)]) (\<lambda>_.
     acp_observe R joined)))"

definition acp_script :: "('d, 'a, 'y) runtime_scheme \<Rightarrow> jsstring \<Rightarrow> ('d, 'a, unit) acp_script" where
  "acp_script R room =
     follow (acp_run R room) (\<lambda>_. steps [perform 0 ws_close, perform 1 ws_close, exit_with 0])"

subsection \<open>chaos.mjs\<close>

text \<open>Two classes on one stage: a client is one of the first or one of the second.\<close>

definition on_left :: "('x, 'm) act \<Rightarrow> ('x + 'y, 'm + 'n) act" where
  "on_left a c =
     (case c of
        Inl x \<Rightarrow> (Inl (post (a x)), map Inl (calls (a x)), thrown (a x))
      | Inr y \<Rightarrow> skip c)"

definition on_right :: "('y, 'n) act \<Rightarrow> ('x + 'y, 'm + 'n) act" where
  "on_right a c =
     (case c of
        Inl x \<Rightarrow> skip c
      | Inr y \<Rightarrow> (Inr (post (a y)), map Inr (calls (a y)), thrown (a y)))"

datatype vandal_event = VandalIncoming jsval | VandalSocketIs ws_state

definition vandal_handle :: "vandal_event \<Rightarrow> (vandal, vandal_call) act" where
  "vandal_handle e =
     (case e of
        VandalIncoming m \<Rightarrow> vandal_onmessage m
      | VandalSocketIs w \<Rightarrow> modify (\<lambda>v. v\<lparr>v_ws := w\<rparr>))"

text \<open>\<^verbatim>\<open>vandal.ws.close()\<close>\<close>

definition vandal_close :: "(vandal, vandal_call) act" where
  "vandal_close = modify (\<lambda>v. v\<lparr>v_ws := (if v_ws v = WsClosed then WsClosed else WsClosing)\<rparr>)"

type_synonym ('d, 'a) chaos_stage =
  "(('d, 'a) raw + vandal, raw_event + vandal_event, raw_call + vandal_call) stage"
type_synonym ('d, 'a, 'r) chaos_script =
  "(('d, 'a) raw + vandal, raw_event + vandal_event, raw_call + vandal_call, 'r) script"

definition chaos_handle ::
  "('d, 'a, 'y) runtime_scheme \<Rightarrow> raw_event + vandal_event
   \<Rightarrow> (('d, 'a) raw + vandal, raw_call + vandal_call) act" where
  "chaos_handle R e =
     (case e of Inl e \<Rightarrow> on_left (raw_handle (chaos_msg R) e) | Inr e \<Rightarrow> on_right (vandal_handle e))"

abbreviation good :: "nat \<Rightarrow> ('d, 'a) chaos_stage \<Rightarrow> ('d, 'a) raw" where
  "good i s \<equiv> projl (cast s ! i)"

text \<open>\<^verbatim>\<open>Promise.all([a.subscribed, b.subscribed, bystander.subscribed, vandal.ready])\<close>\<close>

definition chaos_ready :: "('d, 'a) chaos_stage \<Rightarrow> bool" where
  "chaos_ready s \<longleftrightarrow>
     list_all (\<lambda>i. (i, Inl (Resolve ''subscribed'')) \<in> set (trace s)) [0..<3] \<and> (3, Inr VReady) \<in> set (trace s)"

definition chaos_enter :: "('d, 'a, 'y) runtime_scheme \<Rightarrow> jsstring \<Rightarrow> jsstring \<Rightarrow> ('d, 'a, unit) chaos_script" where
  "chaos_enter R room room2 =
     steps [
       each [room, room, room2] (\<lambda>r.
         follow (enter (Inl (fst (chaos_new R r)), map Inl (snd (chaos_new R r)))) (\<lambda>_. give ())),
       follow (enter (Inr (vandal_new room), [])) (\<lambda>_. give ()),
       await_until (chaos_handle R) chaos_ready]"

text \<open>The two concurrent parts: a round of the good clients, and a round of the vandal.\<close>

definition chaos_editing :: "('d, 'a, 'y) runtime_scheme \<Rightarrow> nat \<Rightarrow> ('d, 'a, unit) chaos_script list" where
  "chaos_editing R edits =
     map (\<lambda>i. steps [
       perform 0 (on_left (chaos_edit R (js ''A-'' @ dec i))),
       perform 1 (on_left (chaos_edit R (js ''B-'' @ dec i))),
       perform 2 (on_left (chaos_edit R (js ''BY-'' @ dec i)))]) [1..<Suc edits]"

definition vandal_barrage :: "vandal_data list \<Rightarrow> nat \<Rightarrow> ('d, 'a, unit) chaos_script list" where
  "vandal_barrage payloads n =
     map (\<lambda>_. each payloads (\<lambda>p. perform 3 (on_right (vandal_raw p)))) [0..<n]"

definition chaos_storm ::
  "('d, 'a, 'y) runtime_scheme \<Rightarrow> (nat \<Rightarrow> bytes) \<Rightarrow> nat \<Rightarrow> ('d, 'a, unit) chaos_script" where
  "chaos_storm R rnd edits =
     together (chaos_handle R) [
       rounds (chaos_editing R edits),
       rounds (vandal_barrage
         (vandal_payloads rnd (frameSyncStep1 (rt_api R) (newDoc (rt_api R)))) 40)]"

definition has_edits :: "string list \<Rightarrow> nat \<Rightarrow> jsstring \<Rightarrow> bool" where
  "has_edits tags edits t \<longleftrightarrow> list_all (\<lambda>tag. missing_edits tag edits t = []) tags"

text \<open>\<^verbatim>\<open>count <= n\<close> for a number; the endpoint sends one. Anything else compares false.\<close>

fun num_le :: "jsval \<Rightarrow> nat \<Rightarrow> bool" where
  "num_le (JNum (Fin q)) n \<longleftrightarrow> q \<le> of_nat n"
| "num_le (JNum NegInf) n \<longleftrightarrow> True"
| "num_le _ n \<longleftrightarrow> False"

definition chaos_checks :: "('d, 'a, 'y) runtime_scheme \<Rightarrow> nat \<Rightarrow> ('d, 'a, unit) chaos_script" where
  "chaos_checks R edits =
     steps [
       follow (fetch (chaos_handle R)) (\<lambda>(status, _).
         checkS ''server is still alive after the barrage'' (\<lambda>_. status = 200)),
       checkS ''attacked room's good clients converged byte-for-byte''
         (\<lambda>s. sameBytes (chaos_state R (good 0 s)) (chaos_state R (good 1 s))),
       checkS ''every good edit survived in the attacked room''
         (\<lambda>s. has_edits [''A-'', ''B-''] edits (chaos_text R (good 0 s))),
       checkS ''the bystander room was completely unaffected''
         (\<lambda>s. has_edits [''BY-''] edits (chaos_text R (good 2 s))),
       follow (read_serverText (chaos_handle R) R) (\<lambda>recovered.
         checkS ''every valid edit is durable'' (\<lambda>_. has_edits [''A-'', ''B-''] edits recovered)),
       follow (read_count (chaos_handle R)) (\<lambda>count.
         checkS ''no garbage became a recorded change'' (\<lambda>_. num_le count (edits * 2)))]"

definition chaos_scenario ::
  "('d, 'a, 'y) runtime_scheme \<Rightarrow> (nat \<Rightarrow> bytes) \<Rightarrow> jsstring \<Rightarrow> jsstring \<Rightarrow> nat \<Rightarrow> ('d, 'a, unit) chaos_script" where
  "chaos_scenario R rnd room room2 edits =
     steps [
       follow (fetch (chaos_handle R)) (\<lambda>_. give ()),
       chaos_enter R room room2,
       chaos_storm R rnd edits,
       sleep (chaos_handle R),
       chaos_checks R edits,
       each [0..<3] (\<lambda>i. perform i (on_left ws_close)),
       perform 3 (on_right vandal_close),
       report]"

end
