(* ===== verification/Demo_Scenarios_5.thy ===== *)
theory Demo_Scenarios_5
  imports Demo_Scenarios_3
begin

text \<open>
  The scripts of stress.mjs, a storm of clients that edit, drop out and come back, and of loadtest.mjs.
\<close>

subsection \<open>stress.mjs: who takes part\<close>

record storm_setup =
  su_clients :: nat
  su_rooms :: nat
  su_edits :: nat
  su_killers :: nat
  su_late :: nat
  su_pollers :: nat
  su_churn :: nat

text \<open>
  The numbers of the clients on the stage: the initial ones, then the pollers of all rooms, then the
  late joiners, in the order in which they are made.
\<close>

definition late_base :: "storm_setup \<Rightarrow> nat" where
  "late_base su = su_clients su + su_rooms su * su_pollers su"

definition storm_name :: "storm_setup \<Rightarrow> nat \<Rightarrow> jsstring" where
  "storm_name su i =
     (if i < su_clients su then js ''c'' @ dec i else js ''late'' @ dec (i - late_base su))"

text \<open>\<^verbatim>\<open>clientsByRoom.get(room)\<close>\<close>

definition storm_members :: "storm_setup \<Rightarrow> nat \<Rightarrow> nat list" where
  "storm_members su r =
     filter (\<lambda>i. i mod su_rooms su = r) [0..<su_clients su]
     @ map (\<lambda>j. late_base su + j) (filter (\<lambda>j. j mod su_rooms su = r) [0..<su_late su])"

definition storm_churns :: "storm_setup \<Rightarrow> nat \<Rightarrow> bool" where
  "storm_churns su i \<longleftrightarrow> su_killers su \<le> i \<and> i < su_killers su + su_churn su"

definition expectedTokens :: "storm_setup \<Rightarrow> nat \<Rightarrow> jsstring list" where
  "expectedTokens su r =
     concat (map (\<lambda>i. map (stress_token (storm_name su i)) [0..<su_edits su]) (storm_members su r))"

text \<open>A poller: whether \<^verbatim>\<open>polling\<close> is still set, and whether its loop has ended.\<close>

record poller =
  po_polling :: bool
  po_ended :: bool

datatype poll_call = PollError | PollCount

datatype stress_event = StressRaw raw_event | StressError

type_synonym ('d, 'a) storm_stage =
  "(('d, 'a) stress + poller, stress_event + nat, raw_call + poll_call) stage"
type_synonym ('d, 'a, 'r) storm_script =
  "(('d, 'a) stress + poller, stress_event + nat, raw_call + poll_call, 'r) script"
type_synonym ('d, 'a) storm_strand =
  "(('d, 'a) stress + poller, stress_event + nat, raw_call + poll_call) strand"

text \<open>The answer of one request of a poller's loop, by its status.\<close>

definition poller_answer :: "nat \<Rightarrow> (poller, poll_call) act" where
  "poller_answer status =
     ifA po_ended skip
       (block [
          whenA (\<lambda>_. 500 \<le> status) (call PollError),
          call PollCount,
          whenA (\<lambda>p. \<not> po_polling p) (modify (\<lambda>p. p\<lparr>po_ended := True\<rparr>))])"

definition storm_handle ::
  "('d, 'a, 'y) runtime_scheme \<Rightarrow> stress_event + nat \<Rightarrow> (('d, 'a) stress + poller, raw_call + poll_call) act" where
  "storm_handle R e =
     (case e of
        Inl (StressRaw e) \<Rightarrow> on_left (raw_handle (stress_onMessage R) e)
      | Inl StressError \<Rightarrow> on_left stress_onerror
      | Inr status \<Rightarrow> on_right (poller_answer status))"

abbreviation stormer :: "nat \<Rightarrow> ('d, 'a) storm_stage \<Rightarrow> ('d, 'a) stress" where
  "stormer i s \<equiv> projl (cast s ! i)"

text \<open>The \<^verbatim>\<open>subscribed\<close> promise of the newest socket.\<close>

definition rejoined :: "nat \<Rightarrow> ('d, 'a) storm_stage \<Rightarrow> bool" where
  "rejoined i s \<longleftrightarrow>
     (i, Inl (Resolve ''subscribed'')) \<in> set (takeWhile (\<lambda>c. c \<noteq> (i, Inl WsNew)) (rev (trace s)))"

definition storm_enter :: "('d, 'a, 'y) runtime_scheme \<Rightarrow> jsstring \<Rightarrow> ('d, 'a, nat) storm_script" where
  "storm_enter R room = enter (Inl (fst (stress_new R room)), map Inl (snd (stress_new R room)))"

subsection \<open>stress.mjs: the storm\<close>

text \<open>
  What an action of the storm does. \<open>draw i k\<close> is the random number of client \<open>i\<close> in round \<open>k\<close>.
\<close>

fun storm_do ::
  "storm_setup \<Rightarrow> ('d, 'a, 'y) runtime_scheme \<Rightarrow> 'd shared_text \<Rightarrow> (nat \<Rightarrow> nat \<Rightarrow> rat) \<Rightarrow> nat \<Rightarrow> storm_action
   \<Rightarrow> ('d, 'a, unit) storm_script" where
  "storm_do su R T draw i StormClose = perform i (on_left ws_close)"
| "storm_do su R T draw i StormReconnect = perform i (on_left stress_reconnect)"
| "storm_do su R T draw i (StormEdit k) =
     perform i (on_left (stress_edit (rt_api R) T (draw i k) (stress_token (storm_name su i) k)))"
| "storm_do su R T draw i (StormPresence k) =
     perform i (on_left (stress_setPresence (rt_api R)
       (JObj [(''user'', JObj [(''name'', JStr (storm_name su i))]), (''round'', JInt (int k))])))"
| "storm_do su R T draw i StormFlush = perform i (on_left (stress_flushOffline (rt_api R)))"

text \<open>
  The pieces of a round: a reconnect ends one, and the next waits for the subscription.
\<close>

type_synonym ('d, 'a) storm_piece = "(('d, 'a) storm_stage \<Rightarrow> bool) \<times> ('d, 'a, unit) storm_script"

definition round_pieces ::
  "(storm_action \<Rightarrow> ('d, 'a, unit) storm_script) \<Rightarrow> nat \<Rightarrow> storm_action list \<Rightarrow> ('d, 'a) storm_piece list" where
  "round_pieces act i acts =
     (if StormReconnect \<in> set acts
      then [(\<lambda>_. True, steps (map act (takeWhile (\<lambda>a. a \<noteq> StormReconnect) acts @ [StormReconnect]))),
            (rejoined i, steps (perform i (on_left stress_reconnected)
               # map act (tl (dropWhile (\<lambda>a. a \<noteq> StormReconnect) acts))))]
      else [(\<lambda>_. True, steps (map act acts))])"

definition storm_pieces ::
  "storm_setup \<Rightarrow> ('d, 'a, 'y) runtime_scheme \<Rightarrow> 'd shared_text \<Rightarrow> (nat \<Rightarrow> nat \<Rightarrow> rat) \<Rightarrow> bool \<Rightarrow> nat
   \<Rightarrow> ('d, 'a) storm_piece list" where
  "storm_pieces su R T draw churn i =
     concat (map (\<lambda>k. round_pieces (storm_do su R T draw i) i (storm_round churn (su_edits su) k)) [0..<su_edits su])
     @ (if churn then [(\<lambda>_. True, storm_do su R T draw i StormFlush)] else [])"

definition guarded :: "('d, 'a) storm_piece list \<Rightarrow> ('d, 'a) storm_strand" where
  "guarded ms ps n answer s =
     (if n < length ms then if fst (ms ! n) s then Runs (snd (ms ! n)) else Blocked else Finished)"

fun guard_first :: "(('d, 'a) storm_stage \<Rightarrow> bool) \<Rightarrow> ('d, 'a) storm_piece list \<Rightarrow> ('d, 'a) storm_piece list" where
  "guard_first P [] = [(P, give ())]"
| "guard_first P ((Q, m) # ms) = (\<lambda>s. P s \<and> Q s, m) # ms"

text \<open>The late joiners, one after another: each subscribes and then storms.\<close>

definition late_pieces ::
  "storm_setup \<Rightarrow> ('d, 'a, 'y) runtime_scheme \<Rightarrow> 'd shared_text \<Rightarrow> (nat \<Rightarrow> nat \<Rightarrow> rat) \<Rightarrow> (nat \<Rightarrow> jsstring)
   \<Rightarrow> ('d, 'a) storm_piece list" where
  "late_pieces su R T draw room =
     (\<lambda>_. True, give ())
     # concat (map (\<lambda>j.
         (\<lambda>_. True, follow (storm_enter R (room (j mod su_rooms su))) (\<lambda>_. give ()))
         # guard_first (rejoined (late_base su + j)) (storm_pieces su R T draw False (late_base su + j)))
       [0..<su_late su])"

definition storm_join ::
  "storm_setup \<Rightarrow> ('d, 'a, 'y) runtime_scheme \<Rightarrow> (nat \<Rightarrow> jsstring) \<Rightarrow> ('d, 'a, unit) storm_script" where
  "storm_join su R room =
     steps [
       each [0..<su_clients su] (\<lambda>i. follow (storm_enter R (room (i mod su_rooms su))) (\<lambda>_. give ())),
       await_until (storm_handle R) (\<lambda>s. list_all (\<lambda>i. rejoined i s) [0..<su_clients su]),
       each (filter (storm_churns su) [0..<su_clients su])
         (\<lambda>i. perform i (on_left (modify (\<lambda>c. c\<lparr>s_churn := True\<rparr>)))),
       each [0..<su_rooms su * su_pollers su]
         (\<lambda>_. follow (enter (Inr \<lparr>po_polling = True, po_ended = False\<rparr>, [])) (\<lambda>_. give ()))]"

definition storm_run ::
  "storm_setup \<Rightarrow> ('d, 'a, 'y) runtime_scheme \<Rightarrow> 'd shared_text \<Rightarrow> (nat \<Rightarrow> nat \<Rightarrow> rat) \<Rightarrow> (nat \<Rightarrow> jsstring)
   \<Rightarrow> ('d, 'a, unit) storm_script" where
  "storm_run su R T draw room =
     steps [
       together (storm_handle R)
         (map (\<lambda>i. guarded (storm_pieces su R T draw (storm_churns su i) i)) [0..<su_clients su]
          @ [guarded (late_pieces su R T draw room)]),
       sleep (storm_handle R),
       each [0..<min (su_killers su) (su_clients su)] (\<lambda>i. perform i (on_left stress_close))]"

subsection \<open>stress.mjs: verification\<close>

text \<open>A client as the checks see it; \<open>pend d\<close> are the clients a pending update of the document waits for.\<close>

definition storm_view ::
  "('d, 'a, 'y) runtime_scheme \<Rightarrow> ('d \<Rightarrow> nat list) \<Rightarrow> jsstring \<Rightarrow> ('d, 'a) stress \<Rightarrow> storm_client" where
  "storm_view R pend name c =
     \<lparr>sc_name = name, sc_closed = c_closed c, sc_text = stress_text R c, sc_state = rt_state R (c_doc c),
      sc_pending = pend (c_doc c)\<rparr>"

definition room_view ::
  "storm_setup \<Rightarrow> ('d, 'a, 'y) runtime_scheme \<Rightarrow> ('d \<Rightarrow> nat list) \<Rightarrow> nat \<Rightarrow> ('d, 'a) storm_stage \<Rightarrow> storm_client list" where
  "room_view su R pend r s =
     map (\<lambda>i. storm_view R pend (storm_name su i) (stormer i s)) (storm_members su r)"

text \<open>The wait of the file; what it prints about a room that does not settle is \<open>diagnoseRoom\<close>.\<close>

definition storm_wait ::
  "('d, 'a, 'y) runtime_scheme \<Rightarrow> (('d, 'a) storm_stage \<Rightarrow> bool) \<Rightarrow> ('d, 'a, unit) storm_script" where
  "storm_wait R P =
     wait_with (storm_handle R) 20000 (\<lambda>start xs. fst (wait_or_diagnose () start 20000 xs)) (\<lambda>s. Inr (P s))"

definition storm_compare ::
  "storm_setup \<Rightarrow> ('d, 'a, 'y) runtime_scheme \<Rightarrow> ('d \<Rightarrow> nat list) \<Rightarrow> nat \<Rightarrow> nat \<Rightarrow> ('d, 'a, unit) storm_script" where
  "storm_compare su R pend r v =
     value_or_throw (\<lambda>s.
       case diverged (storm_view R pend (js ''verifier'') (stormer v s)) (survivors (room_view su R pend r s)) of
         Some x \<Rightarrow> Inl x | None \<Rightarrow> Inr ())"

definition storm_verify_room ::
  "storm_setup \<Rightarrow> ('d, 'a, 'y) runtime_scheme \<Rightarrow> ('d \<Rightarrow> nat list) \<Rightarrow> (nat \<Rightarrow> jsstring) \<Rightarrow> nat
   \<Rightarrow> ('d, 'a, unit) storm_script" where
  "storm_verify_room su R pend room r =
     (let n = expected_chars (expectedTokens su r)
      in follow (storm_wait R (\<lambda>s. room_settled (room_view su R pend r s) n)) (\<lambda>_.
         follow (storm_enter R (room r)) (\<lambda>v. steps [
           await_until (storm_handle R) (rejoined v),
           storm_wait R (\<lambda>s. visibleChars (stress_text R (stormer v s)) = n),
           storm_compare su R pend r v,
           follow (read_serverText (storm_handle R) R) (\<lambda>t.
             unless (\<lambda>_. length t = n) (JsError ''server state'')),
           perform v (on_left stress_close)])))"

definition storm_pollers :: "storm_setup \<Rightarrow> nat list" where
  "storm_pollers su = [su_clients su..<late_base su]"

definition pollErrors :: "('d, 'a) storm_stage \<Rightarrow> nat" where
  "pollErrors s = length (filter (\<lambda>c. snd c = Inr PollError) (trace s))"

definition storm_end ::
  "storm_setup \<Rightarrow> ('d, 'a, 'y) runtime_scheme \<Rightarrow> ('d, 'a, unit) storm_script" where
  "storm_end su R =
     steps [
       each (storm_pollers su) (\<lambda>i. perform i (on_right (modify (\<lambda>p. p\<lparr>po_polling := False\<rparr>)))),
       await_until (storm_handle R) (\<lambda>s. list_all (\<lambda>i. po_ended (projr (cast s ! i))) (storm_pollers su)),
       unless (\<lambda>s. pollErrors s = 0) (JsError ''/content requests returned 5xx''),
       each (concat (map (storm_members su) [0..<su_rooms su])) (\<lambda>i. perform i (on_left stress_close)),
       exit_with 0]"

definition storm_script ::
  "storm_setup \<Rightarrow> ('d, 'a, 'y) runtime_scheme \<Rightarrow> ('d \<Rightarrow> nat list) \<Rightarrow> 'd shared_text \<Rightarrow> (nat \<Rightarrow> nat \<Rightarrow> rat)
   \<Rightarrow> (nat \<Rightarrow> jsstring) \<Rightarrow> ('d, 'a, unit) storm_script" where
  "storm_script su R pend T draw room =
     steps [
       storm_join su R room,
       storm_run su R T draw room,
       each [0..<su_rooms su] (storm_verify_room su R pend room),
       storm_end su R]"

end
