(* ===== verification/Demo_Scenarios_6.thy ===== *)
theory Demo_Scenarios_6
  imports Demo_Scenarios
begin

text \<open>
  The script of loadtest.mjs: clients that edit at a rate, probes whose pings are timed, and the
  integrity check of the rooms.
\<close>

record ('d, 'a) load = "('d, 'a) raw" +
  l_room :: jsstring
  l_probe :: bool

text \<open>
  The calls include what happens to the shared metrics. Which update changes the "lat" map is inside
  yjs, so a call of its observer is an event, with the number it reads and the time; a tick of the
  ping timer is an event of every probe.
\<close>

datatype load_call = OfLoad raw_call | PingMark jsstring int rat | LatRead jsstring int rat

datatype load_event =
    LoadRaw raw_event
  | LoadError
  | EditTimer rat
  | PingTimer int rat
  | LatChanged int rat

type_synonym ('d, 'a) load_stage = "(('d, 'a) load, load_event, load_call) stage"
type_synonym ('d, 'a, 'r) load_script = "(('d, 'a) load, load_event, load_call, 'r) script"

definition as_load :: "(('d, 'a) load, raw_call) act \<Rightarrow> (('d, 'a) load, load_call) act" where
  "as_load a c = (post (a c), map OfLoad (calls (a c)), thrown (a c))"

text \<open>The timers' callbacks; \<open>set_lat n\<close> is \<^verbatim>\<open>lat.set("seq", n)\<close> on a document.\<close>

definition load_edit_timer :: "('d, 'a, 'y) runtime_scheme \<Rightarrow> rat \<Rightarrow> (('d, 'a) load, load_call) act" where
  "load_edit_timer R now c =
     as_load (load_edit R (js ''c'' @ l_room c @ js ''-'' @ dec (nat \<lfloor>now\<rfloor>))) c"

definition load_ping_timer ::
  "('d, 'a, 'y) runtime_scheme \<Rightarrow> (int \<Rightarrow> 'd \<Rightarrow> 'd \<times> bytes list) \<Rightarrow> int \<Rightarrow> rat
   \<Rightarrow> (('d, 'a) load, load_call) act" where
  "load_ping_timer R set_lat seq now c =
     block [call (PingMark (l_room c) seq now), as_load (load_ping (rt_api R) set_lat seq)] c"

text \<open>\<open>running\<close> says whether the timers are set.\<close>

definition load_handle ::
  "('d, 'a, 'y) runtime_scheme \<Rightarrow> (int \<Rightarrow> 'd \<Rightarrow> 'd \<times> bytes list) \<Rightarrow> bool \<Rightarrow> load_event
   \<Rightarrow> (('d, 'a) load, load_call) act" where
  "load_handle R set_lat running e =
     (case e of
        LoadRaw e \<Rightarrow> as_load (raw_handle (load_msg R) e)
      | LoadError \<Rightarrow> call (OfLoad (Count ''errors''))
      | EditTimer now \<Rightarrow> whenA (\<lambda>_. running) (load_edit_timer R now)
      | PingTimer seq now \<Rightarrow> whenA (\<lambda>c. running \<and> l_probe c) (load_ping_timer R set_lat seq now)
      | LatChanged seq now \<Rightarrow> whenA (\<lambda>c. \<not> l_probe c) (\<lambda>c. call (LatRead (l_room c) seq now) c))"

text \<open>The metrics, from the calls so far.\<close>

fun load_metric :: "nat \<times> load_call \<Rightarrow> load_metrics \<Rightarrow> load_metrics" where
  "load_metric (i, PingMark room seq now) m = load_ping_mark room seq now m"
| "load_metric (i, LatRead room seq now) m = load_observe room seq now m"
| "load_metric (i, OfLoad c) m = m"

definition load_metrics_of :: "('d, 'a) load_stage \<Rightarrow> load_metrics" where
  "load_metrics_of s = fold load_metric (trace s) \<lparr>pingSent = (\<lambda>_. None), latencies = []\<rparr>"

definition load_count :: "string \<Rightarrow> ('d, 'a) load_stage \<Rightarrow> nat" where
  "load_count name s = length (filter (\<lambda>c. snd c = OfLoad (Count name)) (trace s))"

definition load_joined :: "nat \<Rightarrow> ('d, 'a) load_stage \<Rightarrow> bool" where
  "load_joined n s \<longleftrightarrow> list_all (\<lambda>i. (i, OfLoad (Resolve ''subscribed'')) \<in> set (trace s)) [0..<n]"

definition load_enter ::
  "('d, 'a, 'y) runtime_scheme \<Rightarrow> (nat \<Rightarrow> jsstring) \<Rightarrow> nat \<Rightarrow> nat \<Rightarrow> ('d, 'a, unit) load_script" where
  "load_enter R room rooms i =
     follow
       (enter (raw.extend (fst (load_new R (room (load_room rooms i))))
                 \<lparr>l_room = room (load_room rooms i), l_probe = load_probe rooms i\<rparr>,
               map OfLoad (snd (load_new R (room (load_room rooms i))))))
       (\<lambda>_. give ())"

text \<open>The clients join, edit and ping while the timers run, and drain.\<close>

definition load_run ::
  "('d, 'a, 'y) runtime_scheme \<Rightarrow> (int \<Rightarrow> 'd \<Rightarrow> 'd \<times> bytes list) \<Rightarrow> (nat \<Rightarrow> jsstring) \<Rightarrow> nat \<Rightarrow> nat
   \<Rightarrow> ('d, 'a, unit) load_script" where
  "load_run R set_lat room clients rooms =
     steps [
       each [0..<clients] (load_enter R room rooms),
       await_until (load_handle R set_lat False) (load_joined clients),
       sleep (load_handle R set_lat True),
       sleep (load_handle R set_lat False)]"

text \<open>
  The paragraphs of the server's document, 0 if there is none or if anything throws; \<open>paras\<close> counts
  the paragraphs that are not empty.
\<close>

definition serverParagraphs :: "('d, 'a, 'y) runtime_scheme \<Rightarrow> ('d \<Rightarrow> nat) \<Rightarrow> nat \<Rightarrow> jsval \<Rightarrow> nat" where
  "serverParagraphs R paras status body =
     (case serverDoc R status body of
        Inl x \<Rightarrow> 0
      | Inr (_, None) \<Rightarrow> 0
      | Inr (_, Some d) \<Rightarrow> paras d)"

text \<open>
  The integrity check: whether all rooms are fine so far, the paragraphs of the clients and of the
  server. The clients are compared before the server is asked, and counted after.
\<close>

definition load_members :: "nat \<Rightarrow> nat \<Rightarrow> nat \<Rightarrow> nat list" where
  "load_members clients rooms r = filter (\<lambda>i. load_room rooms i = r) [0..<clients]"

definition load_check_room ::
  "('d, 'a, 'y) runtime_scheme \<Rightarrow> (int \<Rightarrow> 'd \<Rightarrow> 'd \<times> bytes list) \<Rightarrow> ('d \<Rightarrow> nat) \<Rightarrow> nat list
   \<Rightarrow> bool \<times> nat \<times> nat \<Rightarrow> ('d, 'a, bool \<times> nat \<times> nat) load_script" where
  "load_check_room R set_lat paras members = (\<lambda>(converged, clientTotal, serverTotal).
     follow (value_or_throw (\<lambda>s. all_same (map (\<lambda>i. load_state R (actor i s)) members))) (\<lambda>same.
     follow (fetch (load_handle R set_lat False)) (\<lambda>(status, body).
     follow (look (\<lambda>s. paras (c_doc (actor (hd members) s)))) (\<lambda>clientParas.
     let srvParas = serverParagraphs R paras status body
     in give (converged \<and> same \<and> clientParas = srvParas, clientTotal + clientParas, serverTotal + srvParas)))))"

primrec load_check_rooms ::
  "('d, 'a, 'y) runtime_scheme \<Rightarrow> (int \<Rightarrow> 'd \<Rightarrow> 'd \<times> bytes list) \<Rightarrow> ('d \<Rightarrow> nat) \<Rightarrow> nat list list
   \<Rightarrow> bool \<times> nat \<times> nat \<Rightarrow> ('d, 'a, bool \<times> nat \<times> nat) load_script" where
  "load_check_rooms R set_lat paras [] acc = give acc"
| "load_check_rooms R set_lat paras (members # rest) acc =
     follow (load_check_room R set_lat paras members acc) (load_check_rooms R set_lat paras rest)"

text \<open>\<^verbatim>\<open>keptUp >= 0.97 && pct(latencies, 95) < 1000\<close>, where \<^verbatim>\<open>keptUp\<close> is a quotient that may be 0/0 or n/0.\<close>

definition load_keeps_up :: "nat \<Rightarrow> nat \<Rightarrow> rat list \<Rightarrow> bool" where
  "load_keeps_up applied attempted lats \<longleftrightarrow>
     (if attempted = 0 then 0 < applied else 97 * attempted \<le> 100 * applied) \<and> pct lats 95 < 1000"

record load_report =
  lr_edits :: nat
  lr_applied :: nat
  lr_keeps_up :: bool
  lr_frames :: "nat \<times> nat"
  lr_percentiles :: "rat list"
  lr_errors :: nat
  lr_paragraphs :: "nat \<times> nat"
  lr_converged :: bool

definition load_results :: "bool \<times> nat \<times> nat \<Rightarrow> ('d, 'a) load_stage \<Rightarrow> load_report" where
  "load_results = (\<lambda>(converged, clientTotal, serverTotal) s.
     \<lparr>lr_edits = load_count ''edits'' s, lr_applied = serverTotal,
      lr_keeps_up = load_keeps_up serverTotal (load_count ''edits'' s) (latencies (load_metrics_of s)),
      lr_frames = (load_count ''sent'' s, load_count ''recv'' s),
      lr_percentiles = map (pct (latencies (load_metrics_of s))) [50, 95, 99, 100],
      lr_errors = load_count ''errors'' s, lr_paragraphs = (clientTotal, serverTotal),
      lr_converged = converged\<rparr>)"

text \<open>
  The counts of the recorded entries are read and only printed. The clients are closed after the
  report and before the exit.
\<close>

definition load_measure ::
  "('d, 'a, 'y) runtime_scheme \<Rightarrow> (int \<Rightarrow> 'd \<Rightarrow> 'd \<times> bytes list) \<Rightarrow> ('d \<Rightarrow> nat) \<Rightarrow> nat \<Rightarrow> nat
   \<Rightarrow> ('d, 'a, load_report) load_script" where
  "load_measure R set_lat paras clients rooms =
     follow (each [0..<rooms] (\<lambda>_. follow (fetch (load_handle R set_lat False)) (\<lambda>_. give ()))) (\<lambda>_.
     follow (load_check_rooms R set_lat paras (map (load_members clients rooms) [0..<rooms]) (True, 0, 0)) (\<lambda>acc.
     look (load_results acc)))"

definition load_script ::
  "('d, 'a, 'y) runtime_scheme \<Rightarrow> (int \<Rightarrow> 'd \<Rightarrow> 'd \<times> bytes list) \<Rightarrow> ('d \<Rightarrow> nat) \<Rightarrow> (nat \<Rightarrow> jsstring) \<Rightarrow> nat
   \<Rightarrow> nat \<Rightarrow> ('d, 'a, unit) load_script" where
  "load_script R set_lat paras room clients rooms =
     follow (load_run R set_lat room clients rooms) (\<lambda>_.
     follow (load_measure R set_lat paras clients rooms) (\<lambda>rep. steps [
       each [0..<clients] (\<lambda>i. perform i (as_load ws_close)),
       exit_with (load_exit (lr_errors rep) (lr_converged rep))]))"

end
