(* ===== verification/Script_Theorems.thy ===== *)
theory Script_Theorems
  imports Script_Props Demo_Peers_Props Demo_Scenarios_4 Demo_Scenarios_5 Demo_Scenarios_6 Demo_Instance
begin

text \<open>
  The properties of the test scripts: what a provider does while its network drops everything, what
  the outage part of reliable_provider.mjs finds, and what a passing run means.
\<close>

subsection \<open>A network that drops everything\<close>

definition peer_run ::
  "('d, 'a) api \<Rightarrow> (jsval \<Rightarrow> jsstring) \<Rightarrow> ('d, 'a, 'z consumer_scheme) peer \<Rightarrow> peer_event list
   \<Rightarrow> ('d, 'a, 'z consumer_scheme) peer" where
  "peer_run A J = run (\<lambda>p e. post (peer_handle raw_sub_send raw_onmessage J A e p))"

definition peer_ticks :: "peer_event list \<Rightarrow> nat" where
  "peer_ticks es = length (filter (\<lambda>e. e = PeerTick) es)"

lemma cut_off_run:
  assumes "\<forall>e \<in> set es. \<not> cable_acks i e" and "cut_off L k i u p"
  shows "cut_off L (k + peer_ticks es) i u (peer_run A J p es)"
  using assms
proof (induction es arbitrary: p k)
  case (Cons e es)
  let ?q = "post (peer_handle raw_sub_send raw_onmessage J A e p)"
  have "cut_off L (if e = PeerTick then Suc k else k) i u ?q"
    using Cons.prems by (cases "e = PeerTick") (simp_all add: cut_off_ticks preservesD [OF cut_off_handle])
  from Cons.IH [OF _ this] Cons.prems(1) show ?case
    by (auto simp: peer_run_def peer_ticks_def split: if_splits)
qed (simp add: peer_run_def peer_ticks_def)

definition set_network :: "bool \<Rightarrow> ws_state \<Rightarrow> ('d, 'a, 'z consumer_scheme) peer \<Rightarrow> ('d, 'a, 'z consumer_scheme) peer" where
  "set_network hole w p = p\<lparr>pr_consumer := (pr_consumer p)\<lparr>blackhole := hole, socket := w\<rparr>\<rparr>"

lemma set_network_simps [simp]:
  "pr_provider (set_network hole w p) = pr_provider p"
  "blackhole (pr_consumer (set_network hole w p)) = hole"
  "socket (pr_consumer (set_network hole w p)) = w"
  "dropped (pr_consumer (set_network hole w p)) = dropped (pr_consumer p)"
  "attached L (set_network hole w p) = attached L p"
  "online L i (set_network hole w p) = online L i p"
  "peer_doc (set_network hole w p) = peer_doc p"
  by (simp_all add: set_network_def attached_def online_def peer_doc_def)

text \<open>
  C39: An edit made while the network drops everything is recovered without any other help. Let a
  provider be connected through its consumer with nothing unacked, and let its network begin to drop
  all frames. An edit is then kept in the queue under its number through any events (messages that
  are no acknowledgement of it, changes of the socket, ticks of the timer), and every tick is counted
  as one more dropped frame on top of the first send. When the network is back, the next tick puts
  exactly the lost update with its number on the wire, and the message acknowledging it empties the
  queue.
\<close>

theorem lost_batch_recovered:
  fixes A :: "('d, 'a) api"
  assumes "online (sub, cs) i p" and "f (peer_doc p) = (d, [u])" and "0 \<le> i" and "i \<le> max_safe_integer"
    and "\<forall>e \<in> set es. \<not> cable_acks i e"
  shows "let q = peer_run A J (post (peer_edit raw_sub_send J A f (set_network True w p))) es;
             r = set_network False WsOpen q
         in dropped (pr_consumer p) + 1 + peer_ticks es \<le> dropped (pr_consumer q)
          \<and> prov_unacked (pr_provider q) = [(i, u)]
          \<and> calls (peer_tick raw_sub_send J A r) =
              [OnWire (WireMessage (cs_identifier cs) (update_envelope (b64_of (frameUpdate A u)) (Some i)))]
          \<and> \<not> peer_hasPending (post (peer_handle raw_sub_send raw_onmessage J A
                (PeerIncoming (ack_message (cs_identifier cs) i)) (post (peer_tick raw_sub_send J A r))))"
proof -
  let ?p = "set_network True w p"
  let ?q = "peer_run A J (post (peer_edit raw_sub_send J A f ?p)) es"
  let ?r = "set_network False WsOpen ?q"
  have "cut_off (sub, cs) (Suc (dropped (pr_consumer ?p))) i u (post (peer_edit raw_sub_send J A f ?p))"
    by (rule edit_cut_off(1)) (use assms(1,2) in simp_all)
  from cut_off_run [OF assms(5) this]
  have q: "cut_off (sub, cs) (Suc (dropped (pr_consumer p)) + peer_ticks es) i u ?q" by simp
  then have r: "reconnected (sub, cs) i u ?r" by (simp add: cut_off_def reconnected_def)
  have "find_sub (JStr (cs_identifier cs)) (pr_consumer ?r) = Some cs" "cs_received cs"
    using r by (simp_all add: reconnected_def attached_def)
  then have "\<not> peer_hasPending (post (peer_handle raw_sub_send raw_onmessage J A
      (PeerIncoming (ack_message (cs_identifier cs) i)) (post (peer_tick raw_sub_send J A ?r))))"
    by (intro acked_drains [OF reconnected_tick(2) [OF r] assms(3,4)]) (simp_all add: reconnected_tick(3) [OF r])
  with q reconnected_tick(1) [OF r, of J A] show ?thesis
    by (simp add: Let_def cut_off_def held_def waiting_def prov_unacked_def unacked_of_def)
qed

text \<open>A peer that has connected through its consumer: it holds the first subscription, which is live.\<close>

definition demo_cable :: cable_sub where
  "demo_cable = \<lparr>cs_key = 0, cs_identifier = js ''doc'', cs_connected = True, cs_received = True\<rparr>"

definition demo_peer :: "(bytes, demo_aw) rp_peer" where
  "demo_peer =
     \<lparr>pr_provider =
        \<lparr>session =
           \<lparr>doc = [], awareness = Some [], synced = True,
            delivery = \<lparr>pending = [], nextSeq = 1, connected = True, timer = None, tailCache = None,
                        resendInterval = 150\<rparr>,
            doc_listener = True, aw_listener = True\<rparr>,
         channelName = js ''DocumentChannel'', channelParams = [],
         prov_sub = Some \<lparr>sub_id = 0, sub_whispers = False, sub_unsubscribes = True\<rparr>,
         prov_connected = True, status = Synced, statusListeners = [], page_listens = False,
         stashedPresence = JNull\<rparr>,
      pr_consumer = \<lparr>subs = [demo_cable], welcomed = True, socket = WsOpen, blackhole = False, dropped = 0\<rparr>,
      pr_soon = []\<rparr>"

definition demo_sub :: subscription where
  "demo_sub = \<lparr>sub_id = 0, sub_whispers = False, sub_unsubscribes = True\<rparr>"

lemma demo_peer_online: "online (demo_sub, demo_cable) 1 demo_peer"
  by (simp add: online_def attached_def demo_peer_def demo_sub_def demo_cable_def sub_of_def find_sub_def)

theorem lost_batch_recovered_witness:
  "3 \<le> dropped (pr_consumer (peer_run demo_api (\<lambda>_. js ''doc'')
     (post (peer_edit raw_sub_send (\<lambda>_. js ''doc'') demo_api (\<lambda>d. (d @ [5], [[5]]))
        (set_network True WsOpen demo_peer)))
     [PeerTick, PeerSocketIs WsClosed, PeerTick]))"
  using lost_batch_recovered [where A = demo_api and J = "\<lambda>_. js ''doc''" and w = WsOpen and u = "[5]"
      and f = "\<lambda>d. (d @ [5], [[5]])" and es = "[PeerTick, PeerSocketIs WsClosed, PeerTick]",
      OF demo_peer_online]
  by (simp add: Let_def max_safe_integer_def peer_ticks_def cable_acks_def eval_nat_numeral)

subsection \<open>The outage part of reliable_provider.mjs\<close>

text \<open>The agenda of an outage: the resend timer of client 0 ticks in every turn, and no message acks \<open>i\<close>.\<close>

definition outage_agenda :: "int \<Rightarrow> peer_event beat list \<Rightarrow> bool" where
  "outage_agenda i bs \<longleftrightarrow>
     list_all (\<lambda>b. (0, PeerTick) \<in> set (bt_tasks b)
       \<and> list_all (\<lambda>(j, e). j = 0 \<longrightarrow> \<not> cable_acks i e) (bt_tasks b)) bs"

lemma outage_turn:
  assumes "outage_agenda i bs" and "b \<in> set bs"
  shows "actor_is 0 (cut_off L k i u) t \<Longrightarrow> actor_is 0 (cut_off L (Suc k) i u) (turn (rp_handle R J) b t)"
proof (rule actor_becomes [where ?e0.0 = PeerTick and Q = "cut_off L k i u"])
  show "(0, PeerTick) \<in> set (bt_tasks b)"
    using assms by (auto simp: outage_agenda_def list_all_iff)
  show "preserves (cut_off L k i u) (rp_handle R J e) \<and> preserves (cut_off L (Suc k) i u) (rp_handle R J e)"
    if "(j, e) \<in> set (bt_tasks b)" "j = 0" for j e
    using that assms by (auto simp: outage_agenda_def list_all_iff rp_handle_def intro!: cut_off_handle)
qed (simp_all add: rp_handle_def cut_off_ticks)

lemma outage_turn_weak:
  "outage_agenda i bs \<Longrightarrow> b \<in> set bs \<Longrightarrow> actor_is 0 (cut_off L k i u) t \<Longrightarrow>
   actor_is 0 (cut_off L k i u) (turn (rp_handle R J) b t)"
  using outage_turn [of i bs b L k u t R J] cut_off_mono [of L "Suc k" i u _ k] by (auto simp: actor_is_def)

text \<open>The stage after the switch and the edit.\<close>

definition outage_stage ::
  "('d, 'a, 'y) runtime_scheme \<Rightarrow> (jsval \<Rightarrow> jsstring) \<Rightarrow> ('d, 'a) rp_stage \<Rightarrow> ('d, 'a) rp_stage" where
  "outage_stage R J s = act_on 0 (rp_edit R J ''beta-lost'') (act_on 0 (rp_blackhole True) s)"

lemma outage_start:
  assumes "0 < length (cast s)" and "online L i (cast s ! 0)"
    and "addParagraph R (peer_doc (cast s ! 0)) (js ''beta-lost'') = (d, [u])"
  shows "rp_outage R J s = rp_watch R J (outage_stage R J s)"
    and "actor_is 0 (cut_off L 1 i u) (outage_stage R J s)"
proof -
  let ?p = "cast s ! 0" and ?hole = "\<lambda>p :: ('a, 'b) rp_peer. p\<lparr>pr_consumer := (pr_consumer p)\<lparr>blackhole := True\<rparr>\<rparr>"
  have o': "online L i (?hole ?p)" using assms(2) by (simp add: online_def attached_def)
  have f: "(\<lambda>d. addParagraph R d (js ''beta-lost'')) (peer_doc (?hole ?p)) = (d, [u])"
    using assms(3) by (simp add: peer_doc_def)
  have e: "cut_off L (Suc (dropped (pr_consumer ?p))) i u (post (peer_edit raw_sub_send J (rt_api R)
        (\<lambda>d. addParagraph R d (js ''beta-lost'')) (?hole ?p)))"
      "thrown (peer_edit raw_sub_send J (rt_api R) (\<lambda>d. addParagraph R d (js ''beta-lost'')) (?hole ?p)) = None"
    using edit_cut_off [where f = "\<lambda>d. addParagraph R d (js ''beta-lost'')", OF o' _ f] by simp_all
  show "actor_is 0 (cut_off L 1 i u) (outage_stage R J s)"
    using cut_off_mono [OF e(1), of 1] assms(1)
    by (simp add: outage_stage_def actor_is_def act_on_nth rp_blackhole_def rp_edit_def)
  have "thrown (rp_edit R J ''beta-lost'' (cast (act_on 0 (rp_blackhole True) s) ! 0)) = None"
    using e(2) assms(1) by (simp add: act_on_nth rp_blackhole_def rp_edit_def)
  then show "rp_outage R J s = rp_watch R J (outage_stage R J s)"
    by (simp add: rp_outage_def perform_ok rp_blackhole_def outage_stage_def follow_def [of "rp_watch R J"]
        split: prod.split script_end.split)
qed

lemma wait_stay_false:
  "wait_counting H ms (\<lambda>start. stay_false label start ms) (\<lambda>s. Inr (P s)) s =
     (let r = poll (clock s + int ms) (samples H (\<lambda>s. Inr (P s)) (agenda s) s);
          t = poll_stage H (clock s + int ms) (\<lambda>s. Inr (P s)) (agenda s) s
      in case r of
           PollTrue \<Rightarrow> (Value False, t\<lparr>failures := Suc (failures s)\<rparr>)
         | PollTimeout \<Rightarrow> (Value True, t\<lparr>failures := failures s\<rparr>)
         | PollThrew x \<Rightarrow> (Raised x, t\<lparr>failures := failures s\<rparr>)
         | Polling \<Rightarrow> (Waiting, t\<lparr>failures := failures s\<rparr>))"
  by (simp add: wait_counting_def stay_false_def check_eq Let_def split: poll_end.split)

lemma provider_wait:
  "wait_counting H 600 (provider_stayFalse l) P = wait_counting H 600 (\<lambda>start. stay_false l start 600) P"
  by (simp add: provider_stayFalse_def [abs_def])

lemma poll_no_throw: "poll d (samples H (\<lambda>s. Inr (P s)) bs s) \<noteq> PollThrew x"
  by (induction bs arbitrary: s) auto

text \<open>
  What the outage part of reliable_provider.mjs finds. Let its first client be connected with
  nothing unacked, its second not show the text yet, and let the first's resend timer tick in every
  turn of the event loop and no message acknowledge the edit. Then the part never throws, and once its
  watch is over the two checks on the provider hold, whatever else arrives at the clients: the edit is
  still queued, and the provider has sent it at least twice.
\<close>

theorem outage_checks_hold:
  assumes "1 < length (cast s)" and "online L i (cast s ! 0)"
    and "addParagraph R (peer_doc (cast s ! 0)) (js ''beta-lost'') = (d, [u])"
    and "\<not> rp_sees R 1 ''beta-lost'' s" and "outage_agenda i (agenda s)"
  shows "case rp_outage R J s of (r, t) \<Rightarrow>
      prov_unacked (pr_provider (cast t ! 0)) = [(i, u)]
      \<and> (r = Waiting \<or>
         r = Value () \<and> tl (drop (length (printed s)) (printed t)) =
           [Ok ''p1 still has the edit queued (unacked)'', Ok ''the provider kept retransmitting (and failing)''])"
proof -
  let ?s = "outage_stage R J s" and ?H = "rp_handle R J"
  let ?P = "\<lambda>s. Inr (rp_sees R 1 ''beta-lost'' s) :: js_error + bool"
  let ?xs = "samples ?H ?P (agenda ?s) ?s" and ?t = "poll_stage ?H (clock ?s + 600) ?P (agenda ?s) ?s"
  have someone: "0 < length (cast s)" by (rule less_trans [OF _ assms(1)]) simp
  have start: "rp_outage R J s = rp_watch R J ?s" "actor_is 0 (cut_off L 1 i u) ?s"
    using outage_start [OF someone assms(2,3)] by simp_all
  have agenda: "agenda ?s = agenda s" by (simp add: outage_stage_def)
  have unseen: "?P ?s = Inr False"
    using assms(1,4) by (simp add: rp_sees_def outage_stage_def act_on_nth)
  have kept: "actor_is 0 (cut_off L 1 i u) ?t"
    by (rule poll_stage_keeps [where Q = "actor_is 0 (cut_off L 1 i u)", OF _ _ start(2)]) (use outage_turn_weak [OF assms(5), where L = L] in \<open>auto simp: agenda\<close>)
  have moved: "actor_is 0 (cut_off L 2 i u) ?t" if "poll (clock ?s + 600) ?xs \<noteq> Polling"
    by (rule poll_stage_moves [where Q = "actor_is 0 (cut_off L 1 i u)", OF unseen _ _ _ _ start(2) that])
      (use outage_turn [OF assms(5), where L = L and k = 1] outage_turn_weak [OF assms(5), where L = L] in \<open>auto simp: agenda numeral_2_eq_2\<close>)
  have queue: "prov_unacked (pr_provider (cast ?t ! 0)) = [(i, u)]"
    using kept by (simp add: actor_is_def cut_off_def held_def waiting_def prov_unacked_def unacked_of_def)
  have printed: "printed ?t = printed s" by (simp add: outage_stage_def)
  have checks: "rp_pending 0 ?t" "2 \<le> dropped (pr_consumer (cast ?t ! 0))"
    if "poll (clock ?s + 600) ?xs \<noteq> Polling"
    using moved [OF that]
    by (simp_all add: actor_is_def cut_off_def held_def waiting_def rp_pending_def peer_hasPending_def
        sess_hasPending_def hasPending_def)
  show ?thesis
    using queue checks poll_no_throw [of "clock ?s + 600" ?H "rp_sees R 1 ''beta-lost''" "agenda ?s" ?s] printed
    by (cases "poll (clock ?s + 600) ?xs")
      (simp_all add: start(1) rp_watch_def provider_wait wait_stay_false follow_def checkS_eq Let_def rp_pending_def)
qed

definition outage_demo :: "(bytes, demo_aw) rp_stage" where
  "outage_demo =
     \<lparr>cast = [demo_peer, demo_peer],
      agenda = map (\<lambda>t. \<lparr>bt_time = t, bt_tasks = [(0, PeerTick), (1, PeerTick)], bt_status = 0,
                         bt_body = JUndef, bt_resumes = None\<rparr>) [300, 600],
      clock = 0, failures = 0, printed = [], trace = []\<rparr>"

theorem outage_checks_hold_witness:
  "case rp_outage demo_rt (\<lambda>_. js ''doc'') outage_demo of (r, t) \<Rightarrow>
     length (prov_unacked (pr_provider (cast t ! 0))) = 1"
proof -
  have edit: "addParagraph demo_rt (peer_doc (cast outage_demo ! 0)) (js ''beta-lost'') =
      (map (\<lambda>c. of_nat (unat c)) (js ''beta-lost''), [map (\<lambda>c. of_nat (unat c)) (js ''beta-lost'')])"
    by (simp add: outage_demo_def demo_peer_def demo_rt_def addParagraph_def peer_doc_def)
  have "\<not> rp_sees demo_rt 1 ''beta-lost'' outage_demo"
    by (simp add: rp_sees_def outage_demo_def peer_doc_def demo_peer_def demo_rt_def js_def)
  from outage_checks_hold [OF _ _ edit this, where i = 1 and L = "(demo_sub, demo_cable)" and J = "\<lambda>_. js ''doc''"]
  show ?thesis
    by (simp add: outage_demo_def demo_peer_online outage_agenda_def cable_acks_def split: prod.splits)
qed

end
