(* ===== verification/Script_Passing.thy ===== *)
theory Script_Passing
  imports Script_Props Demo_Peers_Props Demo_Scenarios_4
begin

text \<open>
  What a passing run of a test script means: the checks it has counted, and for
  reliable_provider.mjs what its exit code says.
\<close>

subsection \<open>What a script counts\<close>















subsection \<open>The exit code of reliable_provider.mjs\<close>













end
