(* ===== verification/Demo_Browsers.thy ===== *)
theory Demo_Browsers
  imports Demo_Scenarios
begin

text \<open>
  The test programs that drive real browsers through the command line of agent-browser, and
  agent_browsers.mjs. A command is a session and its arguments; what the tool prints is the answer of
  the environment. Such a script makes no clients: its stage holds the commands it ran, the checks
  and the clock.
\<close>

type_synonym command = "jsstring \<times> jsstring list"
type_synonym driver_stage = "(unit, unit, command) stage"
type_synonym 'r driver = "(unit, unit, command, 'r) script"

definition no_events :: "unit \<Rightarrow> (unit, command) act" where
  "no_events e = skip"

subsection \<open>Strings\<close>

text \<open>\<^verbatim>\<open>/\btrue\b/.test(s)\<close>: the word, with no letter, digit or underscore next to it.\<close>

definition word_char :: "16 word \<Rightarrow> bool" where
  "word_char c \<longleftrightarrow>
     digit c \<or> 65 \<le> c \<and> c \<le> 90 \<or> 97 \<le> c \<and> c \<le> 122 \<or> c = 95"

fun true_from :: "bool \<Rightarrow> jsstring \<Rightarrow> bool" where
  "true_from inside [] \<longleftrightarrow> False"
| "true_from inside (c # s) \<longleftrightarrow>
     \<not> inside \<and> js_starts (c # s) (js ''true'')
       \<and> (case drop 4 (c # s) of [] \<Rightarrow> True | d # _ \<Rightarrow> \<not> word_char d)
     \<or> true_from (word_char c) s"

definition says_true :: "jsstring \<Rightarrow> bool" where
  "says_true s = true_from False s"

text \<open>\<^verbatim>\<open>Number(s)\<close>, as an exact number.\<close>

definition digit_value :: "16 word \<Rightarrow> nat" where
  "digit_value c =
     (if digit c then unat c - 48
      else if 65 \<le> c \<and> c \<le> 90 then unat c - 55
      else if 97 \<le> c \<and> c \<le> 122 then unat c - 87 else 36)"

definition number_in :: "nat \<Rightarrow> jsstring \<Rightarrow> nat" where
  "number_in base = foldl (\<lambda>n c. n * base + digit_value c) 0"

definition js_signed :: "(jsstring \<Rightarrow> rat option) \<Rightarrow> jsstring \<Rightarrow> rat option" where
  "js_signed f s =
     (case s of
        [] \<Rightarrow> f []
      | c # r \<Rightarrow> if c = 43 then f r else if c = 45 then map_option uminus (f r) else f s)"

definition js_exponent :: "jsstring \<Rightarrow> rat option" where
  "js_exponent s = (if s \<noteq> [] \<and> list_all digit s then Some (of_nat (number_in 10 s)) else None)"

definition js_decimal :: "jsstring \<Rightarrow> rat option" where
  "js_decimal s =
     (let whole = takeWhile digit s; r = dropWhile digit s;
          point = (r \<noteq> [] \<and> hd r = 46);
          frac = (if point then takeWhile digit (tl r) else []);
          r = (if point then dropWhile digit (tl r) else r);
          m = of_nat (number_in 10 (whole @ frac)) / 10 ^ length frac
      in if whole @ frac = [] then None
         else if r = [] then Some m
         else if hd r = 101 \<or> hd r = 69
         then map_option (\<lambda>k. if 0 \<le> k then m * 10 ^ nat \<lfloor>k\<rfloor> else m / 10 ^ nat \<lfloor>- k\<rfloor>)
                (js_signed js_exponent (tl r))
         else None)"

definition js_radix :: "nat \<Rightarrow> jsstring \<Rightarrow> jsnum" where
  "js_radix base s =
     (if s \<noteq> [] \<and> list_all (\<lambda>c. digit_value c < base) s then Fin (of_nat (number_in base s)) else NaN)"

definition js_Number :: "jsstring \<Rightarrow> jsnum" where
  "js_Number text =
     (let s = js_trim text; prefix = take 2 s
      in if s = [] then Fin 0
         else if prefix = js ''0x'' \<or> prefix = js ''0X'' then js_radix 16 (drop 2 s)
         else if prefix = js ''0o'' \<or> prefix = js ''0O'' then js_radix 8 (drop 2 s)
         else if prefix = js ''0b'' \<or> prefix = js ''0B'' then js_radix 2 (drop 2 s)
         else if s = js ''Infinity'' \<or> s = js ''+Infinity'' then PosInf
         else if s = js ''-Infinity'' then NegInf
         else case js_signed js_decimal s of None \<Rightarrow> NaN | Some q \<Rightarrow> Fin q)"

text \<open>A number and a text in a label.\<close>

definition chars :: "jsstring \<Rightarrow> string" where
  "chars s = map (\<lambda>c. char_of (unat c)) s"

definition in_label :: "nat \<Rightarrow> string" where
  "in_label n = chars (dec n)"

definition quoted :: "16 word \<Rightarrow> string" where
  "quoted c = CHR 0x27 # chars [c] @ [CHR 0x27]"

subsection \<open>Running commands\<close>

text \<open>
  \<^verbatim>\<open>ab(session, ..args)\<close>: the trimmed standard output of a command that succeeds, or what a failed one
  printed on both outputs. Commands run together under \<^verbatim>\<open>Promise.all\<close> are issued first.
\<close>

definition text_of :: "jsval \<Rightarrow> string \<Rightarrow> jsstring" where
  "text_of body k = (case js_get body k of Inr (JStr t) \<Rightarrow> t | _ \<Rightarrow> [])"

definition command_text :: "nat \<Rightarrow> jsval \<Rightarrow> jsstring" where
  "command_text status body =
     (if status = 0 then js_trim (text_of body ''stdout'')
      else text_of body ''stdout'' @ text_of body ''stderr'')"

definition issue :: "command list \<Rightarrow> unit driver" where
  "issue cs s = (Value (), s\<lparr>trace := trace s @ map (Pair 0) cs\<rparr>)"

definition answer :: "jsstring driver" where
  "answer = follow (next_beat no_events) (\<lambda>b. give (command_text (bt_status b) (bt_body b)))"

primrec answers :: "nat \<Rightarrow> jsstring list driver" where
  "answers 0 = give []"
| "answers (Suc n) = follow answer (\<lambda>t. follow (answers n) (\<lambda>ts. give (t # ts)))"

definition ab :: "jsstring \<Rightarrow> jsstring list \<Rightarrow> jsstring driver" where
  "ab session args = follow (issue [(session, args)]) (\<lambda>_. answer)"

definition ab_all :: "command list \<Rightarrow> jsstring list driver" where
  "ab_all cs = follow (issue cs) (\<lambda>_. answers (length cs))"

definition ignored :: "'r driver \<Rightarrow> unit driver" where
  "ignored m = follow m (\<lambda>_. give ())"

subsection \<open>Waiting\<close>

text \<open>
  \<^verbatim>\<open>while (Date.now() < end) { if (await fn()) return true; await sleep(..) }\<close> over an asynchronous
  predicate. A round takes at least the turn of its sleep, so the fuel is the length of the agenda.
\<close>

primrec polls :: "nat \<Rightarrow> bool driver \<Rightarrow> int \<Rightarrow> bool driver" where
  "polls 0 P deadline = (\<lambda>s. (Waiting, s))"
| "polls (Suc n) P deadline =
     (\<lambda>s. if clock s < deadline
          then follow P (\<lambda>yes. if yes then give True
                               else follow (sleep no_events) (\<lambda>_. polls n P deadline)) s
          else (Value False, s))"

definition poll_for :: "nat \<Rightarrow> bool driver \<Rightarrow> bool driver" where
  "poll_for ms P s = polls (Suc (length (agenda s))) P (clock s + int ms) s"

definition agent_waitFor :: "string \<Rightarrow> bool driver \<Rightarrow> bool driver" where
  "agent_waitFor label P =
     follow (poll_for 30000 P) (\<lambda>yes.
       if yes then give True
       else follow (checkS (''TIMEOUT: '' @ label) (\<lambda>_. False)) (\<lambda>_. give False))"

text \<open>\<^verbatim>\<open>if (failures > 0) { .. process.exit(1) }\<close>, and the end of the module otherwise.\<close>

definition agent_report :: "unit driver" where
  "agent_report s = (if 0 < failures s then exit_with 1 s else give () s)"

text \<open>\<^verbatim>\<open>p.catch(() => v)\<close>\<close>

definition catch_with :: "'r \<Rightarrow> 'r driver \<Rightarrow> 'r driver" where
  "catch_with v m s = (case m s of (Raised x, t) \<Rightarrow> (Value v, t) | r \<Rightarrow> r)"

subsection \<open>agent_browsers.mjs\<close>

definition session_name :: "nat \<Rightarrow> jsstring" where
  "session_name i = js ''ab'' @ dec (i + 1)"

definition sessions :: "nat \<Rightarrow> jsstring list" where
  "sessions n = map session_name [0..<n]"

text \<open>\<^verbatim>\<open>SESSIONS[0]\<close>; without browsers it is undefined, which is the tool's default session.\<close>

definition first_session :: "nat \<Rightarrow> jsstring" where
  "first_session n = (if n = 0 then [] else session_name 0)"

definition docText :: "jsstring \<Rightarrow> command" where
  "docText s = (s, [js ''eval'', js ''window.__yrb.ydoc.getXmlFragment(\"default\").toString()''])"

definition syncedText :: "jsstring \<Rightarrow> command" where
  "syncedText s = (s, [js ''eval'', js ''!!(window.__yrb && window.__yrb.provider.synced && window.__yrb.editor)''])"

definition awarenessText :: "jsstring \<Rightarrow> command" where
  "awarenessText s = (s, [js ''eval'', js ''window.__yrb.provider.awareness.getStates().size''])"

definition clicked :: "jsstring \<Rightarrow> command" where
  "clicked s = (s, [js ''click'', js ''.ProseMirror''])"

definition typed :: "nat \<Rightarrow> nat \<Rightarrow> command" where
  "typed per i = (session_name i, [js ''keyboard'', js ''type'', agent_types per i])"

definition awaitConvergence :: "nat \<Rightarrow> string \<Rightarrow> nat \<Rightarrow> bool driver" where
  "awaitConvergence n label perDigit =
     agent_waitFor label (follow (ab_all (map docText (sessions n)))
       (\<lambda>ts. give (agent_converged (agent_digits n) perDigit ts)))"

definition digit_checks :: "nat \<Rightarrow> nat \<Rightarrow> jsstring \<Rightarrow> (string \<times> bool) list" where
  "digit_checks n perDigit t =
     map (\<lambda>i. (''browser '' @ in_label (i + 1) @ '': all '' @ in_label perDigit @ '' of ''
                 @ quoted (agent_digit i) @ '' present (got '' @ in_label (countChar t (agent_digit i)) @ '')'',
               countChar t (agent_digit i) = perDigit)) [0..<n]"

definition conserved_check :: "nat \<Rightarrow> nat \<Rightarrow> jsstring \<Rightarrow> string \<times> bool" where
  "conserved_check n perDigit t =
     (''characters conserved ('' @ in_label (sum_list (map (countChar t) (agent_digits n)))
        @ '' == '' @ in_label (perDigit * n) @ '')'',
      agent_conserved (agent_digits n) perDigit t)"

definition typeRound :: "nat \<Rightarrow> nat \<Rightarrow> nat \<Rightarrow> nat \<Rightarrow> unit driver" where
  "typeRound n per k perDigit =
     steps [
       ignored (ab_all (map clicked (sessions n))),
       ignored (ab_all (map (typed per) [0..<n])),
       follow (awaitConvergence n
         (''all '' @ in_label n @ '' browsers converged (round '' @ in_label k @ '')'') perDigit) (\<lambda>converged.
         if \<not> converged then give ()
         else follow (ab (fst (docText (first_session n))) (snd (docText (first_session n)))) (\<lambda>t.
              follow (ab_all (map docText (sessions n))) (\<lambda>ts.
                check_all ((''every browser identical after round '' @ in_label k, list_all (\<lambda>x. x = t) ts)
                  # digit_checks n perDigit t @ [conserved_check n perDigit t]))))]"

text \<open>1. The same document in every browser, until each is synced and sees the others.\<close>

definition open_browsers :: "nat \<Rightarrow> jsstring \<Rightarrow> unit driver" where
  "open_browsers n url =
     steps [
       each (sessions n) (\<lambda>s. ignored (ab s [js ''open'', url])),
       each (sessions n) (\<lambda>s. ignored (agent_waitFor (chars s @ '' synced'')
         (follow (ab (fst (syncedText s)) (snd (syncedText s))) (\<lambda>t. give (says_true t))))),
       ignored (ab_all (map clicked (sessions n))),
       checkS (''all '' @ in_label n @ '' browsers connected and synced'') (\<lambda>_. True)]"

definition all_counted :: "nat \<Rightarrow> jsstring list \<Rightarrow> bool" where
  "all_counted n ts \<longleftrightarrow> list_all (\<lambda>t. js_Number t = Fin (of_nat n)) ts"

definition await_presence :: "nat \<Rightarrow> unit driver" where
  "await_presence n =
     (let label = ''awareness shows '' @ in_label n @ '' live users'';
          counts = ab_all (map awarenessText (sessions n))
      in steps [
           ignored (agent_waitFor label (follow counts (\<lambda>ts. give (all_counted n ts)))),
           follow counts (\<lambda>ts. checkS label (\<lambda>_. all_counted n ts))])"

text \<open>3. The store reflects every keystroke.\<close>

definition store_checks :: "nat \<Rightarrow> nat \<Rightarrow> jsstring \<Rightarrow> jsstring \<Rightarrow> (string \<times> bool) list" where
  "store_checks n perDigit storeText browserText =
     map (\<lambda>d. (''store reflects all '' @ in_label perDigit @ '' of '' @ quoted d @ '' (got ''
                 @ in_label (countChar storeText d) @ '')'',
               countChar storeText d = perDigit)) (agent_digits n)
     @ [(''store keystrokes match the browsers' converged text'',
         onlyDigits (agent_digits n) storeText = onlyDigits (agent_digits n) browserText)]"

definition check_store ::
  "('d, 'a, 'y) runtime_scheme \<Rightarrow> nat \<Rightarrow> nat \<Rightarrow> unit driver" where
  "check_store R n perDigit =
     follow (ab (fst (docText (first_session n))) (snd (docText (first_session n)))) (\<lambda>browserText.
     follow (catch_with [] (read_serverText no_events R)) (\<lambda>storeText.
       check_all (store_checks n perDigit storeText browserText)))"

definition agent_browsers ::
  "('d, 'a, 'y) runtime_scheme \<Rightarrow> nat \<Rightarrow> nat \<Rightarrow> jsstring \<Rightarrow> unit driver" where
  "agent_browsers R n per url =
     steps [
       open_browsers n url,
       await_presence n,
       typeRound n per 1 per,
       typeRound n per 2 (per * 2),
       check_store R n (per * 2),
       ignored (ab (first_session n) [js ''close'', js ''--all'']),
       agent_report]"

end
