(* ===== verification/Demo_Browsers_2.thy ===== *)
theory Demo_Browsers_2
  imports Demo_Browsers
begin

text \<open>
  agent_collab.mjs and opaque_demos_e2e.mjs: the other two programs that drive browsers.
\<close>

subsection \<open>agent_collab.mjs\<close>

text \<open>
  What \<^verbatim>\<open>eval\<close> printed, read back: undefined after an evaluation error, the text itself if it is not
  JSON. \<open>P\<close> is \<^verbatim>\<open>JSON.parse\<close>, none when it throws.
\<close>

definition evaluated :: "(jsstring \<Rightarrow> jsval option) \<Rightarrow> jsstring \<Rightarrow> jsval" where
  "evaluated P out =
     (if js_starts out [0x2717] then JUndef
      else case P out of None \<Rightarrow> JStr out | Some v \<Rightarrow> v)"

definition ab_js :: "(jsstring \<Rightarrow> jsval option) \<Rightarrow> jsstring \<Rightarrow> string \<Rightarrow> jsval driver" where
  "ab_js P s expr = follow (ab s [js ''eval'', js expr]) (\<lambda>out. give (evaluated P out))"

definition ab_js_all :: "(jsstring \<Rightarrow> jsval option) \<Rightarrow> (jsstring \<times> string) list \<Rightarrow> jsval list driver" where
  "ab_js_all P cs =
     follow (ab_all (map (\<lambda>(s, expr). (s, [js ''eval'', js expr])) cs)) (\<lambda>outs. give (map (evaluated P) outs))"

record collab_user =
  cu_session :: jsstring
  cu_name :: string
  cu_color :: string

definition Alice :: collab_user where
  "Alice = \<lparr>cu_session = js ''collabA'', cu_name = ''Alice'', cu_color = ''#f87171''\<rparr>"

definition Bob :: collab_user where
  "Bob = \<lparr>cu_session = js ''collabB'', cu_name = ''Bob'', cu_color = ''#22d3ee''\<rparr>"

definition Carol :: collab_user where
  "Carol = \<lparr>cu_session = js ''collabC'', cu_name = ''Carol'', cu_color = ''#4ade80''\<rparr>"

definition USERS :: "collab_user list" where
  "USERS = [Alice, Bob, Carol]"

definition everywhere :: "string \<Rightarrow> (jsstring \<times> string) list" where
  "everywhere expr = map (\<lambda>u. (cu_session u, expr)) USERS"

definition html_expr :: string where
  "html_expr = ''window.__yrb.editor.getHTML()''"

definition labels_expr :: string where
  "labels_expr =
     ''Array.from(document.querySelectorAll(\".collaboration-cursor__label\")).map(e => e.textContent)''"

definition selection_expr :: string where
  "selection_expr = ''!!document.querySelector(\".ProseMirror-yjs-selection\")''"

definition awareness_expr :: string where
  "awareness_expr = ''window.__yrb.provider.awareness.getStates().size''"

text \<open>\<^verbatim>\<open>v.includes(t)\<close> and \<^verbatim>\<open>v?.includes(t)\<close>: strings and arrays have the method.\<close>

fun call_includes :: "jsval \<Rightarrow> jsstring \<Rightarrow> js_error + bool" where
  "call_includes (JStr s) t = Inr (js_includes s t)"
| "call_includes (JArr vs) t = Inr (JStr t \<in> set vs)"
| "call_includes JUndef t = Inl (TypeError ''cannot read properties of undefined'')"
| "call_includes JNull t = Inl (TypeError ''cannot read properties of null'')"
| "call_includes _ t = Inl (TypeError ''includes is not a function'')"

definition opt_includes :: "jsval \<Rightarrow> jsstring \<Rightarrow> js_error + bool" where
  "opt_includes v t = (if v \<in> {JUndef, JNull} then Inr False else call_includes v t)"

text \<open>\<^verbatim>\<open>vs.every((v) => v === vs[0])\<close>: two parsed objects are never the same one.\<close>

fun is_object :: "jsval \<Rightarrow> bool" where
  "is_object (JArr vs) \<longleftrightarrow> True"
| "is_object (JObj ps) \<longleftrightarrow> True"
| "is_object _ \<longleftrightarrow> False"

fun all_identical :: "jsval list \<Rightarrow> bool" where
  "all_identical [] \<longleftrightarrow> True"
| "all_identical (v # vs) \<longleftrightarrow>
     v \<noteq> JNum NaN \<and> list_all (\<lambda>w. w = v \<and> \<not> is_object w) vs"

text \<open>\<^verbatim>\<open>ms.every((m) => v.includes(m))\<close>\<close>

primrec includes_all :: "jsval \<Rightarrow> string list \<Rightarrow> js_error + bool" where
  "includes_all v [] = Inr True"
| "includes_all v (m # ms) =
     (case call_includes v (js m) of Inl x \<Rightarrow> Inl x | Inr b \<Rightarrow> if b then includes_all v ms else Inr False)"

text \<open>\<^verbatim>\<open>v >= n\<close>: a text is read as a number. The tool prints no arrays here.\<close>

fun js_ge :: "jsval \<Rightarrow> nat \<Rightarrow> bool" where
  "js_ge (JStr s) n = num_ge (JNum (js_Number s)) n"
| "js_ge v n = num_ge v n"

text \<open>1. Three browsers on one document, with fixed identities.\<close>

definition pin_expr :: "collab_user \<Rightarrow> string" where
  "pin_expr u =
     ''window.__yrb.editor.commands.updateUser({ name: \"'' @ cu_name u @ ''\", color: \"'' @ cu_color u @ ''\" })''"

definition collab_open :: "(jsstring \<Rightarrow> jsval option) \<Rightarrow> jsstring \<Rightarrow> unit driver" where
  "collab_open P url =
     steps [
       each USERS (\<lambda>u. ignored (ab (cu_session u) [js ''open'', url])),
       each USERS (\<lambda>u. ignored (agent_waitFor (cu_name u @ '' synced'')
         (follow (ab (fst (syncedText (cu_session u))) (snd (syncedText (cu_session u))))
            (\<lambda>t. give (says_true t))))),
       each USERS (\<lambda>u. ignored (ab_js P (cu_session u) (pin_expr u))),
       ignored (ab_all (map (\<lambda>u. clicked (cu_session u)) USERS)),
       ignored (agent_waitFor ''awareness shows all 3 users''
         (follow (ab_js_all P (everywhere awareness_expr)) (\<lambda>ns. give (list_all (\<lambda>v. v = JInt 3) ns)))),
       checkS ''3 browsers connected, synced, present'' (\<lambda>_. True)]"

text \<open>2. Three differently formatted blocks at once: every mark and block type survives.\<close>

definition collab_inserts :: "(jsstring \<times> string) list" where
  "collab_inserts =
     [(cu_session Alice, ''window.__yrb.editor.chain().focus(\"end\").insertContent(\"<p><strong>BOLD-Alice</strong></p>\").run()''),
      (cu_session Bob, ''window.__yrb.editor.chain().focus(\"end\").insertContent(\"<p><em>ITALIC-Bob</em></p>\").run()''),
      (cu_session Carol, ''window.__yrb.editor.chain().focus(\"end\").insertContent(\"<h2>HEAD-Carol</h2>\").run()'')]"

definition collab_markers :: "(string \<times> string) list" where
  "collab_markers =
     [(''<strong>BOLD-Alice</strong>'', ''BOLD-Alice''), (''<em>ITALIC-Bob</em>'', ''ITALIC-Bob''),
      (''HEAD-Carol'', ''HEAD-Carol'')]"

definition first_val :: "jsval list \<Rightarrow> jsval" where
  "first_val vs = (case vs of [] \<Rightarrow> JUndef | v # _ \<Rightarrow> v)"

definition collab_merge :: "(jsstring \<Rightarrow> jsval option) \<Rightarrow> unit driver" where
  "collab_merge P =
     steps [
       ignored (ab_js_all P collab_inserts),
       ignored (agent_waitFor ''rich-text converged across all 3''
         (follow (ab_js_all P (everywhere html_expr)) (\<lambda>htmls.
            if all_identical htmls
            then value_or_throw (\<lambda>_. includes_all (first_val htmls) (map fst collab_markers))
            else give False))),
       follow (ab_js_all P (everywhere html_expr)) (\<lambda>htmls. steps [
         checkS ''all 3 editors identical after concurrent rich-text edits'' (\<lambda>_. all_identical htmls),
         each collab_markers (\<lambda>(m, name).
           follow (value_or_throw (\<lambda>_. call_includes (first_val htmls) (js m))) (\<lambda>there.
             checkS (''formatting survived the merge: '' @ name) (\<lambda>_. there)))])]"

text \<open>3. The others render Alice's named caret and her selection.\<close>

definition sees_caret :: "(jsstring \<Rightarrow> jsval option) \<Rightarrow> collab_user \<Rightarrow> bool driver" where
  "sees_caret P u =
     follow (ab_js P (cu_session u) labels_expr) (\<lambda>v.
       value_or_throw (\<lambda>_. call_includes v (js ''Alice'')))"

definition collab_cursor :: "(jsstring \<Rightarrow> jsval option) \<Rightarrow> unit driver" where
  "collab_cursor P =
     steps [
       ignored (ab_js P (cu_session Alice)
         ''window.__yrb.editor.chain().focus().setTextSelection({ from: 1, to: 6 }).run()''),
       each [Bob, Carol] (\<lambda>u. steps [
         ignored (agent_waitFor (cu_name u @ '' sees Alice's named caret'')
           (follow (ab_js P (cu_session u) labels_expr) (\<lambda>v.
              value_or_throw (\<lambda>_. opt_includes v (js ''Alice''))))),
         follow (sees_caret P u) (\<lambda>b.
           checkS (cu_name u @ '' renders Alice's remote caret labelled \"Alice\"'') (\<lambda>_. b)),
         follow (ab_js P (cu_session u) selection_expr) (\<lambda>v.
           checkS (cu_name u @ '' renders Alice's selection highlight'') (\<lambda>_. v = JBool True))])]"

text \<open>4. The caret survives an edit of someone else. 5. Alice leaves, and her caret goes.\<close>

definition collab_leave :: "(jsstring \<Rightarrow> jsval option) \<Rightarrow> unit driver" where
  "collab_leave P =
     steps [
       ignored (ab_js P (cu_session Bob)
         ''window.__yrb.editor.chain().focus(\"end\").insertContent(\" bob-edits\").run()''),
       sleep no_events,
       follow (sees_caret P Bob) (\<lambda>b.
         checkS ''Alice's caret still present in Bob's view after Bob edits'' (\<lambda>_. b)),
       ignored (ab_js P (cu_session Alice) ''window.__yrb.provider.disconnect(); \"disconnected\"''),
       follow (agent_waitFor ''Alice's caret removed from Bob after she leaves''
                 (follow (sees_caret P Bob) (\<lambda>b. give (\<not> b)))) (\<lambda>reaped.
         checkS ''Alice's caret reaped from Bob on disconnect'' (\<lambda>_. reaped)),
       follow (ab_js P (cu_session Bob) awareness_expr) (\<lambda>v.
         checkS ''Bob and Carol remain present after Alice leaves'' (\<lambda>_. js_ge v 2))]"

definition agent_collab :: "(jsstring \<Rightarrow> jsval option) \<Rightarrow> jsstring \<Rightarrow> unit driver" where
  "agent_collab P url =
     steps [
       collab_open P url,
       collab_merge P,
       collab_cursor P,
       collab_leave P,
       ignored (ab (cu_session Bob) [js ''close'', js ''--all'']),
       agent_report]"

subsection \<open>opaque_demos_e2e.mjs\<close>

text \<open>
  The commands are run synchronously here, and their output is not trimmed. A wait that times out
  only prints a line; its value is what is checked.
\<close>

definition page_ab :: "jsstring \<Rightarrow> jsstring list \<Rightarrow> jsstring driver" where
  "page_ab s args =
     follow (issue [(s, args)]) (\<lambda>_. follow (next_beat no_events) (\<lambda>b.
       give (text_of (bt_body b) ''stdout''
             @ (if bt_status b = 0 then [] else text_of (bt_body b) ''stderr''))))"

definition page_do :: "string \<Rightarrow> jsstring list \<Rightarrow> unit driver" where
  "page_do s args = ignored (page_ab (js s) args)"

definition waitEval :: "string \<Rightarrow> jsstring \<Rightarrow> bool driver" where
  "waitEval s expr =
     poll_for 15000 (follow (page_ab (js s) [js ''eval'', expr]) (\<lambda>out. give (says_true out)))"

definition check_eval :: "string \<Rightarrow> string \<Rightarrow> jsstring \<Rightarrow> unit driver" where
  "check_eval label s expr = follow (waitEval s expr) (\<lambda>yes. checkS label (\<lambda>_. yes))"

definition page_url :: "jsstring \<Rightarrow> jsstring \<Rightarrow> string \<Rightarrow> jsstring" where
  "page_url base tag page = base @ js ''/docs/demo-'' @ tag @ js ''/'' @ js page"

text \<open>Two windows on a page, until both are synced; \<open>body\<close> is what happens on it.\<close>

definition on_page :: "jsstring \<Rightarrow> jsstring \<Rightarrow> string \<Rightarrow> string \<Rightarrow> string \<Rightarrow> unit driver list \<Rightarrow> unit driver" where
  "on_page base tag page a b body =
     steps ([
       page_do a [js ''open'', page_url base tag page],
       page_do b [js ''open'', page_url base tag page],
       check_eval ''a synced'' a (js ''!!window.__yrb?.provider?.synced''),
       check_eval ''b synced'' b (js ''!!window.__yrb?.provider?.synced'')]
       @ body
       @ [page_do a [js ''close''], page_do b [js ''close'']])"

definition codemirror_page :: "jsstring \<Rightarrow> jsstring \<Rightarrow> unit driver" where
  "codemirror_page base tag =
     on_page base tag ''codemirror'' ''cm-a'' ''cm-b'' [
       page_do ''cm-a'' [js ''click'', js ''.cm-content''],
       page_do ''cm-a'' [js ''keyboard'', js ''type'', js ''X'' @ tag],
       check_eval ''b sees a's code'' ''cm-b''
         (js ''window.__yrb.ytext.toString().includes(\"X'' @ tag @ js ''\")'')]"

definition whiteboard_page :: "jsstring \<Rightarrow> jsstring \<Rightarrow> unit driver" where
  "whiteboard_page base tag =
     on_page base tag ''whiteboard'' ''wb-a'' ''wb-b'' [
       page_do ''wb-a'' [js ''eval'', js ''(() => { const c=document.getElementById('canvas'); const r=c.getBoundingClientRect(); c.dispatchEvent(new MouseEvent('dblclick',{bubbles:true,clientX:r.left+150,clientY:r.top+150})); })()''],
       check_eval ''b sees a new shape'' ''wb-b'' (js ''window.__yrb.shapes.size >= 3''),
       page_do ''wb-a'' [js ''eval'', js ''(() => { const ids=[...window.__yrb.shapes.keys()]; const m=window.__yrb.shapes.get(ids[ids.length-1]); m.doc.transact(()=>{m.set('x',777);m.set('y',555);}); })()''],
       check_eval ''b sees the move'' ''wb-b''
         (js ''[...window.__yrb.shapes.values()].some(m=>m.get('x')===777&&m.get('y')===555)'')]"

definition kanban_page :: "jsstring \<Rightarrow> jsstring \<Rightarrow> unit driver" where
  "kanban_page base tag =
     on_page base tag ''kanban'' ''kb-a'' ''kb-b'' [
       page_do ''kb-a'' [js ''eval'', js ''(() => { const i=document.querySelector('.col .add input'); i.value=\"C'' @ tag @ js ''\"; i.closest('form').requestSubmit(); })()''],
       check_eval ''b sees a's card'' ''kb-b''
         (js ''window.__yrb.cards.toArray().some(m=>m.get('text')===\"C'' @ tag @ js ''\")''),
       page_do ''kb-a'' [js ''eval'', js ''(() => { const m=window.__yrb.cards.toArray().find(m=>m.get('text')===\"C'' @ tag @ js ''\"); m.set('column','doing'); })()''],
       check_eval ''b sees the card move'' ''kb-b''
         (js ''window.__yrb.cards.toArray().find(m=>m.get('text')===\"C'' @ tag
           @ js ''\")?.get('column')==='doing'' @ [39])]"

definition forms_page :: "jsstring \<Rightarrow> jsstring \<Rightarrow> unit driver" where
  "forms_page base tag =
     on_page base tag ''forms'' ''fm-a'' ''fm-b'' [
       page_do ''fm-a'' [js ''eval'', js ''(() => { const e=document.querySelector('[data-key=name]'); e.value=\"Ada'' @ tag @ js ''\"; e.dispatchEvent(new Event('input',{bubbles:true})); })()''],
       check_eval ''b sees a's field'' ''fm-b'' (js ''window.__yrb.form.get('name')===\"Ada'' @ tag @ js ''\"''),
       check_eval ''b's input reflects it'' ''fm-b''
         (js ''document.querySelector('[data-key=name]').value===\"Ada'' @ tag @ js ''\"'')]"

definition opaque_demos :: "jsstring \<Rightarrow> jsstring \<Rightarrow> unit driver" where
  "opaque_demos base tag =
     steps [
       codemirror_page base tag,
       whiteboard_page base tag,
       kanban_page base tag,
       forms_page base tag,
       report]"

end
