(* ===== verification/Demo_Browsers_Props.thy ===== *)
theory Demo_Browsers_Props
  imports Demo_Browsers_2
begin

text \<open>
  The fuel of the waits of the browser programs is enough: a round uses up a turn of the agenda, so a
  wait ends by its predicate, by its deadline, or because nothing happens any more.
\<close>

definition uses_up :: "nat \<Rightarrow> 'r driver \<Rightarrow> bool" where
  "uses_up k m \<longleftrightarrow>
     (\<forall>s v. fst (m s) = Value v \<longrightarrow> length (agenda (snd (m s))) + k \<le> length (agenda s))"

lemma uses_up_give: "uses_up 0 (give v)"
  by (simp add: uses_up_def give_def)

lemma uses_up_issue: "uses_up 0 (issue cs)"
  by (simp add: uses_up_def issue_def)

lemma uses_up_value_or_throw: "uses_up 0 (value_or_throw f)"
  by (simp add: uses_up_def value_or_throw_def raiseS_def give_def split: sum.split)

lemma uses_up_follow:
  assumes "uses_up k m" and "\<And>v. uses_up l (f v)"
  shows "uses_up (k + l) (follow m f)"
  unfolding uses_up_def
proof (intro allI impI)
  fix s w assume w: "fst (follow m f s) = Value w"
  then obtain v t where m: "m s = (Value v, t)"
    by (cases "m s") (auto simp: follow_def split: script_end.splits)
  have "length (agenda t) + k \<le> length (agenda s)"
    using assms(1) [unfolded uses_up_def, THEN spec, of s] m by simp
  moreover have "length (agenda (snd (f v t))) + l \<le> length (agenda t)"
    using assms(2) [of v, unfolded uses_up_def, THEN spec, of t] w m by (simp add: follow_def)
  ultimately show "length (agenda (snd (follow m f s))) + (k + l) \<le> length (agenda s)"
    using m by (simp add: follow_def)
qed

lemma uses_up_weaken: "uses_up k m \<Longrightarrow> l \<le> k \<Longrightarrow> uses_up l m"
  by (force simp: uses_up_def)

lemma turn_agenda: "agenda (turn H b s) = agenda s"
proof -
  have "agenda (foldl (task H) s ts) = agenda s" for ts
    by (induction ts arbitrary: s) (simp_all add: task_def act_on_def)
  then show ?thesis by (simp add: turn_def)
qed

lemma uses_up_next: "uses_up 1 (next_beat no_events)"
  by (simp add: uses_up_def next_beat_def turn_agenda split: list.split)

lemma uses_up_sleep: "uses_up 1 (sleep no_events)"
  using uses_up_follow [OF uses_up_next, of 0 "\<lambda>_. give ()"] by (simp add: sleep_def uses_up_give)

lemma uses_up_answer: "uses_up 1 answer"
  using uses_up_follow [OF uses_up_next, of 0 "\<lambda>b. give (command_text (bt_status b) (bt_body b))"]
  by (simp add: answer_def uses_up_give)

lemma uses_up_answers: "uses_up n (answers n)"
proof (induction n)
  case (Suc n)
  have "uses_up (1 + (n + 0)) (answers (Suc n))"
    unfolding answers.simps by (intro uses_up_follow uses_up_answer Suc uses_up_give)
  then show ?case by simp
qed (simp add: uses_up_give)

lemma uses_up_commands:
  "uses_up 1 (ab s args)" "uses_up (length cs) (ab_all cs)" "uses_up 1 (page_ab s args)"
proof -
  show "uses_up 1 (ab s args)" "uses_up (length cs) (ab_all cs)"
    unfolding ab_def ab_all_def
    using uses_up_follow [OF uses_up_issue] uses_up_answer uses_up_answers by fastforce+
  have "uses_up (0 + (1 + 0)) (page_ab s args)"
    unfolding page_ab_def by (intro uses_up_follow uses_up_issue uses_up_next uses_up_give)
  then show "uses_up 1 (page_ab s args)" by simp
qed

text \<open>More fuel than turns changes nothing.\<close>

lemma polls_enough:
  assumes "uses_up 0 P"
  shows "length (agenda s) < n \<Longrightarrow> polls n P d s = polls (Suc (length (agenda s))) P d s"
proof (induction "length (agenda s)" arbitrary: n s rule: less_induct)
  case less
  then obtain m where n: "n = Suc m" and m: "length (agenda s) \<le> m" by (cases n) auto
  have rest: "follow (sleep no_events) (\<lambda>_. polls m P d) t
      = follow (sleep no_events) (\<lambda>_. polls (length (agenda s)) P d) t"
    if "length (agenda t) \<le> length (agenda s)" for t
  proof (cases "agenda t")
    case Nil
    then show ?thesis by (simp add: sleep_def next_beat_def follow_def)
  next
    case (Cons b bs)
    let ?u = "turn no_events b (t\<lparr>agenda := bs\<rparr>)"
    have u: "length (agenda ?u) < length (agenda s)" using that Cons by (simp add: turn_agenda)
    have "polls m P d ?u = polls (length (agenda s)) P d ?u"
      using less(1) [OF u, of m] less(1) [OF u, of "length (agenda s)"] u m by simp
    then show ?thesis using Cons by (simp add: sleep_def next_beat_def follow_def give_def)
  qed
  have "length (agenda t) \<le> length (agenda s)" if "P s = (Value v, t)" for v t
    using assms [unfolded uses_up_def, THEN spec, of s] that by simp
  then show ?case
    using rest by (auto simp: n follow_def [of P] split: prod.split script_end.split)
qed

lemma poll_for_enough:
  "uses_up 0 P \<Longrightarrow> length (agenda s) < n \<Longrightarrow> poll_for ms P s = polls n P (clock s + int ms) s"
  using polls_enough [of P s n "clock s + int ms"] by (simp add: poll_for_def)

text \<open>The predicates the programs wait for.\<close>

lemma uses_up_predicates:
  "uses_up 0 (follow (ab s args) (\<lambda>t. give (f t)))"
  "uses_up 0 (follow (ab_all cs) (\<lambda>ts. give (g ts)))"
  "uses_up 0 (follow (page_ab s args) (\<lambda>t. give (f t)))"
  "uses_up 0 (follow (ab_js P s expr) (\<lambda>v. value_or_throw (h v)))"
  "uses_up 0 (follow (ab_js_all P es) (\<lambda>vs. give (k vs)))"
proof -
  have quiet: "uses_up 0 (follow m f)" if "uses_up n m" and "\<And>v. uses_up 0 (f v)" for n m f
    using uses_up_follow [OF that] by (rule uses_up_weaken) simp
  show "uses_up 0 (follow (ab s args) (\<lambda>t. give (f t)))"
    and "uses_up 0 (follow (ab_all cs) (\<lambda>ts. give (g ts)))"
    and "uses_up 0 (follow (page_ab s args) (\<lambda>t. give (f t)))"
    by (rule quiet, rule uses_up_commands, rule uses_up_give)+
  have js: "uses_up 0 (ab_js P s expr)" "uses_up 0 (ab_js_all P es)"
    unfolding ab_js_def ab_js_all_def by (rule quiet, rule uses_up_commands, rule uses_up_give)+
  show "uses_up 0 (follow (ab_js P s expr) (\<lambda>v. value_or_throw (h v)))"
    by (rule quiet [OF js(1)]) (rule uses_up_value_or_throw)
  show "uses_up 0 (follow (ab_js_all P es) (\<lambda>vs. give (k vs)))"
    by (rule quiet [OF js(2)]) (rule uses_up_give)
qed

end
