(* ===== verification/Demo_Build.thy ===== *)
theory Demo_Build
  imports Demo_Checks
begin

text \<open>
  build.mjs: the bundling of the demo's pages. Bun is third-party; what it does with a specifier or
  an entry is a parameter. It asks the \<^verbatim>\<open>onResolve\<close> callbacks in the order they were registered and takes
  the first whose filter matches. \<open>here\<close> is the absolute path of the directory.
\<close>

subsection \<open>One copy of the shared packages\<close>

definition SINGLETONS :: "jsstring list" where
  "SINGLETONS = map js [''yjs'', ''y-protocols'', ''lib0'', ''lexical'', ''@lexical/yjs'']"

definition canonical :: "jsstring \<Rightarrow> jsstring \<Rightarrow> jsstring" where
  "canonical here name = here @ js ''/node_modules/'' @ name"

text \<open>\<^verbatim>\<open>new RegExp(`^${name}(/.*)?$`)\<close>: the dot matches anything but a line terminator.\<close>

definition line_end :: "16 word \<Rightarrow> bool" where
  "line_end c \<longleftrightarrow> c \<in> {10, 13, 0x2028, 0x2029}"

definition is_or_under :: "jsstring \<Rightarrow> jsstring \<Rightarrow> bool" where
  "is_or_under name spec \<longleftrightarrow>
     spec = name
     \<or> js_starts spec (name @ [47]) \<and> list_all (\<lambda>c. \<not> line_end c) (drop (length name) spec)"

record resolver =
  rs_filter :: "jsstring \<Rightarrow> bool"
  rs_path :: "jsstring \<Rightarrow> js_error + jsstring"

text \<open>\<open>resolveSync\<close> is \<^verbatim>\<open>Bun.resolveSync\<close>.\<close>

definition dedupe ::
  "(jsstring \<Rightarrow> jsstring \<Rightarrow> js_error + jsstring) \<Rightarrow> jsstring \<Rightarrow> jsstring \<Rightarrow> resolver" where
  "dedupe resolveSync here name =
     \<lparr>rs_filter = is_or_under name,
      rs_path = (\<lambda>path.
        let subpath = drop (length name) path;
            target = (if subpath \<noteq> [] then canonical here name @ subpath else canonical here name)
        in resolveSync target here)\<rparr>"

definition dedupeSingletons ::
  "(jsstring \<Rightarrow> jsstring \<Rightarrow> js_error + jsstring) \<Rightarrow> jsstring \<Rightarrow> resolver list" where
  "dedupeSingletons resolveSync here = map (dedupe resolveSync here) SINGLETONS"

definition stubActivestorage :: "jsstring \<Rightarrow> resolver" where
  "stubActivestorage here =
     \<lparr>rs_filter = (\<lambda>path. path = js ''@rails/activestorage''),
      rs_path = (\<lambda>_. Inr (here @ js ''/src/stubs/activestorage.js''))\<rparr>"

definition plugins :: "(jsstring \<Rightarrow> jsstring \<Rightarrow> js_error + jsstring) \<Rightarrow> jsstring \<Rightarrow> resolver list" where
  "plugins resolveSync here = dedupeSingletons resolveSync here @ [stubActivestorage here]"

text \<open>What the plugins make of a specifier; none if Bun resolves it from the importer.\<close>

definition resolved :: "resolver list \<Rightarrow> jsstring \<Rightarrow> (js_error + jsstring) option" where
  "resolved ps spec = map_option (\<lambda>p. rs_path p spec) (find (\<lambda>p. rs_filter p spec) ps)"

subsection \<open>Building\<close>

definition ENTRIES :: "(string \<times> string) list" where
  "ENTRIES =
     [(''src/app.js'', ''app.js''), (''src/lexxy.js'', ''lexxy.js''), (''src/codemirror.js'', ''codemirror.js''),
      (''src/whiteboard.js'', ''whiteboard.js''), (''src/kanban.js'', ''kanban.js''), (''src/forms.js'', ''forms.js'')]"

record build_result =
  bu_success :: bool
  bu_logs :: "string list"

datatype build_call =
    BundleEntry jsstring jsstring  \<comment> \<open>the entry and the output directory\<close>
  | LogError string
  | LogBuilt string
  | ClearTimeout nat
  | SetTimeout nat
  | WatchSource
  | RunBuild
  | ExitWith nat

text \<open>\<open>bun\<close> is \<^verbatim>\<open>Bun.build\<close> with the plugins, its promise awaited; \<open>public\<close> is \<^verbatim>\<open>resolve(here, "../public")\<close>.\<close>

definition buildEntry ::
  "(jsstring \<Rightarrow> js_error + build_result) \<Rightarrow> jsstring \<Rightarrow> jsstring \<Rightarrow> string \<times> string
   \<Rightarrow> build_call list \<times> (js_error + bool)" where
  "buildEntry bun here public e =
     (let entry = here @ js ''/'' @ js (fst e)
      in case bun entry of
           Inl x \<Rightarrow> ([BundleEntry entry public], Inl x)
         | Inr r \<Rightarrow>
             if bu_success r then ([BundleEntry entry public, LogBuilt (''built ../public/'' @ snd e)], Inr True)
             else (BundleEntry entry public # map LogError (bu_logs r), Inr False))"

text \<open>\<^verbatim>\<open>Promise.all\<close>: every entry is built; the first rejection is the result.\<close>

primrec all_results :: "(js_error + bool) list \<Rightarrow> js_error + bool list" where
  "all_results [] = Inr []"
| "all_results (r # rs) =
     (case r of Inl x \<Rightarrow> Inl x
      | Inr b \<Rightarrow> (case all_results rs of Inl x \<Rightarrow> Inl x | Inr bs \<Rightarrow> Inr (b # bs)))"

definition build ::
  "(jsstring \<Rightarrow> js_error + build_result) \<Rightarrow> jsstring \<Rightarrow> jsstring \<Rightarrow> build_call list \<times> (js_error + bool)" where
  "build bun here public =
     (let rs = map (buildEntry bun here public) ENTRIES
      in (concat (map fst rs),
          case all_results (map snd rs) of Inl x \<Rightarrow> Inl x | Inr bs \<Rightarrow> Inr (list_all (\<lambda>b. b) bs)))"

text \<open>The end of the module: a one-shot build, or a first build and a watch of \<^verbatim>\<open>src\<close>.\<close>

definition build_main ::
  "(jsstring \<Rightarrow> js_error + build_result) \<Rightarrow> jsstring \<Rightarrow> jsstring \<Rightarrow> bool \<Rightarrow> build_call list \<times> js_error option" where
  "build_main bun here public watch =
     (case build bun here public of
        (cs, Inl x) \<Rightarrow> (cs, Some x)
      | (cs, Inr ok) \<Rightarrow>
          (cs @ (if watch then [WatchSource] else if ok then [] else [ExitWith 1]), None))"

text \<open>
  The watcher: a change clears the pending timeout and sets a new one, under a handle the host gives;
  a timeout that was not cleared builds. \<open>wa_live\<close> are the timeouts the host holds.
\<close>

record watcher =
  wa_pending :: "nat option"
  wa_live :: "nat list"

datatype watch_event = SourceChanged nat | TimeoutFires nat

fun watch_handle :: "watch_event \<Rightarrow> (watcher, build_call) act" where
  "watch_handle (SourceChanged h) =
     block [
       (\<lambda>w. case wa_pending w of
          None \<Rightarrow> skip w
        | Some k \<Rightarrow> block [call (ClearTimeout k), modify (\<lambda>w. w\<lparr>wa_live := removeAll k (wa_live w)\<rparr>)] w),
       call (SetTimeout h),
       modify (\<lambda>w. w\<lparr>wa_pending := Some h, wa_live := h # wa_live w\<rparr>)]"
| "watch_handle (TimeoutFires h) =
     whenA (\<lambda>w. h \<in> set (wa_live w))
       (block [modify (\<lambda>w. w\<lparr>wa_live := removeAll h (wa_live w)\<rparr>), call RunBuild])"

subsection \<open>Lemmas\<close>

lemma is_or_under_take: "is_or_under name spec \<Longrightarrow> take (length name) spec = name"
  by (auto simp: is_or_under_def js_starts_iff)

lemma is_or_under_prefix:
  assumes "is_or_under name spec" and "k \<le> length name"
  shows "take k name = take k spec"
proof -
  have "take k name = take k (take (length name) spec)"
    by (simp only: is_or_under_take [OF assms(1)])
  then show ?thesis using assms(2) by (simp add: min_absorb1)
qed

lemma SINGLETONS_apart:
  "list_all (\<lambda>m. list_all (\<lambda>n. m = n \<or>
     take (min (length m) (length n)) m \<noteq> take (min (length m) (length n)) n) SINGLETONS) SINGLETONS"
  by code_simp

text \<open>No specifier belongs to two of the packages, so the order of the filters does not matter.\<close>

lemma singleton_unique:
  assumes "m \<in> set SINGLETONS" and "n \<in> set SINGLETONS" and "is_or_under m spec" and "is_or_under n spec"
  shows "m = n"
proof (rule ccontr)
  assume "m \<noteq> n"
  have "take (min (length m) (length n)) m = take (min (length m) (length n)) n"
    by (simp add: is_or_under_prefix [OF assms(3)] is_or_under_prefix [OF assms(4)])
  moreover have "m = n \<or> take (min (length m) (length n)) m \<noteq> take (min (length m) (length n)) n"
    using SINGLETONS_apart assms(1,2) unfolding list_all_iff by blast
  ultimately show False using \<open>m \<noteq> n\<close> by simp
qed

lemma find_map_unique:
  assumes "n \<in> set ns" and "P (f n)" and "\<And>m. m \<in> set ns \<Longrightarrow> P (f m) \<Longrightarrow> m = n"
  shows "find P (map f ns) = Some (f n)"
  using assms
proof (induction ns)
  case (Cons m ns)
  show ?case
  proof (cases "P (f m)")
    case True
    then show ?thesis using Cons.prems(3) [of m] by simp
  next
    case False
    then have "n \<in> set ns" using Cons.prems(1,2) by auto
    have "find P (map f ns) = Some (f n)"
      by (rule Cons.IH [OF \<open>n \<in> set ns\<close> Cons.prems(2)]) (rule Cons.prems(3), simp_all)
    with False show ?thesis by simp
  qed
qed simp

text \<open>
  A shared package and everything under it resolves below the one copy, whoever imports it; a
  specifier outside the shared packages is not touched.
\<close>

lemma one_copy:
  assumes "n \<in> set SINGLETONS" and "is_or_under n spec"
  shows "resolved (plugins resolveSync here) spec = Some (resolveSync (here @ js ''/node_modules/'' @ spec) here)"
proof -
  have "find (\<lambda>p. rs_filter p spec) (dedupeSingletons resolveSync here) = Some (dedupe resolveSync here n)"
    unfolding dedupeSingletons_def
    by (rule find_map_unique [OF assms(1)]) (use assms singleton_unique in \<open>auto simp: dedupe_def\<close>)
  then have "find (\<lambda>p. rs_filter p spec) (plugins resolveSync here) = Some (dedupe resolveSync here n)"
    unfolding plugins_def by (rule find_append_Some)
  moreover have "spec = n @ drop (length n) spec"
    using is_or_under_take [OF assms(2)] by (metis append_take_drop_id)
  then have "canonical here n @ drop (length n) spec = here @ js ''/node_modules/'' @ spec"
    by (metis append.assoc canonical_def)
  ultimately show ?thesis by (auto simp: resolved_def dedupe_def Let_def) 
qed

lemma all_results_Inr: "all_results rs = Inr bs \<longleftrightarrow> rs = map Inr bs"
proof
  show "all_results rs = Inr bs \<Longrightarrow> rs = map Inr bs"
    by (induction rs arbitrary: bs) (auto split: sum.splits)
  show "rs = map Inr bs \<Longrightarrow> all_results rs = Inr bs"
    by (induction bs arbitrary: rs) auto
qed

lemma all_True_Inr: "(\<exists>bs. rs = map Inr bs \<and> list_all (\<lambda>b. b) bs) \<longleftrightarrow> list_all (\<lambda>r. r = Inr True) rs"
proof (induction rs)
  case (Cons r rs)
  have "(\<exists>bs. r # rs = map Inr bs \<and> list_all (\<lambda>b. b) bs) \<longleftrightarrow>
      r = Inr True \<and> (\<exists>bs. rs = map Inr bs \<and> list_all (\<lambda>b. b) bs)"
    by (force simp: Cons_eq_map_conv)
  with Cons show ?case by simp
qed simp

text \<open>A one-shot build leaves the exit code of success exactly if Bun built all six entries.\<close>

lemma build_succeeds:
  "snd (build bun here public) = Inr True \<longleftrightarrow>
     list_all (\<lambda>e. \<exists>r. bun (here @ js ''/'' @ js (fst e)) = Inr r \<and> bu_success r) ENTRIES"
proof -
  have e: "snd (buildEntry bun here public e) = Inr True \<longleftrightarrow> (\<exists>r. bun (here @ js ''/'' @ js (fst e)) = Inr r \<and> bu_success r)" for e
    by (auto simp: buildEntry_def Let_def split: sum.split)
  have "snd (build bun here public) = Inr True \<longleftrightarrow>
      (\<exists>bs. map (\<lambda>e. snd (buildEntry bun here public e)) ENTRIES = map Inr bs \<and> list_all (\<lambda>b. b) bs)"
    unfolding all_results_Inr [symmetric] by (simp add: build_def Let_def comp_def split: sum.split)
  also have "\<dots> \<longleftrightarrow> list_all (\<lambda>e. snd (buildEntry bun here public e) = Inr True) ENTRIES"
    unfolding all_True_Inr by (simp add: list_all_iff)
  finally show ?thesis by (simp add: e list_all_iff)
qed

text \<open>At most one timeout is live, the one of the last change: a burst of changes builds once.\<close>

definition debounced :: "watcher \<Rightarrow> bool" where
  "debounced w \<longleftrightarrow> wa_live w = [] \<or> (\<exists>h. wa_pending w = Some h \<and> wa_live w = [h])"

lemma watch_debounced: "debounced w \<Longrightarrow> debounced (post (watch_handle e w))"
  by (cases e) (auto simp: debounced_def andThen_eq split: option.split if_splits)

lemma burst_builds_once:
  assumes "debounced w"
  shows "wa_live (run (\<lambda>w e. post (watch_handle e w)) w (map SourceChanged (hs @ [h]))) = [h]"
proof -
  have "debounced (run (\<lambda>w e. post (watch_handle e w)) w (map SourceChanged hs))"
    by (rule run_invariant [where I = debounced, OF watch_debounced assms])
  then show ?thesis by (auto simp: run_append debounced_def andThen_eq split: option.split)
qed

end
