(* ===== verification/Demo_Pages.thy ===== *)
theory Demo_Pages
  imports Demo_Kanban Demo_Forms Demo_Whiteboard
begin

text \<open>
  How the demo pages of examples/actioncable-demo/frontend/src start: the calls each script makes on
  the document, the shared types and its provider, from the top of the file to its end. \<open>pg_has\<close> says
  which elements the served page has; the property of one it lacks throws. \<open>r1\<close> and \<open>r2\<close> are the
  random draws of the name and the color. The handlers are those of the other theories.
\<close>

record page_env =
  pg_has :: "string \<Rightarrow> bool"
  pg_document :: jsval

datatype page_call =
    GetElement string
  | NewDoc
  | GetShared string string
  | CreateConsumer
  | NewProvider string jsval
  | SetLocalField string jsval
  | Expose "string list"
  | CreateElement string
  | SetClass string
  | SetHtml string jsstring
  | SetText string jsstring
  | SetState string string
  | SetType string
  | SetKey string
  | AppendTo string
  | Listen string
  | ObserveShared string
  | OnAwareness
  | OnStatus
  | NewView
  | Connect

type_synonym page_act = "(unit, page_call) act"

text \<open>A property of an element read or written.\<close>

definition need :: "page_env \<Rightarrow> string \<Rightarrow> page_act" where
  "need E i = (if pg_has E i then skip else throw (TypeError ''cannot read properties of null''))"

definition page_elements :: "page_env \<Rightarrow> string list \<Rightarrow> page_act" where
  "page_elements E ids = block [forA ids (\<lambda>i. call (GetElement i)), need E (hd ids)]"

definition new_provider :: "page_env \<Rightarrow> page_act" where
  "new_provider E =
     block [call CreateConsumer, call (NewProvider ''DocumentChannel'' (JObj [(''id'', pg_document E)]))]"

definition set_text :: "page_env \<Rightarrow> string \<Rightarrow> jsstring \<Rightarrow> page_act" where
  "set_text E i t = block [need E i, call (SetText i t)]"

definition set_state :: "page_env \<Rightarrow> string \<Rightarrow> string \<Rightarrow> page_act" where
  "set_state E i v = block [need E i, call (SetState i v)]"

text \<open>\<^verbatim>\<open>`${user.name}`\<close>\<close>

definition name_text :: "rat \<Rightarrow> jsstring" where
  "name_text r = (case pick r NAMES of JStr s \<Rightarrow> s | _ \<Rightarrow> js ''undefined'')"

definition connecting_as :: "rat \<Rightarrow> jsstring" where
  "connecting_as r = js ''connecting as '' @ name_text r @ [ellipsis]"

text \<open>The first \<^verbatim>\<open>renderPresence()\<close>: the only state is the user's own.\<close>

definition first_presence :: "page_env \<Rightarrow> (jsnum \<Rightarrow> jsstring) \<Rightarrow> rat \<Rightarrow> rat \<Rightarrow> page_act" where
  "first_presence E N r1 r2 =
     (case renderPresence N (pick r1 NAMES) [JObj [(''user'', user_of r1 r2)]] of
        Inl x \<Rightarrow> throw x
      | Inr h \<Rightarrow> block [need E ''presence'', call (SetHtml ''presence'' h)])"

text \<open>The status line and the listener of the status.\<close>

definition first_status :: "page_env \<Rightarrow> rat \<Rightarrow> page_act" where
  "first_status E r1 = block [set_text E ''status'' (connecting_as r1), call OnStatus]"

subsection \<open>kanban.js\<close>

definition column_html :: "jsstring \<Rightarrow> jsstring" where
  "column_html title =
     js ''<h3>'' @ title
     @ js ''</h3><div class=\"cards\"></div><form class=\"add\"><input placeholder=\"+ add card\" aria-label=\"add to ''
     @ title @ js ''\"></form>''"

definition add_column :: "jsstring \<times> jsstring \<Rightarrow> page_act" where
  "add_column = (\<lambda>(column, title).
     block [call (CreateElement ''div''), call (SetClass ''col''), call (SetHtml ''col'' (column_html title)),
       call (AppendTo ''board''), call (Listen ''submit'')])"

definition kanban_head :: "page_env \<Rightarrow> rat \<Rightarrow> rat \<Rightarrow> page_act" where
  "kanban_head E r1 r2 =
     block [
       page_elements E [''board'', ''status'', ''presence''],
       call NewDoc,
       call (GetShared ''array'' ''cards''),
       new_provider E,
       call (SetLocalField ''user'' (user_of r1 r2)),
       call (Expose [''provider'', ''ydoc'', ''cards'', ''user''])]"

definition kanban_start :: "page_env \<Rightarrow> (jsnum \<Rightarrow> jsstring) \<Rightarrow> rat \<Rightarrow> rat \<Rightarrow> page_act" where
  "kanban_start E N r1 r2 =
     block [
       kanban_head E r1 r2,
       forA COLUMNS add_column,
       call (ObserveShared ''cards''),
       call OnAwareness,
       first_status E r1,
       forA ORDER (\<lambda>c. call (SetHtml ''cards'' [])),
       first_presence E N r1 r2,
       call Connect]"

subsection \<open>forms.js\<close>

definition field_calls :: "field \<Rightarrow> page_act" where
  "field_calls f =
     (case field_element f of
        Textarea \<Rightarrow> call (CreateElement ''textarea'')
      | Select h \<Rightarrow> block [call (CreateElement ''select''), call (SetHtml ''select'' h)]
      | Input ty \<Rightarrow> block [call (CreateElement ''input''), call (SetType ty)])"

definition add_field :: "field \<Rightarrow> page_act" where
  "add_field f =
     block [call (CreateElement ''label''), call (SetClass ''field''),
       call (CreateElement ''span''), call (SetText ''span'' (js (f_label f))), call (AppendTo ''label''),
       field_calls f, call (SetKey (f_key f)), call (Listen ''input''), call (AppendTo ''label''),
       call (AppendTo ''form'')]"

definition forms_head :: "page_env \<Rightarrow> rat \<Rightarrow> rat \<Rightarrow> page_act" where
  "forms_head E r1 r2 =
     block [
       page_elements E [''form'', ''status'', ''presence''],
       call NewDoc,
       call (GetShared ''map'' ''form''),
       new_provider E,
       call (SetLocalField ''user'' (user_of r1 r2)),
       call (Expose [''provider'', ''ydoc'', ''form'', ''user''])]"

definition forms_start :: "page_env \<Rightarrow> (jsnum \<Rightarrow> jsstring) \<Rightarrow> rat \<Rightarrow> rat \<Rightarrow> page_act" where
  "forms_start E N r1 r2 =
     block [
       forms_head E r1 r2,
       forA FIELDS add_field,
       call (ObserveShared ''form''),
       call OnAwareness,
       first_status E r1,
       first_presence E N r1 r2,
       call Connect]"

subsection \<open>whiteboard.js\<close>

definition whiteboard_head :: "page_env \<Rightarrow> rat \<Rightarrow> rat \<Rightarrow> page_act" where
  "whiteboard_head E r1 r2 =
     block [
       page_elements E [''canvas'', ''status'', ''presence''],
       call NewDoc,
       call (GetShared ''map'' ''shapes''),
       new_provider E,
       call (SetLocalField ''user'' (user_of r1 r2))]"

definition whiteboard_start :: "page_env \<Rightarrow> (jsnum \<Rightarrow> jsstring) \<Rightarrow> rat \<Rightarrow> rat \<Rightarrow> page_act" where
  "whiteboard_start E N r1 r2 =
     block [
       whiteboard_head E r1 r2,
       call (Expose [''provider'', ''ydoc'', ''shapes'', ''user'', ''addNote'']),
       call (Listen ''dblclick''),
       call (ObserveShared ''shapes''),
       call OnAwareness,
       first_status E r1,
       first_presence E N r1 r2,
       call Connect]"

subsection \<open>codemirror.js\<close>

definition code_head :: "page_env \<Rightarrow> rat \<Rightarrow> rat \<Rightarrow> page_act" where
  "code_head E r1 r2 =
     block [
       page_elements E [''editor'', ''status''],
       call NewDoc,
       call (GetShared ''text'' ''code''),
       new_provider E,
       call (SetLocalField ''user'' (user_of r1 r2)),
       call (Expose [''provider'', ''ydoc'', ''ytext'', ''user''])]"

definition code_start :: "page_env \<Rightarrow> rat \<Rightarrow> rat \<Rightarrow> page_act" where
  "code_start E r1 r2 =
     block [
       code_head E r1 r2,
       call NewView,
       set_state E ''status'' ''connecting'',
       set_text E ''status'' (connecting_as r1),
       call OnStatus,
       call Connect]"

subsection \<open>app.js and lexxy.js\<close>

text \<open>Up to where \<open>app_boot\<close> and \<open>lexxy_boot\<close> begin. app.js connects before it sets the status.\<close>

definition app_start :: "page_env \<Rightarrow> rat \<Rightarrow> page_act" where
  "app_start E r1 =
     block [
       page_elements E [''editor'', ''status''],
       call NewDoc,
       new_provider E,
       call Connect,
       call (Expose [''provider'', ''ydoc'', ''user'', ''editor'']),
       set_state E ''status'' ''connecting'',
       set_text E ''status'' (connecting_as r1)]"

definition lexxy_start :: "page_env \<Rightarrow> rat \<Rightarrow> page_act" where
  "lexxy_start E r1 =
     block [
       page_elements E [''editor'', ''status''],
       call NewDoc,
       new_provider E,
       call (Expose [''provider'', ''ydoc'', ''awareness'', ''user'']),
       set_state E ''status'' ''connecting'',
       set_text E ''status'' (connecting_as r1),
       call OnStatus]"

subsection \<open>What a page has done when it connects\<close>

lemma first_presence_shown: "\<exists>h. renderPresence N (pick r1 NAMES) [JObj [(''user'', user_of r1 r2)]] = Inr h"
  by (auto simp: renderPresence_def user_of_def chip_def pick_def Let_def)

text \<open>The calls made before connecting, whose last step is the connection.\<close>

definition connects_last :: "page_call list \<Rightarrow> (unit, page_call) outcome \<Rightarrow> bool" where
  "connects_last before r \<longleftrightarrow>
     thrown r = None
     \<and> (\<exists>cs. calls r = cs @ [Connect] \<and> Connect \<notin> set cs \<and> set before \<subseteq> set cs)"

lemma page_thrown [simp]:
  "thrown (andThen a b (u :: unit)) = None \<longleftrightarrow> thrown (a ()) = None \<and> thrown (b ()) = None"
  by (cases u) (auto simp: andThen_eq)

lemma page_calls: "thrown (a ()) = None \<Longrightarrow> calls (andThen a b ()) = calls (a ()) @ calls (b ())"
  by (simp add: andThen_eq)

lemma page_made:
  "c \<in> set (calls (andThen a b ())) \<longleftrightarrow> c \<in> set (calls (a ())) \<or> thrown (a ()) = None \<and> c \<in> set (calls (b ()))"
  by (auto simp: andThen_eq)

lemmas page_defs =
  page_elements_def need_def new_provider_def set_text_def set_state_def first_presence_def first_status_def

text \<open>
  A page whose elements are there connects once and last, when its user is in its presence and the
  listeners for the shared type and the status are registered; a page that lacks one never connects.
\<close>

lemma kanban_connects_last:
  "if pg_has E ''board'' \<and> pg_has E ''status'' \<and> pg_has E ''presence''
   then connects_last [SetLocalField ''user'' (user_of r1 r2), ObserveShared ''cards'', OnAwareness, OnStatus]
     (kanban_start E N r1 r2 ())
   else Connect \<notin> set (calls (kanban_start E N r1 r2 ()))"
proof -
  obtain h where "renderPresence N (pick r1 NAMES) [JObj [(''user'', user_of r1 r2)]] = Inr h"
    using first_presence_shown by blast
  then show ?thesis
    by (simp add: kanban_start_def kanban_head_def page_defs add_column_def COLUMNS_def ORDER_def connects_last_def page_calls page_made)
qed

lemma forms_connects_last:
  "if pg_has E ''form'' \<and> pg_has E ''status'' \<and> pg_has E ''presence''
   then connects_last [SetLocalField ''user'' (user_of r1 r2), ObserveShared ''form'', OnAwareness, OnStatus]
     (forms_start E N r1 r2 ())
   else Connect \<notin> set (calls (forms_start E N r1 r2 ()))"
proof -
  obtain h where "renderPresence N (pick r1 NAMES) [JObj [(''user'', user_of r1 r2)]] = Inr h"
    using first_presence_shown by blast
  then show ?thesis
    by (simp add: forms_start_def forms_head_def page_defs add_field_def field_calls_def field_element_def FIELDS_def
        connects_last_def page_calls page_made)
qed

lemma whiteboard_connects_last:
  "if pg_has E ''canvas'' \<and> pg_has E ''status'' \<and> pg_has E ''presence''
   then connects_last [SetLocalField ''user'' (user_of r1 r2), ObserveShared ''shapes'', OnAwareness, OnStatus]
     (whiteboard_start E N r1 r2 ())
   else Connect \<notin> set (calls (whiteboard_start E N r1 r2 ()))"
proof -
  obtain h where "renderPresence N (pick r1 NAMES) [JObj [(''user'', user_of r1 r2)]] = Inr h"
    using first_presence_shown by blast
  then show ?thesis by (simp add: whiteboard_start_def whiteboard_head_def page_defs connects_last_def page_calls page_made)
qed

lemma code_connects_last:
  "if pg_has E ''editor'' \<and> pg_has E ''status''
   then connects_last [SetLocalField ''user'' (user_of r1 r2), NewView, OnStatus] (code_start E r1 r2 ())
   else Connect \<notin> set (calls (code_start E r1 r2 ()))"
  by (simp add: code_start_def code_head_def page_defs connects_last_def page_calls page_made)

text \<open>The editor page connects before anything listens: without a status element it stays connected and throws.\<close>

lemma app_connects_early:
  assumes "pg_has E ''editor''" and "\<not> pg_has E ''status''"
  shows "Connect \<in> set (calls (app_start E r1 ()))" and "thrown (app_start E r1 ()) \<noteq> None"
  using assms by (simp_all add: app_start_def page_defs page_made)

end
