(* ===== verification/Native_Read.thy ===== *)
theory Native_Read
  imports Native_Protocol "HOL-Library.List_Lexorder" "HOL-Library.Multiset"
begin

text \<open>
  ext/yrby/src/read.rs: the text of a document and the JSON of a shared map, read out of the shared
  types of yrs. A text is its list of code points.

  What yrs gives is a value: the output values of a text's \<^verbatim>\<open>diff\<close>, the children of an element and the
  entries of a map or an array, in their order of iteration. \<open>S\<close> is \<^verbatim>\<open>get_string\<close> and \<open>J\<close> is
  \<^verbatim>\<open>Any::to_json\<close>, both of yrs.
\<close>

type_synonym ustring = "nat list"

definition ustr :: "string \<Rightarrow> ustring" where
  "ustr s = map of_char s"

datatype y_any =
    AnyString ustring
  | AnyArray "y_any list"
  | AnyMap "(ustring \<times> y_any) list"
  | AnyNull
  | AnyOther nat

datatype y_out =
    OutAny y_any
  | OutText ustring
  | OutXmlText "(ustring \<times> y_out) list" "y_out list"
  | OutXmlElement ustring "(ustring \<times> y_out) list" "y_out list"
  | OutXmlFragment "y_out list"
  | OutArray "y_out list"
  | OutMap "(ustring \<times> y_out) list"
  | OutOther

subsection \<open>Lexical\<close>

definition is_inline_lexical_type :: "ustring \<Rightarrow> bool" where
  "is_inline_lexical_type ty \<longleftrightarrow>
     ty \<in> set (map ustr [''text'', ''link'', ''autolink'', ''linebreak'', ''tab'', ''hashtag'', ''mark'', ''overflow''])"

definition type_entry :: "(ustring \<times> y_out) list \<Rightarrow> ustring" where
  "type_entry kvs = (case map_of kvs (ustr ''__type'') of Some (OutAny (AnyString s)) \<Rightarrow> s | _ \<Rightarrow> [])"

definition lexical_type :: "(ustring \<times> y_out) list \<Rightarrow> ustring" where
  "lexical_type attrs = type_entry attrs"

definition lexical_map_type :: "(ustring \<times> y_out) list \<Rightarrow> ustring" where
  "lexical_map_type entries = type_entry entries"

text \<open>The character a linebreak or a tab node stands for.\<close>

definition node_char :: "ustring \<Rightarrow> ustring" where
  "node_char ty = (if ty = ustr ''linebreak'' then [10] else if ty = ustr ''tab'' then [9] else [])"

fun inline_lexical_text :: "y_out list \<Rightarrow> ustring" where
  "inline_lexical_text [] = []"
| "inline_lexical_text (OutAny (AnyString s) # ds) = s @ inline_lexical_text ds"
| "inline_lexical_text (OutXmlText attrs content # ds) = inline_lexical_text content @ inline_lexical_text ds"
| "inline_lexical_text (OutMap m # ds) = node_char (lexical_map_type m) @ inline_lexical_text ds"
| "inline_lexical_text (d # ds) = inline_lexical_text ds"

text \<open>The lines pushed for a block: \<open>line\<close> is what has been read of the current one.\<close>

fun flushed :: "ustring \<Rightarrow> ustring list" where
  "flushed line = (if line = [] then [] else [line])"

fun walk_lexical_block :: "y_out list \<Rightarrow> ustring \<Rightarrow> ustring list" where
  "walk_lexical_block [] line = flushed line"
| "walk_lexical_block (OutAny (AnyString s) # ds) line = walk_lexical_block ds (line @ s)"
| "walk_lexical_block (OutMap m # ds) line = walk_lexical_block ds (line @ node_char (lexical_map_type m))"
| "walk_lexical_block (OutXmlText attrs content # ds) line =
     (let ty = lexical_type attrs
      in if ty = ustr ''linebreak'' \<or> ty = ustr ''tab'' then walk_lexical_block ds (line @ node_char ty)
         else if is_inline_lexical_type ty then walk_lexical_block ds (line @ inline_lexical_text content)
         else flushed line @ walk_lexical_block content [] @ walk_lexical_block ds [])"
| "walk_lexical_block (d # ds) line = walk_lexical_block ds line"

subsection \<open>XML-shaped roots\<close>

fun join_lines :: "ustring \<Rightarrow> ustring list \<Rightarrow> ustring" where
  "join_lines sep [] = []"
| "join_lines sep [l] = l"
| "join_lines sep (l # ls) = l @ sep @ join_lines sep ls"

fun block_lines :: "(y_out \<Rightarrow> ustring) \<Rightarrow> y_out \<Rightarrow> ustring list" where
  "block_lines S (OutXmlText attrs content) = walk_lexical_block content []"
| "block_lines S (OutXmlElement tag attrs children) =
     (if map_of attrs (ustr ''__type'') = None then [S (OutXmlElement tag attrs children)] else [])"
| "block_lines S (OutXmlFragment children) = [S (OutXmlFragment children)]"
| "block_lines S d = []"

text \<open>The children of a fragment are texts, elements and fragments.\<close>

definition xml_blocks_text :: "(y_out \<Rightarrow> ustring) \<Rightarrow> y_out list \<Rightarrow> ustring" where
  "xml_blocks_text S nodes = join_lines [10] (concat (map (block_lines S) nodes))"

subsection \<open>Maps\<close>

fun out_to_any :: "(y_out \<Rightarrow> ustring) \<Rightarrow> y_out \<Rightarrow> y_any" where
  "out_to_any S (OutAny a) = a"
| "out_to_any S (OutArray os) = AnyArray (map (out_to_any S) os)"
| "out_to_any S (OutMap kvs) = AnyMap (map (\<lambda>(k, v). (k, out_to_any S v)) kvs)"
| "out_to_any S OutOther = AnyNull"
| "out_to_any S d = AnyString (S d)"

definition map_json :: "(y_out \<Rightarrow> ustring) \<Rightarrow> (y_any \<Rightarrow> ustring) \<Rightarrow> (ustring \<times> y_out) list \<Rightarrow> ustring" where
  "map_json S J kvs =
     (let pairs = sort_key fst (map (\<lambda>(k, v). (k, out_to_any S v)) kvs)
      in ustr ''{'' @ join_lines (ustr '','') (map (\<lambda>(k, v). J (AnyString k) @ ustr '':'' @ J v) pairs) @ ustr ''}'')"

subsection \<open>The readers of a document\<close>

text \<open>
  What lib.rs asks yrs for: the names of the roots, the text of a text root, the children of an XML
  root and the entries of a map root, each absent when there is no such root.
\<close>

record 'd reader =
  rd_roots :: "'d \<Rightarrow> ustring list"
  rd_text :: "'d \<Rightarrow> ustring \<Rightarrow> ustring option"
  rd_xml :: "'d \<Rightarrow> ustring \<Rightarrow> y_out list option"
  rd_map :: "'d \<Rightarrow> ustring \<Rightarrow> (ustring \<times> y_out) list option"
  rd_string :: "y_out \<Rightarrow> ustring"
  rd_json :: "y_any \<Rightarrow> ustring"

definition root_names :: "'d reader \<Rightarrow> 'd \<Rightarrow> ustring list" where
  "root_names R d = rd_roots R d"

definition read_text :: "'d reader \<Rightarrow> 'd \<Rightarrow> ustring \<Rightarrow> ustring option" where
  "read_text R d name = rd_text R d name"

definition read_xml :: "'d reader \<Rightarrow> 'd \<Rightarrow> ustring \<Rightarrow> ustring option" where
  "read_xml R d name = map_option (xml_blocks_text (rd_string R)) (rd_xml R d name)"

definition read_map :: "'d reader \<Rightarrow> 'd \<Rightarrow> ustring \<Rightarrow> ustring option" where
  "read_map R d name = map_option (map_json (rd_string R) (rd_json R)) (rd_map R d name)"

subsection \<open>The reference reading\<close>

text \<open>
  A block as a sequence of text runs and block breaks, in document order: a nested block is set off
  by a break on either side. The lines of the block are the text between breaks, without the empty
  ones.
\<close>

datatype text_piece = Run ustring | Break

fun pieces :: "y_out list \<Rightarrow> text_piece list" where
  "pieces [] = []"
| "pieces (OutAny (AnyString s) # ds) = Run s # pieces ds"
| "pieces (OutMap m # ds) = Run (node_char (lexical_map_type m)) # pieces ds"
| "pieces (OutXmlText attrs content # ds) =
     (if lexical_type attrs \<in> {ustr ''linebreak'', ustr ''tab''} then [Run (node_char (lexical_type attrs))]
      else if is_inline_lexical_type (lexical_type attrs) then [Run (inline_lexical_text content)]
      else Break # pieces content @ [Break]) @ pieces ds"
| "pieces (d # ds) = pieces ds"

fun between_breaks :: "text_piece list \<Rightarrow> ustring list" where
  "between_breaks [] = [[]]"
| "between_breaks (Run s # ps) = (case between_breaks ps of [] \<Rightarrow> [s] | l # ls \<Rightarrow> (s @ l) # ls)"
| "between_breaks (Break # ps) = [] # between_breaks ps"

definition lines_of :: "text_piece list \<Rightarrow> ustring list" where
  "lines_of ps = filter (\<lambda>l. l \<noteq> []) (between_breaks ps)"

text \<open>The text of a block and of everything nested in it, in document order.\<close>

fun deep_text :: "y_out list \<Rightarrow> ustring" where
  "deep_text [] = []"
| "deep_text (OutAny (AnyString s) # ds) = s @ deep_text ds"
| "deep_text (OutMap m # ds) = node_char (lexical_map_type m) @ deep_text ds"
| "deep_text (OutXmlText attrs content # ds) =
     (if lexical_type attrs \<in> {ustr ''linebreak'', ustr ''tab''} then node_char (lexical_type attrs)
      else deep_text content) @ deep_text ds"
| "deep_text (d # ds) = deep_text ds"

text \<open>
  Below an inline node, no linebreak or tab node is an element: Lexical stores these as maps, and the
  code reads such an element there by its content.
\<close>

fun plain_inline :: "y_out list \<Rightarrow> bool" where
  "plain_inline [] \<longleftrightarrow> True"
| "plain_inline (OutXmlText attrs content # ds) \<longleftrightarrow>
     lexical_type attrs \<notin> {ustr ''linebreak'', ustr ''tab''} \<and> plain_inline content \<and> plain_inline ds"
| "plain_inline (d # ds) \<longleftrightarrow> plain_inline ds"

fun plain_block :: "y_out list \<Rightarrow> bool" where
  "plain_block [] \<longleftrightarrow> True"
| "plain_block (OutXmlText attrs content # ds) \<longleftrightarrow>
     (lexical_type attrs \<in> {ustr ''linebreak'', ustr ''tab''}
      \<or> (if is_inline_lexical_type (lexical_type attrs) then plain_inline content else plain_block content))
     \<and> plain_block ds"
| "plain_block (d # ds) \<longleftrightarrow> plain_block ds"

subsection \<open>Lemmas\<close>

lemma between_breaks_ne [simp]: "between_breaks ps \<noteq> []"
  by (cases ps rule: between_breaks.cases) (auto split: list.splits)

lemma lines_of_Run_Run: "lines_of (Run a # Run b # ps) = lines_of (Run (a @ b) # ps)"
  by (auto simp: lines_of_def split: list.splits)

lemma lines_of_Run_Nil: "lines_of (Run [] # ps) = lines_of ps"
  by (auto simp: lines_of_def split: list.splits)

lemma lines_of_Run_Break: "lines_of (Run a # Break # ps) = flushed a @ lines_of ps"
  by (auto simp: lines_of_def)

lemma lines_of_Run_only: "lines_of [Run a] = flushed a"
  by (auto simp: lines_of_def)

lemmas lines_of_Run = lines_of_Run_Run lines_of_Run_Nil lines_of_Run_Break lines_of_Run_only

lemma between_breaks_Break:
  "between_breaks (ps @ Break # qs) = between_breaks ps @ between_breaks qs"
proof (induction ps rule: between_breaks.induct)
  case (2 s ps)
  then show ?case by (cases "between_breaks ps") auto
qed simp_all

lemma lines_of_Break: "lines_of (ps @ Break # qs) = lines_of ps @ lines_of qs"
  by (simp add: lines_of_def between_breaks_Break)

lemma walk_lines: "walk_lexical_block ds line = lines_of (Run line # pieces ds)"
proof (induction ds line rule: walk_lexical_block.induct)
  case (4 attrs content ds line)
  then show ?case
    by (auto simp: Let_def lines_of_Run lines_of_Break [where ps = "pieces content"] simp del: flushed.simps)
qed (simp_all add: lines_of_Run del: flushed.simps)

lemma inline_deep: "plain_inline ds \<Longrightarrow> inline_lexical_text ds = deep_text ds"
  by (induction ds rule: inline_lexical_text.induct) auto

lemma concat_flushed [simp]: "concat (flushed l) = l"
  by simp

lemma walk_text: "plain_block ds \<Longrightarrow> concat (walk_lexical_block ds line) = line @ deep_text ds"
proof (induction ds line rule: walk_lexical_block.induct)
  case (4 attrs content ds line)
  then show ?case by (auto simp: Let_def inline_deep simp del: flushed.simps)
qed (simp_all del: flushed.simps)

subsection \<open>The property\<close>

text \<open>
  C28: the text of a Lexical block is read whole and line by line: the lines the walk pushes are the
  text between the breaks that nested blocks make, none of them empty, and together they are the text
  of the block and of everything nested in it, in document order; so no word is lost, moved or glued
  to the word of another block.
\<close>

theorem lexical_block_read_whole:
  assumes "plain_block content"
  shows "walk_lexical_block content [] = lines_of (pieces content)
    \<and> [] \<notin> set (walk_lexical_block content [])
    \<and> concat (walk_lexical_block content []) = deep_text content"
  using walk_text [OF assms, of "[]"] by (simp add: walk_lines lines_of_Run) (simp add: lines_of_def)

text \<open>A list of two items, the second with a link and a nested list.\<close>

theorem lexical_block_read_whole_witness:
  "\<exists>content. length (walk_lexical_block content []) = 3
     \<and> concat (walk_lexical_block content []) = ustr ''one'' @ ustr ''two'' @ ustr ''link'' @ ustr ''deep''"
proof -
  let ?T = "\<lambda>ty. [(ustr ''__type'', OutAny (AnyString (ustr ty)))]"
  let ?s = "\<lambda>s. OutAny (AnyString (ustr s))"
  let ?c = "[OutXmlText (?T ''listitem'') [?s ''one''],
     OutXmlText (?T ''listitem'') [?s ''two'', OutXmlText (?T ''link'') [?s ''link'', OutMap (?T ''text'')],
       OutXmlText (?T ''list'') [?s ''deep'']]]"
  have "plain_block ?c" by code_simp
  from lexical_block_read_whole [OF this]
  have r: "concat (walk_lexical_block ?c []) = deep_text ?c" and l: "walk_lexical_block ?c [] = lines_of (pieces ?c)"
    by blast+
  have "deep_text ?c = ustr ''one'' @ ustr ''two'' @ ustr ''link'' @ ustr ''deep''" by code_simp
  moreover have "length (lines_of (pieces ?c)) = 3" by code_simp
  ultimately show ?thesis using r l by (intro exI [of _ ?c]) simp
qed

text \<open>The order in which yrs iterates the entries of a map does not show in its JSON.\<close>

lemma sort_key_perm:
  assumes "mset xs = mset ys" and "distinct (map f xs)"
  shows "sort_key f xs = sort_key f ys"
  using assms by (intro sort_key_inj_key_eq) (auto simp: distinct_map)

text \<open>
  The JSON of a shared map does not depend on the order in which its entries are iterated, as the
  keys are sorted first.
\<close>

theorem map_json_order_independent:
  assumes "distinct (map fst kvs)" and "mset kvs = mset kvs'"
  shows "map_json S J kvs = map_json S J kvs'"
proof -
  let ?f = "\<lambda>(k, v). (k, out_to_any S v)"
  have "map fst (map ?f kvs) = map fst kvs" by (simp add: case_prod_unfold)
  then have "sort_key fst (map ?f kvs) = sort_key fst (map ?f kvs')"
    using assms by (intro sort_key_perm) (simp_all only: mset_map)
  then show ?thesis by (simp add: map_json_def Let_def)
qed

theorem map_json_order_independent_witness:
  "\<exists>kvs :: (ustring \<times> y_out) list. \<exists>kvs'. kvs \<noteq> kvs' \<and>
     map_json (\<lambda>_. []) (\<lambda>a. case a of AnyString s \<Rightarrow> [34] @ s @ [34] | _ \<Rightarrow> ustr ''null'') kvs
     = map_json (\<lambda>_. []) (\<lambda>a. case a of AnyString s \<Rightarrow> [34] @ s @ [34] | _ \<Rightarrow> ustr ''null'') kvs'"
proof -
  let ?a = "(ustr ''b'', OutOther)" and ?b = "(ustr ''a'', OutOther)"
  have "distinct (map fst [?a, ?b])" by (simp add: ustr_def)
  moreover have "mset [?a, ?b] = mset [?b, ?a]" by simp
  ultimately show ?thesis
    by (intro exI [of _ "[?a, ?b]"] exI [of _ "[?b, ?a]"] conjI map_json_order_independent)
      (simp_all add: ustr_def)
qed

end
