(* ===== verification/Decoder.thy ===== *)
theory Decoder
  imports Native_Read Server_Channel Native_Instance "HOL-Library.Sublist"
begin

text \<open>
  lib/y/decoder.rb: the plain text of a stored document, for search and previews. A text is its list
  of code points. The document is an argument: \<open>Y\<close> builds it, \<open>R\<close> reads it.
\<close>

type_synonym codepoint = nat

text \<open>What \<^verbatim>\<open>strip\<close> takes off, and \<^verbatim>\<open>\s\<close> of a pattern.\<close>

definition strip_space :: "codepoint \<Rightarrow> bool" where
  "strip_space c \<longleftrightarrow> c \<in> {0, 9, 10, 11, 12, 13, 32}"

definition re_space :: "codepoint \<Rightarrow> bool" where
  "re_space c \<longleftrightarrow> c \<in> {9, 10, 11, 12, 13, 32}"

definition rb_rstrip :: "ustring \<Rightarrow> ustring" where
  "rb_rstrip t = rev (dropWhile strip_space (rev t))"

definition text_strip :: "ustring \<Rightarrow> ustring" where
  "text_strip t = dropWhile strip_space (rb_rstrip t)"

text \<open>\<^verbatim>\<open>gsub\<close> of the runs of the characters of a class by a space.\<close>

function (sequential) squeeze :: "(codepoint \<Rightarrow> bool) \<Rightarrow> ustring \<Rightarrow> ustring" where
  "squeeze P [] = []"
| "squeeze P (c # cs) = (if P c then 32 # squeeze P (dropWhile P cs) else c # squeeze P cs)"
  by pat_completeness auto
termination
  by (relation "measure (\<lambda>(P, cs). length cs)") (auto simp: le_imp_less_Suc length_dropWhile_le)

text \<open>\<^verbatim>\<open>/ *\n */\<close>: a match starts where the spaces from here on end in a newline.\<close>

function (sequential) trim_breaks :: "ustring \<Rightarrow> ustring" where
  "trim_breaks [] = []"
| "trim_breaks (c # cs) =
     (case dropWhile (\<lambda>x. x = 32) (c # cs) of
        [] \<Rightarrow> c # trim_breaks cs
      | d # ds \<Rightarrow> if d = 10 then 10 # trim_breaks (dropWhile (\<lambda>x. x = 32) ds) else c # trim_breaks cs)"
  by pat_completeness auto
termination
proof (relation "measure length")
  fix c :: codepoint and cs d ds
  assume "dropWhile (\<lambda>x. x = 32) (c # cs) = d # ds"
  then have "length (d # ds) \<le> length (c # cs)" by (metis length_dropWhile_le)
  moreover have "length (dropWhile (\<lambda>x. x = (32 :: codepoint)) ds) \<le> length ds" by (rule length_dropWhile_le)
  ultimately show "(dropWhile (\<lambda>x. x = 32) ds, c # cs) \<in> measure length" by simp
qed auto

text \<open>\<^verbatim>\<open>/\n{3,}/\<close>.\<close>

function (sequential) cap_breaks :: "ustring \<Rightarrow> ustring" where
  "cap_breaks [] = []"
| "cap_breaks (c # cs) =
     (if c = 10 \<and> 3 \<le> length (takeWhile (\<lambda>x. x = 10) (c # cs))
      then 10 # 10 # cap_breaks (dropWhile (\<lambda>x. x = 10) cs)
      else c # cap_breaks cs)"
  by pat_completeness auto
termination
  by (relation "measure length") (auto simp: le_imp_less_Suc length_dropWhile_le)

text \<open>\<^verbatim>\<open>/<[^>]*>/\<close>: an opening bracket that is closed further on.\<close>

function (sequential) rb_strip_tags :: "ustring \<Rightarrow> ustring" where
  "rb_strip_tags [] = []"
| "rb_strip_tags (c # cs) =
     (if c = 60 \<and> 62 \<in> set cs then 32 # rb_strip_tags (tl (dropWhile (\<lambda>x. x \<noteq> 62) cs))
      else c # rb_strip_tags cs)"
  by pat_completeness auto
termination
proof (relation "measure length")
  fix c :: codepoint and cs
  have "length (tl (dropWhile (\<lambda>x. x \<noteq> (62 :: codepoint)) cs)) \<le> length cs"
    using length_dropWhile_le [of "\<lambda>x. x \<noteq> 62" cs] by simp
  then show "(tl (dropWhile (\<lambda>x. x \<noteq> 62) cs), c # cs) \<in> measure length" by simp
qed auto

definition normalize :: "ustring \<Rightarrow> ustring" where
  "normalize t = text_strip (cap_breaks (trim_breaks (squeeze (\<lambda>c. c = 32 \<or> c = 9) t)))"

text \<open>What decoding raises: the error of the native extension, or a call on nil.\<close>

datatype decode_error = Refused rb_error | NoMethodOnNil

definition load_state :: "('d, 'u, 'v) yrs \<Rightarrow> bytes \<Rightarrow> decode_error + 'd" where
  "load_state Y state =
     (case doc_apply_update Y state (y_new Y) of Inl m \<Rightarrow> Inl (Refused (YError m)) | Inr d \<Rightarrow> Inr d)"

definition root_field :: "'d reader \<Rightarrow> 'd \<Rightarrow> ustring option \<Rightarrow> ustring option" where
  "root_field R d field =
     (case field of Some f \<Rightarrow> Some f
      | None \<Rightarrow> (case root_names R d of [] \<Rightarrow> None | n # _ \<Rightarrow> Some n))"

definition field_text :: "'d reader \<Rightarrow> 'd \<Rightarrow> ustring \<Rightarrow> ustring" where
  "field_text R d f =
     (let markup = (case read_xml R d f of None \<Rightarrow> [] | Some m \<Rightarrow> normalize (rb_strip_tags m))
      in case read_text R d f of
           None \<Rightarrow> markup
         | Some direct \<Rightarrow> if text_strip direct \<noteq> [] then normalize direct else markup)"

definition decoded_text :: "('d, 'u, 'v) yrs \<Rightarrow> 'd reader \<Rightarrow> bytes \<Rightarrow> ustring option \<Rightarrow> decode_error + ustring" where
  "decoded_text Y R state field =
     (case load_state Y state of Inl x \<Rightarrow> Inl x
      | Inr d \<Rightarrow> Inr (case root_field R d field of None \<Rightarrow> [] | Some f \<Rightarrow> field_text R d f))"

text \<open>The ellipsis is one character, U+2026. A negative limit makes \<^verbatim>\<open>body[0, limit]\<close> nil.\<close>

definition preview_body :: "ustring \<Rightarrow> int \<Rightarrow> decode_error + ustring" where
  "preview_body body limit =
     (if limit < int (length body)
      then if limit < 0 then Inl NoMethodOnNil else Inr (rb_rstrip (take (nat limit) body) @ [8230])
      else Inr body)"

definition preview ::
  "('d, 'u, 'v) yrs \<Rightarrow> 'd reader \<Rightarrow> bytes \<Rightarrow> int \<Rightarrow> ustring option \<Rightarrow> decode_error + ustring" where
  "preview Y R state limit field =
     (case decoded_text Y R state field of Inl x \<Rightarrow> Inl x
      | Inr t \<Rightarrow> preview_body (text_strip (squeeze re_space t)) limit)"

subsection \<open>The normal form\<close>

text \<open>
  No tab, no two spaces in a row, no space beside a newline, at most one blank line, and nothing to
  strip at either end.
\<close>

definition loose :: "ustring list" where
  "loose = [[9], [32, 32], [32, 10], [10, 32], [10, 10, 10]]"

definition tidy :: "ustring \<Rightarrow> bool" where
  "tidy t \<longleftrightarrow> (\<forall>p\<in>set loose. \<not> sublist p t)
     \<and> (t \<noteq> [] \<longrightarrow> \<not> strip_space (hd t) \<and> \<not> strip_space (last t))"

lemma prefix_dropWhile: "prefix [x] (dropWhile P t) \<Longrightarrow> \<not> P x"
  by (induction t) (auto split: if_splits)

lemma prefix_squeeze: "prefix [32] (squeeze P t) \<Longrightarrow> prefix [32] t \<or> (\<exists>x. P x \<and> prefix [x] t)"
  by (cases t) (auto split: if_splits)

lemma squeeze_clean:
  "\<not> sublist [9] (squeeze (\<lambda>c. c = 32 \<or> c = 9) t) \<and> \<not> sublist [32, 32] (squeeze (\<lambda>c. c = 32 \<or> c = 9) t)"
proof (induction "\<lambda>c :: nat. c = 32 \<or> c = 9" t rule: squeeze.induct)
  case (2 c cs)
  show ?case
  proof (cases "c = 32 \<or> c = 9")
    case True
    let ?d = "dropWhile (\<lambda>c. c = 32 \<or> c = 9) cs"
    have "\<not> prefix [32] (squeeze (\<lambda>c. c = 32 \<or> c = 9) ?d)"
      by (auto dest!: prefix_squeeze prefix_dropWhile)
    then show ?thesis using True 2(1) by (auto simp: sublist_Cons_right)
  next
    case False
    then show ?thesis using 2(2) by (auto simp: sublist_Cons_right)
  qed
qed simp

lemma trim_breaks_step:
  "trim_breaks (c # cs) =
     (if prefix [10] (dropWhile (\<lambda>x. x = 32) (c # cs))
      then 10 # trim_breaks (dropWhile (\<lambda>x. x = 32) (tl (dropWhile (\<lambda>x. x = 32) (c # cs))))
      else c # trim_breaks cs)"
  by (cases "dropWhile (\<lambda>x. x = 32) (c # cs)")
    (simp_all del: dropWhile.simps dropWhile_eq_Nil_conv)

declare trim_breaks.simps(2) [simp del]

lemma trim_breaks_hd_break:
  "prefix [10] (trim_breaks t) \<longleftrightarrow> prefix [10] (dropWhile (\<lambda>x. x = 32) t)"
  by (cases t) (auto simp: trim_breaks_step)

lemma trim_breaks_hd_space:
  "prefix [32] (trim_breaks t) \<Longrightarrow> prefix [32] t \<and> \<not> prefix [10] (dropWhile (\<lambda>x. x = 32) t)"
  by (cases t) (auto simp: trim_breaks_step split: if_splits)

lemma trim_breaks_hd_tab: "prefix [9] (trim_breaks t) \<Longrightarrow> prefix [9] t"
  by (cases t) (auto simp: trim_breaks_step split: if_splits)

lemma sublist_dropWhile: "sublist p (dropWhile P t) \<Longrightarrow> sublist p t"
  by (meson sublist_order.order_trans suffix_dropWhile suffix_imp_sublist)

lemma sublist_tl: "sublist p (tl t) \<Longrightarrow> sublist p t"
  by (cases t) (auto simp: sublist_Cons_right)

lemma trim_breaks_clean:
  assumes "\<not> sublist [9] t" and "\<not> sublist [32, 32] t"
  shows "\<forall>p\<in>{[9], [32, 32], [32, 10], [10, 32]}. \<not> sublist p (trim_breaks t)"
  using assms
proof (induction t rule: length_induct)
  case (1 t)
  show ?case
  proof (cases t)
    case (Cons c cs)
    let ?d = "dropWhile (\<lambda>x. x = 32) t"
    let ?r = "dropWhile (\<lambda>x. x = 32) (tl ?d)"
    show ?thesis
    proof (cases "prefix [10] ?d")
      case True
      have len: "length ?r < length t"
        using True Cons length_dropWhile_le [of "\<lambda>x. x = 32" "tl ?d"] length_dropWhile_le [of "\<lambda>x. x = 32" t]
        by (cases ?d) auto
      have "\<not> sublist [9] ?r" "\<not> sublist [32, 32] ?r"
        using 1(2,3) by (meson sublist_dropWhile sublist_tl)+
      with 1(1) len have IH: "\<forall>p\<in>{[9], [32, 32], [32, 10], [10, 32]}. \<not> sublist p (trim_breaks ?r)" by blast
      have hd: "\<not> prefix [32] (trim_breaks ?r)"
        by (auto dest!: trim_breaks_hd_space prefix_dropWhile)
      have eq: "trim_breaks t = 10 # trim_breaks ?r"
        using True unfolding Cons trim_breaks_step by (simp only: if_True)
      show ?thesis using IH hd unfolding eq by (auto simp: sublist_Cons_right)
    next
      case False
      have cs: "\<not> sublist [9] cs" "\<not> sublist [32, 32] cs" "c \<noteq> 9" "c = 32 \<longrightarrow> \<not> prefix [32] cs"
        using 1(2,3) Cons by (auto simp: sublist_Cons_right)
      have IH: "\<forall>p\<in>{[9], [32, 32], [32, 10], [10, 32]}. \<not> sublist p (trim_breaks cs)"
        using 1(1) cs Cons by auto
      have "c = 10 \<longrightarrow> False" using False Cons by auto
      moreover have "c = 32 \<longrightarrow> \<not> prefix [32] (trim_breaks cs) \<and> \<not> prefix [10] (trim_breaks cs)"
        using cs(4) False Cons trim_breaks_hd_space [of cs] trim_breaks_hd_break [of cs] by auto
      moreover have eq: "trim_breaks t = c # trim_breaks cs"
        using False unfolding Cons trim_breaks_step by (simp only: if_False)
      ultimately show ?thesis using IH cs(3) unfolding eq by (auto simp: sublist_Cons_right)
    qed
  qed simp
qed

lemma cap_breaks_hd: "prefix [x] (cap_breaks t) \<longleftrightarrow> prefix [x] t"
  by (cases t) auto

lemma cap_breaks_hd2: "c \<noteq> 10 \<Longrightarrow> prefix [c, x] (cap_breaks t) \<longleftrightarrow> prefix [c, x] t"
  by (cases t) (auto simp: cap_breaks_hd)

lemma cap_breaks_run:
  "prefix [10, 10, 10] (cap_breaks t) \<Longrightarrow> False"
proof (induction t rule: cap_breaks.induct)
  case (2 c cs)
  show ?case
  proof (cases "c = 10 \<and> 3 \<le> length (takeWhile (\<lambda>x. x = 10) (c # cs))")
    case True
    have "\<not> prefix [10] (dropWhile (\<lambda>x. x = 10) cs)" by (auto dest: prefix_dropWhile)
    then show ?thesis using True 2(3) by (auto simp: cap_breaks_hd)
  next
    case False
    then have n: "length (takeWhile (\<lambda>x. x = 10) cs) < 2" if "c = 10" using that by auto
    have c: "c = 10" "prefix [10, 10] (cap_breaks cs)"
      using 2(3) False by (simp_all del: takeWhile.simps)
    then obtain ds where cs: "cs = 10 # ds" by (cases cs) (auto split: if_splits)
    then have "prefix [10] (cap_breaks ds)" using c n [OF c(1)] by (auto split: if_splits)
    then have "prefix [10] ds" by (simp add: cap_breaks_hd)
    then show ?thesis using n [OF c(1)] cs by (cases ds) auto
  qed
qed simp

lemma sublist_after_run: "prefix [y] (dropWhile (\<lambda>a. a = x) cs) \<Longrightarrow> sublist [x, y] (x # cs)"
  by (induction cs) (auto split: if_splits simp: sublist_Cons_right)

lemma cap_breaks_clean:
  assumes "\<forall>p\<in>{[9], [32, 32], [32, 10], [10, 32]}. \<not> sublist p t"
  shows "\<forall>p\<in>set loose. \<not> sublist p (cap_breaks t)"
  using assms
proof (induction t rule: cap_breaks.induct)
  case (2 c cs)
  have rest: "\<forall>p\<in>{[9], [32, 32], [32, 10], [10, 32]}. \<not> sublist p cs"
    and hd: "c \<noteq> 9" "c = 32 \<longrightarrow> \<not> prefix [32] cs \<and> \<not> prefix [10] cs" "c = 10 \<longrightarrow> \<not> prefix [32] cs"
    using 2(3) by (auto simp: sublist_Cons_right)
  show ?case
  proof (cases "c = 10 \<and> 3 \<le> length (takeWhile (\<lambda>x. x = 10) (c # cs))")
    case True
    let ?d = "dropWhile (\<lambda>x. x = 10) cs"
    have IH: "\<forall>p\<in>set loose. \<not> sublist p (cap_breaks ?d)"
      using 2(1) True rest by (meson sublist_dropWhile)
    have d: "\<not> prefix [10] ?d" by (auto dest: prefix_dropWhile)
    then have "\<not> prefix [10] (cap_breaks ?d)" by (simp add: cap_breaks_hd)
    then have "\<not> prefix [10, 10] (cap_breaks ?d)" by (cases "cap_breaks ?d") auto
    moreover note d
    moreover have "\<not> prefix [32] ?d"
    proof
      assume "prefix [32] ?d"
      then have "sublist [10, 32] (c # cs)" using True sublist_after_run [of 32 10 cs] by simp
      then show False using 2(3) by simp
    qed
    ultimately show ?thesis using IH True by (auto simp: loose_def sublist_Cons_right cap_breaks_hd)
  next
    case False
    have IH: "\<forall>p\<in>set loose. \<not> sublist p (cap_breaks cs)" using 2(2) False rest by blast
    have "\<not> prefix [10, 10, 10] (cap_breaks (c # cs))" using cap_breaks_run by blast
    with IH False hd show ?thesis by (auto simp: loose_def sublist_Cons_right cap_breaks_hd)
  qed
qed (simp add: loose_def)

lemma sublist_text_strip: "sublist (text_strip t) t"
proof -
  have "suffix (dropWhile strip_space (rev t)) (rev t)" by (rule suffix_dropWhile)
  then have "prefix (rb_rstrip t) t" by (simp add: rb_rstrip_def suffix_to_prefix)
  moreover have "suffix (text_strip t) (rb_rstrip t)" by (simp add: text_strip_def suffix_dropWhile)
  ultimately show ?thesis by (meson prefix_imp_sublist suffix_imp_sublist sublist_order.order_trans)
qed

lemma rb_rstrip_last: "rb_rstrip t \<noteq> [] \<Longrightarrow> \<not> strip_space (last (rb_rstrip t))"
  by (metis hd_dropWhile last_rev rb_rstrip_def rev_is_Nil_conv)

lemma text_strip_ends:
  assumes "text_strip t \<noteq> []"
  shows "\<not> strip_space (hd (text_strip t))" and "\<not> strip_space (last (text_strip t))"
proof -
  show "\<not> strip_space (hd (text_strip t))" using assms unfolding text_strip_def by (rule hd_dropWhile)
  have "suffix (text_strip t) (rb_rstrip t)" by (simp add: text_strip_def suffix_dropWhile)
  then have "last (text_strip t) = last (rb_rstrip t)" "rb_rstrip t \<noteq> []"
    using assms by (auto simp: suffix_def)
  then show "\<not> strip_space (last (text_strip t))" using rb_rstrip_last by simp
qed

lemma normalize_tidy: "tidy (normalize t)"
proof -
  let ?u = "cap_breaks (trim_breaks (squeeze (\<lambda>c. c = 32 \<or> c = 9) t))"
  have "\<forall>p\<in>set loose. \<not> sublist p ?u"
    using squeeze_clean [of t] by (intro cap_breaks_clean trim_breaks_clean) auto
  then show ?thesis
    using sublist_text_strip [of ?u] text_strip_ends [of ?u]
    unfolding tidy_def normalize_def by (meson sublist_order.order_trans)
qed

text \<open>On a tidy text every step of the normalization is the identity.\<close>

lemma squeeze_id: "\<not> sublist [9] t \<Longrightarrow> \<not> sublist [32, 32] t \<Longrightarrow> squeeze (\<lambda>c. c = 32 \<or> c = 9) t = t"
proof (induction t)
  case (Cons c cs)
  have "dropWhile (\<lambda>c. c = 32 \<or> c = 9) cs = cs" if "c = 32 \<or> c = 9"
    using that Cons.prems by (cases cs) (auto simp: sublist_Cons_right)
  with Cons show ?case by (auto simp: sublist_Cons_right)
qed simp

lemma trim_breaks_id:
  "\<not> sublist [32, 32] t \<Longrightarrow> \<not> sublist [32, 10] t \<Longrightarrow> \<not> sublist [10, 32] t \<Longrightarrow> trim_breaks t = t"
proof (induction t)
  case (Cons c cs)
  have d: "dropWhile (\<lambda>x. x = 32) cs = cs" if "c = 32 \<or> c = 10"
    using that Cons.prems by (cases cs) (auto simp: sublist_Cons_right)
  have n: "\<not> prefix [10] cs" if "c = 32"
    using that Cons.prems by (auto simp: sublist_Cons_right)
  have "trim_breaks cs = cs" using Cons by (auto simp: sublist_Cons_right)
  with d n show ?case by (auto simp: trim_breaks_step)
qed simp

lemma cap_breaks_id: "\<not> sublist [10, 10, 10] t \<Longrightarrow> cap_breaks t = t"
proof (induction t)
  case (Cons c cs)
  have "\<not> 3 \<le> length (takeWhile (\<lambda>x. x = 10) (c # cs))" if "c = 10"
  proof
    assume "3 \<le> length (takeWhile (\<lambda>x. x = 10) (c # cs))"
    then show False using that Cons.prems
      by (cases cs; cases "tl cs") (auto simp: sublist_Cons_right split: if_splits)
  qed
  with Cons show ?case by (auto simp: sublist_Cons_right simp del: takeWhile.simps)
qed simp

lemma text_strip_id: "t \<noteq> [] \<longrightarrow> \<not> strip_space (hd t) \<and> \<not> strip_space (last t) \<Longrightarrow> text_strip t = t"
proof (cases "t = []")
  case False
  moreover assume "t \<noteq> [] \<longrightarrow> \<not> strip_space (hd t) \<and> \<not> strip_space (last t)"
  ultimately have h: "\<not> strip_space (hd t)" "\<not> strip_space (hd (rev t))" by (simp_all add: hd_rev)
  have "dropWhile strip_space u = u" if "\<not> strip_space (hd u)" for u
    using that by (cases u) auto
  with h show ?thesis by (simp add: text_strip_def rb_rstrip_def)
qed (simp add: text_strip_def rb_rstrip_def)

lemma normalize_id: "tidy t \<Longrightarrow> normalize t = t"
  by (simp add: normalize_def tidy_def loose_def squeeze_id trim_breaks_id cap_breaks_id text_strip_id)

text \<open>A single line: no character of \<^verbatim>\<open>\s\<close> but the space, and never two spaces in a row.\<close>

lemma squeeze_line: "x \<in> set (squeeze re_space t) \<Longrightarrow> re_space x \<Longrightarrow> x = 32"
  by (induction re_space t rule: squeeze.induct) (auto split: if_splits)

lemma set_rb_rstrip: "set (rb_rstrip t) \<subseteq> set t"
  by (auto simp: rb_rstrip_def dest: set_dropWhileD)

lemma set_text_strip: "set (text_strip t) \<subseteq> set t"
  using set_rb_rstrip [of t] by (auto simp: text_strip_def dest: set_dropWhileD)

lemma length_rb_rstrip: "length (rb_rstrip t) \<le> length t"
  using length_dropWhile_le [of strip_space "rev t"] by (simp add: rb_rstrip_def)

subsection \<open>The properties\<close>

text \<open>
  C29: the text the decoder returns is in normal form: no tab, no two spaces in a row, no space beside
  a newline, at most one blank line and nothing to strip at either end; and normalizing leaves a text
  in normal form as it is, so it does nothing the second time.
\<close>

theorem decoded_text_tidy:
  assumes "decoded_text Y R state field = Inr t"
  shows "tidy t \<and> normalize t = t"
proof -
  have "tidy []" by (simp add: tidy_def loose_def)
  then have "tidy (field_text R d f)" for d f
    by (simp add: field_text_def Let_def normalize_tidy split: option.splits)
  then have "tidy t" using assms \<open>tidy []\<close>
    by (auto simp: decoded_text_def split: sum.splits option.splits)
  then show ?thesis by (simp add: normalize_id)
qed

text \<open>A document of one XML root with a paragraph.\<close>

definition sample_reader :: "'d reader" where
  "sample_reader = \<lparr>rd_roots = (\<lambda>_. [ustr ''default'']), rd_text = (\<lambda>_ _. None),
     rd_xml = (\<lambda>_ _. Some [OutXmlElement (ustr ''p'') [] [], OutXmlElement (ustr ''p'') [] []]),
     rd_map = (\<lambda>_ _. None), rd_string = (\<lambda>_. ustr ''<p>two  words</p>''), rd_json = (\<lambda>_. [])\<rparr>"

lemma sample_text:
  "decoded_text toy_yrs sample_reader [16] None = Inr (ustr ''two words'' @ [10] @ ustr ''two words'')"
  by code_simp

theorem decoded_text_tidy_witness: "tidy (ustr ''two words'' @ [10] @ ustr ''two words'')"
  using decoded_text_tidy [OF sample_text] by blast

text \<open>
  C30: a preview is one line of at most limit characters and an ellipsis, and the text itself where it
  fits; a negative limit is refused, as there is nothing to cut.
\<close>

theorem preview_bounded:
  assumes "decoded_text Y R state field = Inr t"
  shows "case preview Y R state limit field of
      Inl x \<Rightarrow> x = NoMethodOnNil \<and> limit < 0
    | Inr p \<Rightarrow> 0 \<le> limit \<and> length p \<le> nat limit + 1 \<and> (\<forall>c\<in>set p. re_space c \<longrightarrow> c = 32)
        \<and> (if length (text_strip (squeeze re_space t)) \<le> nat limit then p = text_strip (squeeze re_space t)
           else last p = 8230)"
proof -
  let ?b = "text_strip (squeeze re_space t)"
  have line: "\<forall>c\<in>set ?b. re_space c \<longrightarrow> c = 32"
    using squeeze_line [of _ t] set_text_strip [of "squeeze re_space t"] by blast
  have cut: "set (rb_rstrip (take n ?b)) \<subseteq> set ?b" for n
    using set_rb_rstrip [of "take n ?b"] set_take_subset [of n ?b] by blast
  have len: "length (rb_rstrip (take n ?b)) \<le> n" for n
    using length_rb_rstrip [of "take n ?b"] by simp
  show ?thesis
  proof (cases "int (length ?b) \<le> limit")
    case True
    then show ?thesis using assms line by (auto simp: preview_def preview_body_def)
  next
    case False
    have "\<not> re_space 8230" by (simp add: re_space_def)
    then show ?thesis using False assms line cut [of "nat limit"] len [of "nat limit"]
      by (auto simp: preview_def preview_body_def)
  qed
qed

theorem preview_bounded_witness:
  "preview toy_yrs sample_reader [16] 4 None = Inr (ustr ''two'' @ [8230]) \<and> length (ustr ''two'' @ [8230]) \<le> 4 + 1"
proof -
  have p: "preview toy_yrs sample_reader [16] 4 None = Inr (ustr ''two'' @ [8230])" by code_simp
  from preview_bounded [OF sample_text, of 4] show ?thesis unfolding p by auto
qed

end
