(* ===== verification/Demo_Store.thy ===== *)
theory Demo_Store
  imports Audit_Log Native_Read
begin

text \<open>
  examples/actioncable-demo/app/lib: the two change stores of the demo (audit_log.rb over files,
  pg_store.rb over a table), the fault injection they share (fault.rb), the choice between them
  (store.rb), and the actions of documents_controller.rb over them.

  The server processes share the file system and the database; each has its own cached append handles.
  The lock of a document is held over the body of \<open>record\<close> and of \<open>reset!\<close>, so these are single steps.
  The file system and the database do not fail by themselves; what fails is what fault.rb injects.
\<close>

subsection \<open>Paths\<close>

definition safe_char :: "nat \<Rightarrow> bool" where
  "safe_char c \<longleftrightarrow> 97 \<le> c \<and> c \<le> 122 \<or> 65 \<le> c \<and> c \<le> 90 \<or> 48 \<le> c \<and> c \<le> 57 \<or> c = 95 \<or> c = 45"

definition safe_name :: "ustring \<Rightarrow> ustring" where
  "safe_name key = map (\<lambda>c. if safe_char c then c else 95) key"

subsection \<open>Fault\<close>

text \<open>The JSON object in a fault file; the delay is in milliseconds.\<close>

record fault =
  delay_ms :: "int option"
  fail_once :: bool

type_synonym faults = "ustring \<Rightarrow> fault option"

definition no_fault :: fault where
  "no_fault = \<lparr>delay_ms = None, fail_once = False\<rparr>"

definition fault_path :: "ustring \<Rightarrow> ustring" where
  "fault_path key = safe_name key @ ustr ''.json''"

definition fault_read :: "ustring \<Rightarrow> faults \<Rightarrow> fault" where
  "fault_read key F = (case F (fault_path key) of None \<Rightarrow> no_fault | Some f \<Rightarrow> f)"

definition fault_write :: "ustring \<Rightarrow> fault \<Rightarrow> faults \<Rightarrow> faults" where
  "fault_write key f F = (if f = no_fault then F(fault_path key := None) else F(fault_path key \<mapsto> f))"

definition fault_update :: "ustring \<Rightarrow> (fault \<Rightarrow> fault) \<Rightarrow> faults \<Rightarrow> faults" where
  "fault_update key g F = fault_write key (g (fault_read key F)) F"

definition set_delay :: "ustring \<Rightarrow> int \<Rightarrow> faults \<Rightarrow> faults" where
  "set_delay key ms = fault_update key (\<lambda>f. f\<lparr>delay_ms := Some ms\<rparr>)"

definition fail_next :: "ustring \<Rightarrow> faults \<Rightarrow> faults" where
  "fail_next key = fault_update key (\<lambda>f. f\<lparr>fail_once := True\<rparr>)"

definition fault_reset :: "ustring \<Rightarrow> faults \<Rightarrow> faults" where
  "fault_reset key F = F(fault_path key := None)"

definition consume_fail :: "ustring \<Rightarrow> faults \<Rightarrow> bool \<times> faults" where
  "consume_fail key F =
     (let f = fault_read key F
      in if \<not> fail_once f then (False, F) else (True, fault_write key (f\<lparr>fail_once := False\<rparr>) F))"

text \<open>The milliseconds slept, whether it raises, and the faults left.\<close>

definition simulate :: "ustring \<Rightarrow> faults \<Rightarrow> int \<times> bool \<times> faults" where
  "simulate key F =
     (let delay = (case delay_ms (fault_read key F) of None \<Rightarrow> 0 | Some ms \<Rightarrow> ms)
      in (if 0 < delay then delay else 0, consume_fail key F))"

definition injected :: rb_error where
  "injected = HookError 0"

subsection \<open>AuditLog\<close>

text \<open>
  A directory entry names an inode; an open handle keeps its inode when the entry is deleted.
\<close>

record audit_files =
  f_names :: "ustring \<Rightarrow> nat option"
  f_data :: "nat \<Rightarrow> bytes"
  f_next :: nat
  f_handles :: "nat \<Rightarrow> ustring \<Rightarrow> nat option"

definition audit_path :: "ustring \<Rightarrow> ustring" where
  "audit_path key = safe_name key @ ustr ''.log''"

definition open_append :: "ustring \<Rightarrow> audit_files \<Rightarrow> nat \<times> audit_files" where
  "open_append path s =
     (case f_names s path of Some i \<Rightarrow> (i, s)
      | None \<Rightarrow> (f_next s, s\<lparr>f_names := (f_names s)(path \<mapsto> f_next s), f_data := (f_data s)(f_next s := []),
                            f_next := f_next s + 1\<rparr>))"

definition handle_for :: "nat \<Rightarrow> ustring \<Rightarrow> audit_files \<Rightarrow> nat \<times> audit_files" where
  "handle_for p key s =
     (case f_handles s p key of Some i \<Rightarrow> (i, s)
      | None \<Rightarrow> (let (i, s) = open_append (audit_path key) s
                 in (i, s\<lparr>f_handles := (f_handles s)(p := (f_handles s p)(key \<mapsto> i))\<rparr>)))"

definition append_line :: "nat \<Rightarrow> ustring \<Rightarrow> bytes \<Rightarrow> audit_files \<Rightarrow> audit_files" where
  "append_line p key update s =
     (let (i, s) = handle_for p key s
      in s\<lparr>f_data := (f_data s)(i := f_data s i @ audit_line update)\<rparr>)"

definition audit_store_record ::
  "nat \<Rightarrow> ustring \<Rightarrow> bytes \<Rightarrow> faults \<times> audit_files \<Rightarrow> rb_error option \<times> faults \<times> audit_files" where
  "audit_store_record p key update = (\<lambda>(F, s).
     let (slept, raised, F) = simulate key F
     in if raised then (Some injected, F, s) else (None, F, append_line p key update s))"

definition audit_file :: "ustring \<Rightarrow> audit_files \<Rightarrow> bytes option" where
  "audit_file key s = map_option (f_data s) (f_names s (audit_path key))"

text \<open>\<^verbatim>\<open>File.readlines(path, chomp: true)\<close>.\<close>

fun chomped_lines :: "bytes \<Rightarrow> bytes list" where
  "chomped_lines [] = []"
| "chomped_lines (b # bs) =
     (if b = 10 then [] # chomped_lines bs
      else if b = 13 \<and> bs \<noteq> [] \<and> hd bs = 10 then chomped_lines bs
      else (case chomped_lines bs of [] \<Rightarrow> [[b]] | l # ls \<Rightarrow> (b # l) # ls))"

definition audit_entries :: "ustring \<Rightarrow> audit_files \<Rightarrow> bytes list" where
  "audit_entries key s =
     (case audit_file key s of None \<Rightarrow> [] | Some file \<Rightarrow> filter (\<lambda>l. l \<noteq> []) (chomped_lines file))"

definition audit_store_replay :: "('d, 'u, 'v) yrs \<Rightarrow> ustring \<Rightarrow> audit_files \<Rightarrow> bytes option" where
  "audit_store_replay Y key s = (case audit_file key s of None \<Rightarrow> None | Some file \<Rightarrow> audit_replay Y file)"

definition remove_log :: "nat \<Rightarrow> ustring \<Rightarrow> audit_files \<Rightarrow> audit_files" where
  "remove_log p key s =
     s\<lparr>f_handles := (f_handles s)(p := (f_handles s p)(key := None)),
       f_names := (f_names s)(audit_path key := None)\<rparr>"

definition audit_store_reset :: "nat \<Rightarrow> ustring \<Rightarrow> faults \<times> audit_files \<Rightarrow> faults \<times> audit_files" where
  "audit_store_reset p key = (\<lambda>(F, s). (fault_reset key F, remove_log p key s))"

subsection \<open>PgStore\<close>

text \<open>The rows of document_changes in the order of their ids.\<close>

type_synonym rows = "(ustring \<times> bytes) list"

definition insert_row :: "ustring \<Rightarrow> bytes \<Rightarrow> rows \<Rightarrow> rows" where
  "insert_row key update rs = rs @ [(key, update)]"

definition pg_record :: "ustring \<Rightarrow> bytes \<Rightarrow> faults \<times> rows \<Rightarrow> rb_error option \<times> faults \<times> rows" where
  "pg_record key update = (\<lambda>(F, rs).
     let (slept, raised, F) = simulate key F
     in if raised then (Some injected, F, rs) else (None, F, insert_row key update rs))"

definition pg_deltas :: "ustring \<Rightarrow> rows \<Rightarrow> bytes list" where
  "pg_deltas key rs = map snd (filter (\<lambda>r. fst r = key) rs)"

definition pg_apply :: "('d, 'u, 'v) yrs \<Rightarrow> bytes \<Rightarrow> 'd \<Rightarrow> 'd" where
  "pg_apply Y u d = (case doc_apply_update Y u d of Inl _ \<Rightarrow> d | Inr e \<Rightarrow> e)"

definition pg_replay :: "('d, 'u, 'v) yrs \<Rightarrow> ustring \<Rightarrow> rows \<Rightarrow> bytes option" where
  "pg_replay Y key rs =
     (let updates = pg_deltas key rs
      in if updates = [] then None
         else Some (y_encode Y (fold (pg_apply Y) updates (y_new Y)) (y_empty_sv Y)))"

definition pg_entries :: "ustring \<Rightarrow> rows \<Rightarrow> bytes list" where
  "pg_entries key rs = map strict_encode64 (pg_deltas key rs)"

definition delete_rows :: "ustring \<Rightarrow> rows \<Rightarrow> rows" where
  "delete_rows key rs = filter (\<lambda>r. fst r \<noteq> key) rs"

definition pg_reset :: "ustring \<Rightarrow> faults \<times> rows \<Rightarrow> faults \<times> rows" where
  "pg_reset key = (\<lambda>(F, rs). (fault_reset key F, delete_rows key rs))"

subsection \<open>Store\<close>

datatype store_kind = FileLog | Postgres

definition store_current :: "string option \<Rightarrow> store_kind" where
  "store_current env = (if env = Some ''file'' then FileLog else Postgres)"

record demo_store =
  d_faults :: faults
  d_files :: audit_files
  d_rows :: rows

fun store_record :: "store_kind \<Rightarrow> nat \<Rightarrow> ustring \<Rightarrow> bytes \<Rightarrow> demo_store \<Rightarrow> rb_error option \<times> demo_store" where
  "store_record FileLog p key u s =
     (let (x, F, fs) = audit_store_record p key u (d_faults s, d_files s) in (x, s\<lparr>d_faults := F, d_files := fs\<rparr>))"
| "store_record Postgres p key u s =
     (let (x, F, rs) = pg_record key u (d_faults s, d_rows s) in (x, s\<lparr>d_faults := F, d_rows := rs\<rparr>))"

fun store_replay :: "store_kind \<Rightarrow> ('d, 'u, 'v) yrs \<Rightarrow> ustring \<Rightarrow> demo_store \<Rightarrow> bytes option" where
  "store_replay FileLog Y key s = audit_store_replay Y key (d_files s)"
| "store_replay Postgres Y key s = pg_replay Y key (d_rows s)"

fun store_entries :: "store_kind \<Rightarrow> ustring \<Rightarrow> demo_store \<Rightarrow> bytes list" where
  "store_entries FileLog key s = audit_entries key (d_files s)"
| "store_entries Postgres key s = pg_entries key (d_rows s)"

fun store_reset :: "store_kind \<Rightarrow> nat \<Rightarrow> ustring \<Rightarrow> demo_store \<Rightarrow> demo_store" where
  "store_reset FileLog p key s =
     (let (F, fs) = audit_store_reset p key (d_faults s, d_files s) in s\<lparr>d_faults := F, d_files := fs\<rparr>)"
| "store_reset Postgres p key s =
     (let (F, rs) = pg_reset key (d_faults s, d_rows s) in s\<lparr>d_faults := F, d_rows := rs\<rparr>)"

subsection \<open>DocumentsController\<close>

datatype response = NotFound | ContentState bytes | AuditReport nat "bytes list" | NoContent

definition content_action :: "store_kind \<Rightarrow> ('d, 'u, 'v) yrs \<Rightarrow> ustring \<Rightarrow> demo_store \<Rightarrow> response" where
  "content_action kind Y key s =
     (case store_replay kind Y key s of None \<Rightarrow> NotFound | Some update \<Rightarrow> ContentState (strict_encode64 update))"

definition audit_action :: "store_kind \<Rightarrow> ustring \<Rightarrow> demo_store \<Rightarrow> response" where
  "audit_action kind key s = (let es = store_entries kind key s in AuditReport (length es) es)"

definition audit_control ::
  "store_kind \<Rightarrow> nat \<Rightarrow> ustring \<Rightarrow> bool \<Rightarrow> int option \<Rightarrow> bool \<Rightarrow> demo_store \<Rightarrow> response \<times> demo_store" where
  "audit_control kind p key reset delay once s =
     (let s = (if reset then store_reset kind p key s else s);
          s = (case delay of None \<Rightarrow> s | Some ms \<Rightarrow> s\<lparr>d_faults := set_delay key ms (d_faults s)\<rparr>);
          s = (if once then s\<lparr>d_faults := fail_next key (d_faults s)\<rparr> else s)
      in (NoContent, s))"

end
