(* ===== verification/Demo_Store_Props.thy ===== *)
theory Demo_Store_Props
  imports Demo_Store Native_Instance
begin

text \<open>
  What the two change stores of the demo promise the channel, as an interface: the history of a
  document grows by the updates recorded for it, by whichever process, and by nothing else; a reset
  empties it. Both stores are interpreted; for the files the contract holds between documents whose
  names differ after the replacement of characters, and for a reset while no other process has the
  log open.
\<close>

subsection \<open>The contract of a change store\<close>



subsection \<open>The table\<close>


subsection \<open>The files\<close>



definition log_bytes :: "ustring \<Rightarrow> audit_files \<Rightarrow> bytes" where
  "log_bytes key s = (case audit_file key s of None \<Rightarrow> [] | Some bs \<Rightarrow> bs)"

definition no_files :: audit_files where
  "no_files = \<lparr>f_names = (\<lambda>_. None), f_data = (\<lambda>_. []), f_next = 0, f_handles = (\<lambda>_ _. None)\<rparr>"


lemma log_bytes_handles [simp]: "log_bytes k (s\<lparr>f_handles := h\<rparr>) = log_bytes k s"
  by (simp add: log_bytes_def audit_file_def)







subsection \<open>Runs of a store\<close>

type_synonym writes = "(nat \<times> ustring \<times> bytes) list"

text \<open>The results of a sequence of calls of \<^verbatim>\<open>record\<close> by several processes, and the store after it.\<close>

fun store_run :: "store_kind \<Rightarrow> writes \<Rightarrow> demo_store \<Rightarrow> rb_error option list \<times> demo_store" where
  "store_run kind [] s = ([], s)"
| "store_run kind ((p, key, u) # ws) s =
     (let (x, s) = store_record kind p key u s; (xs, s) = store_run kind ws s in (x # xs, s))"














lemma no_fault_admitted: "F (fault_path key) = None \<Longrightarrow> simulate key F = (0, False, F)"
  by (simp add: simulate_def consume_fail_def fault_read_def no_fault_def)

subsection \<open>The properties\<close>



definition empty_store :: demo_store where
  "empty_store = \<lparr>d_faults = (\<lambda>_. None), d_files = no_files, d_rows = []\<rparr>"


text \<open>What an armed failure does to the next call.\<close>

lemma fault_read_write [simp]: "fault_read key (fault_write key f F) = f"
  by (simp add: fault_read_def fault_write_def)




lemma store_views_faults [simp]:
  "store_entries kind k (s\<lparr>d_faults := F\<rparr>) = store_entries kind k s"
  "store_replay kind Y k (s\<lparr>d_faults := F\<rparr>) = store_replay kind Y k s"
  by (cases kind; simp)+


text \<open>Records through a handle whose file has been deleted.\<close>

lemma unlinked_record:
  assumes "f_handles (d_files s) p key = Some i" and "f_names (d_files s) (audit_path key) = None"
    and "d_faults s (fault_path key) = None"
  shows "\<exists>t. store_record FileLog p key u s = (None, t) \<and> f_handles (d_files t) p key = Some i
    \<and> f_names (d_files t) (audit_path key) = None \<and> d_faults t (fault_path key) = None"
  using assms
  by (simp add: audit_store_record_def no_fault_admitted append_line_def handle_for_def)

lemma unlinked_run:
  assumes "f_handles (d_files s) p key = Some i" and "f_names (d_files s) (audit_path key) = None"
    and "d_faults s (fault_path key) = None"
  shows "\<exists>t. store_run FileLog (map (\<lambda>u. (p, key, u)) ls) s = (replicate (length ls) None, t)
    \<and> f_names (d_files t) (audit_path key) = None"
  using assms
proof (induction ls arbitrary: s)
  case (Cons u ls)
  obtain t where t: "store_record FileLog p key u s = (None, t)" "f_handles (d_files t) p key = Some i"
    "f_names (d_files t) (audit_path key) = None" "d_faults t (fault_path key) = None"
    using unlinked_record [OF Cons.prems] by blast
  obtain r where "store_run FileLog (map (\<lambda>u. (p, key, u)) ls) t = (replicate (length ls) None, r)"
    "f_names (d_files r) (audit_path key) = None" using Cons.IH [OF t(2-4)] by blast
  with t(1) show ?case by simp
qed simp

text \<open>
  C31: a reset by one process loses what the others record later: a process that has the document's
  log open keeps its handle when another process deletes the file, so each of its later calls of
  record returns as if the change were durable, and neither the entries nor a replay have any of them.
\<close>

theorem records_after_reset_lost:
  assumes "f_handles (d_files s) p key = Some i" and "q \<noteq> p"
  shows "case store_run FileLog (map (\<lambda>u. (p, key, u)) ls) (store_reset FileLog q key s) of (xs, t) \<Rightarrow>
     xs = replicate (length ls) None \<and> store_entries FileLog key t = [] \<and> store_replay FileLog Y key t = None"
proof -
  let ?s = "store_reset FileLog q key s"
  have "f_handles (d_files ?s) p key = Some i" "f_names (d_files ?s) (audit_path key) = None"
    "d_faults ?s (fault_path key) = None"
    using assms by (simp_all add: audit_store_reset_def remove_log_def fault_reset_def)
  from unlinked_run [OF this, of ls] show ?thesis
    by (auto simp: audit_entries_def audit_store_replay_def audit_file_def)
qed

theorem records_after_reset_lost_witness:
  "store_entries FileLog (ustr ''demo'')
     (snd (store_run FileLog [(1, ustr ''demo'', [17])]
        (store_reset FileLog 2 (ustr ''demo'') (snd (store_record FileLog 1 (ustr ''demo'') [16] empty_store))))) = []"
proof -
  let ?s = "snd (store_record FileLog 1 (ustr ''demo'') [16] empty_store)"
  have "f_handles (d_files ?s) 1 (ustr ''demo'') = Some 0"
    by (simp add: empty_store_def no_files_def audit_store_record_def no_fault_admitted append_line_def
        handle_for_def open_append_def)
  from records_after_reset_lost [OF this, of 2 "[[17]]" toy_yrs] show ?thesis
    by (auto split: prod.splits)
qed

text \<open>Documents whose names differ only in replaced characters have one log, the same entries and content.\<close>

lemma colliding_documents:
  assumes "safe_name key = safe_name key'"
  shows "store_entries FileLog key s = store_entries FileLog key' s"
    and "store_replay FileLog Y key s = store_replay FileLog Y key' s"
  using assms by (simp_all add: audit_entries_def audit_store_replay_def audit_file_def audit_path_def)

lemma colliding_names: "safe_name (ustr ''team.notes'') = safe_name (ustr ''team_notes'')"
  by code_simp

end
