(* ===== verification/Native_Doc.thy ===== *)
theory Native_Doc
  imports Native_Instance
begin

text \<open>
  The rest of ext/yrby/src/lib.rs: the methods of \<^verbatim>\<open>Y::Doc\<close> and the functions of \<^verbatim>\<open>Y\<close> that an
  application calls beside the channel. The encoding of a state vector and the document of a given
  client id are yrs: \<open>doc_codec\<close>. Each method copies its arguments, runs one transaction and converts
  its result, so it is a function of the document.
\<close>

record ('d, 'v) doc_codec =
  sv_encode :: "'v \<Rightarrow> bytes"
  sv_decode :: "bytes \<Rightarrow> y_error + 'v"
  with_client_id :: "nat \<Rightarrow> 'd"

text \<open>\<open>conv\<close> is the conversion of an argument to a \<^verbatim>\<open>u64\<close>.\<close>

definition doc_new ::
  "('d, 'u, 'v) yrs \<Rightarrow> ('d, 'v) doc_codec \<Rightarrow> ('x \<Rightarrow> y_error + nat) \<Rightarrow> 'x list \<Rightarrow> y_error + 'd" where
  "doc_new Y K conv args =
     (case args of [] \<Rightarrow> Inr (y_new Y)
      | a # _ \<Rightarrow> try_bind (conv a) (\<lambda>n. Inr (with_client_id K n)))"

definition encode_state_vector :: "('d, 'u, 'v) yrs \<Rightarrow> ('d, 'v) doc_codec \<Rightarrow> 'd \<Rightarrow> bytes" where
  "encode_state_vector Y K d = sv_encode K (y_state_vector Y d)"

definition doc_pending :: "('d, 'u, 'v) yrs \<Rightarrow> 'd \<Rightarrow> bool" where
  "doc_pending Y d = has_pending Y d"

definition compacted_state_update :: "('d, 'u, 'v) yrs \<Rightarrow> 'd \<Rightarrow> y_error + bytes" where
  "compacted_state_update Y d = integrated_update Y d (y_empty_sv Y)"

definition encode_state_as_update ::
  "('d, 'u, 'v) yrs \<Rightarrow> ('d, 'v) doc_codec \<Rightarrow> bytes list \<Rightarrow> 'd \<Rightarrow> y_error + bytes" where
  "encode_state_as_update Y K args d =
     try_bind (case args of [] \<Rightarrow> Inr (y_empty_sv Y) | bs # _ \<Rightarrow> sv_decode K bs)
       (\<lambda>sv. Inr (y_encode Y d sv))"

definition doc_update_ready :: "('d, 'u, 'v) yrs \<Rightarrow> bytes \<Rightarrow> 'd \<Rightarrow> y_error + bool" where
  "doc_update_ready Y bs d = update_is_ready Y d bs"

definition doc_update_advances :: "('d, 'u, 'v) yrs \<Rightarrow> bytes \<Rightarrow> 'd \<Rightarrow> y_error + bool" where
  "doc_update_advances Y bs d = update_advances_doc Y d bs"

definition wrap_update :: "('d, 'u, 'v) yrs \<Rightarrow> bytes \<Rightarrow> bytes" where
  "wrap_update Y u = y_write Y (SyncUpdate u)"

definition message_kind :: "('d, 'u, 'v) yrs \<Rightarrow> bytes \<Rightarrow> nat" where
  "message_kind Y bs = classify_message Y bs"

definition update_from_message :: "('d, 'u, 'v) yrs \<Rightarrow> bytes \<Rightarrow> y_error + bytes option" where
  "update_from_message Y bs = merged_doc_update Y bs"

subsection \<open>Lemmas\<close>

text \<open>yrs reads back a message it wrote.\<close>

definition write_law :: "('d, 'u, 'v) yrs \<Rightarrow> bytes \<Rightarrow> bool" where
  "write_law Y u \<longleftrightarrow> y_read Y (y_write Y (SyncUpdate u)) = Inr (SyncUpdate u, [])"

text \<open>Without pending content the compacted state is the full state.\<close>

lemma compacted_is_full:
  "\<not> doc_pending Y d \<Longrightarrow> compacted_state_update Y d = encode_state_as_update Y K [] d"
  by (simp add: compacted_state_update_def encode_state_as_update_def doc_pending_def integrated_update_def
      has_pending_def)

text \<open>
  A compacted state never carries pending content: it is the encoding of a document from which it
  was pruned, if pruning leaves none.
\<close>

lemma compacted_has_no_pending:
  assumes "\<And>c. \<not> has_pending Y (y_prune Y c)" and "compacted_state_update Y d = Inr bs"
  shows "\<exists>c. \<not> has_pending Y c \<and> bs = y_encode Y c (y_empty_sv Y)"
  using assms unfolding compacted_state_update_def integrated_update_def
  by (auto simp: try_bind_Inr has_pending_def Let_def split: if_splits)

text \<open>
  C21: wrapping an update in a frame and taking it out again gives the update back: the frame is of the
  kind of document changes, what the channel records of it is the update, unless that carries
  nothing, and handling it applies the update.
\<close>

theorem wrap_update_roundtrip:
  assumes "reader_law Y" and "write_law Y u" and "y_decode_update Y u = Inr v"
  shows "message_kind Y (wrap_update Y u) = 2
    \<and> update_from_message Y (wrap_update Y u) = Inr (if is_noop Y v then None else Some u)
    \<and> handle_sync_message Y (wrap_update Y u) d = try_bind (doc_apply_update Y u d) (\<lambda>e. Inr ((0, 2, []), e))"
proof -
  have r: "y_read Y (wrap_update Y u) = Inr (SyncUpdate u, [])"
    using assms(2) by (simp add: write_law_def wrap_update_def)
  have "merged_doc_update Y (wrap_update Y u) = Inr (if is_noop Y v then None else Some u)"
    using merged_doc_update_single [OF assms(1), of "wrap_update Y u" u] r assms(3) by simp
  with r show ?thesis
    by (simp add: message_kind_def update_from_message_def classify_message_def handle_sync_message_def)
qed

theorem wrap_update_roundtrip_witness:
  "message_kind toy_yrs (wrap_update toy_yrs [16, 17]) = 2
   \<and> update_from_message toy_yrs (wrap_update toy_yrs [16, 17]) = Inr (Some [16, 17])"
proof -
  have "write_law toy_yrs [16, 17]" and "y_decode_update toy_yrs [16, 17] = Inr [16, 17]"
    and "\<not> is_noop toy_yrs [16, 17]" by code_simp+
  with wrap_update_roundtrip [OF toy_reader_law this(1,2), of "([], [])"] show ?thesis by simp
qed

end
