(* ===== verification/Spec2Isabelle.thy ===== *)
theory Spec2Isabelle
  imports Reliable_Sync_Theorems Session_Theorems Provider_Theorems Server_Theorems Round_Trip
    Demo_Theorems Demo_Page_Theorems Script_Theorems Script_Passing
    Demo_Browsers_Props Demo_Build Demo_Pages Decoder Demo_Store_Props Native_Doc
begin

text \<open>
  Verification of the yrby client and of the delivery protocol it speaks.

  \<^bold>\<open>The program.\<close> The repository syncs Yjs documents through an ActionCable server.
  A page holds an \<^verbatim>\<open>ActionCableProvider\<close> (packages/client/src/actioncable_provider.ts), which owns a
  cable subscription and drives a \<^verbatim>\<open>YProtocolSession\<close> (y_protocol_session.ts): handshake, framing and
  presence of one document. The session hands every local edit to a \<^verbatim>\<open>ReliableSync\<close>
  (reliable_sync.ts), which keeps it until the server acknowledges it and resends the merge of what
  it keeps. Frames travel as base64 (base64.ts) in JSON envelopes. At the other end the channel
  concern \<^verbatim>\<open>Y::ActionCable::Sync\<close> (lib/y/action_cable/sync.rb) classifies each frame with the native
  extension (ext/yrby/src/protocol.rs, lib.rs), records an update through the application's hook,
  relays it to the other subscribers and then acknowledges it. \<^verbatim>\<open>Y::Decoder\<close> (lib/y/decoder.rb) reads
  the text of a stored document through the readers of the extension (read.rs). The demo application
  (examples/actioncable-demo) keeps the updates in append-only logs or a table (app/lib), edits
  them on four pages (frontend/src) and tests the whole under load, faults and crashes with the
  programs of frontend.

  \<^bold>\<open>Theories and sources.\<close>
  \<^item> Prelude, Js_Value: statements as functions from a state to a new state, the calls made and the
    error thrown; the JavaScript values, \<^verbatim>\<open>Number.isSafeInteger\<close>, typed errors.
  \<^item> Base64 (base64.ts), Json (the check that a decoded text is JSON, which
    decides whether a presence frame is taken), Yjs_Api (the interface to yjs, y-protocols, lib0).
  \<^item> Reliable_Sync, Reliable_Sync_Props, Reliable_Sync_Theorems: reliable_sync.ts. The
    record \<open>reliable_sync\<close> has the fields of the object; \<open>enqueue\<close>, \<open>onAck\<close>, \<open>flush\<close>, \<open>onConnect\<close>, \<open>onDisconnect\<close>,
    \<open>onTick\<close>, \<open>destroy\<close> are its methods.
  \<^item> Session, Session_Props, Session_Theorems: y_protocol_session.ts; Provider, Provider_Props,
    Provider_Theorems: actioncable_provider.ts, every callback and page handler included.
  \<^item> Native_Protocol: protocol.rs and the document methods of lib.rs the channel calls;
    Server_Channel: sync.rb; Audit_Log: audit_log.rb over the bytes of its file; Server_Props,
    Server_Cases: what one message makes the channel do.
  \<^item> Native_Doc: the other methods of lib.rs. Native_Read: read.rs and the readers of lib.rs, over the values yrs gives; Decoder: decoder.rb,
    its patterns written out over code points, and what its results are bounded by.
  \<^item> Demo_Store, Demo_Store_Props: the stores of the demo (audit_log.rb with its names, inodes and
    the append handles of each process, pg_store.rb, store.rb), fault.rb and documents_controller.rb.
  \<^item> Delivery: one client's queue, a network that loses, repeats and reorders, server processes over
    one log; the inductive predicate \<open>reachable\<close> gives its runs. Server_Theorems: the properties.
  \<^item> Raw_Client, Demo_Clients, Demo_Clients_2: the client classes of the test programs. The files
    carry copies of one class; \<open>flavour\<close> names the differences, the handlers are shared, each file
    has its section. Demo_Checks: waits and string functions of the assertions. Demo_Verdicts:
    what each file concludes from what it observed. Demo_Consumers: the consumers the reliability
    tests put under the provider. Raw_Client_Props, Reliable_Client_Props, Demo_Theorems: the lemmas
    and the properties.
  \<^item> Demo_Script: how a test program runs. A script acts on a \<open>stage\<close> of clients; while it waits, the
    \<open>agenda\<close> says turn by turn which events reach which client, what the clock shows and what a request
    answers. Demo_Scenarios: multiprocess, reliable, crash_recovery, audit, e2e and
    anycable_concurrent.mjs; Demo_Scenarios_2: audit_scenarios and anycable_guarantee.mjs;
    Demo_Scenarios_3: anycable_probe and chaos.mjs; Demo_Peers: a provider over its consumer;
    Demo_Scenarios_4: reliable_provider and reliable_stress.mjs; Demo_Scenarios_5: stress.mjs;
    Demo_Scenarios_6: loadtest.mjs. Script_Props: sequences, turns and waits; Demo_Peers_Props: a
    provider whose network is cut; Script_Theorems, Script_Passing: the properties.
  \<^item> Demo_Browsers, Demo_Browsers_2, Demo_Browsers_Props: the programs that drive browsers
    (agent_browsers, agent_collab, opaque_demos_e2e.mjs), over the commands they run and what these
    print. Demo_Build: build.mjs, the resolution of shared packages, the build and its watcher.
  \<^item> Demo_Dom, Demo_Kanban, Demo_Forms, Demo_Whiteboard, Demo_Page_Theorems: the pages of
    frontend/src, the document object model as far as they read and write it. Demo_Pages: the calls
    with which each page starts.
  \<^item> Yjs_Instance, Native_Instance, Delivery_Instance, Demo_Instance: concrete third-party code, at
    which every hypothesis below holds; the witnesses evaluate there.

  \<^bold>\<open>Interfaces.\<close> The locale \<open>delivery_queue\<close> (Delivery_Queue) states what a session relies on: a
  queue of unacknowledged entries that an edit extends, a confirmation shortens by what it covers and
  nothing else touches. It is interpreted on \<open>ReliableSync\<close> alone (\<open>rsq\<close>) and on the whole provider
  under any transport, page and error events (\<open>provq\<close>). The locale \<open>codec\<close> (Base64) is the contract of
  the wire encoding, interpreted on the two helpers (\<open>b64\<close>). The locales \<open>append_store\<close> and
  \<open>change_store\<close> (Demo_Store_Props) are the contract of a change store, interpreted on the files
  (\<open>audit\<close>) and on the table (\<open>pg\<close>).

  \<^bold>\<open>What is shown.\<close>
  \<^item> Queue: the memoized merged tail makes the calls of a queue that merges anew each time; sequence
    numbers are ordered; an accepted acknowledgement drops exactly the prefix it covers; a timer runs
    exactly over an unacknowledged tail on a live transport, and none leaks.
  \<^item> Session and provider: only complete valid frames change anything; received changes are not
    echoed; each frame leaves on the held subscription in its envelope; the status shown is the true
    one in every reachable state; an edit stays queued until a message acknowledges it.
  \<^item> Server and delivery: nothing is relayed before it is stored, an acknowledgement covers only
    stored edits, an edit is in the queue of its client or in the document rebuilt from the log, and
    from any reachable state the queue can drain.
  \<^item> Stores and decoder: the two stores give the same results, entries and documents, whatever faults
    are injected; an injected failure is raised once and stores nothing; the text of a Lexical block
    is read whole, line by line; decoded text is in normal form and a preview within its limit.
  \<^item> Demo: every handler ends; no client echoes; the reference client keeps its edits; the waits and
    counts the tests rely on decide what they claim to; the pages show their document.
  \<^item> Scripts, for every agenda: what is sent into a cut network is kept, resent and recovered; the
    checks of the outage hold; a run that exits with 0 has seen every check hold.
  \<^item> Where code and comment disagree, a theorem states what the code does: a
    replay that throws leaves no timer, a line appended to a torn one is lost, as is what a process
    records after another has reset the document, two ids can share a log, an update that joins
    parked ones goes unnoticed, a storm reconnects every client, the crash test overlooks a lost
    edit whose name is a prefix of another's.

  \<^bold>\<open>Hypotheses on code that is not in the repository.\<close> They are definitions a theorem names where it
  uses them.
  \<^item> lib0 reads back what it wrote (\<open>lib0_roundtrip\<close>, \<open>lib0_small\<close>); y-protocols applies an update it
    framed (\<open>sync_update_law\<close>) and changes the local presence as documented
    (\<open>awareness_remove_law\<close>, \<open>awareness_local_law\<close>); yjs merges valid updates (\<open>merge_law\<close>).
  \<^item> yrs: a buffer that is one message reads as the list of it (\<open>reader_law\<close>). \<open>yrs_laws\<close>: a new
    document is empty and parks nothing; an update that applies and leaves nothing parked adds its
    operations; encoding a document and applying it to a new one gives its content back; what
    applies to a document without parking also does to one that has more; an update that changes neither the
    state vector nor the deletions changes nothing. \<open>frames_agree\<close> and \<open>merge_agrees\<close>: yrs reads the
    frames the client's packages write, and a merge carries what it merges.

  \<^bold>\<open>Bounds and fuel.\<close> The receive loop of a raw client runs on fuel, the length of the frame;
  every pass reads at least a byte, so it is never used up, as Demo_Theorems proves of every
  handler. The JSON check runs on fuel twice the length of its text, which is enough
  (\<open>jval_enough\<close>). A wait of a browser program runs on fuel the turns left, and every round takes
  one (\<open>polls_enough\<close>). The other waits run over the list of clock readings, and a clock that advances ends
  them. The tries of the crash client are the hundred of the
  code. Sequence numbers are doubles: the model follows them beyond the safe integers, where an
  increment no longer changes them, and the invariants say up to where they hold.

  \<^bold>\<open>Not modelled.\<close>
  \<^item> index.ts (re-exports), eslint.config.js (configuration), the imports of the pages.
  \<^item> Of the test programs, the lines they print besides their checks, and the processes, ports and
    environment variables they start from (arguments of the scripts). The code between two waits
    takes no time. Bun, the browsers, \<^verbatim>\<open>JSON.parse\<close> and \<^verbatim>\<open>JSON.stringify\<close> are parameters.
  \<^item> Of the extension, the release of the interpreter lock, the conversion of strings and the
    registration of the methods; of the demo's server, the rendering of its pages and failures of the file system
    and the database themselves; benchmarks and tests. A body under the lock of a document is one
    step, and a delay of the store takes no time.
  \<^item> Coordinates, latencies and random draws are exact numbers, not doubles. The whiteboard follows
    one drag at a time. Timers fire when an event says so; no theorem speaks of seconds.
\<close>

end
